(* ===== verification/Prelude.thy ===== *)
theory Prelude imports Main "HOL-Library.AList" "HOL-Library.Sublist" begin

text \<open>
  What the components share: the collections of definitions the proofs unfold, the lists that React
  state setters rebuild (replace an element by its id, filter one out), the effects a handler can
  have besides changing its state, and the JSON values the client exchanges with the server.
\<close>

section \<open>Collections\<close>

named_theorems handler_defs \<open>definitions of event handlers\<close>
named_theorems view_defs \<open>definitions of what a component renders\<close>
named_theorems server_defs \<open>definitions of the server's operations\<close>

section \<open>Lists rebuilt by state setters\<close>

text \<open>
  The two updates of a table of records that the pages make: \<open>prev.map(x => x.id === y.id ? y : x)\<close>
  and \<open>prev.filter(x => x.id !== i)\<close>.
\<close>

definition replace_by :: "('a \<Rightarrow> 'k) \<Rightarrow> 'k \<Rightarrow> 'a \<Rightarrow> 'a list \<Rightarrow> 'a list" where
  "replace_by key k y xs = map (\<lambda>x. if key x = k then y else x) xs"

definition remove_by :: "('a \<Rightarrow> 'k) \<Rightarrow> 'k \<Rightarrow> 'a list \<Rightarrow> 'a list" where
  "remove_by key k xs = filter (\<lambda>x. key x \<noteq> k) xs"

lemma length_replace_by [simp]: "length (replace_by key k y xs) = length xs"
  by (simp add: replace_by_def)

lemma replace_by_Nil [simp]: "replace_by key k y [] = []"
  by (simp add: replace_by_def)

lemma replace_by_Cons:
  "replace_by key k y (x # xs) = (if key x = k then y else x) # replace_by key k y xs"
  by (simp add: replace_by_def)

lemma keys_replace_by:
  "key y = k \<Longrightarrow> map key (replace_by key k y xs) = map key xs"
  by (induction xs) (auto simp: replace_by_def)

lemma key_set_replace_by:
  "key y = k \<Longrightarrow> key ` set (replace_by key k y xs) = key ` set xs"
  by (metis keys_replace_by set_map)

lemma replace_by_absent: "k \<notin> key ` set xs \<Longrightarrow> replace_by key k y xs = xs"
  by (induction xs) (auto simp: replace_by_def)

lemma set_replace_by:
  "set (replace_by key k y xs) \<subseteq> insert y {x \<in> set xs. key x \<noteq> k}"
  by (auto simp: replace_by_def)

lemma set_remove_by [simp]: "set (remove_by key k xs) = {x \<in> set xs. key x \<noteq> k}"
  by (auto simp: remove_by_def)

lemma length_remove_by_le [simp]: "length (remove_by key k xs) \<le> length xs"
  by (simp add: remove_by_def)

lemma keys_remove_by: "map key (remove_by key k xs) = filter (\<lambda>j. j \<noteq> k) (map key xs)"
  by (induction xs) (auto simp: remove_by_def)

lemma distinct_keys_remove_by:
  "distinct (map key xs) \<Longrightarrow> distinct (map key (remove_by key k xs))"
  by (simp add: keys_remove_by)

lemma length_remove_by_distinct:
  "distinct (map key xs) \<Longrightarrow> k \<in> key ` set xs \<Longrightarrow> Suc (length (remove_by key k xs)) = length xs"
proof (induction xs)
  case (Cons x xs)
  show ?case
  proof (cases "key x = k")
    case True
    with Cons.prems have "filter (\<lambda>y. key y \<noteq> k) xs = xs"
      by (intro filter_True) (auto simp: image_iff)
    with True show ?thesis by (simp add: remove_by_def)
  next
    case False
    with Cons show ?thesis by (auto simp: remove_by_def)
  qed
qed simp

lemma find_by_key:
  "distinct (map key xs) \<Longrightarrow> x \<in> set xs \<Longrightarrow> find (\<lambda>y. key y = key x) xs = Some x"
proof (induction xs)
  case (Cons y xs)
  then show ?case by (cases "y = x") auto
qed simp

lemma find_snoc:
  "find P xs = None \<Longrightarrow> find P (xs @ [x]) = (if P x then Some x else None)"
  by (induction xs) (auto split: if_splits)

lemma find_replace_by:
  "key y = k \<Longrightarrow> find (\<lambda>x. key x = k) (replace_by key k y xs) =
     (if k \<in> key ` set xs then Some y else None)"
  by (induction xs) (auto simp: replace_by_def)

lemma find_replace_by_other:
  "j \<noteq> k \<Longrightarrow> key y = k \<Longrightarrow> find (\<lambda>x. key x = j) (replace_by key k y xs) = find (\<lambda>x. key x = j) xs"
  by (induction xs) (auto simp: replace_by_def)

text \<open>A second column that was unique stays unique if the new row's value is in no other row.\<close>

lemma distinct_column_replace_by:
  assumes "distinct (map key xs)" "distinct (map f xs)"
    and "\<And>z. z \<in> set xs \<Longrightarrow> key z \<noteq> k \<Longrightarrow> f z \<noteq> f y"
  shows "distinct (map f (replace_by key k y xs))"
  using assms
proof (induction xs)
  case (Cons x xs)
  show ?case
  proof (cases "key x = k")
    case True
    with Cons.prems(1) have "k \<notin> key ` set xs" by auto
    moreover from this have "f y \<notin> f ` set xs"
      using Cons.prems(3) by fastforce
    ultimately show ?thesis using True Cons.prems(2) by (simp add: replace_by_Cons replace_by_absent)
  next
    case False
    with Cons.prems have "f x \<notin> f ` set (replace_by key k y xs)"
      by (auto dest!: subsetD [OF set_replace_by])
    with False Cons show ?thesis by (simp add: replace_by_Cons)
  qed
qed simp

section \<open>Association lists as JavaScript objects\<close>

text \<open>
  A JavaScript object used as a dictionary keeps its keys in insertion order, and assigning to a
  key that is there keeps its place: that is \<open>AList.update\<close>.
\<close>

lemma keys_update: "map fst (AList.update k v al) =
    (if k \<in> set (map fst al) then map fst al else map fst al @ [k])"
  by (induction al) auto

section \<open>Effects\<close>

text \<open>
  What a handler does besides setting state: send a request, call \<open>alert\<close>, log to the console,
  or navigate.
\<close>

datatype 'r effect = Send 'r | Alert string | Log string | Go string

fun sends :: "'r effect list \<Rightarrow> 'r list" where
  "sends [] = []"
| "sends (Send r # es) = r # sends es"
| "sends (Alert m # es) = sends es"
| "sends (Log m # es) = sends es"
| "sends (Go p # es) = sends es"

lemma sends_append [simp]: "sends (xs @ ys) = sends xs @ sends ys"
  by (induction xs rule: sends.induct) auto

fun alerts :: "'r effect list \<Rightarrow> string list" where
  "alerts [] = []"
| "alerts (Alert m # es) = m # alerts es"
| "alerts (Send r # es) = alerts es"
| "alerts (Log m # es) = alerts es"
| "alerts (Go p # es) = alerts es"

lemma alerts_append [simp]: "alerts (xs @ ys) = alerts xs @ alerts ys"
  by (induction xs rule: alerts.induct) auto

end
