(* ===== verification/Js_Text.thy ===== *)
theory Js_Text imports Prelude begin

text \<open>
  The part of the JavaScript standard library the client uses on text. A JavaScript string is the
  list of the bytes of its UTF-8 encoding (lone surrogates, which have none, do not occur in text
  that came from an input field or from JSON). \<open>undefined\<close> and \<open>null\<close> are \<open>None\<close>. An empty string is
  falsy, as are \<open>undefined\<close> and \<open>null\<close>.
\<close>

section \<open>Truthiness and the \<open>||\<close> operator\<close>

definition truthy :: "string option \<Rightarrow> bool" where
  "truthy s = (case s of None \<Rightarrow> False | Some t \<Rightarrow> t \<noteq> [])"

definition js_or :: "string option \<Rightarrow> string \<Rightarrow> string" where
  "js_or s d = (case s of None \<Rightarrow> d | Some t \<Rightarrow> if t = [] then d else t)"

definition js_or_opt :: "string option \<Rightarrow> string option \<Rightarrow> string option" where
  "js_or_opt s t = (if truthy s then s else t)"

lemma truthy_simps [simp]: "truthy None = False" "truthy (Some t) = (t \<noteq> [])"
  by (simp_all add: truthy_def)

lemma js_or_simps [simp]:
  "js_or None d = d" "js_or (Some []) d = d" "t \<noteq> [] \<Longrightarrow> js_or (Some t) d = t"
  by (simp_all add: js_or_def)

lemma js_or_not_empty: "d \<noteq> [] \<Longrightarrow> js_or s d \<noteq> []"
  by (simp add: js_or_def split: option.split)

lemma js_or_opt_simps [simp]:
  "js_or_opt None t = t" "js_or_opt (Some []) t = t" "u \<noteq> [] \<Longrightarrow> js_or_opt (Some u) t = Some u"
  by (simp_all add: js_or_opt_def)

section \<open>trim\<close>

text \<open>
  \<open>String.prototype.trim\<close> removes the characters of the productions WhiteSpace and LineTerminator
  from both ends: the tab, line feed, vertical tab, form feed, carriage return and space, and, in
  UTF-8, U+00A0, U+1680, U+2000 to U+200A, U+2028, U+2029, U+202F, U+205F, U+3000 and U+FEFF.
\<close>

definition js_ws :: "string list" where
  "js_ws =
     [[CHR 0x09], [CHR 0x0A], [CHR 0x0B], [CHR 0x0C], [CHR 0x0D], [CHR 0x20],
      [CHR 0xC2, CHR 0xA0], [CHR 0xE1, CHR 0x9A, CHR 0x80],
      [CHR 0xE2, CHR 0x80, CHR 0x80], [CHR 0xE2, CHR 0x80, CHR 0x81], [CHR 0xE2, CHR 0x80, CHR 0x82],
      [CHR 0xE2, CHR 0x80, CHR 0x83], [CHR 0xE2, CHR 0x80, CHR 0x84], [CHR 0xE2, CHR 0x80, CHR 0x85],
      [CHR 0xE2, CHR 0x80, CHR 0x86], [CHR 0xE2, CHR 0x80, CHR 0x87], [CHR 0xE2, CHR 0x80, CHR 0x88],
      [CHR 0xE2, CHR 0x80, CHR 0x89], [CHR 0xE2, CHR 0x80, CHR 0x8A], [CHR 0xE2, CHR 0x80, CHR 0xA8],
      [CHR 0xE2, CHR 0x80, CHR 0xA9], [CHR 0xE2, CHR 0x80, CHR 0xAF], [CHR 0xE2, CHR 0x81, CHR 0x9F],
      [CHR 0xE3, CHR 0x80, CHR 0x80], [CHR 0xEF, CHR 0xBB, CHR 0xBF]]"

fun first_prefix :: "string list \<Rightarrow> string \<Rightarrow> nat" where
  "first_prefix [] s = 0"
| "first_prefix (w # ws) s = (if w \<noteq> [] \<and> take (length w) s = w then length w else first_prefix ws s)"

lemma first_prefix_le: "first_prefix ws s \<le> length s"
  by (induction ws) (auto dest: arg_cong [where f = length])

function strip_front :: "string list \<Rightarrow> string \<Rightarrow> string" where
  "strip_front ws s = (let n = first_prefix ws s in if n = 0 then s else strip_front ws (drop n s))"
  by pat_completeness auto
termination
proof (relation "measure (\<lambda>(ws, s). length s)")
  fix ws s n
  assume "n = first_prefix ws s" and "n \<noteq> 0"
  then show "((ws, drop n s), ws, s) \<in> measure (\<lambda>(ws, s). length s)"
    using first_prefix_le [of ws s] by auto
qed simp

declare strip_front.simps [simp del]

definition js_trim :: "string \<Rightarrow> string" where
  "js_trim s = rev (strip_front (map rev js_ws) (rev (strip_front js_ws s)))"

lemma strip_front_clean: "first_prefix ws (strip_front ws s) = 0"
  by (induction ws s rule: strip_front.induct) (subst strip_front.simps, simp add: Let_def)

lemma strip_front_id: "first_prefix ws s = 0 \<Longrightarrow> strip_front ws s = s"
  by (subst strip_front.simps) (simp add: Let_def)

lemma strip_front_suffix: "suffix (strip_front ws s) s"
proof (induction ws s rule: strip_front.induct)
  case (1 ws s)
  then show ?case
    by (subst strip_front.simps) (auto simp: Let_def intro: suffix_order.trans suffix_drop)
qed

lemma take_length_iff_prefix: "take (length w) s = w \<longleftrightarrow> prefix w s"
  by (metis append_eq_conv_conj prefix_def)

lemma first_prefix_0_iff:
  "first_prefix ws s = 0 \<longleftrightarrow> (\<forall>w\<in>set ws. w = [] \<or> \<not> prefix w s)"
  by (induction ws) (auto simp: take_length_iff_prefix split: if_splits)

lemma first_prefix_prefix: "first_prefix ws s = 0 \<Longrightarrow> prefix t s \<Longrightarrow> first_prefix ws t = 0"
  by (auto simp: first_prefix_0_iff dest: prefix_order.trans)

lemma js_trim_prefix: "prefix (js_trim s) (strip_front js_ws s)"
  using strip_front_suffix [of "map rev js_ws" "rev (strip_front js_ws s)"]
  by (simp add: js_trim_def suffix_to_prefix)

lemma js_trim_no_leading: "first_prefix js_ws (js_trim s) = 0"
  by (rule first_prefix_prefix [OF strip_front_clean js_trim_prefix])

lemma js_trim_no_trailing: "first_prefix (map rev js_ws) (rev (js_trim s)) = 0"
  by (simp add: js_trim_def strip_front_clean)

lemma js_trim_idem: "js_trim (js_trim s) = js_trim s"
proof -
  have "strip_front js_ws (js_trim s) = js_trim s"
    by (rule strip_front_id) (rule js_trim_no_leading)
  then show ?thesis
    by (simp add: js_trim_def [of "js_trim s"] strip_front_id js_trim_no_trailing)
qed

lemma js_trim_Nil [simp]: "js_trim [] = []"
  by (simp add: js_trim_def strip_front_id first_prefix_0_iff)

text \<open>The check the forms make on a required field: \<open>!v || !v.trim()\<close>.\<close>

definition missing :: "string option \<Rightarrow> bool" where
  "missing v = (\<not> truthy v \<or> js_trim (case v of None \<Rightarrow> [] | Some t \<Rightarrow> t) = [])"

lemma missing_simps [simp]: "missing None" "missing (Some t) = (js_trim t = [])"
  by (auto simp: missing_def)

section \<open>join and decimal numerals\<close>

fun js_join :: "string \<Rightarrow> string list \<Rightarrow> string" where
  "js_join sep [] = []"
| "js_join sep [x] = x"
| "js_join sep (x # y # zs) = x @ sep @ js_join sep (y # zs)"

lemma js_join_not_Nil: "x \<noteq> [] \<Longrightarrow> js_join sep (x # xs) \<noteq> []"
  by (cases xs) auto

fun nat_digits :: "nat \<Rightarrow> string" where
  "nat_digits n =
     (if n < 10 then [char_of (48 + n)] else nat_digits (n div 10) @ [char_of (48 + n mod 10)])"

declare nat_digits.simps [simp del]

definition int_digits :: "int \<Rightarrow> string" where
  "int_digits i = (if i < 0 then CHR ''-'' # nat_digits (nat (- i)) else nat_digits (nat i))"

lemma nat_digits_nonempty [simp]: "nat_digits n \<noteq> []"
  by (subst nat_digits.simps) simp

lemma int_digits_nonempty [simp]: "int_digits i \<noteq> []"
  by (simp add: int_digits_def)

end
