(* ===== verification/Js_Date.thy ===== *)
theory Js_Date imports Js_Text begin

text \<open>
  Instants, calendar days and the day arithmetic of the pages. An instant is a number of
  milliseconds since 1970-01-01T00:00Z, as \<open>Date.prototype.getTime\<close> gives it; a calendar date, the
  type of a due date, is the number of days since 1970-01-01.
\<close>

section \<open>Calendar dates\<close>

datatype date = Date (day_no: int)

instantiation date :: linorder
begin
definition less_eq_date :: "date \<Rightarrow> date \<Rightarrow> bool" where
  "less_eq_date a b \<longleftrightarrow> day_no a \<le> day_no b"
definition less_date :: "date \<Rightarrow> date \<Rightarrow> bool" where
  "less_date a b \<longleftrightarrow> day_no a < day_no b"
instance
  by standard (auto simp: less_eq_date_def less_date_def date.expand)
end

lemma Date_le [simp]: "Date a \<le> Date b \<longleftrightarrow> a \<le> b"
  by (simp add: less_eq_date_def)

lemma Date_less [simp]: "Date a < Date b \<longleftrightarrow> a < b"
  by (simp add: less_date_def)

definition date_add :: "date \<Rightarrow> int \<Rightarrow> date" where
  "date_add d n = Date (day_no d + n)"

lemma day_no_date_add [simp]: "day_no (date_add d n) = day_no d + n"
  by (simp add: date_add_def)

section \<open>Instants\<close>

definition day_ms :: int where
  "day_ms = 86400000"

text \<open>\<open>new Date(s)\<close> of a date-only ISO string is midnight UTC of that date.\<close>

definition date_only_ms :: "date \<Rightarrow> int" where
  "date_only_ms d = day_no d * day_ms"

definition utc_date :: "int \<Rightarrow> date" where
  "utc_date t = Date (t div day_ms)"

lemma utc_date_only [simp]: "utc_date (date_only_ms d) = d"
  by (simp add: utc_date_def date_only_ms_def day_ms_def)

text \<open>
  \<open>Math.ceil(a / b)\<close> for integers a and b > 0. The quotient is a double; for instants within some
  hundred thousand years of now its rounding never reaches the next integer, so the value is the
  exact ceiling.
\<close>

definition ceil_div :: "int \<Rightarrow> int \<Rightarrow> int" where
  "ceil_div a b = - ((- a) div b)"

lemma le_div_iff_int:
  assumes "0 < (b::int)"
  shows "n \<le> x div b \<longleftrightarrow> n * b \<le> x"
proof
  assume "n \<le> x div b"
  then have "n * b \<le> x div b * b" using assms by simp
  also have "\<dots> \<le> x" using assms pos_mod_sign [of b x] div_mult_mod_eq [of x b] by linarith
  finally show "n * b \<le> x" .
next
  assume "n * b \<le> x"
  then have "n * b div b \<le> x div b" using assms by (rule zdiv_mono1)
  then show "n \<le> x div b" using assms by simp
qed

lemma ceil_div_le_iff:
  assumes "0 < b"
  shows "ceil_div a b \<le> n \<longleftrightarrow> a \<le> n * b"
proof -
  have "ceil_div a b \<le> n \<longleftrightarrow> - n \<le> (- a) div b" by (auto simp: ceil_div_def)
  also have "\<dots> \<longleftrightarrow> (- n) * b \<le> - a" using assms by (rule le_div_iff_int)
  finally show ?thesis by simp
qed

lemma ceil_div_ge_iff:
  assumes "0 < b"
  shows "n \<le> ceil_div a b \<longleftrightarrow> (n - 1) * b < a"
  using ceil_div_le_iff [OF assms, of a "n - 1"] by auto

lemma ceil_div_mult [simp]: "0 < b \<Longrightarrow> ceil_div (a * b) b = a"
  using nonzero_mult_div_cancel_right [of b "- a"] by (simp add: ceil_div_def)

section \<open>The browser's time zone\<close>

text \<open>
  The time zone is the environment's. What the client takes from it is the local calendar day of
  an instant (\<open>getFullYear\<close>, \<open>getMonth\<close>, \<open>getDate\<close>) and the instant of a local midnight
  (\<open>new Date(y, m, d)\<close>).
\<close>

record zone =
  local_day :: "int \<Rightarrow> int"
  midnight :: "int \<Rightarrow> int"

text \<open>A zone at a fixed offset, in milliseconds east of UTC.\<close>

definition fixed_zone :: "int \<Rightarrow> zone" where
  "fixed_zone off = \<lparr>local_day = (\<lambda>t. (t + off) div day_ms), midnight = (\<lambda>n. n * day_ms - off)\<rparr>"

lemma fixed_zone_simps [simp]:
  "local_day (fixed_zone off) t = (t + off) div day_ms"
  "midnight (fixed_zone off) n = n * day_ms - off"
  by (simp_all add: fixed_zone_def)

text \<open>What the pages read from the browser: the clock, the zone and the locale's date formats.\<close>

record browser =
  now :: int
  zone :: zone
  fmt_date :: "int \<Rightarrow> string"
  fmt_datetime :: "int \<Rightarrow> string"

text \<open>
  \<open>toLocaleDateString\<close> shows the local calendar day of an instant: \<open>fmt_date\<close> takes that day.
\<close>

definition locale_date :: "browser \<Rightarrow> int \<Rightarrow> string" where
  "locale_date br t = fmt_date br (local_day (zone br) t)"

end
