(* ===== verification/Api_Client.thy ===== *)
theory Api_Client imports Js_Date begin

text \<open>
  \<open>frontend/src/api/client.ts\<close>: the axios instance and \<open>ensureCsrfToken\<close>; the outcomes an awaited
  request can have; the JSON records the endpoints exchange, typed as the TypeScript declares
  them; and the translations of failures into messages that several pages share the shape of.
\<close>

section \<open>Outcomes of a request\<close>

text \<open>
  The body of an error response: \<open>error\<close>, \<open>details\<close> (a list of messages or one string) and \<open>errors\<close>
  (an object from attribute to a list of messages, or to something else that is shown with
  \<open>String\<close>). Each may be absent.
\<close>

datatype details = Detail_List "string list" | Detail_Text string

datatype messages = Message_List "string list" | Message_Other string

record err_body =
  eb_error :: "string option"
  eb_details :: "details option"
  eb_errors :: "(string \<times> messages) list option"

text \<open>
  What a \<open>catch\<close> can receive: an axios error (with the response's body when there was a response,
  and the error's message), another \<open>Error\<close>, or a thrown value that is neither.
\<close>

datatype thrown = Axios_Error "err_body option" string | Plain_Error string | Other_Thrown

text \<open>
  An awaited request resolves, with \<open>res.data\<close> (\<open>None\<close> when it is falsy, for instance an empty body),
  or rejects.
\<close>

datatype 'd reply = Resolved "'d option" | Rejected thrown

fun response_data :: "thrown \<Rightarrow> err_body option" where
  "response_data (Axios_Error b m) = b"
| "response_data (Plain_Error m) = None"
| "response_data Other_Thrown = None"

fun thrown_message :: "thrown \<Rightarrow> string option" where
  "thrown_message (Axios_Error b m) = Some m"
| "thrown_message (Plain_Error m) = Some m"
| "thrown_message Other_Thrown = None"

definition body_error :: "thrown \<Rightarrow> string option" where
  "body_error e = Option.bind (response_data e) eb_error"

definition body_errors :: "thrown \<Rightarrow> (string \<times> messages) list option" where
  "body_errors e = Option.bind (response_data e) eb_errors"

text \<open>\<open>e?.response?.data?.details?.join?.(sep)\<close>: only a list has a \<open>join\<close>.\<close>

definition body_details_join :: "string \<Rightarrow> thrown \<Rightarrow> string option" where
  "body_details_join sep e =
     (case Option.bind (response_data e) eb_details of
        Some (Detail_List ds) \<Rightarrow> Some (js_join sep ds)
      | _ \<Rightarrow> None)"

section \<open>Field errors of a form\<close>

text \<open>
  A form keeps an object from field to message (\<open>Record<string, string>\<close>). The server's \<open>errors\<close> are
  mapped to the first message of each attribute; the first of an empty list is \<open>undefined\<close>, so a
  value is an option.
\<close>

type_synonym field_errors = "(string \<times> string option) list"

fun first_message :: "messages \<Rightarrow> string option" where
  "first_message (Message_List ms) = (case ms of [] \<Rightarrow> None | m # _ \<Rightarrow> Some m)"
| "first_message (Message_Other m) = Some m"

definition map_server_errors :: "(string \<times> messages) list \<Rightarrow> field_errors" where
  "map_server_errors es = fold (\<lambda>(k, m) acc. AList.update k (first_message m) acc) es []"

definition field_error :: "field_errors \<Rightarrow> string \<Rightarrow> string option" where
  "field_error es k = Option.bind (map_of es k) (\<lambda>m. m)"

lemma map_of_fold_update:
  "distinct (map fst es) \<Longrightarrow>
   map_of (fold (\<lambda>(k, m) acc. AList.update k (f m) acc) es acc) k =
     (case map_of es k of Some m \<Rightarrow> Some (f m) | None \<Rightarrow> map_of acc k)"
proof (induction es arbitrary: acc)
  case (Cons e es)
  obtain j m where e: "e = (j, m)" by fastforce
  with Cons.prems have "map_of es j = None" by (simp add: map_of_eq_None_iff)
  with Cons e show ?case by (auto simp: update_conv' split: option.split)
qed simp

lemma field_error_map_server_errors:
  "distinct (map fst es) \<Longrightarrow>
   field_error (map_server_errors es) k = Option.bind (map_of es k) first_message"
  by (simp add: field_error_def map_server_errors_def map_of_fold_update split: option.split)

section \<open>The axios instance\<close>

record api_client =
  base_url :: string
  with_credentials :: bool
  request_headers :: "(string \<times> string) list"
  common_headers :: "(string \<times> string) list"

text \<open>\<open>env\<close> is \<open>import.meta.env.VITE_API_BASE_URL\<close>.\<close>

definition api :: "string option \<Rightarrow> api_client" where
  "api env =
     \<lparr>base_url = js_or env ''http://localhost:3000'',
      with_credentials = True,
      request_headers = [(''Content-Type'', ''application/json''), (''Accept'', ''application/json'')],
      common_headers = []\<rparr>"

text \<open>
  The payload of \<open>GET /csrf\<close> is its \<open>csrfToken\<close> field, which may be absent. Any failure is swallowed.
\<close>

definition ensureCsrfToken :: "string option reply \<Rightarrow> api_client \<Rightarrow> api_client" where
  "ensureCsrfToken r c =
     (case r of
        Resolved data \<Rightarrow>
          (let token = Option.bind data (\<lambda>t. t) in
           if truthy token
           then c\<lparr>common_headers := AList.update ''X-CSRF-Token'' (the token) (common_headers c)\<rparr>
           else c)
      | Rejected err \<Rightarrow> c)"

definition csrf_header :: "api_client \<Rightarrow> string option" where
  "csrf_header c = map_of (common_headers c) ''X-CSRF-Token''"

lemma ensureCsrfToken_header:
  "csrf_header (ensureCsrfToken r c) =
     (case r of
        Resolved (Some (Some t)) \<Rightarrow> if t = [] then csrf_header c else Some t
      | _ \<Rightarrow> csrf_header c)"
  by (auto simp: ensureCsrfToken_def csrf_header_def update_conv' split: reply.split option.split)

lemma ensureCsrfToken_frame:
  "base_url (ensureCsrfToken r c) = base_url c"
  "with_credentials (ensureCsrfToken r c) = with_credentials c"
  "request_headers (ensureCsrfToken r c) = request_headers c"
  "k \<noteq> ''X-CSRF-Token'' \<Longrightarrow>
   map_of (common_headers (ensureCsrfToken r c)) k = map_of (common_headers c) k"
  by (auto simp: ensureCsrfToken_def update_conv' Let_def split: reply.split)

section \<open>JSON records\<close>

datatype role = Librarian | Member

text \<open>A missing, \<open>undefined\<close> or \<open>null\<close> optional field is \<open>None\<close>; ids are JavaScript numbers.\<close>

record user_json =
  uj_id :: int
  uj_email :: string
  uj_first_name :: "string option"
  uj_last_name :: "string option"
  uj_role :: role

record book_json =
  bj_id :: int
  bj_title :: string
  bj_author :: string
  bj_genre :: string
  bj_isbn :: string
  bj_total_copies :: int
  bj_can_borrow :: "bool option"

datatype status = Borrowed | Returned | Overdue

record borrowing_json =
  rj_id :: int
  rj_book :: book_json
  rj_user :: "user_json option"
  rj_borrowed_at :: int
  rj_due_date :: date
  rj_returned_at :: "int option"
  rj_status :: status
  rj_created_at :: int

text \<open>
  How the librarian's pages name a member: the trimmed first and last name when either is there,
  the email otherwise.
\<close>

definition display_name :: "user_json \<Rightarrow> string" where
  "display_name u =
     (if truthy (uj_first_name u) \<or> truthy (uj_last_name u)
      then js_trim (js_or (uj_first_name u) [] @ '' '' @ js_or (uj_last_name u) [])
      else uj_email u)"

text \<open>The CSRF header of the client is always the last token the server gave: after any sequence of
  token requests, whatever their outcomes, later requests carry the token of the last one that
  brought a non-empty token, none before the first, and nothing else of the client has changed.\<close>

theorem csrf_header_is_last_token:
  "csrf_header (fold ensureCsrfToken rs (api env)) =
     (case filter (\<lambda>r. case r of Resolved (Some (Some t)) \<Rightarrow> t \<noteq> [] | _ \<Rightarrow> False) (rev rs) of
        Resolved (Some t) # _ \<Rightarrow> t
      | _ \<Rightarrow> None)
   \<and> base_url (fold ensureCsrfToken rs (api env)) = base_url (api env)
   \<and> with_credentials (fold ensureCsrfToken rs (api env))
   \<and> request_headers (fold ensureCsrfToken rs (api env)) = request_headers (api env)"
proof (induction rs rule: rev_induct)
  case Nil
  show ?case by (simp add: csrf_header_def api_def)
next
  case (snoc r rs)
  then show ?case
    by (auto simp: ensureCsrfToken_header ensureCsrfToken_frame split: reply.split option.split)
qed

end
