(* ===== verification/Library_Db.thy ===== *)
theory Library_Db imports Api_Client begin

text \<open>
  The Rails models: the rows of \<open>users\<close>, \<open>books\<close> and \<open>borrowings\<close> (\<open>db/schema.rb\<close>), the rules of
  \<open>app/models/book.rb\<close> and \<open>app/models/borrowing.rb\<close> and the overdue service, on a database given as
  its three tables. Instants are milliseconds since 1970 as in the client; Rails runs in its default
  zone, UTC, so \<open>Date.current\<close> is the UTC date.
\<close>

section \<open>Rows\<close>

record user_row =
  ur_id :: int
  ur_email :: string
  ur_first_name :: "string option"
  ur_last_name :: "string option"
  ur_role :: role
  ur_created_at :: int
  ur_encrypted_password :: string

record book_row =
  br_id :: int
  br_title :: string
  br_author :: string
  br_genre :: string
  br_isbn :: string
  br_total_copies :: int

record loan_row =
  ln_id :: int
  ln_user_id :: int
  ln_book_id :: int
  ln_borrowed_at :: int
  ln_due_date :: date
  ln_returned_at :: "int option"
  ln_status :: status
  ln_return_comment :: "string option"
  ln_created_at :: int

text \<open>A sequence gives each new row the next id.\<close>

record db =
  db_users :: "user_row list"
  db_books :: "book_row list"
  db_loans :: "loan_row list"
  db_next :: int

section \<open>Availability\<close>

text \<open>The scope \<open>active\<close>: borrowed and not returned.\<close>

definition active :: "loan_row \<Rightarrow> bool" where
  "active l \<longleftrightarrow> ln_status l = Borrowed \<and> ln_returned_at l = None"

definition active_borrowings :: "db \<Rightarrow> int \<Rightarrow> int" where
  "active_borrowings d b = int (length (filter (\<lambda>l. ln_book_id l = b \<and> active l) (db_loans d)))"

definition available_copies :: "db \<Rightarrow> book_row \<Rightarrow> int" where
  "available_copies d b = br_total_copies b - active_borrowings d (br_id b)"

definition user_active :: "db \<Rightarrow> int \<Rightarrow> int \<Rightarrow> bool" where
  "user_active d u b = list_ex (\<lambda>l. ln_user_id l = u \<and> ln_book_id l = b \<and> active l) (db_loans d)"

text \<open>The column \<open>can_borrow\<close> of the scope \<open>with_can_borrow_for\<close>, for a signed-in user.\<close>

definition with_can_borrow_for :: "db \<Rightarrow> user_row \<Rightarrow> book_row \<Rightarrow> bool" where
  "with_can_borrow_for d u b \<longleftrightarrow>
     ur_role u = Member
     \<and> active_borrowings d (br_id b) < br_total_copies b
     \<and> \<not> user_active d (ur_id u) (br_id b)"

section \<open>Borrowing and returning\<close>

text \<open>\<open>14.days.from_now.to_date\<close>.\<close>

definition default_due_date :: "int \<Rightarrow> date" where
  "default_due_date t = utc_date (t + 14 * day_ms)"

text \<open>\<open>set_defaults\<close>, on a new record that has neither time nor status.\<close>

definition new_loan :: "int \<Rightarrow> int \<Rightarrow> int \<Rightarrow> int \<Rightarrow> loan_row" where
  "new_loan t i u b = \<lparr>ln_id = i, ln_user_id = u, ln_book_id = b, ln_borrowed_at = t,
     ln_due_date = default_due_date t, ln_returned_at = None, ln_status = Borrowed,
     ln_return_comment = None, ln_created_at = t\<rparr>"

text \<open>
  The two validations of a new borrowing. The status column has the default 0, which is \<open>borrowed\<close>.
\<close>

definition prevent_duplicate_active_borrowing :: "db \<Rightarrow> int \<Rightarrow> int \<Rightarrow> string list" where
  "prevent_duplicate_active_borrowing d u b =
     (if user_active d u b then [''User already has an active borrowing for this book''] else [])"

definition copies_available_to_borrow :: "db \<Rightarrow> book_row \<Rightarrow> string list" where
  "copies_available_to_borrow d b =
     (if available_copies d b \<le> 0 then [''No available copies for this book''] else [])"

definition borrowing_errors :: "db \<Rightarrow> user_row \<Rightarrow> book_row \<Rightarrow> string list" where
  "borrowing_errors d u b =
     prevent_duplicate_active_borrowing d (ur_id u) (br_id b) @ copies_available_to_borrow d b"

definition insert_loan :: "loan_row \<Rightarrow> db \<Rightarrow> db" where
  "insert_loan l d = d\<lparr>db_loans := db_loans d @ [l], db_next := db_next d + 1\<rparr>"

text \<open>\<open>Borrowing.create!\<close>: the messages of the failed validations, or the new row.\<close>

definition create_borrowing :: "int \<Rightarrow> user_row \<Rightarrow> book_row \<Rightarrow> db \<Rightarrow> (string list + loan_row) \<times> db" where
  "create_borrowing t u b d =
     (let errs = borrowing_errors d u b in
      if errs \<noteq> [] then (Inl errs, d)
      else let l = new_loan t (db_next d) (ur_id u) (br_id b) in (Inr l, insert_loan l d))"

text \<open>\<open>comment.presence\<close>: a blank comment is stored as null. \<open>blank\<close> is Ruby's test.\<close>

definition presence :: "(string \<Rightarrow> bool) \<Rightarrow> string option \<Rightarrow> string option" where
  "presence blank v = (case v of None \<Rightarrow> None | Some t \<Rightarrow> if blank t then None else Some t)"

text \<open>\<open>return!\<close> overwrites the time and the comment, whatever the row's status was.\<close>

definition returned_loan :: "(string \<Rightarrow> bool) \<Rightarrow> int \<Rightarrow> string option \<Rightarrow> loan_row \<Rightarrow> loan_row" where
  "returned_loan blank t comment l =
     l\<lparr>ln_status := Returned, ln_returned_at := Some t, ln_return_comment := presence blank comment\<rparr>"

definition return_loan :: "(string \<Rightarrow> bool) \<Rightarrow> int \<Rightarrow> string option \<Rightarrow> loan_row \<Rightarrow> db \<Rightarrow> db" where
  "return_loan blank t comment l d =
     d\<lparr>db_loans := replace_by ln_id (ln_id l) (returned_loan blank t comment l) (db_loans d)\<rparr>"

section \<open>The overdue service\<close>

text \<open>The relation \<open>overdue_borrowings\<close>, on the current table.\<close>

definition past_due :: "int \<Rightarrow> loan_row \<Rightarrow> bool" where
  "past_due t l \<longleftrightarrow> ln_status l = Borrowed \<and> ln_due_date l < utc_date t"

definition overdue_borrowings :: "int \<Rightarrow> db \<Rightarrow> loan_row list" where
  "overdue_borrowings t d = filter (past_due t) (db_loans d)"

definition mark_row :: "int \<Rightarrow> loan_row \<Rightarrow> loan_row" where
  "mark_row t l = (if past_due t l then l\<lparr>ln_status := Overdue\<rparr> else l)"

text \<open>
  \<open>mark_overdue_books\<close>: the count, the new tables, and the borrowings that
  \<open>send_overdue_notifications\<close> goes over. That method is given the relation, which is evaluated
  after the update.
\<close>

definition mark_overdue_books :: "int \<Rightarrow> db \<Rightarrow> nat \<times> loan_row list \<times> db" where
  "mark_overdue_books t d =
     (if overdue_borrowings t d = [] then (0, [], d)
      else
        let d' = d\<lparr>db_loans := map (mark_row t) (db_loans d)\<rparr>;
            updated_count = length (overdue_borrowings t d)
        in (updated_count, if updated_count > 0 then overdue_borrowings t d' else [], d'))"

section \<open>Books and users\<close>

definition insert_book :: "book_row \<Rightarrow> db \<Rightarrow> db" where
  "insert_book b d = d\<lparr>db_books := db_books d @ [b], db_next := db_next d + 1\<rparr>"

definition update_book_row :: "book_row \<Rightarrow> db \<Rightarrow> db" where
  "update_book_row b d = d\<lparr>db_books := replace_by br_id (br_id b) b (db_books d)\<rparr>"

text \<open>\<open>has_many :borrowings, dependent: :destroy\<close>.\<close>

definition destroy_book :: "int \<Rightarrow> db \<Rightarrow> db" where
  "destroy_book i d =
     d\<lparr>db_books := remove_by br_id i (db_books d), db_loans := remove_by ln_book_id i (db_loans d)\<rparr>"

definition insert_user :: "user_row \<Rightarrow> db \<Rightarrow> db" where
  "insert_user u d = d\<lparr>db_users := db_users d @ [u], db_next := db_next d + 1\<rparr>"

definition update_user_row :: "user_row \<Rightarrow> db \<Rightarrow> db" where
  "update_user_row u d = d\<lparr>db_users := replace_by ur_id (ur_id u) u (db_users d)\<rparr>"

definition destroy_user :: "int \<Rightarrow> db \<Rightarrow> db" where
  "destroy_user i d =
     d\<lparr>db_users := remove_by ur_id i (db_users d), db_loans := remove_by ln_user_id i (db_loans d)\<rparr>"

section \<open>Facts about the tables\<close>

lemma borrowing_errors_Nil_iff:
  "borrowing_errors d u b = [] \<longleftrightarrow> \<not> user_active d (ur_id u) (br_id b) \<and> 0 < available_copies d b"
  by (simp add: borrowing_errors_def prevent_duplicate_active_borrowing_def
      copies_available_to_borrow_def not_le)

lemma with_can_borrow_for_iff:
  "with_can_borrow_for d u b \<longleftrightarrow> ur_role u = Member \<and> borrowing_errors d u b = []"
  by (auto simp: with_can_borrow_for_def borrowing_errors_Nil_iff available_copies_def)

lemma active_borrowings_nonneg [simp]: "0 \<le> active_borrowings d b"
  by (simp add: active_borrowings_def)

lemma new_loan_simps [simp]:
  "active (new_loan t i u b)" "ln_id (new_loan t i u b) = i" "ln_user_id (new_loan t i u b) = u"
  "ln_book_id (new_loan t i u b) = b" "ln_status (new_loan t i u b) = Borrowed"
  "ln_returned_at (new_loan t i u b) = None"
  "ln_due_date (new_loan t i u b) = default_due_date t"
  by (simp_all add: new_loan_def active_def)

lemma default_due_date_eq: "default_due_date t = date_add (utc_date t) 14"
  by (simp add: default_due_date_def utc_date_def date_add_def day_ms_def)

lemma mark_row_simps [simp]:
  "ln_id (mark_row t l) = ln_id l" "ln_user_id (mark_row t l) = ln_user_id l"
  "ln_book_id (mark_row t l) = ln_book_id l" "ln_returned_at (mark_row t l) = ln_returned_at l"
  "\<not> past_due t (mark_row t l)"
  by (simp_all add: mark_row_def past_due_def)

lemma active_mark_row: "active (mark_row t l) \<longleftrightarrow> active l \<and> \<not> past_due t l"
  by (auto simp: mark_row_def active_def past_due_def)

lemma returned_loan_simps [simp]:
  "\<not> active (returned_loan bl t c l)" "ln_id (returned_loan bl t c l) = ln_id l"
  "ln_book_id (returned_loan bl t c l) = ln_book_id l"
  "ln_user_id (returned_loan bl t c l) = ln_user_id l"
  by (simp_all add: returned_loan_def active_def)

lemma mark_overdue_db:
  "snd (snd (mark_overdue_books t d)) = d\<lparr>db_loans := map (mark_row t) (db_loans d)\<rparr>"
proof (cases "overdue_borrowings t d = []")
  case True
  then have "map (mark_row t) (db_loans d) = db_loans d"
    by (intro map_idI) (auto simp: overdue_borrowings_def filter_empty_conv mark_row_def)
  with True show ?thesis by (simp add: mark_overdue_books_def)
qed (simp add: mark_overdue_books_def Let_def)

lemma mark_overdue_count: "fst (mark_overdue_books t d) = length (overdue_borrowings t d)"
  by (simp add: mark_overdue_books_def Let_def)

end
