(* ===== verification/Library_Stock.thy ===== *)
theory Library_Stock imports Library_Db begin

text \<open>
  What the tables promise. The histories of the library as sequences of operations, the invariant
  of the tables, the bound on the copies that are lent, the abstract stock that borrowing and
  returning implement, and where the promise ends: copies that are overdue, and concurrent requests.
\<close>

section \<open>Histories\<close>

datatype db_op =
    Op_Borrow int int int  \<comment> \<open>at an instant, by a user, of a book\<close>
  | Op_Return int "string option" int
  | Op_Mark_Overdue int
  | Op_Add_Book book_row
  | Op_Update_Book book_row
  | Op_Destroy_Book int
  | Op_Add_User user_row
  | Op_Update_User user_row
  | Op_Destroy_User int

definition find_user :: "db \<Rightarrow> int \<Rightarrow> user_row option" where
  "find_user d i = find (\<lambda>u. ur_id u = i) (db_users d)"

definition find_book :: "db \<Rightarrow> int \<Rightarrow> book_row option" where
  "find_book d i = find (\<lambda>b. br_id b = i) (db_books d)"

definition find_loan :: "db \<Rightarrow> int \<Rightarrow> loan_row option" where
  "find_loan d i = find (\<lambda>l. ln_id l = i) (db_loans d)"

text \<open>An operation on a row that does not exist answers 404 and changes nothing; a new row gets its id.\<close>

fun run_op :: "(string \<Rightarrow> bool) \<Rightarrow> db_op \<Rightarrow> db \<Rightarrow> db" where
  "run_op blank (Op_Borrow t i j) d =
     (case (find_user d i, find_book d j) of
        (Some u, Some b) \<Rightarrow> snd (create_borrowing t u b d)
      | _ \<Rightarrow> d)"
| "run_op blank (Op_Return t c i) d =
     (case find_loan d i of Some l \<Rightarrow> return_loan blank t c l d | None \<Rightarrow> d)"
| "run_op blank (Op_Mark_Overdue t) d = snd (snd (mark_overdue_books t d))"
| "run_op blank (Op_Add_Book b) d =
     (if 0 \<le> br_total_copies b then insert_book (b\<lparr>br_id := db_next d\<rparr>) d else d)"
| "run_op blank (Op_Update_Book b) d =
     (if 0 \<le> br_total_copies b \<and> find_book d (br_id b) \<noteq> None then update_book_row b d else d)"
| "run_op blank (Op_Destroy_Book i) d = destroy_book i d"
| "run_op blank (Op_Add_User u) d = insert_user (u\<lparr>ur_id := db_next d\<rparr>) d"
| "run_op blank (Op_Update_User u) d = (if find_user d (ur_id u) \<noteq> None then update_user_row u d else d)"
| "run_op blank (Op_Destroy_User i) d = destroy_user i d"

definition empty_db :: db where
  "empty_db = \<lparr>db_users = [], db_books = [], db_loans = [], db_next = 1\<rparr>"

definition run_ops :: "(string \<Rightarrow> bool) \<Rightarrow> db_op list \<Rightarrow> db" where
  "run_ops blank ops = fold (run_op blank) ops empty_db"

section \<open>The invariant of the tables\<close>

text \<open>
  Ids are unique and below the sequence; the foreign keys of a borrowing are there; a user has at
  most one active borrowing of a book.
\<close>

definition active_pairs :: "loan_row list \<Rightarrow> (int \<times> int) list" where
  "active_pairs ls = map (\<lambda>l. (ln_user_id l, ln_book_id l)) (filter active ls)"

definition db_inv :: "db \<Rightarrow> bool" where
  "db_inv d \<longleftrightarrow>
     distinct (map ur_id (db_users d)) \<and> distinct (map br_id (db_books d))
     \<and> distinct (map ln_id (db_loans d))
     \<and> (\<forall>u\<in>set (db_users d). ur_id u < db_next d) \<and> (\<forall>b\<in>set (db_books d). br_id b < db_next d)
     \<and> (\<forall>l\<in>set (db_loans d). ln_id l < db_next d \<and> ln_book_id l \<in> br_id ` set (db_books d)
          \<and> ln_user_id l \<in> ur_id ` set (db_users d))
     \<and> distinct (active_pairs (db_loans d))"

lemma find_user_Some: "find_user d i = Some u \<Longrightarrow> u \<in> set (db_users d) \<and> ur_id u = i"
  by (auto simp: find_user_def find_Some_iff)

lemma find_book_Some: "find_book d i = Some b \<Longrightarrow> b \<in> set (db_books d) \<and> br_id b = i"
  by (auto simp: find_book_def find_Some_iff)

lemma find_loan_Some: "find_loan d i = Some l \<Longrightarrow> l \<in> set (db_loans d) \<and> ln_id l = i"
  by (auto simp: find_loan_def find_Some_iff)

lemma user_active_iff:
  "user_active d u b \<longleftrightarrow> (u, b) \<in> set (active_pairs (db_loans d))"
  by (auto simp: user_active_def list_ex_iff active_pairs_def image_iff)

lemma active_pairs_simps [simp]:
  "active_pairs [] = []"
  "active_pairs (l # ls) =
     (if active l then (ln_user_id l, ln_book_id l) # active_pairs ls else active_pairs ls)"
  "active_pairs (ls @ ms) = active_pairs ls @ active_pairs ms"
  by (simp_all add: active_pairs_def)

text \<open>Replacing rows by rows that are not active, and dropping rows, drops pairs.\<close>

lemma active_pairs_subseq_map:
  assumes "\<And>l. l \<in> set ls \<Longrightarrow> active (f l) \<Longrightarrow> f l = l"
  shows "subseq (active_pairs (map f ls)) (active_pairs ls)"
  using assms
proof (induction ls)
  case (Cons l ls)
  then have IH: "subseq (active_pairs (map f ls)) (active_pairs ls)" by simp
  show ?case
  proof (cases "active (f l)")
    case True
    with Cons.prems have "f l = l" by simp
    with IH True show ?thesis by simp
  next
    case False
    with IH show ?thesis by (auto intro: subseq_Cons' list_emb_Cons)
  qed
qed simp

lemma active_pairs_subseq_filter: "subseq (active_pairs (filter P ls)) (active_pairs ls)"
  by (induction ls) auto

lemma distinct_subseq: "subseq xs ys \<Longrightarrow> distinct ys \<Longrightarrow> distinct xs"
  by (metis subseq_conv_nths distinct_nthsI)

lemma return_pairs:
  "subseq (active_pairs (db_loans (return_loan bl t c l d))) (active_pairs (db_loans d))"
  unfolding return_loan_def replace_by_def by (simp, rule active_pairs_subseq_map) (auto split: if_splits)

lemma mark_pairs:
  "subseq (active_pairs (map (mark_row t) ls)) (active_pairs ls)"
  by (rule active_pairs_subseq_map) (metis active_mark_row mark_row_def)

lemma length_active_pairs:
  "active_borrowings d i = int (length (filter (\<lambda>p. snd p = i) (active_pairs (db_loans d))))"
proof -
  have "length (filter (\<lambda>l. ln_book_id l = i \<and> active l) ls)
      = length (filter (\<lambda>p. snd p = i) (active_pairs ls))" for ls
    by (induction ls) auto
  then show ?thesis by (simp add: active_borrowings_def)
qed

lemma fewer_pairs:
  "subseq (active_pairs (db_loans d')) (active_pairs (db_loans d)) \<Longrightarrow>
   active_borrowings d' i \<le> active_borrowings d i"
  by (auto simp: length_active_pairs intro: list_emb_length subseq_filter)

lemma create_borrowing_cases:
  obtains (refused) errs where "borrowing_errors d u b = errs" "errs \<noteq> []"
      "create_borrowing t u b d = (Inl errs, d)"
  | (lent) "borrowing_errors d u b = []"
      "create_borrowing t u b d =
        (Inr (new_loan t (db_next d) (ur_id u) (br_id b)),
         insert_loan (new_loan t (db_next d) (ur_id u) (br_id b)) d)"
  by (cases "borrowing_errors d u b = []") (auto simp: create_borrowing_def Let_def)

text \<open>The parts of the invariant.\<close>

definition ids_ok :: "db \<Rightarrow> bool" where
  "ids_ok d \<longleftrightarrow>
     distinct (map ur_id (db_users d)) \<and> distinct (map br_id (db_books d))
     \<and> distinct (map ln_id (db_loans d))
     \<and> (\<forall>u\<in>set (db_users d). ur_id u < db_next d) \<and> (\<forall>b\<in>set (db_books d). br_id b < db_next d)
     \<and> (\<forall>l\<in>set (db_loans d). ln_id l < db_next d \<and> ln_book_id l \<in> br_id ` set (db_books d)
          \<and> ln_user_id l \<in> ur_id ` set (db_users d))"

lemma db_inv_iff: "db_inv d \<longleftrightarrow> ids_ok d \<and> distinct (active_pairs (db_loans d))"
  by (auto simp: db_inv_def ids_ok_def)

lemma db_insert_loan [simp]:
  "db_loans (insert_loan l d) = db_loans d @ [l]" "db_books (insert_loan l d) = db_books d"
  "db_users (insert_loan l d) = db_users d" "db_next (insert_loan l d) = db_next d + 1"
  by (simp_all add: insert_loan_def)

lemma ids_ok_insert_loan:
  "ids_ok d \<Longrightarrow> u \<in> set (db_users d) \<Longrightarrow> b \<in> set (db_books d) \<Longrightarrow>
   ids_ok (insert_loan (new_loan t (db_next d) (ur_id u) (br_id b)) d)"
  by (auto simp: ids_ok_def less_imp_neq)

lemma ids_ok_return: "ids_ok d \<Longrightarrow> l \<in> set (db_loans d) \<Longrightarrow> ids_ok (return_loan bl t c l d)"
  by (auto simp: ids_ok_def return_loan_def keys_replace_by dest!: subsetD [OF set_replace_by])

lemma ids_ok_mark: "ids_ok d \<Longrightarrow> ids_ok (d\<lparr>db_loans := map (mark_row t) (db_loans d)\<rparr>)"
  by (auto simp: ids_ok_def comp_def)

lemma ids_ok_books:
  "ids_ok d \<Longrightarrow> ids_ok (insert_book (b\<lparr>br_id := db_next d\<rparr>) d)"
  "ids_ok d \<Longrightarrow> find_book d (br_id b) \<noteq> None \<Longrightarrow> ids_ok (update_book_row b d)"
  "ids_ok d \<Longrightarrow> ids_ok (destroy_book i d)"
  by (auto simp: ids_ok_def insert_book_def update_book_row_def destroy_book_def remove_by_def
      less_imp_neq keys_replace_by key_set_replace_by distinct_map_filter dest!: subsetD [OF set_replace_by] find_book_Some)

lemma ids_ok_users:
  "ids_ok d \<Longrightarrow> ids_ok (insert_user (u\<lparr>ur_id := db_next d\<rparr>) d)"
  "ids_ok d \<Longrightarrow> find_user d (ur_id u) \<noteq> None \<Longrightarrow> ids_ok (update_user_row u d)"
  "ids_ok d \<Longrightarrow> ids_ok (destroy_user i d)"
  by (auto simp: ids_ok_def insert_user_def update_user_row_def destroy_user_def remove_by_def less_imp_neq
      keys_replace_by key_set_replace_by distinct_map_filter dest!: subsetD [OF set_replace_by] find_user_Some)

text \<open>No operation but borrowing adds an active pair, and borrowing adds one that was not there.\<close>

lemma run_op_pairs:
  "(\<And>t i j. x \<noteq> Op_Borrow t i j) \<Longrightarrow>
   subseq (active_pairs (db_loans (run_op bl x d))) (active_pairs (db_loans d))"
  by (cases x)
     (auto simp: return_pairs mark_pairs mark_overdue_db insert_book_def update_book_row_def
        destroy_book_def insert_user_def update_user_row_def destroy_user_def remove_by_def
        active_pairs_subseq_filter
      split: option.split)

lemma run_op_inv: "db_inv d \<Longrightarrow> db_inv (run_op bl x d)"
proof (cases "\<exists>t i j. x = Op_Borrow t i j")
  case True
  then obtain t i j where x: "x = Op_Borrow t i j" by blast
  assume inv: "db_inv d"
  show ?thesis
  proof (cases "find_user d i = None \<or> find_book d j = None")
    case True
    with x inv show ?thesis by (auto split: option.split)
  next
    case False
    then obtain u b where ub: "find_user d i = Some u" "find_book d j = Some b" by auto
    then have "u \<in> set (db_users d)" "b \<in> set (db_books d)"
      by (auto dest: find_user_Some find_book_Some)
    with ub x inv show ?thesis
      by (cases rule: create_borrowing_cases [of d u b t])
         (simp_all add: db_inv_iff ids_ok_insert_loan borrowing_errors_Nil_iff user_active_iff)
  qed
next
  case False
  assume inv: "db_inv d"
  then have "ids_ok (run_op bl x d)"
    using False by (cases x)
      (auto simp: db_inv_iff ids_ok_return ids_ok_mark ids_ok_books ids_ok_users mark_overdue_db
        split: option.split dest: find_loan_Some)
  moreover have "distinct (active_pairs (db_loans (run_op bl x d)))"
    using inv False by (metis run_op_pairs distinct_subseq db_inv_iff)
  ultimately show ?thesis by (simp add: db_inv_iff)
qed

text \<open>C7. After any history of the library, borrowings, returns, overdue marks and changes of books and
  users in any order, ids are unique and a user never has two active borrowings of the same book.\<close>

theorem tables_invariant: "db_inv (run_ops blank ops)"
proof -
  have "db_inv d \<Longrightarrow> db_inv (fold (run_op blank) ops d)" for d
    by (induction ops arbitrary: d) (simp_all add: run_op_inv)
  then show ?thesis by (simp add: run_ops_def db_inv_def empty_db_def)
qed

section \<open>The bound on the copies lent\<close>

lemma active_borrowings_insert [simp]:
  "active_borrowings (insert_loan (new_loan t k i j) d) b = active_borrowings d b + of_bool (j = b)"
  by (simp add: active_borrowings_def)

text \<open>The library lends no more copies of a book than it has, as it counts them.\<close>

definition lent_within :: "db \<Rightarrow> int \<Rightarrow> bool" where
  "lent_within d i \<longleftrightarrow> (\<forall>b\<in>set (db_books d). br_id b = i \<longrightarrow> active_borrowings d i \<le> br_total_copies b)"

text \<open>Operations that lower the number of copies of a book, and histories without any.\<close>

definition lowers_copies :: "int \<Rightarrow> db \<Rightarrow> db \<Rightarrow> bool" where
  "lowers_copies i d d' =
     (case (find_book d i, find_book d' i) of
        (Some b, Some b') \<Rightarrow> br_total_copies b' < br_total_copies b
      | _ \<Rightarrow> False)"

fun never_lowered :: "(string \<Rightarrow> bool) \<Rightarrow> int \<Rightarrow> db_op list \<Rightarrow> db \<Rightarrow> bool" where
  "never_lowered bl i [] d = True"
| "never_lowered bl i (x # ops) d =
     (\<not> lowers_copies i d (run_op bl x d) \<and> never_lowered bl i ops (run_op bl x d))"

lemma find_book_in: "db_inv d \<Longrightarrow> b \<in> set (db_books d) \<Longrightarrow> find_book d (br_id b) = Some b"
  by (simp add: db_inv_def find_book_def find_by_key)

lemma no_loans_new_id: "db_inv d \<Longrightarrow> active_borrowings d (db_next d) = 0"
  by (fastforce simp: active_borrowings_def db_inv_def filter_empty_conv)

lemma run_op_book_ids:
  "(\<And>b. x \<noteq> Op_Add_Book b) \<Longrightarrow> br_id ` set (db_books (run_op bl x d)) \<subseteq> br_id ` set (db_books d)"
  by (cases x)
     (auto simp: create_borrowing_def Let_def return_loan_def mark_overdue_db destroy_book_def
        update_book_row_def insert_user_def update_user_row_def destroy_user_def key_set_replace_by
      split: option.splits dest!: subsetD [OF set_replace_by] find_book_Some)

text \<open>An operation that neither adds the book nor borrows keeps the bound if it lowers nothing.\<close>

lemma lent_within_fewer:
  assumes "db_inv d" "db_inv d'" "lent_within d i" "\<not> lowers_copies i d d'"
    and "br_id ` set (db_books d') \<subseteq> br_id ` set (db_books d)"
    and "active_borrowings d' i \<le> active_borrowings d i"
  shows "lent_within d' i"
  unfolding lent_within_def
proof (intro ballI impI)
  fix b' assume b': "b' \<in> set (db_books d')" "br_id b' = i"
  with assms(5) obtain b where b: "b \<in> set (db_books d)" "br_id b = i" by (metis imageE imageI subsetD)
  have "br_total_copies b \<le> br_total_copies b'"
    using assms(4) find_book_in [OF assms(1) b(1)] find_book_in [OF assms(2) b'(1)] b(2) b'(2)
    by (simp add: lowers_copies_def)
  with b assms(3,6) show "active_borrowings d' i \<le> br_total_copies b'" by (fastforce simp: lent_within_def)
qed

lemma run_op_lent_within:
  assumes "db_inv d" "lent_within d i" "\<not> lowers_copies i d (run_op bl x d)"
  shows "lent_within (run_op bl x d) i"
proof (cases "(\<exists>t j k. x = Op_Borrow t j k) \<or> (\<exists>b. x = Op_Add_Book b)")
  case True
  then consider (borrow) t j k where "x = Op_Borrow t j k" | (add) b where "x = Op_Add_Book b" by blast
  then show ?thesis
  proof cases
    case borrow
    show ?thesis
    proof (cases "find_user d j = None \<or> find_book d k = None")
      case True
      with borrow assms(2) show ?thesis by (auto split: option.split)
    next
      case False
      then obtain u b where ub: "find_user d j = Some u" "find_book d k = Some b" by auto
      have same: "c = b" if "br_id c = br_id b" "c \<in> set (db_books d)" for c
        using assms(1) find_book_Some [OF ub(2)] that by (auto simp: db_inv_def distinct_map dest: inj_onD)
      show ?thesis
        using ub borrow assms(2)
        by (cases rule: create_borrowing_cases [of d u b t])
           (auto simp: lent_within_def borrowing_errors_Nil_iff available_copies_def dest: same)
    qed
  next
    case add
    with assms(2) no_loans_new_id [OF assms(1)] show ?thesis
      by (auto simp: lent_within_def insert_book_def active_borrowings_def)
  qed
next
  case False
  then have other: "\<And>t j k. x \<noteq> Op_Borrow t j k" "\<And>b. x \<noteq> Op_Add_Book b" by blast+
  show ?thesis
    by (rule lent_within_fewer [OF assms(1) run_op_inv [OF assms(1)] assms(2,3)
          run_op_book_ids [OF other(2)] fewer_pairs [OF run_op_pairs [OF other(1)]]])
qed

lemma run_ops_lent_within:
  "db_inv d \<Longrightarrow> lent_within d i \<Longrightarrow> never_lowered bl i ops d \<Longrightarrow> lent_within (fold (run_op bl) ops d) i"
  by (induction ops arbitrary: d) (simp_all add: run_op_inv run_op_lent_within)

text \<open>
  The copies of a book that are out of the library are those not returned, overdue ones included.
\<close>

definition copies_out :: "db \<Rightarrow> int \<Rightarrow> int" where
  "copies_out d b = int (length (filter (\<lambda>l. ln_book_id l = b \<and> ln_returned_at l = None) (db_loans d)))"

definition copies_overdue :: "db \<Rightarrow> int \<Rightarrow> int" where
  "copies_overdue d b =
     int (length (filter (\<lambda>l. ln_book_id l = b \<and> ln_status l = Overdue) (db_loans d)))"

text \<open>A borrowing has its return time exactly when its status is \<open>returned\<close>.\<close>

definition status_ok :: "db \<Rightarrow> bool" where
  "status_ok d \<longleftrightarrow> (\<forall>l\<in>set (db_loans d). ln_status l = Returned \<longleftrightarrow> ln_returned_at l \<noteq> None)"

lemma run_op_status_ok: "status_ok d \<Longrightarrow> status_ok (run_op bl x d)"
  by (cases x)
     (auto simp: status_ok_def create_borrowing_def Let_def return_loan_def returned_loan_def
        mark_overdue_db mark_row_def past_due_def insert_book_def update_book_row_def
        destroy_book_def insert_user_def update_user_row_def destroy_user_def
      split: option.splits dest!: subsetD [OF set_replace_by])

lemma run_ops_status_ok: "status_ok d \<Longrightarrow> status_ok (fold (run_op bl) ops d)"
  by (induction ops arbitrary: d) (simp_all add: run_op_status_ok)

lemma copies_out_split:
  assumes "status_ok d"
  shows "copies_out d b = active_borrowings d b + copies_overdue d b"
proof -
  have "length (filter (\<lambda>l. ln_book_id l = b \<and> ln_returned_at l = None) ls) =
      length (filter (\<lambda>l. ln_book_id l = b \<and> active l) ls)
      + length (filter (\<lambda>l. ln_book_id l = b \<and> ln_status l = Overdue) ls)"
    if "\<forall>l\<in>set ls. ln_status l = Returned \<longleftrightarrow> ln_returned_at l \<noteq> None" for ls
    using that
  proof (induction ls)
    case (Cons l ls)
    then show ?case by (cases "ln_status l") (auto simp: active_def)
  qed simp
  with assms show ?thesis
    by (simp add: copies_out_def active_borrowings_def copies_overdue_def status_ok_def)
qed

text \<open>C6. In any history in which no operation lowers the number of copies of a book, edits of the book and
  of all others included, the copies of the book that are out never exceed its copies by more than
  those that were marked overdue: a borrowing is only granted while a copy is free, as the library
  counts them.\<close>

theorem copies_out_bound:
  assumes "b \<in> set (db_books (run_ops blank ops))" "never_lowered blank (br_id b) ops empty_db"
  shows "copies_out (run_ops blank ops) (br_id b)
    \<le> br_total_copies b + copies_overdue (run_ops blank ops) (br_id b)"
proof -
  have "db_inv empty_db" "status_ok empty_db" "lent_within empty_db (br_id b)"
    by (simp_all add: empty_db_def status_ok_def lent_within_def db_inv_def)
  then have "status_ok (run_ops blank ops)" "lent_within (run_ops blank ops) (br_id b)"
    unfolding run_ops_def by (simp_all add: run_ops_status_ok run_ops_lent_within assms(2))
  with assms(1) show ?thesis by (simp add: copies_out_split lent_within_def)
qed

section \<open>Overdue copies are lent again\<close>

lemma filter_less_length:
  "x \<in> set xs \<Longrightarrow> P x \<Longrightarrow> \<not> Q x \<Longrightarrow> (\<And>y. Q y \<Longrightarrow> P y) \<Longrightarrow> length (filter Q xs) < length (filter P xs)"
proof (induction xs)
  case (Cons y ys)
  have le: "length (filter Q ys) \<le> length (filter P ys)" for ys
    using Cons.prems(4) by (induction ys) auto
  from Cons le [of ys] show ?case by (cases "y = x") (auto simp: less_Suc_eq_le)
qed simp

lemma active_after_mark:
  assumes "l \<in> set (db_loans d)" "active l" "past_due t l"
  shows "active_borrowings (d\<lparr>db_loans := map (mark_row t) (db_loans d)\<rparr>) (ln_book_id l)
    < active_borrowings d (ln_book_id l)"
proof -
  have "length (filter (\<lambda>k. ln_book_id k = ln_book_id l \<and> active k \<and> \<not> past_due t k) (db_loans d))
      < length (filter (\<lambda>k. ln_book_id k = ln_book_id l \<and> active k) (db_loans d))"
    using assms by (intro filter_less_length [of l]) auto
  then show ?thesis
    by (simp add: active_borrowings_def filter_map comp_def active_mark_row)
qed

text \<open>C9. Marking a borrowing overdue lends its copy again, to the same member if they ask. Once the overdue
  check has run past the due date of a member's active borrowing, the book is offered to that member
  exactly while the library counts a free copy; and it counts one if before the check the active
  borrowings of the book were no more than its copies, which only a librarian who lowers the number
  of copies can change. Then borrowing succeeds although the copy was not returned, and the member
  has two copies of one book out.\<close>

theorem overdue_copy_lent_again:
  assumes "db_inv d" "l \<in> set (db_loans d)" "active l" "past_due t l"
    and "b \<in> set (db_books d)" "br_id b = ln_book_id l" "ur_id u = ln_user_id l" "ur_role u = Member"
  shows "let d1 = snd (snd (mark_overdue_books t d)); (r, d2) = create_borrowing t u b d1 in
    (with_can_borrow_for d1 u b \<longleftrightarrow> 0 < available_copies d1 b)
    \<and> (active_borrowings d (br_id b) \<le> br_total_copies b \<longrightarrow> 0 < available_copies d1 b)
    \<and> (0 < available_copies d1 b \<longrightarrow>
         (\<exists>n. r = Inr n \<and> {mark_row t l, n} \<subseteq> set (db_loans d2) \<and> ln_id n \<noteq> ln_id l
           \<and> (\<forall>k\<in>{mark_row t l, n}. ln_user_id k = ur_id u \<and> ln_book_id k = br_id b \<and> ln_returned_at k = None)))"
proof -
  let ?d1 = "snd (snd (mark_overdue_books t d))"
  have d1: "?d1 = d\<lparr>db_loans := map (mark_row t) (db_loans d)\<rparr>" by (rule mark_overdue_db)
  have fewer: "active_borrowings ?d1 (br_id b) < active_borrowings d (br_id b)"
    using active_after_mark [OF assms(2,3,4)] assms(6) by (simp add: d1)
  have unique: "k \<in> set (db_loans d) \<Longrightarrow> active k \<Longrightarrow> ln_user_id k = ln_user_id l \<Longrightarrow>
      ln_book_id k = ln_book_id l \<Longrightarrow> k = l" for k
    using assms(1,2,3) by (auto simp: db_inv_def active_pairs_def distinct_map inj_on_def)
  have none: "\<not> user_active ?d1 (ur_id u) (br_id b)"
    using unique assms(4,6,7) by (auto simp: user_active_def list_ex_iff d1 active_mark_row)
  then have offered: "with_can_borrow_for ?d1 u b \<longleftrightarrow> 0 < available_copies ?d1 b"
    "borrowing_errors ?d1 u b = [] \<longleftrightarrow> 0 < available_copies ?d1 b"
    using assms(8) by (auto simp: with_can_borrow_for_iff borrowing_errors_Nil_iff)
  have "ln_id l < db_next d" "ln_returned_at l = None"
    using assms(1,2,3) by (auto simp: db_inv_def active_def)
  with offered fewer assms(2,6,7) show ?thesis
    by (auto simp: create_borrowing_def Let_def d1 available_copies_def)
qed

end
