(* ===== verification/Library_Refinement.thy ===== *)
theory Library_Refinement imports Library_Stock begin

text \<open>
  The abstract stock, a capacity and a set of holders for each book, and the proof that borrowing,
  returning and the overdue check of the models implement its operations; and the window between the
  validations of a borrowing and its insertion, in which concurrent requests interleave.
\<close>

section \<open>The abstract stock\<close>

record stock =
  capacity :: "int \<Rightarrow> int"
  holders :: "int \<Rightarrow> int set"

definition stock_borrow :: "int \<Rightarrow> int \<Rightarrow> stock \<Rightarrow> stock option" where
  "stock_borrow u b s =
     (if u \<notin> holders s b \<and> int (card (holders s b)) < capacity s b
      then Some (s\<lparr>holders := (holders s)(b := insert u (holders s b))\<rparr>) else None)"

definition stock_release :: "(int \<times> int) set \<Rightarrow> stock \<Rightarrow> stock" where
  "stock_release R s = s\<lparr>holders := (\<lambda>b. {u \<in> holders s b. (u, b) \<notin> R})\<rparr>"

definition abs_stock :: "db \<Rightarrow> stock" where
  "abs_stock d =
     \<lparr>capacity = (\<lambda>i. case find_book d i of None \<Rightarrow> 0 | Some b \<Rightarrow> br_total_copies b),
      holders = (\<lambda>i. {u. user_active d u i})\<rparr>"

lemma card_holders:
  assumes "distinct (active_pairs (db_loans d))"
  shows "int (card (holders (abs_stock d) i)) = active_borrowings d i"
proof -
  let ?ps = "filter (\<lambda>p. snd p = i) (active_pairs (db_loans d))"
  have "holders (abs_stock d) i = fst ` set ?ps"
    by (force simp: abs_stock_def user_active_iff)
  moreover have "inj_on fst (set ?ps)" by (auto simp: inj_on_def)
  ultimately have "card (holders (abs_stock d) i) = card (set ?ps)"
    by (simp only: card_image)
  also have "\<dots> = length ?ps" using assms by (intro distinct_card distinct_filter)
  finally show ?thesis by (simp add: length_active_pairs)
qed

lemma user_active_insert [simp]:
  "user_active (insert_loan (new_loan t k u b) d) v i \<longleftrightarrow> user_active d v i \<or> (v = u \<and> i = b)"
  by (auto simp: user_active_def)

lemma find_book_insert_loan [simp]: "find_book (insert_loan l d) i = find_book d i"
  by (simp add: find_book_def)

lemma abs_insert_loan:
  "abs_stock (insert_loan (new_loan t k u b) d) =
   (abs_stock d)\<lparr>holders := (holders (abs_stock d))(b := insert u (holders (abs_stock d) b))\<rparr>"
proof -
  have "(\<lambda>i. {v. user_active d v i \<or> (v = u \<and> i = b)}) =
      (\<lambda>i. {v. user_active d v i})(b := insert u {v. user_active d v b})"
    by (rule ext) auto
  then show ?thesis by (simp add: abs_stock_def)
qed

text \<open>C2. Borrowing implements the abstract stock: from any consistent state, \<open>create!\<close> succeeds
  exactly when the stock can lend the book to the user, and then leads to the stock with the user
  among the book's holders; when it fails nothing changes.\<close>

theorem create_borrowing_refines:
  assumes "db_inv d" "b \<in> set (db_books d)"
  shows "case create_borrowing t u b d of
      (Inr l, d') \<Rightarrow> stock_borrow (ur_id u) (br_id b) (abs_stock d) = Some (abs_stock d')
    | (Inl errs, d') \<Rightarrow> stock_borrow (ur_id u) (br_id b) (abs_stock d) = None \<and> d' = d"
proof -
  have "capacity (abs_stock d) (br_id b) = br_total_copies b"
    using assms by (simp add: abs_stock_def find_book_in)
  moreover have "int (card (holders (abs_stock d) (br_id b))) = active_borrowings d (br_id b)"
    using assms(1) by (simp add: card_holders db_inv_iff)
  moreover have "ur_id u \<in> holders (abs_stock d) (br_id b) \<longleftrightarrow> user_active d (ur_id u) (br_id b)"
    by (simp add: abs_stock_def)
  ultimately have "stock_borrow (ur_id u) (br_id b) (abs_stock d) \<noteq> None \<longleftrightarrow> borrowing_errors d u b = []"
    by (simp add: stock_borrow_def borrowing_errors_Nil_iff available_copies_def)
  then show ?thesis
    by (cases rule: create_borrowing_cases [of d u b t])
       (auto simp: abs_insert_loan stock_borrow_def split: if_splits)
qed

text \<open>Removing active pairs from the table releases them from the stock.\<close>

lemma abs_release:
  assumes "db_books d' = db_books d"
    and "set (active_pairs (db_loans d')) = set (active_pairs (db_loans d)) - R"
  shows "abs_stock d' = stock_release R (abs_stock d)"
proof -
  have "(\<lambda>i. {v. user_active d' v i}) = (\<lambda>i. {u \<in> {v. user_active d v i}. (u, i) \<notin> R})"
    using assms(2) by (intro ext) (auto simp: user_active_iff)
  with assms(1) show ?thesis by (simp add: abs_stock_def stock_release_def find_book_def)
qed

lemma set_active_pairs: "set (active_pairs ls) = {(ln_user_id l, ln_book_id l) | l. l \<in> set ls \<and> active l}"
  by (auto simp: active_pairs_def)

lemma active_pair_inj:
  "db_inv d \<Longrightarrow> k \<in> set (db_loans d) \<Longrightarrow> l \<in> set (db_loans d) \<Longrightarrow> active k \<Longrightarrow> active l \<Longrightarrow>
   ln_user_id k = ln_user_id l \<Longrightarrow> ln_book_id k = ln_book_id l \<Longrightarrow> k = l"
  by (auto simp: db_inv_def active_pairs_def distinct_map inj_on_def)

lemma loan_id_inj:
  "db_inv d \<Longrightarrow> k \<in> set (db_loans d) \<Longrightarrow> l \<in> set (db_loans d) \<Longrightarrow> ln_id k = ln_id l \<Longrightarrow> k = l"
  by (auto simp: db_inv_def distinct_map inj_on_def)

lemma return_active_pairs:
  assumes "db_inv d" "l \<in> set (db_loans d)"
  shows "set (active_pairs (db_loans (return_loan bl t c l d))) =
    set (active_pairs (db_loans d)) - (if active l then {(ln_user_id l, ln_book_id l)} else {})"
proof -
  have rows: "set (db_loans (return_loan bl t c l d)) =
      insert (returned_loan bl t c l) (set (db_loans d) - {l})"
    using assms loan_id_inj [OF assms(1)]
    by (fastforce simp: return_loan_def replace_by_def image_iff)
  show ?thesis
    using assms active_pair_inj [OF assms(1), of _ l]
    by (auto simp: set_active_pairs rows)
qed

text \<open>C20. Returning an active borrowing releases exactly its user's hold on its book; returning one
  that is overdue, or was returned before, changes nothing in the stock; and the overdue check
  releases exactly the holds that are past due, as if their copies had come back.\<close>

theorem return_and_mark_refine:
  assumes "db_inv d" "l \<in> set (db_loans d)"
  shows "abs_stock (return_loan blank t c l d) =
      stock_release (if active l then {(ln_user_id l, ln_book_id l)} else {}) (abs_stock d)
    \<and> abs_stock (snd (snd (mark_overdue_books t d))) =
      stock_release {(ln_user_id k, ln_book_id k) | k. k \<in> set (db_loans d) \<and> active k \<and> past_due t k}
        (abs_stock d)"
proof
  show "abs_stock (return_loan blank t c l d) =
      stock_release (if active l then {(ln_user_id l, ln_book_id l)} else {}) (abs_stock d)"
    by (rule abs_release) (simp_all only: return_active_pairs [OF assms], simp add: return_loan_def)
  show "abs_stock (snd (snd (mark_overdue_books t d))) =
      stock_release {(ln_user_id k, ln_book_id k) | k. k \<in> set (db_loans d) \<and> active k \<and> past_due t k}
        (abs_stock d)"
  proof (rule abs_release)
    show "set (active_pairs (db_loans (snd (snd (mark_overdue_books t d))))) =
        set (active_pairs (db_loans d))
        - {(ln_user_id k, ln_book_id k) | k. k \<in> set (db_loans d) \<and> active k \<and> past_due t k}"
      using active_pair_inj [OF assms(1)]
      by (fastforce simp: mark_overdue_db set_active_pairs active_mark_row)
  qed (simp add: mark_overdue_db)
qed

section \<open>The overdue check\<close>


section \<open>Concurrent borrowing\<close>

text \<open>
  The validations query the table and the insertion follows, in a transaction that does not keep
  another request from doing the same meanwhile: there is no lock, and no constraint in the schema.
\<close>

record requests =
  rq_db :: db
  rq_validated :: "(int \<times> user_row \<times> book_row) list"

inductive request_step :: "requests \<Rightarrow> requests \<Rightarrow> bool" where
  validate:
    "u \<in> set (db_users (rq_db s)) \<Longrightarrow> b \<in> set (db_books (rq_db s)) \<Longrightarrow>
     borrowing_errors (rq_db s) u b = [] \<Longrightarrow>
     request_step s (s\<lparr>rq_validated := rq_validated s @ [(t, u, b)]\<rparr>)"
| insert_row:
    "(t, u, b) \<in> set (rq_validated s) \<Longrightarrow>
     request_step s
       \<lparr>rq_db = insert_loan (new_loan t (db_next (rq_db s)) (ur_id u) (br_id b)) (rq_db s),
        rq_validated = remove1 (t, u, b) (rq_validated s)\<rparr>"

text \<open>C31. Two requests that overlap can lend more copies than there are: whenever two requests each
  pass the validations, the interleaving in which both validate before either inserts lends both, so
  that with one free copy the active borrowings exceed the copies; for one user it gives two active
  borrowings of one book.\<close>

theorem concurrent_borrowing_overlends:
  assumes "u1 \<in> set (db_users d)" "u2 \<in> set (db_users d)" "b \<in> set (db_books d)"
    and "borrowing_errors d u1 b = []" "borrowing_errors d u2 b = []" "available_copies d b = 1"
  shows "\<exists>d'. request_step\<^sup>*\<^sup>* \<lparr>rq_db = d, rq_validated = []\<rparr> \<lparr>rq_db = d', rq_validated = []\<rparr>
    \<and> db_books d' = db_books d \<and> active_borrowings d' (br_id b) = br_total_copies b + 1
    \<and> (u1 = u2 \<longrightarrow> \<not> distinct (active_pairs (db_loans d')))"
proof -
  let ?r = "\<lambda>d rs. \<lparr>rq_db = d, rq_validated = rs\<rparr>"
  let ?d1 = "insert_loan (new_loan 0 (db_next d) (ur_id u1) (br_id b)) d"
  let ?d2 = "insert_loan (new_loan 1 (db_next ?d1) (ur_id u2) (br_id b)) ?d1"
  have "request_step (?r d []) (?r d [(0, u1, b)])"
    using validate [of u1 "?r d []" b 0] assms by simp
  moreover have "request_step (?r d [(0, u1, b)]) (?r d [(0, u1, b), (1, u2, b)])"
    using validate [of u2 "?r d [(0, u1, b)]" b 1] assms by simp
  moreover have "request_step (?r d [(0, u1, b), (1, u2, b)]) (?r ?d1 [(1, u2, b)])"
    using insert_row [of 0 u1 b "?r d [(0, u1, b), (1, u2, b)]"] by simp
  moreover have "request_step (?r ?d1 [(1, u2, b)]) (?r ?d2 [])"
    using insert_row [of 1 u2 b "?r ?d1 [(1, u2, b)]"] by simp
  ultimately have "request_step\<^sup>*\<^sup>* (?r d []) (?r ?d2 [])" by (meson converse_rtranclp_into_rtranclp rtranclp.rtrancl_refl)
  moreover have "active_borrowings ?d2 (br_id b) = br_total_copies b + 1"
    using assms(6) by (simp add: available_copies_def)
  ultimately show ?thesis by (intro exI [of _ ?d2]) simp
qed

end
