(* ===== verification/Js_Number.thy ===== *)
theory Js_Number imports Js_Text Complex_Main begin

text \<open>
  JavaScript numbers as the forms use them: \<open>Number(s)\<close> of the text of a number field, and
  \<open>Number.isNaN\<close>. A finite number is the exact rational its literal denotes (the nearest double of
  it is not modelled); a number field's value is a decimal literal or empty, so the radix prefixes
  and \<open>Infinity\<close>, which \<open>Number\<close> also reads, do not occur in it and read as \<open>NaN\<close> here.
\<close>

datatype js_number = NaN | Num rat

fun is_digit :: "char \<Rightarrow> bool" where
  "is_digit c = (48 \<le> (of_char c :: nat) \<and> (of_char c :: nat) \<le> 57)"

definition digits_value :: "string \<Rightarrow> nat" where
  "digits_value ds = foldl (\<lambda>n d. 10 * n + (of_char d - 48)) 0 ds"

text \<open>An optional sign: the factor it stands for, and what follows it.\<close>

fun read_sign :: "string \<Rightarrow> int \<times> string" where
  "read_sign [] = (1, [])"
| "read_sign (c # cs) =
     (if c = CHR ''-'' then (-1, cs) else if c = CHR ''+'' then (1, cs) else (1, c # cs))"

text \<open>The exponent part: empty, or e or E, an optional sign and at least one digit.\<close>

fun read_exponent :: "string \<Rightarrow> int option" where
  "read_exponent [] = Some 0"
| "read_exponent (c # cs) =
     (if c = CHR ''e'' \<or> c = CHR ''E''
      then (case read_sign cs of (sg, ds) \<Rightarrow>
              if ds \<noteq> [] \<and> list_all is_digit ds then Some (sg * int (digits_value ds)) else None)
      else None)"

definition pow10 :: "int \<Rightarrow> rat" where
  "pow10 e = (if 0 \<le> e then 10 ^ nat e else 1 / 10 ^ nat (- e))"

text \<open>A decimal literal: digits with an optional fraction, at least one digit in all, then an exponent.\<close>

definition read_decimal :: "string \<Rightarrow> rat option" where
  "read_decimal s =
     (let whole = takeWhile is_digit s; s1 = dropWhile is_digit s;
          dotted = (case s1 of c # cs \<Rightarrow> c = CHR ''.'' | [] \<Rightarrow> False);
          frac = (if dotted then takeWhile is_digit (tl s1) else []);
          s2 = (if dotted then dropWhile is_digit (tl s1) else s1)
      in if whole = [] \<and> frac = [] then None
         else map_option
                (\<lambda>e. of_nat (digits_value (whole @ frac)) * pow10 (e - int (length frac)))
                (read_exponent s2))"

definition js_Number :: "string \<Rightarrow> js_number" where
  "js_Number s =
     (let t = js_trim s in
      if t = [] then Num 0
      else (case read_sign t of (sg, u) \<Rightarrow>
              (case read_decimal u of None \<Rightarrow> NaN | Some r \<Rightarrow> Num (of_int sg * r))))"

definition isNaN :: "js_number \<Rightarrow> bool" where
  "isNaN x \<longleftrightarrow> x = NaN"

fun js_less_zero :: "js_number \<Rightarrow> bool" where
  "js_less_zero NaN = False"
| "js_less_zero (Num r) = (r < 0)"

lemma isNaN_simps [simp]: "isNaN NaN" "\<not> isNaN (Num r)"
  by (simp_all add: isNaN_def)

lemma js_Number_empty [simp]: "js_Number [] = Num 0"
  by (simp add: js_Number_def)

end
