(* ===== verification/Ui_Kit.thy ===== *)
theory Ui_Kit imports Api_Client Js_Number begin

text \<open>
  What a component renders, and the shared components of \<open>frontend/src/components\<close>: Button, Badge,
  Card, Input, Modal and Table. A rendered tree keeps its structure, text, controls and handlers;
  of the styling it keeps the variants, from which the class names of the shared components are
  computed as the components compute them. Layout classes written in the pages are left out.
\<close>

section \<open>Rendered trees\<close>

datatype button_variant = Primary | Secondary | Ghost | Danger
datatype button_size = Sm | Md
datatype badge_variant = Badge_Default | Badge_Success | Badge_Warning | Badge_Danger | Badge_Info

text \<open>The value of a field: React is given a string or, for the number fields, a number.\<close>

datatype field_value = Text_Value string | Number_Value js_number

text \<open>
  \<open>Txt\<close> is text, \<open>El\<close> an element with children, \<open>Clickable\<close> an element with an \<open>onClick\<close>, \<open>Btn\<close> a
  button (its \<open>disabled\<close> flag and handler), \<open>Bdg\<close> a badge, \<open>Field\<close> an input with its attributes, value and \<open>onChange\<close>, \<open>Link\<close> a link to a path, the router's or a plain anchor, \<open>On_Key\<close> a listener on the document,
  \<open>Plain_Btn\<close> a button element that is not the shared component, \<open>Select\<close> a select with its value and
  its options (value and label), of which the user can choose one, \<open>Styled\<close> an element whose class
  name the page computes.
\<close>

datatype 'e node =
    Txt string
  | El string "'e node list"
  | Clickable string 'e "'e node list"
  | Btn button_variant button_size bool 'e "'e node list"
  | Bdg badge_variant "'e node list"
  | Field "(string \<times> string) list" field_value "string \<Rightarrow> 'e"
  | Link string "'e node list"
  | On_Key string 'e
  | Plain_Btn bool 'e "'e node list"
  | Select string "(string \<times> string) list" "string \<Rightarrow> 'e"
  | Styled string string "'e node list"

text \<open>
  The events a user can trigger by clicking, choosing or pressing a key: a disabled button triggers
  none.
\<close>

fun offered :: "'e node \<Rightarrow> 'e list" where
  "offered (Txt s) = []"
| "offered (El t ns) = concat (map offered ns)"
| "offered (Clickable t e ns) = e # concat (map offered ns)"
| "offered (Btn v z dis e ns) = (if dis then [] else [e])"
| "offered (Bdg v ns) = concat (map offered ns)"
| "offered (Field ps v h) = []"
| "offered (Link p ns) = concat (map offered ns)"
| "offered (On_Key k e) = [e]"
| "offered (Plain_Btn dis e ns) = (if dis then [] else [e])"
| "offered (Select v opts h) = map (\<lambda>opt. h (fst opt)) opts"
| "offered (Styled t cls ns) = concat (map offered ns)"

text \<open>The handlers of the fields a user can type or choose in.\<close>

fun inputs :: "'e node \<Rightarrow> (string \<Rightarrow> 'e) list" where
  "inputs (Txt s) = []"
| "inputs (El t ns) = concat (map inputs ns)"
| "inputs (Clickable t e ns) = concat (map inputs ns)"
| "inputs (Btn v z dis e ns) = []"
| "inputs (Bdg v ns) = concat (map inputs ns)"
| "inputs (Field ps v h) = [h]"
| "inputs (Link p ns) = []"
| "inputs (On_Key k e) = []"
| "inputs (Plain_Btn dis e ns) = []"
| "inputs (Select v opts h) = []"
| "inputs (Styled t cls ns) = concat (map inputs ns)"

text \<open>The text shown, in document order.\<close>

fun texts :: "'e node \<Rightarrow> string list" where
  "texts (Txt s) = [s]"
| "texts (El t ns) = concat (map texts ns)"
| "texts (Clickable t e ns) = concat (map texts ns)"
| "texts (Btn v z dis e ns) = concat (map texts ns)"
| "texts (Bdg v ns) = concat (map texts ns)"
| "texts (Field ps v h) = []"
| "texts (Link p ns) = concat (map texts ns)"
| "texts (On_Key k e) = []"
| "texts (Plain_Btn dis e ns) = concat (map texts ns)"
| "texts (Select v opts h) = map snd opts"
| "texts (Styled t cls ns) = concat (map texts ns)"

definition node_offers :: "'e node \<Rightarrow> 'e set" where
  "node_offers n = set (offered n) \<union> (\<Union>h\<in>set (inputs n). range h)"

fun offers :: "'e node list \<Rightarrow> 'e set" where
  "offers [] = {}"
| "offers (n # ns) = node_offers n \<union> offers ns"

lemma offers_append [simp]: "offers (ms @ ns) = offers ms \<union> offers ns"
  by (induction ms) auto

lemma offers_concat [simp]: "offers (concat nss) = (\<Union>ns\<in>set nss. offers ns)"
  by (induction nss) auto

lemma offers_map [simp]: "offers (map f xs) = (\<Union>x\<in>set xs. node_offers (f x))"
  by (induction xs) auto

lemma offers_eq_UN: "offers ns = (\<Union>n\<in>set ns. node_offers n)"
  by (induction ns) auto

lemma node_offers_simps [simp]:
  "node_offers (Txt t) = {}"
  "node_offers (El t ns) = offers ns"
  "node_offers (Clickable t e ns) = insert e (offers ns)"
  "node_offers (Btn v z dis e ks) = (if dis then {} else {e})"
  "node_offers (Bdg bv ns) = offers ns"
  "node_offers (Field ps w h) = range h"
  "node_offers (Link p ns) = (\<Union>n\<in>set ns. set (offered n))"
  "node_offers (On_Key k e) = {e}"
  "node_offers (Plain_Btn dis e ks) = (if dis then {} else {e})"
  "node_offers (Styled t cls ns) = offers ns"
  "node_offers (Select sv opts h) = h ` fst ` set opts"
  by (auto simp: node_offers_def offers_eq_UN)

text \<open>The controls of a child component, its events renamed into its parent's.\<close>

lemma offered_map_node: "offered (map_node f n) = map f (offered n)"
proof (induction n)
  case (El t ns)
  then show ?case by (induction ns) auto
next
  case (Clickable t e ns)
  then show ?case by (induction ns) auto
next
  case (Bdg v ns)
  then show ?case by (induction ns) auto
next
  case (Styled t cls ns)
  then show ?case by (induction ns) auto
next
  case (Link p ns)
  then show ?case by (induction ns) auto
qed auto

lemma inputs_map_node: "inputs (map_node f n) = map (\<lambda>h. f \<circ> h) (inputs n)"
proof (induction n)
  case (El t ns)
  then show ?case by (induction ns) auto
next
  case (Clickable t e ns)
  then show ?case by (induction ns) auto
next
  case (Bdg v ns)
  then show ?case by (induction ns) auto
next
  case (Styled t cls ns)
  then show ?case by (induction ns) auto
qed auto

lemma node_offers_map_node [simp]: "node_offers (map_node f n) = f ` node_offers n"
  by (simp add: node_offers_def offered_map_node inputs_map_node image_Un image_UN image_comp)

lemma offers_map_node: "offers (map (map_node f) ns) = f ` offers ns"
  by (induction ns) auto

text \<open>U+2026, which buttons show while loading.\<close>

definition ellipsis :: string where
  "ellipsis = [CHR 0xE2, CHR 0x80, CHR 0xA6]"

text \<open>U+2022, which separates the parts of a line of text.\<close>

definition bullet :: string where
  "bullet = [CHR 0xE2, CHR 0x80, CHR 0xA2]"

section \<open>Class names\<close>

definition Button_class :: "button_variant option \<Rightarrow> button_size option \<Rightarrow> string option \<Rightarrow> string" where
  "Button_class variant sz className =
     (let base = ''inline-flex items-center justify-center rounded-md font-medium transition-colors focus:outline-none focus:ring-2 focus:ring-offset-2 disabled:opacity-50 disabled:cursor-not-allowed'';
          sizes = (\<lambda>z. case z of Sm \<Rightarrow> ''h-8 px-3 text-sm'' | Md \<Rightarrow> ''h-10 px-4'');
          variants = (\<lambda>v. case v of
              Primary \<Rightarrow> ''bg-blue-600 text-white hover:bg-blue-700 focus:ring-blue-600''
            | Secondary \<Rightarrow> ''bg-gray-900 text-white hover:bg-black focus:ring-gray-900''
            | Ghost \<Rightarrow> ''bg-transparent text-gray-900 hover:bg-gray-100 focus:ring-gray-300''
            | Danger \<Rightarrow> ''bg-red-600 text-white hover:bg-red-700 focus:ring-red-600'')
      in js_join '' '' [base, sizes (case sz of None \<Rightarrow> Md | Some z \<Rightarrow> z),
                        variants (case variant of None \<Rightarrow> Primary | Some v \<Rightarrow> v),
                        case className of None \<Rightarrow> [] | Some c \<Rightarrow> c])"

definition Badge_class :: "badge_variant option \<Rightarrow> string option \<Rightarrow> string" where
  "Badge_class variant className =
     (let variants = (\<lambda>v. case v of
              Badge_Default \<Rightarrow> ''bg-gray-100 text-gray-800''
            | Badge_Success \<Rightarrow> ''bg-green-100 text-green-800''
            | Badge_Warning \<Rightarrow> ''bg-yellow-100 text-yellow-800''
            | Badge_Danger \<Rightarrow> ''bg-red-100 text-red-800''
            | Badge_Info \<Rightarrow> ''bg-blue-100 text-blue-800'')
      in js_join '' ''
           [''inline-flex items-center rounded-full px-2.5 py-0.5 text-xs font-medium'',
            variants (case variant of None \<Rightarrow> Badge_Default | Some v \<Rightarrow> v),
            case className of None \<Rightarrow> [] | Some c \<Rightarrow> c])"

definition Card_class :: "string option \<Rightarrow> string" where
  "Card_class className =
     js_join '' '' [''rounded-lg border border-gray-200 bg-white shadow-sm'',
                    case className of None \<Rightarrow> [] | Some c \<Rightarrow> c]"

definition CardHeader_class :: "string option \<Rightarrow> string" where
  "CardHeader_class className =
     js_join '' '' [''p-4 border-b'', case className of None \<Rightarrow> [] | Some c \<Rightarrow> c]"

definition CardContent_class :: "string option \<Rightarrow> string" where
  "CardContent_class className =
     js_join '' '' [''p-4'', case className of None \<Rightarrow> [] | Some c \<Rightarrow> c]"

text \<open>
  The class of a component ends with the class its caller gives, so that the caller's utilities
  come last: a property of every class above.
\<close>

lemma js_join_snoc: "xs \<noteq> [] \<Longrightarrow> js_join sep (xs @ [x]) = js_join sep xs @ sep @ x"
proof (induction sep xs rule: js_join.induct)
  case (3 sep x y zs)
  then show ?case by simp
qed auto

section \<open>Table\<close>

datatype table_part = Table_Table | Table_THead | Table_TBody | Table_TR | Table_TH | Table_TD

definition Table_class :: "string \<Rightarrow> string" where
  "Table_class className = js_join '' '' [''w-full text-left text-sm'', className]"

definition THead_class :: "string \<Rightarrow> string" where
  "THead_class className = js_join '' '' [''bg-gray-50 text-gray-700'', className]"

definition TBody_class :: "string \<Rightarrow> string" where
  "TBody_class className = className"

definition TR_class :: "string \<Rightarrow> string" where
  "TR_class className = js_join '' '' [''border-b last:border-0'', className]"

definition TH_class :: "string \<Rightarrow> string" where
  "TH_class className = js_join '' '' [''p-3 text-xs font-semibold uppercase tracking-wide'', className]"

definition TD_class :: "string \<Rightarrow> string" where
  "TD_class className = js_join '' '' [''p-3 align-middle'', className]"

definition Table :: "'e node list \<Rightarrow> 'e node" where
  "Table children = El ''div'' [El ''div'' [El ''table'' children]]"

definition THead :: "'e node list \<Rightarrow> 'e node" where
  "THead children = El ''thead'' children"

definition TBody :: "'e node list \<Rightarrow> 'e node" where
  "TBody children = El ''tbody'' children"

definition TR :: "'e node list \<Rightarrow> 'e node" where
  "TR children = El ''tr'' children"

definition TH :: "'e node list \<Rightarrow> 'e node" where
  "TH children = El ''th'' children"

definition TD :: "'e node list \<Rightarrow> 'e node" where
  "TD children = El ''td'' children"

lemmas table_defs [simp] = Table_def THead_def TBody_def TR_def TH_def TD_def

section \<open>Card\<close>

definition Card :: "'e node list \<Rightarrow> 'e node" where
  "Card children = El ''div'' children"

definition CardHeader :: "'e node list \<Rightarrow> 'e node" where
  "CardHeader children = El ''div'' children"

definition CardContent :: "'e node list \<Rightarrow> 'e node" where
  "CardContent children = El ''div'' children"

lemmas card_defs [simp] = Card_def CardHeader_def CardContent_def

section \<open>Input\<close>

definition Input_class :: "string option \<Rightarrow> string option \<Rightarrow> string" where
  "Input_class error className =
     js_join '' ''
       [''w-full rounded-md border bg-white px-3 py-2 text-gray-900 placeholder-gray-400 shadow-sm transition focus:outline-none'',
        if truthy error then ''border-red-500 focus:ring-2 focus:ring-red-200''
        else ''border-gray-300 focus:border-gray-400 focus:ring-2 focus:ring-gray-200'',
        case className of None \<Rightarrow> [] | Some c \<Rightarrow> c]"

text \<open>
  The error, when there is one, takes the place of the hint. \<open>props\<close> are the attributes passed on
  to the input.
\<close>

definition Input ::
    "string option \<Rightarrow> string option \<Rightarrow> string option \<Rightarrow> (string \<times> string) list \<Rightarrow> field_value
     \<Rightarrow> (string \<Rightarrow> 'e) \<Rightarrow> 'e node" where
  "Input label hint error props value onChange =
     El ''label''
       ((if truthy label then [El ''span'' [Txt (the label)]] else [])
        @ [Field ((''className'', Input_class error None) # props) value onChange]
        @ (if truthy error then [El ''span'' [Txt (the error)]]
           else if truthy hint then [El ''span'' [Txt (the hint)]] else []))"

lemma offers_Input [simp]: "node_offers (Input l h er ps v f) = range f"
  by (simp add: Input_def)

lemma texts_Input:
  "texts (Input l h er ps v f) =
     (if truthy l then [the l] else [])
     @ (if truthy er then [the er] else if truthy h then [the h] else [])"
  by (simp add: Input_def)

section \<open>Modal\<close>

text \<open>
  A closed modal renders nothing and listens to nothing; an open one closes on its backdrop and on
  the Escape key, whatever its buttons do.
\<close>

definition Modal ::
    "bool \<Rightarrow> 'e \<Rightarrow> string option \<Rightarrow> 'e node list \<Rightarrow> 'e node list \<Rightarrow> 'e node list" where
  "Modal isOpen onClose title children footer =
     (if \<not> isOpen then []
      else [On_Key ''Escape'' onClose,
            El ''div''
              ([Clickable ''div'' onClose []]
               @ [El ''div''
                    ((if truthy title then [El ''div'' [Txt (the title)]] else [])
                     @ [El ''div'' children]
                     @ (if footer \<noteq> [] then [El ''div'' [El ''div'' footer]] else []))])])"

lemma Modal_closed [simp]: "Modal False c t ks fs = []"
  by (simp add: Modal_def)

lemma offers_Modal [simp]:
  "offers (Modal op c t ks fs) = (if op then insert c (offers ks \<union> offers fs) else {})"
  by (auto simp: Modal_def)

end
