(* ===== verification/Paging.thy ===== *)
theory Paging imports Ui_Kit begin

text \<open>
  The interface between the five paged lists of the client and the endpoints that serve them. A
  page shows \<open>Prev\<close> and \<open>Next\<close> by the rule every list repeats; an endpoint serves slices of
  twenty-five. The locales state the two sides; what follows for a user who browses is proved once.
\<close>

section \<open>Slices\<close>

definition per_page :: nat where
  "per_page = 25"

definition page_slice :: "'i list \<Rightarrow> int \<Rightarrow> 'i list" where
  "page_slice xs p = take per_page (drop (per_page * nat (p - 1)) xs)"

lemma page_slice_map: "page_slice (map f xs) p = map f (page_slice xs p)"
  by (simp add: page_slice_def take_map drop_map)

lemma set_page_slice: "set (page_slice xs p) \<subseteq> set xs"
  by (auto simp: page_slice_def dest: in_set_takeD in_set_dropD)

lemma length_page_slice_le: "length (page_slice xs p) \<le> 25"
  by (simp add: page_slice_def per_page_def)

lemma page_slice_full_iff:
  "1 \<le> p \<Longrightarrow> length (page_slice xs p) = 25 \<longleftrightarrow> 25 * nat p \<le> length xs"
  by (auto simp: page_slice_def per_page_def nat_diff_distrib)

lemma page_slice_last:
  assumes "1 \<le> p" "length (page_slice xs p) < 25"
  shows "page_slice xs p = drop (25 * nat (p - 1)) xs"
  using assms by (simp add: page_slice_def per_page_def)

lemma page_slice_split:
  assumes "1 \<le> p"
  shows "drop (25 * nat (p - 1)) xs = page_slice xs p @ drop (25 * nat p) xs"
proof -
  have "nat p = Suc (nat (p - 1))" using assms by simp
  then have "drop (25 * nat p) xs = drop 25 (drop (25 * nat (p - 1)) xs)"
    by (simp add: add.commute)
  then show ?thesis
    using append_take_drop_id [of 25 "drop (25 * nat (p - 1)) xs"]
    by (simp add: page_slice_def per_page_def)
qed

section \<open>The client's side: a paged list\<close>

text \<open>The controls under each list, for a page number and the number of records shown.\<close>

definition pager_controls :: "int \<Rightarrow> nat \<Rightarrow> 'e \<Rightarrow> 'e \<Rightarrow> 'e node list" where
  "pager_controls p n prev next =
     (if 1 < p \<or> n = 25
      then [El ''div''
              [El ''span'' [Txt ''Page '', Txt (int_digits p)],
               Btn Secondary Sm (p = 1) prev [Txt ''Prev''],
               Btn Secondary Sm (n < 25) next [Txt ''Next'']]]
      else [])"

lemma offers_pager_controls [simp]:
  "offers (pager_controls p n prev next) =
     (if 1 < p \<or> n = 25 then (if p = 1 then {} else {prev}) \<union> (if n < 25 then {} else {next}) else {})"
  by (simp add: pager_controls_def)

locale pager =
  fixes page :: "'s \<Rightarrow> int"
    and items :: "'s \<Rightarrow> 'i list"
    and go_prev :: "'s \<Rightarrow> 's"
    and go_next :: "'s \<Rightarrow> 's"
    and controls :: "'s \<Rightarrow> 'e node list"
    and ev_prev :: 'e
    and ev_next :: 'e
  assumes page_prev: "page (go_prev s) = max 1 (page s - 1)"
    and page_next: "page (go_next s) = page s + 1"
    and prev_offered:
      "ev_prev \<in> offers (controls s) \<longleftrightarrow> (1 < page s \<or> length (items s) = 25) \<and> page s \<noteq> 1"
    and next_offered:
      "ev_next \<in> offers (controls s) \<longleftrightarrow>
       (1 < page s \<or> length (items s) = 25) \<and> \<not> length (items s) < 25"
begin

lemma prev_positive: "1 \<le> page (go_prev s)"
  by (simp add: page_prev)

lemma next_positive: "1 \<le> page s \<Longrightarrow> 1 \<le> page (go_next s)"
  by (simp add: page_next)

lemma prev_next: "1 \<le> page s \<Longrightarrow> page (go_prev (go_next s)) = page s"
  by (simp add: page_prev page_next)

lemma first_page_no_prev: "page s = 1 \<Longrightarrow> ev_prev \<notin> offers (controls s)"
  by (simp add: prev_offered)

lemma short_page_no_next: "length (items s) < 25 \<Longrightarrow> ev_next \<notin> offers (controls s)"
  by (simp add: next_offered)

lemma full_page_next: "length (items s) = 25 \<Longrightarrow> ev_next \<in> offers (controls s)"
  by (simp add: next_offered)

lemma later_page_prev: "1 < page s \<Longrightarrow> ev_prev \<in> offers (controls s)"
  by (simp add: prev_offered)

end

section \<open>The provider's side: an endpoint that serves slices\<close>

locale page_source =
  fixes fetch :: "int \<Rightarrow> 'i list"
    and rows :: "'i list"
  assumes fetch_slice: "1 \<le> p \<Longrightarrow> fetch p = page_slice rows p"
begin

lemma fetch_length: "1 \<le> p \<Longrightarrow> length (fetch p) \<le> 25"
  by (simp add: fetch_slice length_page_slice_le)

lemma fetch_rows: "1 \<le> p \<Longrightarrow> set (fetch p) \<subseteq> set rows"
  by (simp add: fetch_slice set_page_slice)

end

section \<open>Browsing: the two sides together\<close>

text \<open>
  \<open>load\<close> delivers to the page the endpoint's reply for its current page number, as long as the page
  still has the query (\<open>same_query\<close>) the endpoint's rows are those of. \<open>browse\<close> follows \<open>Next\<close> for as
  long as it is offered and collects what was shown.
\<close>

locale browsing =
  pager page items go_prev go_next controls ev_prev ev_next + page_source fetch rows
  for page :: "'s \<Rightarrow> int" and items :: "'s \<Rightarrow> 'i list" and go_prev go_next :: "'s \<Rightarrow> 's"
    and controls :: "'s \<Rightarrow> 'e node list" and ev_prev ev_next :: 'e
    and fetch :: "int \<Rightarrow> 'i list" and rows :: "'i list" +
  fixes load :: "'s \<Rightarrow> 's"
    and same_query :: "'s \<Rightarrow> bool"
  assumes page_load: "same_query s \<Longrightarrow> page (load s) = page s"
    and items_load: "same_query s \<Longrightarrow> items (load s) = fetch (page s)"
    and query_load: "same_query s \<Longrightarrow> same_query (load s)"
    and query_next: "same_query s \<Longrightarrow> same_query (go_next s)"
begin

fun browse :: "nat \<Rightarrow> 's \<Rightarrow> 'i list" where
  "browse 0 s = []"
| "browse (Suc n) s =
     items s @ (if ev_next \<in> offers (controls s) then browse n (load (go_next s)) else [])"

lemma browse_rest:
  assumes "1 \<le> page s" "items s = fetch (page s)" "same_query s"
    and "length rows < 25 * (nat (page s - 1) + n)"
  shows "browse n s = drop (25 * nat (page s - 1)) rows"
  using assms
proof (induction n arbitrary: s)
  case 0
  then show ?case by simp
next
  case (Suc n)
  have slice: "items s = page_slice rows (page s)"
    using Suc.prems by (simp add: fetch_slice)
  show ?case
  proof (cases "length (items s) < 25")
    case True
    with slice Suc.prems(1) page_slice_last [of "page s" rows] show ?thesis
      by (simp add: next_offered)
  next
    case False
    then have full: "ev_next \<in> offers (controls s)"
      using length_page_slice_le [of rows "page s"] slice by (simp add: next_offered)
    have "browse n (load (go_next s)) = drop (25 * nat (page (load (go_next s)) - 1)) rows"
      using Suc.prems
      by (intro Suc.IH) (auto simp: page_load page_next items_load query_load query_next nat_add_distrib)
    with full slice page_slice_split [OF Suc.prems(1), of rows] Suc.prems(3) show ?thesis
      by (simp add: page_load page_next query_next)
  qed
qed

lemma browse_complete:
  assumes "page s = 1" "items s = fetch 1" "same_query s" "length rows < 25 * n"
  shows "browse n s = rows"
  using browse_rest [of s n] assms by simp

end

end
