(* ===== verification/Auth_Context.thy ===== *)
theory Auth_Context imports Api_Client begin

text \<open>
  \<open>frontend/src/context/AuthContext.tsx\<close>: the reducer, and the provider with its asynchronous
  operations. Each operation is split at its \<open>await\<close>s: what runs before the first one, what runs
  when a reply arrives. The provider's steps are a relation in which the pending operations
  advance in any order, since nothing in the code keeps them from overlapping.
\<close>

section \<open>The reducer\<close>

record auth_state =
  au_user :: "user_json option"
  au_loading :: bool
  au_error :: "string option"

datatype auth_action = Act_Loading | Act_Loaded "user_json option" | Act_Error string

fun reducer :: "auth_state \<Rightarrow> auth_action \<Rightarrow> auth_state" where
  "reducer state Act_Loading = state\<lparr>au_loading := True, au_error := None\<rparr>"
| "reducer state (Act_Loaded u) = state\<lparr>au_loading := False, au_user := u\<rparr>"
| "reducer state (Act_Error e) = state\<lparr>au_loading := False, au_error := Some e\<rparr>"

definition initial_auth :: auth_state where
  "initial_auth = \<lparr>au_user = None, au_loading = True, au_error = None\<rparr>"

text \<open>\<open>res.data?.user ?? null\<close>, for a payload whose \<open>user\<close> may be null.\<close>

definition payload_user :: "user_json option option \<Rightarrow> user_json option" where
  "payload_user data = Option.bind data (\<lambda>u. u)"

text \<open>\<open>state.user?.role === 'librarian'\<close>, the test the librarian's pages repeat.\<close>

definition is_librarian :: "auth_state \<Rightarrow> bool" where
  "is_librarian state =
     (case au_user state of None \<Rightarrow> False | Some u \<Rightarrow> uj_role u = Librarian)"

section \<open>The operations between their awaits\<close>

definition mount_finish :: "user_json option reply \<Rightarrow> auth_state \<Rightarrow> auth_state" where
  [handler_defs]: "mount_finish r s =
     (case r of
        Resolved data \<Rightarrow> reducer s (Act_Loaded (payload_user data))
      | Rejected e \<Rightarrow> reducer s (Act_Loaded None))"

definition login_start :: "auth_state \<Rightarrow> auth_state" where
  [handler_defs]: "login_start s = reducer s Act_Loading"

definition login_finish :: "user_json option reply \<Rightarrow> auth_state \<Rightarrow> auth_state \<times> bool" where
  [handler_defs]: "login_finish r s =
     (case r of
        Resolved data \<Rightarrow> (reducer s (Act_Loaded (payload_user data)), True)
      | Rejected e \<Rightarrow>
          (reducer s (Act_Error
             (js_or (js_or_opt (body_error e) (thrown_message e)) ''Login failed'')), False))"

definition logout_start :: "auth_state \<Rightarrow> auth_state" where
  [handler_defs]: "logout_start s = reducer s Act_Loading"

text \<open>The \<open>finally\<close> runs on both outcomes; the boolean says whether the operation then throws.\<close>

definition logout_finish :: "unit reply \<Rightarrow> auth_state \<Rightarrow> auth_state \<times> bool" where
  [handler_defs]: "logout_finish r s =
     (reducer s (Act_Loaded None), (case r of Resolved data \<Rightarrow> False | Rejected e \<Rightarrow> True))"

definition refresh_start :: "auth_state \<Rightarrow> auth_state" where
  [handler_defs]: "refresh_start s = reducer s Act_Loading"

definition refresh_finish :: "user_json option reply \<Rightarrow> auth_state \<Rightarrow> auth_state" where
  [handler_defs]: "refresh_finish r s =
     (case r of
        Resolved data \<Rightarrow> reducer s (Act_Loaded (payload_user data))
      | Rejected e \<Rightarrow> reducer s (Act_Loaded None))"

lemma starts_loading [simp]:
  "au_loading (login_start s)" "au_loading (logout_start s)" "au_loading (refresh_start s)"
  by (simp_all add: handler_defs)

lemma finishes_settled [simp]:
  "\<not> au_loading (mount_finish r s)" "\<not> au_loading (fst (login_finish r s))"
  "\<not> au_loading (fst (logout_finish u s))" "\<not> au_loading (refresh_finish r s)"
  by (simp_all add: handler_defs split: reply.split)

lemma start_user [simp]:
  "au_user (login_start s) = au_user s" "au_user (logout_start s) = au_user s"
  "au_user (refresh_start s) = au_user s"
  by (simp_all add: handler_defs)

lemma start_error [simp]:
  "au_error (login_start s) = None" "au_error (logout_start s) = None"
  "au_error (refresh_start s) = None"
  by (simp_all add: handler_defs)

lemma login_finish_cases:
  "login_finish r s =
     (case r of
        Resolved data \<Rightarrow> (s\<lparr>au_loading := False, au_user := payload_user data\<rparr>, True)
      | Rejected e \<Rightarrow> (s\<lparr>au_loading := False,
          au_error := Some (js_or (js_or_opt (body_error e) (thrown_message e)) ''Login failed'')\<rparr>, False))"
  by (simp add: handler_defs split: reply.split)

section \<open>The provider\<close>

text \<open>
  A pending operation waits for the CSRF token (the constructors ending in 1) or for the reply to
  its own request (those ending in 2; \<open>refresh\<close> has only that one).
\<close>

datatype auth_task =
    Mount1 | Mount2
  | Login1 string string | Login2 string string
  | Logout1 | Logout2
  | Refresh2

record provider =
  auth :: auth_state
  client :: api_client
  tasks :: "auth_task list"

text \<open>Mounting runs the effect, whose first await is \<open>ensureCsrfToken\<close>.\<close>

definition initial_provider :: "string option \<Rightarrow> provider" where
  "initial_provider env = \<lparr>auth = initial_auth, client = api env, tasks = [Mount1]\<rparr>"

definition advance :: "auth_task \<Rightarrow> auth_task list \<Rightarrow> provider \<Rightarrow> provider" where
  "advance t ts p = p\<lparr>tasks := remove1 t (tasks p) @ ts\<rparr>"

inductive auth_step :: "provider \<Rightarrow> provider \<Rightarrow> bool" where
  mount_csrf:
    "Mount1 \<in> set (tasks p) \<Longrightarrow>
     auth_step p (advance Mount1 [Mount2] (p\<lparr>client := ensureCsrfToken c (client p)\<rparr>))"
| mount_done:
    "Mount2 \<in> set (tasks p) \<Longrightarrow>
     auth_step p (advance Mount2 [] (p\<lparr>auth := mount_finish r (auth p)\<rparr>))"
| login_call:
    "auth_step p (p\<lparr>auth := login_start (auth p), tasks := tasks p @ [Login1 email password]\<rparr>)"
| login_csrf:
    "Login1 email password \<in> set (tasks p) \<Longrightarrow>
     auth_step p (advance (Login1 email password) [Login2 email password]
       (p\<lparr>client := ensureCsrfToken c (client p)\<rparr>))"
| login_done:
    "Login2 email password \<in> set (tasks p) \<Longrightarrow>
     auth_step p (advance (Login2 email password) [] (p\<lparr>auth := fst (login_finish r (auth p))\<rparr>))"
| logout_call:
    "auth_step p (p\<lparr>auth := logout_start (auth p), tasks := tasks p @ [Logout1]\<rparr>)"
| logout_csrf:
    "Logout1 \<in> set (tasks p) \<Longrightarrow>
     auth_step p (advance Logout1 [Logout2] (p\<lparr>client := ensureCsrfToken c (client p)\<rparr>))"
| logout_done:
    "Logout2 \<in> set (tasks p) \<Longrightarrow>
     auth_step p (advance Logout2 [] (p\<lparr>auth := fst (logout_finish u (auth p))\<rparr>))"
| refresh_call:
    "auth_step p (p\<lparr>auth := refresh_start (auth p), tasks := tasks p @ [Refresh2]\<rparr>)"
| refresh_done:
    "Refresh2 \<in> set (tasks p) \<Longrightarrow>
     auth_step p (advance Refresh2 [] (p\<lparr>auth := refresh_finish r (auth p)\<rparr>))"

inductive auth_reachable :: "string option \<Rightarrow> provider \<Rightarrow> bool" for env where
  start: "auth_reachable env (initial_provider env)"
| step: "auth_reachable env p \<Longrightarrow> auth_step p q \<Longrightarrow> auth_reachable env q"

inductive_cases auth_stepE: "auth_step p q"

lemma advance_simps [simp]:
  "auth (advance t ts p) = auth p" "client (advance t ts p) = client p"
  "tasks (advance t ts p) = remove1 t (tasks p) @ ts"
  by (simp_all add: advance_def)

section \<open>Invariants of the provider\<close>

text \<open>
  The spinner is shown only while some operation is pending; an error message is only there when
  no user operation is loading; the axios instance keeps what it was created with.
\<close>

definition auth_inv :: "string option \<Rightarrow> provider \<Rightarrow> bool" where
  "auth_inv env p \<longleftrightarrow>
     (au_loading (auth p) \<longrightarrow> tasks p \<noteq> [])
     \<and> (au_error (auth p) \<noteq> None \<longrightarrow> \<not> au_loading (auth p))
     \<and> base_url (client p) = base_url (api env)
     \<and> with_credentials (client p)
     \<and> request_headers (client p) = request_headers (api env)"

lemma auth_inv_initial: "auth_inv env (initial_provider env)"
  by (simp add: auth_inv_def initial_provider_def initial_auth_def api_def)

lemma finishes_error:
  "au_error (mount_finish r s) = au_error s"
  "au_error (refresh_finish r s) = au_error s"
  "au_error (fst (logout_finish u s)) = au_error s"
  by (simp_all add: handler_defs split: reply.split)

lemma auth_step_inv: "auth_step p q \<Longrightarrow> auth_inv env p \<Longrightarrow> auth_inv env q"
  by (induction rule: auth_step.induct)
     (auto simp: auth_inv_def ensureCsrfToken_frame finishes_error)

lemma auth_reachable_inv: "auth_reachable env p \<Longrightarrow> auth_inv env p"
  by (induction rule: auth_reachable.induct) (auto intro: auth_inv_initial auth_step_inv)

text \<open>In every reachable state of the provider, however its operations overlap, the loading flag
  is off once no operation is pending: the application never stays on its loading screen.\<close>

theorem auth_not_stuck_loading:
  assumes "auth_reachable env p" and "tasks p = []"
  shows "\<not> au_loading (auth p)"
  using auth_reachable_inv [OF assms(1)] assms(2) by (auto simp: auth_inv_def)

section \<open>Termination\<close>

text \<open>The replies a pending operation still waits for.\<close>

fun task_replies :: "auth_task \<Rightarrow> nat" where
  "task_replies Mount1 = 2"
| "task_replies Mount2 = 1"
| "task_replies (Login1 email password) = 2"
| "task_replies (Login2 email password) = 1"
| "task_replies Logout1 = 2"
| "task_replies Logout2 = 1"
| "task_replies Refresh2 = 1"

definition pending_replies :: "provider \<Rightarrow> nat" where
  "pending_replies p = sum_list (map task_replies (tasks p))"

text \<open>A step that starts no operation: a reply arrives.\<close>

definition auth_reply :: "provider \<Rightarrow> provider \<Rightarrow> bool" where
  "auth_reply p q \<longleftrightarrow> auth_step p q \<and> length (tasks q) \<le> length (tasks p)"

lemma pending_advance:
  "t \<in> set (tasks p) \<Longrightarrow>
   pending_replies (advance t ts p) + task_replies t = pending_replies p + sum_list (map task_replies ts)"
  by (simp add: pending_replies_def sum_list_map_remove1 [of t "tasks p"])

lemma pending_fields [simp]:
  "pending_replies (p\<lparr>auth := a\<rparr>) = pending_replies p"
  "pending_replies (p\<lparr>client := c\<rparr>) = pending_replies p"
  by (simp_all add: pending_replies_def)

lemma auth_reply_decreases: "auth_reply p q \<Longrightarrow> Suc (pending_replies q) = pending_replies p"
  unfolding auth_reply_def
proof (elim conjE)
  assume "auth_step p q" "length (tasks q) \<le> length (tasks p)"
  then show ?thesis
  proof (induction rule: auth_step.induct)
    case (mount_csrf p c)
    then show ?case using pending_advance [of Mount1 "p\<lparr>client := ensureCsrfToken c (client p)\<rparr>" "[Mount2]"] by simp
  next
    case (mount_done p r)
    then show ?case using pending_advance [of Mount2 "p\<lparr>auth := mount_finish r (auth p)\<rparr>" "[]"] by simp
  next
    case (login_csrf e w p c)
    then show ?case
      using pending_advance [of "Login1 e w" "p\<lparr>client := ensureCsrfToken c (client p)\<rparr>" "[Login2 e w]"] by simp
  next
    case (login_done e w p r)
    then show ?case
      using pending_advance [of "Login2 e w" "p\<lparr>auth := fst (login_finish r (auth p))\<rparr>" "[]"] by simp
  next
    case (logout_csrf p c)
    then show ?case using pending_advance [of Logout1 "p\<lparr>client := ensureCsrfToken c (client p)\<rparr>" "[Logout2]"] by simp
  next
    case (logout_done p u)
    then show ?case using pending_advance [of Logout2 "p\<lparr>auth := fst (logout_finish u (auth p))\<rparr>" "[]"] by simp
  next
    case (refresh_done p r)
    then show ?case using pending_advance [of Refresh2 "p\<lparr>auth := refresh_finish r (auth p)\<rparr>" "[]"] by simp
  qed simp_all
qed

lemma reply_possible:
  assumes "t \<in> set (tasks p)"
  shows "\<exists>q. auth_reply p q"
proof -
  have one: "auth_reply p (advance t [t'] p')"
    if "auth_step p (advance t [t'] p')" "tasks p' = tasks p" for t' p'
    using length_pos_if_in_set [OF assms] assms that by (auto simp: auth_reply_def length_remove1)
  have none: "auth_reply p (advance t [] p')"
    if "auth_step p (advance t [] p')" "tasks p' = tasks p" for p'
    using assms that by (auto simp: auth_reply_def length_remove1)
  show ?thesis
  proof (cases t)
    case Mount1
    with assms one [OF mount_csrf [of p, folded Mount1]] show ?thesis by auto
  next
    case Mount2
    with assms none [OF mount_done [of p, folded Mount2]] show ?thesis by auto
  next
    case (Login1 e w)
    with assms one [OF login_csrf [of e w p, folded Login1]] show ?thesis by auto
  next
    case (Login2 e w)
    with assms none [OF login_done [of e w p, folded Login2]] show ?thesis by auto
  next
    case Logout1
    with assms one [OF logout_csrf [of p, folded Logout1]] show ?thesis by auto
  next
    case Logout2
    with assms none [OF logout_done [of p, folded Logout2]] show ?thesis by auto
  next
    case Refresh2
    with assms none [OF refresh_done [of p, folded Refresh2]] show ?thesis by auto
  qed
qed

text \<open>C17. The session always settles. However many operations overlap, the replies they wait for are finitely
  many and there is no endless run of replies; as long as an operation is pending a reply can
  arrive; and where a reachable provider has none left, nothing is pending and the loading screen is
  gone.
\<close>

theorem auth_settles:
  assumes "auth_reachable env p"
  shows "wfP (\<lambda>r q. auth_reply q r)
    \<and> (\<forall>q. (auth_reply ^^ n) p q \<longrightarrow> n \<le> pending_replies p)
    \<and> ((\<nexists>q. auth_reply p q) \<longrightarrow> tasks p = [] \<and> \<not> au_loading (auth p))"
proof (intro conjI)
  show "wfP (\<lambda>r q. auth_reply q r)"
    by (rule wfp_if_convertible_to_nat [of _ pending_replies]) (auto dest: auth_reply_decreases)
  have "n + pending_replies q = pending_replies p" if "(auth_reply ^^ n) p q" for q
    using that
  proof (induction n arbitrary: q)
    case (Suc n)
    then obtain r where "(auth_reply ^^ n) p r" "auth_reply r q" by auto
    with Suc.IH [of r] auth_reply_decreases [of r q] show ?case by simp
  qed simp
  then show "\<forall>q. (auth_reply ^^ n) p q \<longrightarrow> n \<le> pending_replies p" by fastforce
  show "(\<nexists>q. auth_reply p q) \<longrightarrow> tasks p = [] \<and> \<not> au_loading (auth p)"
  proof
    assume "\<nexists>q. auth_reply p q"
    then have "tasks p = []" using reply_possible [of _ p] by (cases "tasks p") auto
    with auth_reachable_inv [OF assms] show "tasks p = [] \<and> \<not> au_loading (auth p)"
      by (auto simp: auth_inv_def)
  qed
qed

section \<open>Access to the session\<close>

text \<open>
  The provider hands its state to the components below it; outside of a provider \<open>useAuth\<close> throws
  (\<open>Inl\<close>).
\<close>

definition provided :: "provider option \<Rightarrow> auth_state option" where
  "provided ctx = map_option auth ctx"

definition useAuth :: "auth_state option \<Rightarrow> string + auth_state" where
  "useAuth ctx =
     (case ctx of
        None \<Rightarrow> Inl ''useAuth must be used within AuthProvider''
      | Some st \<Rightarrow> Inr st)"

lemma useAuth_provided:
  "useAuth (provided (Some p)) = Inr (auth p)"
  "useAuth (provided None) = Inl ''useAuth must be used within AuthProvider''"
  by (simp_all add: useAuth_def provided_def)

end
