(* ===== verification/Borrowing_Lists.thy ===== *)
theory Borrowing_Lists imports Paging Auth_Context begin

text \<open>
  What the librarian's and the member's list of borrowings share: the parameters of
  \<open>GET /borrowings\<close>, the day count behind the status badge, and the contract of the sortable
  headers, as a locale.
\<close>

section \<open>Parameters of the list request\<close>

datatype sort_key = By_Borrowed_At | By_Due_Date
datatype direction = Asc | Desc

text \<open>The status is the select's value; \<open>q\<close> and \<open>date\<close> are left out of the request when empty.\<close>

record list_params =
  lp_page :: int
  lp_sort :: sort_key
  lp_status :: string
  lp_direction :: direction
  lp_q :: "string option"
  lp_date :: "string option"

text \<open>\<open>v || undefined\<close>.\<close>

definition or_undefined :: "string \<Rightarrow> string option" where
  "or_undefined v = (if v = [] then None else Some v)"

definition status_values :: "string set" where
  "status_values = {''all'', ''borrowed'', ''returned'', ''overdue''}"

definition status_options :: "(string \<times> string) list" where
  "status_options =
     [(''all'', ''All''), (''borrowed'', ''Borrowed''), (''overdue'', ''Overdue''), (''returned'', ''Returned'')]"

lemma fst_status_options: "fst ` set status_options = status_values"
  by (auto simp: status_options_def status_values_def)

section \<open>Days until due\<close>

text \<open>
  \<open>Math.ceil((dueDate.getTime() - today.getTime()) / (1000 * 60 * 60 * 24))\<close>, with the due date at
  midnight UTC: the difference between the due date and the current UTC date.
\<close>

definition days_until_due :: "int \<Rightarrow> date \<Rightarrow> int" where
  "days_until_due t due = ceil_div (date_only_ms due - t) day_ms"

lemma ceil_div_shift: "0 < b \<Longrightarrow> ceil_div (a * b - t) b = a - t div b"
  using div_mult_self1 [of b t "- a"] by (simp add: ceil_div_def algebra_simps)

lemma days_until_due_eq: "days_until_due t due = day_no due - day_no (utc_date t)"
  by (simp add: days_until_due_def date_only_ms_def utc_date_def ceil_div_shift day_ms_def)

lemma days_until_due_window:
  "days_until_due t due \<le> n \<and> 0 \<le> days_until_due t due \<longleftrightarrow>
   utc_date t \<le> due \<and> due \<le> date_add (utc_date t) n"
  by (auto simp: days_until_due_eq less_eq_date_def)

text \<open>The arrows U+2191 and U+2193 in UTF-8.\<close>

definition up_arrow :: string where
  "up_arrow = [CHR 0xE2, CHR 0x86, CHR 0x91]"

definition down_arrow :: string where
  "down_arrow = [CHR 0xE2, CHR 0x86, CHR 0x93]"

section \<open>Sortable headers\<close>

text \<open>
  A header click flips the direction of the active column and gives an inactive column its default
  direction; both return to the first page.
\<close>

locale sortable =
  fixes sort :: "'s \<Rightarrow> sort_key"
    and dir :: "'s \<Rightarrow> direction"
    and pageno :: "'s \<Rightarrow> int"
    and click :: "sort_key \<Rightarrow> 's \<Rightarrow> 's"
  assumes click_sort: "sort (click k s) = k"
    and click_page: "pageno (click k s) = 1"
    and click_active: "sort s = k \<Longrightarrow> dir (click k s) = (if dir s = Asc then Desc else Asc)"
    and click_inactive:
      "sort s \<noteq> k \<Longrightarrow> dir (click k s) = (case k of By_Borrowed_At \<Rightarrow> Desc | By_Due_Date \<Rightarrow> Asc)"
begin

lemma click_twice: "sort s = k \<Longrightarrow> dir (click k (click k s)) = dir s"
  by (cases "dir s") (simp_all add: click_active click_sort)

text \<open>Any column and direction can be reached with at most two clicks on that column.\<close>

lemma reach_any: "\<exists>n\<in>{1, 2, 3}. sort ((click k ^^ n) s) = k \<and> dir ((click k ^^ n) s) = d"
proof -
  let ?s1 = "click k s"
  have s1: "sort ?s1 = k" by (rule click_sort)
  have flip: "dir (click k ?s1) \<noteq> dir ?s1" using click_active [OF s1] by (cases "dir ?s1") auto
  have "dir ?s1 = d \<or> dir (click k ?s1) = d"
    using flip by (cases d; cases "dir ?s1"; cases "dir (click k ?s1)") auto
  then show ?thesis
  proof
    assume "dir ?s1 = d"
    with s1 show ?thesis by (intro bexI [of _ 1]) auto
  next
    assume "dir (click k ?s1) = d"
    then show ?thesis by (intro bexI [of _ 2]) (auto simp: numeral_2_eq_2 click_sort)
  qed
qed

end

end
