(* ===== verification/Librarian_Books.thy ===== *)
theory Librarian_Books imports Paging Auth_Context begin

text \<open>
  \<open>frontend/src/pages/librarian/Books.tsx\<close>: the catalogue with its search and pages, the dialogue
  that creates a book, and \<open>EditBookInline\<close>, the edit and delete controls of one row.
\<close>

section \<open>The form and its validation\<close>

text \<open>A \<open>Partial<Book>\<close>: an absent field is \<open>None\<close>.\<close>

record book_form =
  bf_title :: "string option"
  bf_author :: "string option"
  bf_genre :: "string option"
  bf_isbn :: "string option"
  bf_total_copies :: "js_number option"

definition empty_book_form :: book_form where
  "empty_book_form = \<lparr>bf_title = Some [], bf_author = Some [], bf_genre = Some [],
     bf_isbn = Some [], bf_total_copies = Some (Num 1)\<rparr>"

definition book_to_form :: "book_json \<Rightarrow> book_form" where
  "book_to_form b = \<lparr>bf_title = Some (bj_title b), bf_author = Some (bj_author b),
     bf_genre = Some (bj_genre b), bf_isbn = Some (bj_isbn b),
     bf_total_copies = Some (Num (of_int (bj_total_copies b)))\<rparr>"

definition required_field :: "string \<Rightarrow> string \<Rightarrow> string option \<Rightarrow> field_errors" where
  "required_field k msg v = (if missing v then [(k, Some msg)] else [])"

definition copies_field :: "js_number option \<Rightarrow> field_errors" where
  "copies_field v =
     (case v of
        None \<Rightarrow> [(''total_copies'', Some ''Copies must be a number'')]
      | Some x \<Rightarrow>
          if isNaN x then [(''total_copies'', Some ''Copies must be a number'')]
          else if js_less_zero x then [(''total_copies'', Some ''Copies must be 0 or more'')]
          else [])"

definition validate_new_book :: "book_form \<Rightarrow> field_errors" where
  "validate_new_book f =
     required_field ''title'' ''Title is required'' (bf_title f)
     @ required_field ''author'' ''Author is required'' (bf_author f)
     @ required_field ''genre'' ''Genre is required'' (bf_genre f)
     @ required_field ''isbn'' ''ISBN is required'' (bf_isbn f)
     @ copies_field (bf_total_copies f)"

definition validate_edited_book :: "book_form \<Rightarrow> field_errors" where
  "validate_edited_book f =
     required_field ''title'' ''Title is required'' (bf_title f)
     @ required_field ''author'' ''Author is required'' (bf_author f)
     @ required_field ''genre'' ''Genre is required'' (bf_genre f)
     @ required_field ''isbn'' ''ISBN is required'' (bf_isbn f)
     @ copies_field (bf_total_copies f)"

definition book_form_ok :: "book_form \<Rightarrow> bool" where
  "book_form_ok f \<longleftrightarrow>
     \<not> missing (bf_title f) \<and> \<not> missing (bf_author f) \<and> \<not> missing (bf_genre f)
     \<and> \<not> missing (bf_isbn f) \<and> (\<exists>r\<ge>0. bf_total_copies f = Some (Num r))"

lemma copies_field_Nil_iff: "copies_field v = [] \<longleftrightarrow> (\<exists>r\<ge>0. v = Some (Num r))"
  by (cases v rule: option.exhaust; cases "the v") (auto simp: copies_field_def)

lemma validate_book_Nil_iff:
  "validate_new_book f = [] \<longleftrightarrow> book_form_ok f"
  "validate_edited_book f = [] \<longleftrightarrow> book_form_ok f"
  by (auto simp: validate_new_book_def validate_edited_book_def required_field_def
        copies_field_Nil_iff book_form_ok_def)

section \<open>One row: EditBookInline\<close>

record edit_book =
  ed_editing :: bool
  ed_form :: book_form
  ed_loading :: bool
  ed_errors :: field_errors

datatype ed_event =
    ED_Edit | ED_Close
  | ED_SetTitle string | ED_SetAuthor string | ED_SetGenre string | ED_SetIsbn string
  | ED_SetCopies string
  | ED_Save
  | ED_Remove

datatype ed_request = Put_Book int book_form | Delete_Book int

definition initial_edit :: "book_json \<Rightarrow> edit_book" where
  "initial_edit b = \<lparr>ed_editing = False, ed_form = book_to_form b, ed_loading = False, ed_errors = []\<rparr>"

definition onSave :: "book_json \<Rightarrow> edit_book \<Rightarrow> edit_book \<times> ed_request effect list" where
  [handler_defs]: "onSave book s =
     (let nextErrors = validate_edited_book (ed_form s); s1 = s\<lparr>ed_errors := nextErrors\<rparr> in
      if length nextErrors > 0 then (s1, [])
      else (s1\<lparr>ed_loading := True\<rparr>, [Send (Put_Book (bj_id book) (ed_form s))]))"

text \<open>
  The rest of \<open>onSave\<close>: the row's state after the reply, and what leaves the row, the book given to
  \<open>onChange\<close> and the other effects.
\<close>

definition onSave_reply :: "book_json reply \<Rightarrow> edit_book \<Rightarrow> edit_book" where
  [handler_defs]: "onSave_reply r s =
     (case r of
        Resolved (Some b) \<Rightarrow> s\<lparr>ed_editing := False, ed_errors := [], ed_loading := False\<rparr>
      | Resolved None \<Rightarrow> s\<lparr>ed_loading := False\<rparr>
      | Rejected e \<Rightarrow>
          (case body_errors e of
             Some es \<Rightarrow> s\<lparr>ed_errors := map_server_errors es, ed_loading := False\<rparr>
           | None \<Rightarrow> s\<lparr>ed_loading := False\<rparr>))"

definition onSave_out :: "book_json reply \<Rightarrow> book_json option \<times> ed_request effect list" where
  [handler_defs]: "onSave_out r =
     (case r of
        Resolved (Some b) \<Rightarrow> (Some b, [])
      | Resolved None \<Rightarrow>
          (None, [Log ''Invalid API response format'', Alert ''Failed to save book: Invalid response''])
      | Rejected e \<Rightarrow>
          (case body_errors e of
             Some es \<Rightarrow> (None, [])
           | None \<Rightarrow> (None, [Alert ''Failed to save''])))"

definition onRemove :: "book_json \<Rightarrow> bool \<Rightarrow> edit_book \<Rightarrow> edit_book \<times> ed_request effect list" where
  [handler_defs]: "onRemove book confirmed s =
     (if \<not> confirmed then (s, [])
      else (s\<lparr>ed_loading := True\<rparr>, [Send (Delete_Book (bj_id book))]))"

text \<open>
  The rest of \<open>onRemove\<close>: the \<open>finally\<close>, and whether \<open>onDelete\<close> is called. A failure is not caught.
\<close>

definition onRemove_reply :: "unit reply \<Rightarrow> edit_book \<Rightarrow> edit_book" where
  [handler_defs]: "onRemove_reply r s = s\<lparr>ed_loading := False\<rparr>"

definition onRemove_out :: "unit reply \<Rightarrow> bool" where
  [handler_defs]: "onRemove_out r = (case r of Resolved d \<Rightarrow> True | Rejected e \<Rightarrow> False)"

text \<open>\<open>confirmed\<close> is what the user answers if the handler asks with \<open>confirm\<close>.\<close>

fun ed_handle :: "bool \<Rightarrow> book_json \<Rightarrow> ed_event \<Rightarrow> edit_book \<Rightarrow> edit_book \<times> ed_request effect list" where
  "ed_handle confirmed book ED_Edit s = (s\<lparr>ed_form := book_to_form book, ed_editing := True\<rparr>, [])"
| "ed_handle confirmed book ED_Close s = (s\<lparr>ed_editing := False\<rparr>, [])"
| "ed_handle confirmed book (ED_SetTitle v) s = (s\<lparr>ed_form := (ed_form s)\<lparr>bf_title := Some v\<rparr>\<rparr>, [])"
| "ed_handle confirmed book (ED_SetAuthor v) s = (s\<lparr>ed_form := (ed_form s)\<lparr>bf_author := Some v\<rparr>\<rparr>, [])"
| "ed_handle confirmed book (ED_SetGenre v) s = (s\<lparr>ed_form := (ed_form s)\<lparr>bf_genre := Some v\<rparr>\<rparr>, [])"
| "ed_handle confirmed book (ED_SetIsbn v) s = (s\<lparr>ed_form := (ed_form s)\<lparr>bf_isbn := Some v\<rparr>\<rparr>, [])"
| "ed_handle confirmed book (ED_SetCopies v) s =
     (s\<lparr>ed_form := (ed_form s)\<lparr>bf_total_copies := Some (js_Number v)\<rparr>\<rparr>, [])"
| "ed_handle confirmed book ED_Save s = onSave book s"
| "ed_handle confirmed book ED_Remove s = onRemove book confirmed s"

definition EditBookInline :: "edit_book \<Rightarrow> ed_event node list" where
  [view_defs]: "EditBookInline s =
     [Btn Ghost Md False ED_Edit [Txt ''Edit''],
      Btn Danger Md (ed_loading s) ED_Remove [Txt ''Delete'']]
     @ Modal (ed_editing s) ED_Close (Some ''Edit Book'')
         [El ''div''
           [Input (Some ''Title'') (field_error (ed_errors s) ''title'') None []
              (Text_Value (js_or (bf_title (ed_form s)) [])) ED_SetTitle,
            Input (Some ''Author'') (field_error (ed_errors s) ''author'') None []
              (Text_Value (js_or (bf_author (ed_form s)) [])) ED_SetAuthor,
            Input (Some ''Genre'') (field_error (ed_errors s) ''genre'') None []
              (Text_Value (js_or (bf_genre (ed_form s)) [])) ED_SetGenre,
            Input (Some ''ISBN'') (field_error (ed_errors s) ''isbn'') None []
              (Text_Value (js_or (bf_isbn (ed_form s)) [])) ED_SetIsbn,
            Input (Some ''Copies'') (field_error (ed_errors s) ''total_copies'') None [(''type'', ''number'')]
              (Number_Value (case bf_total_copies (ed_form s) of None \<Rightarrow> Num 1 | Some x \<Rightarrow> x)) ED_SetCopies]]
         [Btn Ghost Md False ED_Close [Txt ''Cancel''],
          Btn Secondary Md (ed_loading s) ED_Save [Txt ''Save'']]"

lemma offers_EditBookInline:
  "ED_Save \<in> offers (EditBookInline s) \<longleftrightarrow> ed_editing s \<and> \<not> ed_loading s"
  "ED_Remove \<in> offers (EditBookInline s) \<longleftrightarrow> \<not> ed_loading s"
  by (auto simp: EditBookInline_def)

section \<open>The page\<close>

text \<open>
  \<open>lb_rows\<close> is the state of the row component of a book shown, by the book's id, the React key of
  the row: an instance lives as long as its id stays in the list.
\<close>

record books_page =
  lb_books :: "book_json list"
  lb_q :: string
  lb_page :: int
  lb_creating :: bool
  lb_newBook :: book_form
  lb_createErrors :: field_errors
  lb_rows :: "int \<Rightarrow> edit_book option"

datatype lb_event =
    LB_SetQ string | LB_ToggleCreating | LB_CloseCreate
  | LB_SetTitle string | LB_SetAuthor string | LB_SetGenre string | LB_SetIsbn string
  | LB_SetCopies string
  | LB_Create | LB_Prev | LB_Next
  | LB_Row int ed_event

datatype lb_request = Get_Books string int | Post_Book book_form | Row_Request int ed_request

definition initial_books_page :: books_page where
  "initial_books_page = \<lparr>lb_books = [], lb_q = [], lb_page = 1, lb_creating = False,
     lb_newBook = empty_book_form, lb_createErrors = [], lb_rows = Map.empty\<rparr>"

text \<open>
  Setting the list mounts the rows of new ids, with \<open>useState\<close>'s initial values, keeps those of ids
  that stay and drops the others.
\<close>

definition mount_rows :: "book_json list \<Rightarrow> (int \<Rightarrow> edit_book option) \<Rightarrow> int \<Rightarrow> edit_book option" where
  "mount_rows bs rows = (\<lambda>i.
     case find (\<lambda>b. bj_id b = i) bs of
       None \<Rightarrow> None
     | Some b \<Rightarrow> Some (case rows i of None \<Rightarrow> initial_edit b | Some st \<Rightarrow> st))"

definition setBooks :: "book_json list \<Rightarrow> books_page \<Rightarrow> books_page" where
  "setBooks bs s = s\<lparr>lb_books := bs, lb_rows := mount_rows bs (lb_rows s)\<rparr>"

definition lb_prev :: "books_page \<Rightarrow> books_page" where
  [handler_defs]: "lb_prev s = s\<lparr>lb_page := max 1 (lb_page s - 1)\<rparr>"

definition lb_next :: "books_page \<Rightarrow> books_page" where
  [handler_defs]: "lb_next s = s\<lparr>lb_page := lb_page s + 1\<rparr>"

definition lb_create :: "books_page \<Rightarrow> books_page \<times> lb_request effect list" where
  [handler_defs]: "lb_create s =
     (let errs = validate_new_book (lb_newBook s); s1 = s\<lparr>lb_createErrors := errs\<rparr> in
      if length errs > 0 then (s1, []) else (s1, [Send (Post_Book (lb_newBook s))]))"

definition lb_create_reply :: "book_json reply \<Rightarrow> books_page \<Rightarrow> books_page \<times> lb_request effect list" where
  [handler_defs]: "lb_create_reply r s =
     (case r of
        Resolved (Some b) \<Rightarrow>
          ((setBooks (b # lb_books s) s)
             \<lparr>lb_creating := False, lb_newBook := empty_book_form, lb_createErrors := []\<rparr>, [])
      | Resolved None \<Rightarrow>
          (s, [Log ''Invalid API response format'', Alert ''Failed to create book: Invalid response''])
      | Rejected e \<Rightarrow>
          (case body_errors e of
             Some es \<Rightarrow> (s\<lparr>lb_createErrors := map_server_errors es\<rparr>, [])
           | None \<Rightarrow> (s, [Alert ''Failed to create''])))"

definition lb_load_reply :: "book_json list reply \<Rightarrow> books_page \<Rightarrow> books_page \<times> lb_request effect list" where
  [handler_defs]: "lb_load_reply r s =
     (case r of
        Resolved (Some bs) \<Rightarrow> (setBooks bs s, [])
      | Resolved None \<Rightarrow> (setBooks [] s, [Log ''Invalid API response format''])
      | Rejected e \<Rightarrow> (setBooks [] s, [Log ''Failed to load books:'']))"

text \<open>An event of a row goes to the row's component, with the book the row was rendered with.\<close>

definition lb_row_event ::
    "bool \<Rightarrow> int \<Rightarrow> ed_event \<Rightarrow> books_page \<Rightarrow> books_page \<times> lb_request effect list" where
  [handler_defs]: "lb_row_event confirmed i e s =
     (case (find (\<lambda>b. bj_id b = i) (lb_books s), lb_rows s i) of
        (Some b, Some st) \<Rightarrow>
          (case ed_handle confirmed b e st of
             (st', effs) \<Rightarrow>
               (s\<lparr>lb_rows := (lb_rows s)(i \<mapsto> st')\<rparr>, map (map_effect (Row_Request i)) effs))
      | _ \<Rightarrow> (s, []))"

fun lb_handle :: "bool \<Rightarrow> lb_event \<Rightarrow> books_page \<Rightarrow> books_page \<times> lb_request effect list" where
  "lb_handle confirmed (LB_SetQ v) s = (s\<lparr>lb_q := v, lb_page := 1\<rparr>, [])"
| "lb_handle confirmed LB_ToggleCreating s = (s\<lparr>lb_creating := \<not> lb_creating s\<rparr>, [])"
| "lb_handle confirmed LB_CloseCreate s = (s\<lparr>lb_creating := False\<rparr>, [])"
| "lb_handle confirmed (LB_SetTitle v) s = (s\<lparr>lb_newBook := (lb_newBook s)\<lparr>bf_title := Some v\<rparr>\<rparr>, [])"
| "lb_handle confirmed (LB_SetAuthor v) s = (s\<lparr>lb_newBook := (lb_newBook s)\<lparr>bf_author := Some v\<rparr>\<rparr>, [])"
| "lb_handle confirmed (LB_SetGenre v) s = (s\<lparr>lb_newBook := (lb_newBook s)\<lparr>bf_genre := Some v\<rparr>\<rparr>, [])"
| "lb_handle confirmed (LB_SetIsbn v) s = (s\<lparr>lb_newBook := (lb_newBook s)\<lparr>bf_isbn := Some v\<rparr>\<rparr>, [])"
| "lb_handle confirmed (LB_SetCopies v) s =
     (s\<lparr>lb_newBook := (lb_newBook s)\<lparr>bf_total_copies := Some (js_Number v)\<rparr>\<rparr>, [])"
| "lb_handle confirmed LB_Create s = lb_create s"
| "lb_handle confirmed LB_Prev s = (lb_prev s, [])"
| "lb_handle confirmed LB_Next s = (lb_next s, [])"
| "lb_handle confirmed (LB_Row i e) s = lb_row_event confirmed i e s"

text \<open>The effect on \<open>[q, page]\<close>: a render after either changed requests the list again.\<close>

definition lb_effect :: "books_page \<Rightarrow> books_page \<Rightarrow> lb_request effect list" where
  "lb_effect old new =
     (if lb_q new \<noteq> lb_q old \<or> lb_page new \<noteq> lb_page old
      then [Send (Get_Books (lb_q new) (lb_page new))] else [])"

definition lb_event_step :: "bool \<Rightarrow> lb_event \<Rightarrow> books_page \<Rightarrow> books_page \<times> lb_request effect list" where
  "lb_event_step confirmed e s =
     (case lb_handle confirmed e s of (s', effs) \<Rightarrow> (s', effs @ lb_effect s s'))"

text \<open>
  The replies to a row's requests: the row settles its own state and calls back into the page,
  \<open>onChange\<close> replacing the book by its id, \<open>onDelete\<close> removing it. A reply to a row that is gone
  still calls back.
\<close>

definition onChange :: "book_json \<Rightarrow> books_page \<Rightarrow> books_page" where
  [handler_defs]: "onChange updated s =
     setBooks (replace_by bj_id (bj_id updated) updated (lb_books s)) s"

definition onDelete :: "int \<Rightarrow> books_page \<Rightarrow> books_page" where
  [handler_defs]: "onDelete i s = setBooks (remove_by bj_id i (lb_books s)) s"

definition map_row :: "int \<Rightarrow> (edit_book \<Rightarrow> edit_book) \<Rightarrow> books_page \<Rightarrow> books_page" where
  "map_row i f s = s\<lparr>lb_rows := (lb_rows s)(i := map_option f (lb_rows s i))\<rparr>"

definition lb_put_reply ::
    "int \<Rightarrow> book_json reply \<Rightarrow> books_page \<Rightarrow> books_page \<times> lb_request effect list" where
  [handler_defs]: "lb_put_reply i r s =
     (let s1 = map_row i (onSave_reply r) s in
      (case fst (onSave_out r) of None \<Rightarrow> s1 | Some b \<Rightarrow> onChange b s1,
       map (map_effect (Row_Request i)) (snd (onSave_out r))))"

definition lb_delete_reply :: "int \<Rightarrow> unit reply \<Rightarrow> books_page \<Rightarrow> books_page" where
  [handler_defs]: "lb_delete_reply i r s =
     (let s1 = map_row i (onRemove_reply r) s in if onRemove_out r then onDelete i s1 else s1)"

section \<open>Rendering\<close>

definition lb_create_modal :: "auth_state \<Rightarrow> books_page \<Rightarrow> lb_event node list" where
  [view_defs]: "lb_create_modal state s =
     Modal (lb_creating s \<and> is_librarian state) LB_CloseCreate (Some ''New Book'')
       [El ''div''
         [Input (Some ''Title'') (field_error (lb_createErrors s) ''title'') None []
            (Text_Value (js_or (bf_title (lb_newBook s)) [])) LB_SetTitle,
          Input (Some ''Author'') (field_error (lb_createErrors s) ''author'') None []
            (Text_Value (js_or (bf_author (lb_newBook s)) [])) LB_SetAuthor,
          Input (Some ''Genre'') (field_error (lb_createErrors s) ''genre'') None []
            (Text_Value (js_or (bf_genre (lb_newBook s)) [])) LB_SetGenre,
          Input (Some ''ISBN'') (field_error (lb_createErrors s) ''isbn'') None []
            (Text_Value (js_or (bf_isbn (lb_newBook s)) [])) LB_SetIsbn,
          Input (Some ''Copies'') (field_error (lb_createErrors s) ''total_copies'') None
            [(''type'', ''number'')]
            (Number_Value (case bf_total_copies (lb_newBook s) of None \<Rightarrow> Num 1 | Some x \<Rightarrow> x))
            LB_SetCopies]]
       [Btn Ghost Md False LB_CloseCreate [Txt ''Cancel''],
        Btn Secondary Md False LB_Create [Txt ''Create'']]"

text \<open>One row of the table: the book's fields, and its controls for a librarian.\<close>

definition lb_row :: "auth_state \<Rightarrow> books_page \<Rightarrow> book_json \<Rightarrow> lb_event node" where
  [view_defs]: "lb_row state s b =
     TR [TD [Txt (bj_title b)], TD [Txt (bj_author b)], TD [Txt (bj_genre b)], TD [Txt (bj_isbn b)],
         TD [Txt (int_digits (bj_total_copies b))],
         TD (if is_librarian state
             then [El ''span''
                     (case lb_rows s (bj_id b) of
                        None \<Rightarrow> []
                      | Some st \<Rightarrow> map (map_node (LB_Row (bj_id b))) (EditBookInline st))]
             else [])]"

definition LibrarianBooks_view :: "auth_state \<Rightarrow> books_page \<Rightarrow> lb_event node list" where
  [view_defs]: "LibrarianBooks_view state s =
     [El ''div''
       ([El ''div'' [Input None None None [(''placeholder'', ''Search books'')] (Text_Value (lb_q s)) LB_SetQ]]
        @ (if is_librarian state
           then [Btn (if lb_creating s then Ghost else Primary) Md False LB_ToggleCreating
                   [Txt (if lb_creating s then ''Cancel'' else ''New Book'')]]
           else []))]
     @ lb_create_modal state s
     @ [Table
         [THead [TR [TH [Txt ''Title''], TH [Txt ''Author''], TH [Txt ''Genre''], TH [Txt ''ISBN''],
                     TH [Txt ''Copies''], TH [Txt ''Actions'']]],
          TBody (map (lb_row state s) (lb_books s))]]
     @ pager_controls (lb_page s) (length (lb_books s)) LB_Prev LB_Next"

section \<open>What holds of the page\<close>

text \<open>
  Every row shown has its component's state, and no other id has one; a create dialogue that shows
  no error has a valid form or was not submitted.
\<close>

definition rows_ok :: "book_json list \<Rightarrow> (int \<Rightarrow> edit_book option) \<Rightarrow> bool" where
  "rows_ok bs rows \<longleftrightarrow> dom rows = bj_id ` set bs"

definition lb_inv :: "books_page \<Rightarrow> bool" where
  "lb_inv s \<longleftrightarrow> rows_ok (lb_books s) (lb_rows s) \<and> 1 \<le> lb_page s"

lemma rows_ok_mount [simp]: "rows_ok bs (mount_rows bs rows)"
  by (auto simp: rows_ok_def mount_rows_def dom_def find_None_iff split: option.splits)

lemma rows_ok_update [simp]: "rows i = Some st \<Longrightarrow> rows_ok bs (rows(i \<mapsto> st')) = rows_ok bs rows"
  by (auto simp: rows_ok_def insert_absorb domI)

lemma rows_ok_Nil [simp]: "rows_ok [] Map.empty"
  by (simp add: rows_ok_def)

lemma lb_inv_setBooks [simp]: "lb_inv (setBooks bs s) \<longleftrightarrow> 1 \<le> lb_page s"
  by (simp add: lb_inv_def setBooks_def)

lemma map_row_frame [simp]:
  "lb_books (map_row i f s) = lb_books s" "lb_page (map_row i f s) = lb_page s"
  "lb_q (map_row i f s) = lb_q s"
  by (simp_all add: map_row_def)

lemma rows_ok_map_row [simp]: "rows_ok bs (lb_rows (map_row i f s)) = rows_ok bs (lb_rows s)"
  by (cases "lb_rows s i") (auto simp: map_row_def fun_upd_idem)

lemma lb_inv_map_row [simp]: "lb_inv (map_row i f s) = lb_inv s"
  by (simp add: lb_inv_def)

interpretation lb_pager: pager lb_page lb_books lb_prev lb_next "LibrarianBooks_view state"
    LB_Prev LB_Next
  by unfold_locales
     (auto simp: handler_defs LibrarianBooks_view_def lb_create_modal_def lb_row_def
        split: option.splits if_splits)

section \<open>Runs\<close>

text \<open>
  A configuration is the page with its requests that are out. The user triggers what the rendering
  offers; a reply to any outstanding request may arrive next, in any order. \<open>answer\<close> restricts the
  replies to list requests, to state what a given server makes of the page.
\<close>

record lb_config =
  lb_st :: books_page
  lb_flying :: "lb_request list"

definition initial_lb_config :: lb_config where
  "initial_lb_config = \<lparr>lb_st = initial_books_page, lb_flying = [Get_Books [] 1]\<rparr>"

inductive lb_step ::
    "auth_state \<Rightarrow> (string \<Rightarrow> int \<Rightarrow> book_json list reply \<Rightarrow> bool) \<Rightarrow> lb_config \<Rightarrow> lb_config \<Rightarrow> bool"
    for state answer where
  lb_user:
    "e \<in> offers (LibrarianBooks_view state (lb_st c)) \<Longrightarrow>
     lb_event_step confirmed e (lb_st c) = (s, effs) \<Longrightarrow>
     lb_step state answer c \<lparr>lb_st = s, lb_flying = lb_flying c @ sends effs\<rparr>"
| lb_loaded:
    "Get_Books q p \<in> set (lb_flying c) \<Longrightarrow> answer q p r \<Longrightarrow>
     lb_step state answer c
       \<lparr>lb_st = fst (lb_load_reply r (lb_st c)), lb_flying = remove1 (Get_Books q p) (lb_flying c)\<rparr>"
| lb_created:
    "Post_Book f \<in> set (lb_flying c) \<Longrightarrow>
     lb_step state answer c
       \<lparr>lb_st = fst (lb_create_reply r1 (lb_st c)), lb_flying = remove1 (Post_Book f) (lb_flying c)\<rparr>"
| lb_saved:
    "Row_Request i (Put_Book j f) \<in> set (lb_flying c) \<Longrightarrow>
     lb_step state answer c
       \<lparr>lb_st = fst (lb_put_reply i r1 (lb_st c)),
        lb_flying = remove1 (Row_Request i (Put_Book j f)) (lb_flying c)\<rparr>"
| lb_deleted:
    "Row_Request i (Delete_Book j) \<in> set (lb_flying c) \<Longrightarrow>
     lb_step state answer c
       \<lparr>lb_st = lb_delete_reply i r0 (lb_st c),
        lb_flying = remove1 (Row_Request i (Delete_Book j)) (lb_flying c)\<rparr>"

inductive lb_reachable ::
    "auth_state \<Rightarrow> (string \<Rightarrow> int \<Rightarrow> book_json list reply \<Rightarrow> bool) \<Rightarrow> lb_config \<Rightarrow> bool"
    for state answer where
  lb_start: "lb_reachable state answer initial_lb_config"
| lb_next: "lb_reachable state answer c \<Longrightarrow> lb_step state answer c d \<Longrightarrow> lb_reachable state answer d"

text \<open>A request that saves a book carries a form the client's validation accepts.\<close>

fun request_ok :: "lb_request \<Rightarrow> bool" where
  "request_ok (Get_Books q p) = (1 \<le> p)"
| "request_ok (Post_Book f) = book_form_ok f"
| "request_ok (Row_Request i (Put_Book j f)) = (i = j \<and> book_form_ok f)"
| "request_ok (Row_Request i (Delete_Book j)) = (i = j)"

lemma find_Some_id: "find (\<lambda>b. bj_id b = i) bs = Some b \<Longrightarrow> bj_id b = i"
  by (auto simp: find_Some_iff)

lemma sends_row_effects: "sends (map (map_effect (Row_Request i)) es) = map (Row_Request i) (sends es)"
  by (induction es rule: sends.induct) auto

lemma ed_handle_requests:
  assumes "ed_handle confirmed b e st = (st', effs)" "r \<in> set (sends effs)"
  shows "request_ok (Row_Request (bj_id b) r)"
  using assms
  by (cases e)
     (auto simp: handler_defs Let_def simp flip: validate_book_Nil_iff(2) split: if_splits)

lemma lb_row_event_ok:
  assumes "lb_row_event confirmed i e s = (s', effs)" "lb_inv s"
  shows "lb_inv s' \<and> lb_q s' = lb_q s \<and> lb_page s' = lb_page s
    \<and> (\<forall>r\<in>set (sends effs). request_ok r)"
proof (cases "find (\<lambda>b. bj_id b = i) (lb_books s)")
  case (Some b)
  show ?thesis
  proof (cases "lb_rows s i")
    case None
    with assms Some show ?thesis by (auto simp: lb_row_event_def)
  next
    case (Some st)
    obtain st' effs0 where h: "ed_handle confirmed b e st = (st', effs0)" by fastforce
    have "bj_id b = i" using find_Some_id \<open>find _ _ = Some b\<close> .
    with h ed_handle_requests [OF h] assms \<open>find _ _ = Some b\<close> Some show ?thesis
      by (auto simp: lb_row_event_def lb_inv_def sends_row_effects)
  qed
qed (use assms in \<open>auto simp: lb_row_event_def\<close>)

lemma lb_handle_ok:
  assumes "lb_handle confirmed e s = (s', effs)" "lb_inv s"
  shows "lb_inv s' \<and> (\<forall>r\<in>set (sends effs). request_ok r)"
proof (cases e)
  case (LB_Row i x)
  with assms lb_row_event_ok [of confirmed i x s s' effs] show ?thesis by simp
qed (use assms in \<open>auto simp: lb_inv_def lb_create_def lb_prev_def lb_next_def Let_def
      simp flip: validate_book_Nil_iff(1) split: if_splits\<close>)

lemma lb_inv_page: "lb_inv s \<Longrightarrow> 1 \<le> lb_page s"
  by (simp add: lb_inv_def)

lemma lb_event_step_ok:
  assumes "lb_event_step confirmed e s = (s', effs)" "lb_inv s"
  shows "lb_inv s' \<and> (\<forall>r\<in>set (sends effs). request_ok r)"
proof -
  obtain effs0 where h: "lb_handle confirmed e s = (s', effs0)" "effs = effs0 @ lb_effect s s'"
    using assms(1) by (auto simp: lb_event_step_def split: prod.splits)
  with lb_handle_ok [OF h(1) assms(2)] show ?thesis
    by (auto simp: lb_effect_def dest: lb_inv_page)
qed

lemma lb_replies_inv:
  "lb_inv s \<Longrightarrow> lb_inv (fst (lb_load_reply r s))"
  "lb_inv s \<Longrightarrow> lb_inv (fst (lb_create_reply r1 s))"
  "lb_inv s \<Longrightarrow> lb_inv (fst (lb_put_reply i r1 s))"
  "lb_inv s \<Longrightarrow> lb_inv (lb_delete_reply i r0 s)"
  by (auto simp: handler_defs Let_def lb_inv_def setBooks_def split: reply.split option.split)

definition lb_config_inv :: "lb_config \<Rightarrow> bool" where
  "lb_config_inv c \<longleftrightarrow> lb_inv (lb_st c) \<and> (\<forall>r\<in>set (lb_flying c). request_ok r)"

lemma lb_step_inv: "lb_step state answer c d \<Longrightarrow> lb_config_inv c \<Longrightarrow> lb_config_inv d"
proof (induction rule: lb_step.induct)
  case (lb_user e c confirmed s effs)
  then show ?case using lb_event_step_ok by (fastforce simp: lb_config_inv_def)
qed (auto simp: lb_config_inv_def lb_replies_inv dest: notin_set_remove1)

lemma lb_reachable_inv: "lb_reachable state answer c \<Longrightarrow> lb_config_inv c"
proof (induction rule: lb_reachable.induct)
  case lb_start
  show ?case by (simp add: lb_config_inv_def initial_lb_config_def initial_books_page_def lb_inv_def)
qed (rule lb_step_inv)

text \<open>C12. Whatever the user does and whatever the server answers, in any order: the page number stays
  at least 1, the rows shown are exactly the books of the list, and every request that saves a book,
  new or edited, carries a form with a title, an author, a genre and an ISBN that are not blank and
  a number of copies that is not negative.\<close>

theorem librarian_books_safe:
  assumes "lb_reachable state answer c"
  shows "1 \<le> lb_page (lb_st c)
    \<and> dom (lb_rows (lb_st c)) = bj_id ` set (lb_books (lb_st c))
    \<and> (\<forall>f. Post_Book f \<in> set (lb_flying c) \<longrightarrow> book_form_ok f)
    \<and> (\<forall>i j f. Row_Request i (Put_Book j f) \<in> set (lb_flying c) \<longrightarrow> i = j \<and> book_form_ok f)"
proof -
  from lb_reachable_inv [OF assms]
  have inv: "lb_inv (lb_st c)" and ok: "\<And>r. r \<in> set (lb_flying c) \<Longrightarrow> request_ok r"
    by (auto simp: lb_config_inv_def)
  from inv have "1 \<le> lb_page (lb_st c)" "dom (lb_rows (lb_st c)) = bj_id ` set (lb_books (lb_st c))"
    by (auto simp only: lb_inv_def rows_ok_def)
  then show ?thesis by (simp, auto dest!: ok)
qed

text \<open>Submitting the create dialogue sends a request exactly when the form is valid.\<close>

lemma lb_create_sends:
  "sends (snd (lb_create s)) = (if book_form_ok (lb_newBook s) then [Post_Book (lb_newBook s)] else [])"
  by (auto simp: lb_create_def Let_def simp flip: validate_book_Nil_iff(1))

text \<open>The validation of both forms accepts exactly the forms with four fields that are not blank
  after trimming and a number of copies that is a number at least 0.\<close>

theorem book_validation_exact:
  "(validate_new_book f = [] \<longleftrightarrow> book_form_ok f) \<and> (validate_edited_book f = [] \<longleftrightarrow> book_form_ok f)"
  by (simp add: validate_book_Nil_iff)

section \<open>Overlapping searches\<close>

text \<open>
  The effect that loads the list does not cancel or ignore the reply to an earlier query. Typing
  \<open>a\<close>, then \<open>ab\<close>, with the replies arriving in the other order, leaves the results of \<open>a\<close> under the
  query \<open>ab\<close>.
\<close>

lemma lb_search_offered: "LB_SetQ v \<in> offers (LibrarianBooks_view state s)"
  by (simp add: LibrarianBooks_view_def)

lemma lb_type:
  assumes "lb_reachable state answer \<lparr>lb_st = s, lb_flying = rs\<rparr>" "v \<noteq> lb_q s"
  shows "lb_reachable state answer
    \<lparr>lb_st = s\<lparr>lb_q := v, lb_page := 1\<rparr>, lb_flying = rs @ [Get_Books v 1]\<rparr>"
  using lb_next [OF assms(1) lb_user [OF lb_search_offered [of v], where confirmed = False]] assms(2)
  by (simp add: lb_event_step_def lb_effect_def)

lemma lb_load:
  assumes "lb_reachable state answer \<lparr>lb_st = s, lb_flying = rs\<rparr>"
    and "Get_Books q p \<in> set rs" "answer q p (Resolved (Some bs))"
  shows "lb_reachable state answer
    \<lparr>lb_st = setBooks bs s, lb_flying = remove1 (Get_Books q p) rs\<rparr>"
  using lb_next [OF assms(1) lb_loaded, of q p "Resolved (Some bs)"] assms(2,3)
  by (simp add: lb_load_reply_def)

text \<open>C33. Searches race: for any server that answers each list request with its own results there
  is a run, all its requests answered, that ends with the results of the query \<open>a\<close> shown under the
  search text \<open>ab\<close>.\<close>

theorem librarian_books_stale_results:
  "\<exists>c. lb_reachable state (\<lambda>q p r. r = Resolved (Some (results q p))) c
     \<and> lb_flying c = [] \<and> lb_q (lb_st c) = ''ab'' \<and> lb_books (lb_st c) = results ''a'' 1"
proof -
  let ?R = "lb_reachable state (\<lambda>q p r. r = Resolved (Some (results q p)))"
  let ?s0 = "setBooks (results [] 1) initial_books_page"
  let ?s2 = "?s0\<lparr>lb_q := ''a'', lb_page := 1, lb_q := ''ab'', lb_page := 1\<rparr>"
  have "?R \<lparr>lb_st = initial_books_page, lb_flying = [Get_Books [] 1]\<rparr>"
    using lb_start unfolding initial_lb_config_def .
  from lb_load [OF this, of "[]" 1 "results [] 1"] have "?R \<lparr>lb_st = ?s0, lb_flying = []\<rparr>"
    by simp
  from lb_type [OF this, of "''a''"]
  have "?R \<lparr>lb_st = ?s0\<lparr>lb_q := ''a'', lb_page := 1\<rparr>, lb_flying = [Get_Books ''a'' 1]\<rparr>"
    by (simp add: setBooks_def initial_books_page_def)
  from lb_type [OF this, of "''ab''"]
  have "?R \<lparr>lb_st = ?s2, lb_flying = [Get_Books ''a'' 1, Get_Books ''ab'' 1]\<rparr>" by simp
  from lb_load [OF this, of "''ab''" 1 "results ''ab'' 1"]
  have "?R \<lparr>lb_st = setBooks (results ''ab'' 1) ?s2, lb_flying = [Get_Books ''a'' 1]\<rparr>" by simp
  from lb_load [OF this, of "''a''" 1 "results ''a'' 1"]
  have "?R \<lparr>lb_st = setBooks (results ''a'' 1) (setBooks (results ''ab'' 1) ?s2), lb_flying = []\<rparr>"
    by simp
  then show ?thesis by (intro exI conjI) (assumption | simp add: setBooks_def)+
qed

end
