(* ===== verification/Server_Api.thy ===== *)
theory Server_Api imports Library_Refinement Borrowing_Lists Librarian_Books "HOL-Library.Product_Lexorder" begin

text \<open>
  The JSON endpoints of \<open>app/controllers\<close> that the client uses, as functions of the database and the
  signed-in user, and the reply axios makes of a response. What PostgreSQL and Ruby decide is a
  parameter: how a row matches an \<open>ILIKE\<close> pattern, the order of a query without \<open>ORDER BY\<close>, \<open>blank?\<close>,
  \<open>strip\<close>, \<open>Date.parse\<close> and the full text of a validation message.
\<close>

section \<open>Responses\<close>

datatype 'a response = Ok_200 'a | Created 'a | No_Content | Failed nat err_body

definition error_body :: "string \<Rightarrow> err_body" where
  "error_body m = \<lparr>eb_error = Some m, eb_details = None, eb_errors = None\<rparr>"

definition errors_body :: "(string \<times> messages) list \<Rightarrow> err_body" where
  "errors_body es = \<lparr>eb_error = None, eb_details = None, eb_errors = Some es\<rparr>"

text \<open>The handlers of \<open>RecordNotFound\<close> and \<open>RecordInvalid\<close> in the application controller.\<close>

definition not_found :: "'a response" where
  [server_defs]: "not_found = Failed 404 (error_body ''Not Found'')"

definition record_invalid :: "string list \<Rightarrow> 'a response" where
  [server_defs]: "record_invalid full_messages =
     Failed 422 \<lparr>eb_error = Some ''Unprocessable Entity'', eb_details = Some (Detail_List full_messages),
                 eb_errors = None\<rparr>"

definition forbidden :: "'a response" where
  [server_defs]: "forbidden = Failed 403 (error_body ''Forbidden'')"

text \<open>axios resolves a status from 200 to 299 and rejects any other with the response attached.\<close>

fun reply_of :: "'a response \<Rightarrow> 'a reply" where
  "reply_of (Ok_200 a) = Resolved (Some a)"
| "reply_of (Created a) = Resolved (Some a)"
| "reply_of No_Content = Resolved None"
| "reply_of (Failed code body) =
     Rejected (Axios_Error (Some body) (''Request failed with status code '' @ nat_digits code))"

fun ignore_data :: "'a reply \<Rightarrow> unit reply" where
  "ignore_data (Resolved d) = Resolved (map_option (\<lambda>x. ()) d)"
| "ignore_data (Rejected e) = Rejected e"

record host =
  ilike :: "string \<Rightarrow> string \<Rightarrow> bool"
  scan :: "book_row list \<Rightarrow> book_row list"
  blank :: "string \<Rightarrow> bool"
  strip :: "string \<Rightarrow> string"
  parse_date :: "string \<Rightarrow> date option"
  scan_users :: "user_row list \<Rightarrow> user_row list"
  scan_loans :: "loan_row list \<Rightarrow> loan_row list"
  scan_genres :: "string list \<Rightarrow> string list"
  full_message :: "string \<times> string \<Rightarrow> string"

text \<open>
  The contract of an unordered query: it lists the rows of its result in some order. The same order
  decides between rows that an \<open>ORDER BY\<close> leaves equal.
\<close>

definition lists_rows :: "('r list \<Rightarrow> 'r list) \<Rightarrow> bool" where
  "lists_rows f \<longleftrightarrow> (\<forall>xs. distinct xs \<longrightarrow> distinct (f xs) \<and> set (f xs) = set xs)"

definition scan_ok :: "host \<Rightarrow> bool" where
  "scan_ok h \<longleftrightarrow> lists_rows (scan h)"

lemma lists_rowsD:
  assumes "lists_rows f" "distinct xs"
  shows "distinct (f xs)" "set (f xs) = set xs" "length (f xs) = length xs"
  using assms distinct_card [of xs] distinct_card [of "f xs"] by (auto simp: lists_rows_def)

lemma lists_rows_count:
  assumes "lists_rows f" "distinct xs"
  shows "length (filter P (f xs)) = length (filter P xs)"
proof -
  have "distinct (filter P (f xs))" "set (filter P (f xs)) = set (filter P xs)" "distinct (filter P xs)"
    using lists_rowsD [OF assms] assms(2) by auto
  then show ?thesis by (metis distinct_card)
qed

section \<open>Books\<close>

text \<open>\<open>Book.search\<close>: the pattern's own wildcards are those of the query text.\<close>

definition book_search :: "host \<Rightarrow> string option \<Rightarrow> book_row list \<Rightarrow> book_row list" where
  [server_defs]: "book_search h q bs =
     (case q of
        None \<Rightarrow> bs
      | Some t \<Rightarrow>
          if blank h t then bs
          else let pat = ''%'' @ strip h t @ ''%'' in
            filter (\<lambda>b. ilike h (br_title b) pat \<or> ilike h (br_author b) pat \<or> ilike h (br_genre b) pat) bs)"

definition book_json_for :: "db \<Rightarrow> user_row \<Rightarrow> book_row \<Rightarrow> book_json" where
  [server_defs]: "book_json_for d u b =
     \<lparr>bj_id = br_id b, bj_title = br_title b, bj_author = br_author b, bj_genre = br_genre b,
      bj_isbn = br_isbn b, bj_total_copies = br_total_copies b,
      bj_can_borrow = Some (with_can_borrow_for d u b)\<rparr>"

text \<open>\<open>params[:page].to_i\<close>, with 1 for anything that is not positive.\<close>

definition page_number :: "int option \<Rightarrow> int" where
  [server_defs]: "page_number p = (case p of None \<Rightarrow> 1 | Some n \<Rightarrow> if n \<le> 0 then 1 else n)"

definition books_index :: "host \<Rightarrow> db \<Rightarrow> user_row \<Rightarrow> string option \<Rightarrow> int option \<Rightarrow> book_json list response" where
  [server_defs]: "books_index h d u q p =
     Ok_200 (map (book_json_for d u) (page_slice (scan h (book_search h q (db_books d))) (page_number p)))"

text \<open>
  The presence, uniqueness and numericality validations of a book, with the attributes and messages
  of Active Model. The number of copies is the JSON number of the client: \<open>NaN\<close> is sent as null, and
  from 10^21 on JavaScript writes an exponent, which is read as a float and is no integer.
\<close>

definition presence_error :: "host \<Rightarrow> string \<Rightarrow> string option \<Rightarrow> (string \<times> string) list" where
  [server_defs]: "presence_error h k v = (if presence (blank h) v = None then [(k, ''can't be blank'')] else [])"

definition copies_error :: "js_number option \<Rightarrow> (string \<times> string) list" where
  [server_defs]: "copies_error v =
     (case v of
        Some (Num r) \<Rightarrow>
          (if r \<noteq> of_int (floor r) \<or> 10 ^ 21 \<le> \<bar>r\<bar> then [(''total_copies'', ''must be an integer'')]
           else if r < 0 then [(''total_copies'', ''must be greater than or equal to 0'')] else [])
      | _ \<Rightarrow> [(''total_copies'', ''is not a number'')])"

definition isbn_taken :: "db \<Rightarrow> int option \<Rightarrow> string option \<Rightarrow> bool" where
  [server_defs]: "isbn_taken d self v =
     list_ex (\<lambda>b. Some (br_isbn b) = v \<and> Some (br_id b) \<noteq> self) (db_books d)"

definition book_errors :: "host \<Rightarrow> db \<Rightarrow> int option \<Rightarrow> book_form \<Rightarrow> (string \<times> string) list" where
  [server_defs]: "book_errors h d self f =
     presence_error h ''title'' (bf_title f) @ presence_error h ''author'' (bf_author f)
     @ presence_error h ''genre'' (bf_genre f) @ presence_error h ''isbn'' (bf_isbn f)
     @ (if isbn_taken d self (bf_isbn f) then [(''isbn'', ''has already been taken'')] else [])
     @ copies_error (bf_total_copies f)"

text \<open>\<open>render json: { errors: book.errors }\<close>: the messages grouped by attribute, in order.\<close>

definition group_errors :: "(string \<times> string) list \<Rightarrow> (string \<times> messages) list" where
  [server_defs]: "group_errors es =
     map (\<lambda>k. (k, Message_List (map snd (filter (\<lambda>e. fst e = k) es)))) (remdups (map fst es))"

text \<open>
  The attributes after assignment: a field that is \<open>undefined\<close> is not in the request, so a new book has
  the column's default for it (1 copy, null otherwise) and an existing one keeps its value.
\<close>

definition new_attributes :: "book_form \<Rightarrow> book_form" where
  [server_defs]: "new_attributes f =
     f\<lparr>bf_total_copies := Some (case bf_total_copies f of None \<Rightarrow> Num 1 | Some x \<Rightarrow> x)\<rparr>"

definition updated_attributes :: "book_row \<Rightarrow> book_form \<Rightarrow> book_form" where
  [server_defs]: "updated_attributes b f =
     \<lparr>bf_title = Some (case bf_title f of None \<Rightarrow> br_title b | Some v \<Rightarrow> v),
      bf_author = Some (case bf_author f of None \<Rightarrow> br_author b | Some v \<Rightarrow> v),
      bf_genre = Some (case bf_genre f of None \<Rightarrow> br_genre b | Some v \<Rightarrow> v),
      bf_isbn = Some (case bf_isbn f of None \<Rightarrow> br_isbn b | Some v \<Rightarrow> v),
      bf_total_copies =
        Some (case bf_total_copies f of None \<Rightarrow> Num (of_int (br_total_copies b)) | Some x \<Rightarrow> x)\<rparr>"

definition form_book :: "int \<Rightarrow> book_form \<Rightarrow> book_row" where
  [server_defs]: "form_book i f =
     \<lparr>br_id = i, br_title = the (bf_title f), br_author = the (bf_author f), br_genre = the (bf_genre f),
      br_isbn = the (bf_isbn f),
      br_total_copies = (case bf_total_copies f of Some (Num r) \<Rightarrow> floor r | _ \<Rightarrow> 0)\<rparr>"

text \<open>A created or updated book is rendered with its attributes, \<open>can_borrow\<close> with its default.\<close>

definition book_attributes :: "book_row \<Rightarrow> book_json" where
  [server_defs]: "book_attributes b =
     \<lparr>bj_id = br_id b, bj_title = br_title b, bj_author = br_author b, bj_genre = br_genre b,
      bj_isbn = br_isbn b, bj_total_copies = br_total_copies b, bj_can_borrow = Some False\<rparr>"

text \<open>
  The column is a 4-byte integer; a larger value passes the validations and raises on save, which no
  handler rescues: Rails answers 500, in production with the JSON its exceptions application renders.
\<close>

definition copies_overflow :: "book_row \<Rightarrow> bool" where
  [server_defs]: "copies_overflow b = (2 ^ 31 \<le> br_total_copies b)"

definition server_error :: "'a response" where
  [server_defs]: "server_error = Failed 500 (error_body ''Internal Server Error'')"

definition books_create :: "host \<Rightarrow> user_row \<Rightarrow> book_form \<Rightarrow> db \<Rightarrow> book_json response \<times> db" where
  [server_defs]: "books_create h u f d =
     (if ur_role u \<noteq> Librarian then (forbidden, d)
      else let attrs = new_attributes f; errs = book_errors h d None attrs in
        if errs \<noteq> [] then (Failed 422 (errors_body (group_errors errs)), d)
        else let b = form_book (db_next d) attrs in
          if copies_overflow b then (server_error, d)
          else (Created (book_attributes b), insert_book b d))"

definition books_update :: "host \<Rightarrow> user_row \<Rightarrow> int \<Rightarrow> book_form \<Rightarrow> db \<Rightarrow> book_json response \<times> db" where
  [server_defs]: "books_update h u i f d =
     (if ur_role u \<noteq> Librarian then (forbidden, d)
      else case find_book d i of
        None \<Rightarrow> (not_found, d)
      | Some b0 \<Rightarrow>
          (let attrs = updated_attributes b0 f; errs = book_errors h d (Some i) attrs in
           if errs \<noteq> [] then (Failed 422 (errors_body (group_errors errs)), d)
           else let b = form_book i attrs in
             if copies_overflow b then (server_error, d)
             else (Ok_200 (book_attributes b), update_book_row b d)))"

definition books_destroy :: "user_row \<Rightarrow> int \<Rightarrow> db \<Rightarrow> unit response \<times> db" where
  [server_defs]: "books_destroy u i d =
     (if ur_role u \<noteq> Librarian then (forbidden, d)
      else case find_book d i of None \<Rightarrow> (not_found, d) | Some b \<Rightarrow> (No_Content, destroy_book i d))"

section \<open>Borrowings\<close>

text \<open>
  The rendered borrowing with its book and the listed fields of its user. The role is not among
  them; \<open>uj_role\<close> is filled in from the row because the client's type has the field.
\<close>

definition user_json_of :: "user_row \<Rightarrow> user_json" where
  [server_defs]: "user_json_of u =
     \<lparr>uj_id = ur_id u, uj_email = ur_email u, uj_first_name = ur_first_name u,
      uj_last_name = ur_last_name u, uj_role = ur_role u\<rparr>"

definition loan_json :: "db \<Rightarrow> loan_row \<Rightarrow> borrowing_json option" where
  [server_defs]: "loan_json d l =
     map_option (\<lambda>b.
       \<lparr>rj_id = ln_id l, rj_book = book_attributes b,
        rj_user = map_option user_json_of (find_user d (ln_user_id l)),
        rj_borrowed_at = ln_borrowed_at l, rj_due_date = ln_due_date l,
        rj_returned_at = ln_returned_at l, rj_status = ln_status l, rj_created_at = ln_created_at l\<rparr>)
       (find_book d (ln_book_id l))"

text \<open>The filters of \<open>index\<close>: whose borrowings, the status, the text and the day.\<close>

definition visible_loans :: "user_row \<Rightarrow> loan_row list \<Rightarrow> loan_row list" where
  [server_defs]: "visible_loans u ls =
     (if ur_role u = Librarian then ls else filter (\<lambda>l. ln_user_id l = ur_id u) ls)"

fun status_name :: "status \<Rightarrow> string" where
  "status_name Borrowed = ''borrowed''"
| "status_name Returned = ''returned''"
| "status_name Overdue = ''overdue''"

definition status_filter :: "string \<Rightarrow> loan_row list \<Rightarrow> loan_row list" where
  [server_defs]: "status_filter v ls =
     (if v \<in> {''borrowed'', ''returned'', ''overdue''}
      then filter (\<lambda>l. status_name (ln_status l) = v) ls else ls)"

definition text_search :: "host \<Rightarrow> db \<Rightarrow> string option \<Rightarrow> loan_row list \<Rightarrow> loan_row list" where
  [server_defs]: "text_search h d q ls =
     (let t = strip h (case q of None \<Rightarrow> [] | Some v \<Rightarrow> v) in
      if blank h t then ls
      else let pat = ''%'' @ strip h t @ ''%'';
               hit = (\<lambda>v. case v of None \<Rightarrow> False | Some x \<Rightarrow> ilike h x pat) in
        filter (\<lambda>l.
          let b = find_book d (ln_book_id l); u = find_user d (ln_user_id l) in
          hit (map_option br_title b) \<or> hit (map_option br_author b) \<or> hit (map_option ur_email u)
          \<or> hit (Option.bind u ur_first_name) \<or> hit (Option.bind u ur_last_name)) ls)"

definition date_filter :: "host \<Rightarrow> string option \<Rightarrow> loan_row list \<Rightarrow> loan_row list" where
  [server_defs]: "date_filter h v ls =
     (case presence (blank h) v of
        None \<Rightarrow> ls
      | Some t \<Rightarrow>
          (case parse_date h t of
             None \<Rightarrow> ls
           | Some d \<Rightarrow> filter (\<lambda>l. utc_date (ln_borrowed_at l) = d) ls))"

text \<open>The order is total: ties are broken by id in the same direction.\<close>

definition order_loans :: "sort_key \<Rightarrow> direction \<Rightarrow> loan_row list \<Rightarrow> loan_row list" where
  [server_defs]: "order_loans k dir ls =
     (let key = (\<lambda>l. case k of By_Due_Date \<Rightarrow> day_no (ln_due_date l) | By_Borrowed_At \<Rightarrow> ln_borrowed_at l) in
      case dir of
        Asc \<Rightarrow> List.sort_key (\<lambda>l. (key l, ln_id l)) ls
      | Desc \<Rightarrow> List.sort_key (\<lambda>l. (- key l, - ln_id l)) ls)"

definition selected_loans :: "host \<Rightarrow> db \<Rightarrow> user_row \<Rightarrow> list_params \<Rightarrow> loan_row list" where
  [server_defs]: "selected_loans h d u ps =
     order_loans (lp_sort ps) (lp_direction ps)
       (date_filter h (lp_date ps) (text_search h d (lp_q ps)
         (status_filter (lp_status ps) (visible_loans u (db_loans d)))))"

definition borrowings_index ::
    "host \<Rightarrow> db \<Rightarrow> user_row \<Rightarrow> list_params \<Rightarrow> borrowing_json list response" where
  [server_defs]: "borrowings_index h d u ps =
     Ok_200 (List.map_filter (loan_json d)
       (page_slice (selected_loans h d u ps) (page_number (Some (lp_page ps)))))"

text \<open>\<open>create\<close>: any signed-in user may borrow. The client uses nothing of the rendered record.\<close>

definition borrowings_create :: "int \<Rightarrow> user_row \<Rightarrow> int \<Rightarrow> db \<Rightarrow> unit response \<times> db" where
  [server_defs]: "borrowings_create t u book_id d =
     (case find_book d book_id of
        None \<Rightarrow> (not_found, d)
      | Some b \<Rightarrow>
          (case create_borrowing t u b d of
             (Inl errs, d') \<Rightarrow> (record_invalid errs, d')
           | (Inr l, d') \<Rightarrow> (Created (), d')))"

definition return_book ::
    "host \<Rightarrow> int \<Rightarrow> user_row \<Rightarrow> int \<Rightarrow> string option \<Rightarrow> db \<Rightarrow> unit response \<times> db" where
  [server_defs]: "return_book h t u i comment d =
     (case find_loan d i of
        None \<Rightarrow> (not_found, d)
      | Some l \<Rightarrow>
          (if ur_role u \<noteq> Librarian then (forbidden, d)
           else (Ok_200 (), return_loan (blank h) t comment l d)))"

section \<open>Dashboards\<close>

text \<open>The counts of the two dashboards; today is the UTC date.\<close>

definition count_loans :: "(loan_row \<Rightarrow> bool) \<Rightarrow> db \<Rightarrow> int" where
  [server_defs]: "count_loans P d = int (length (filter P (db_loans d)))"

definition due_within :: "int \<Rightarrow> loan_row \<Rightarrow> bool" where
  [server_defs]: "due_within t l \<longleftrightarrow>
     utc_date t \<le> ln_due_date l \<and> ln_due_date l \<le> date_add (utc_date t) 3 \<and> ln_status l = Borrowed"

definition librarian_due_today :: "int \<Rightarrow> db \<Rightarrow> int" where
  [server_defs]: "librarian_due_today t d = count_loans (due_within t) d"

definition librarian_currently_borrowed :: "db \<Rightarrow> int" where
  [server_defs]: "librarian_currently_borrowed d = count_loans (\<lambda>l. ln_status l = Borrowed) d"

definition librarian_overdue_books_count :: "db \<Rightarrow> int" where
  [server_defs]: "librarian_overdue_books_count d = count_loans (\<lambda>l. ln_status l = Overdue) d"

definition member_overdue_count :: "user_row \<Rightarrow> db \<Rightarrow> int" where
  [server_defs]: "member_overdue_count u d =
     count_loans (\<lambda>l. ln_user_id l = ur_id u \<and> ln_status l = Overdue) d"

definition member_due_soon_count :: "int \<Rightarrow> user_row \<Rightarrow> db \<Rightarrow> int" where
  [server_defs]: "member_due_soon_count t u d =
     count_loans (\<lambda>l. ln_user_id l = ur_id u \<and> due_within t l) d"

definition member_current_borrowings :: "user_row \<Rightarrow> db \<Rightarrow> loan_row list" where
  [server_defs]: "member_current_borrowings u d =
     filter (\<lambda>l. ln_user_id l = ur_id u \<and> ln_status l \<in> {Borrowed, Overdue}) (db_loans d)"

definition mark_overdue_endpoint :: "int \<Rightarrow> user_row \<Rightarrow> db \<Rightarrow> (string \<times> nat) response \<times> db" where
  [server_defs]: "mark_overdue_endpoint t u d =
     (if ur_role u \<noteq> Librarian then (forbidden, d)
      else case mark_overdue_books t d of
        (n, notified, d') \<Rightarrow>
          (Ok_200 (''Successfully marked '' @ nat_digits n @ '' books as overdue'', n), d'))"

end
