(* ===== verification/Librarian_Borrowings.thy ===== *)
theory Librarian_Borrowings imports Borrowing_Lists begin

text \<open>
  \<open>frontend/src/pages/librarian/Borrowings.tsx\<close>: the list of all borrowings with its filters, sorting
  and pages, and the dialogue that returns a book. \<open>onReturn\<close> and the \<open>load\<close> it awaits close over
  the filters of the render the dialogue was confirmed in, so those travel with the requests.
\<close>

section \<open>State\<close>

record loans_page =
  lr_items :: "borrowing_json list"
  lr_page :: int
  lr_sort :: sort_key
  lr_direction :: direction
  lr_status :: string
  lr_q :: string
  lr_date :: string
  lr_returningId :: "int option"
  lr_returnComment :: string

datatype lr_event =
    LR_SetQ string | LR_SetDate string | LR_Clear | LR_SetStatus string
  | LR_Sort sort_key
  | LR_Return int | LR_Dismiss | LR_SetComment string | LR_Confirm
  | LR_Prev | LR_Next

text \<open>\<open>LR_Load\<close> is sent by the effect, \<open>LR_Reload\<close> by \<open>onReturn\<close> after a return succeeded.\<close>

datatype lr_request =
    LR_Load list_params
  | LR_Post_Return int "string option" list_params
  | LR_Reload list_params

text \<open>The initial state of the filter, from the \<open>status\<close> parameter of the page's URL.\<close>

definition lr_initial_status :: "string option \<Rightarrow> string" where
  "lr_initial_status statusParam =
     (if statusParam = Some ''borrowed'' \<or> statusParam = Some ''returned'' \<or> statusParam = Some ''overdue''
      then the statusParam else ''all'')"

definition initial_loans_page :: "string option \<Rightarrow> loans_page" where
  "initial_loans_page statusParam =
     \<lparr>lr_items = [], lr_page = 1, lr_sort = By_Borrowed_At, lr_direction = Desc,
      lr_status = lr_initial_status statusParam, lr_q = [], lr_date = [],
      lr_returningId = None, lr_returnComment = []\<rparr>"

definition lr_params :: "loans_page \<Rightarrow> list_params" where
  "lr_params s = \<lparr>lp_page = lr_page s, lp_sort = lr_sort s, lp_status = lr_status s,
     lp_direction = lr_direction s, lp_q = or_undefined (lr_q s), lp_date = or_undefined (lr_date s)\<rparr>"

section \<open>Handlers\<close>

definition lr_sort_click :: "sort_key \<Rightarrow> loans_page \<Rightarrow> loans_page" where
  [handler_defs]: "lr_sort_click k s =
     (case k of
        By_Borrowed_At \<Rightarrow>
          (if lr_sort s = By_Borrowed_At
           then s\<lparr>lr_direction := (if lr_direction s = Desc then Asc else Desc)\<rparr>
           else s\<lparr>lr_sort := By_Borrowed_At, lr_direction := Desc\<rparr>)
      | By_Due_Date \<Rightarrow>
          (if lr_sort s = By_Due_Date
           then s\<lparr>lr_direction := (if lr_direction s = Asc then Desc else Asc)\<rparr>
           else s\<lparr>lr_sort := By_Due_Date, lr_direction := Asc\<rparr>))\<lparr>lr_page := 1\<rparr>"

definition lr_prev :: "loans_page \<Rightarrow> loans_page" where
  [handler_defs]: "lr_prev s = s\<lparr>lr_page := max 1 (lr_page s - 1)\<rparr>"

definition lr_next :: "loans_page \<Rightarrow> loans_page" where
  [handler_defs]: "lr_next s = s\<lparr>lr_page := lr_page s + 1\<rparr>"

definition lr_dismiss :: "loans_page \<Rightarrow> loans_page" where
  [handler_defs]: "lr_dismiss s = s\<lparr>lr_returningId := None, lr_returnComment := []\<rparr>"

text \<open>Confirming runs \<open>onReturn\<close> up to its first await, or, without an id, closes at once.\<close>

definition lr_confirm :: "loans_page \<Rightarrow> loans_page \<times> lr_request effect list" where
  [handler_defs]: "lr_confirm s =
     (case lr_returningId s of
        Some i \<Rightarrow> (s, [Send (LR_Post_Return i (or_undefined (lr_returnComment s)) (lr_params s))])
      | None \<Rightarrow> (lr_dismiss s, []))"

fun lr_handle :: "lr_event \<Rightarrow> loans_page \<Rightarrow> loans_page \<times> lr_request effect list" where
  "lr_handle (LR_SetQ v) s = (s\<lparr>lr_q := v, lr_page := 1\<rparr>, [])"
| "lr_handle (LR_SetDate v) s = (s\<lparr>lr_date := v, lr_page := 1\<rparr>, [])"
| "lr_handle LR_Clear s = (s\<lparr>lr_q := [], lr_date := [], lr_page := 1\<rparr>, [])"
| "lr_handle (LR_SetStatus v) s = (s\<lparr>lr_status := v, lr_page := 1\<rparr>, [])"
| "lr_handle (LR_Sort k) s = (lr_sort_click k s, [])"
| "lr_handle (LR_Return i) s = (s\<lparr>lr_returningId := Some i, lr_returnComment := []\<rparr>, [])"
| "lr_handle LR_Dismiss s = (lr_dismiss s, [])"
| "lr_handle (LR_SetComment v) s = (s\<lparr>lr_returnComment := v\<rparr>, [])"
| "lr_handle LR_Confirm s = lr_confirm s"
| "lr_handle LR_Prev s = (lr_prev s, [])"
| "lr_handle LR_Next s = (lr_next s, [])"

text \<open>\<open>load\<close> is a new callback, and the effect runs, when one of its parameters changed.\<close>

definition lr_effect :: "loans_page \<Rightarrow> loans_page \<Rightarrow> lr_request effect list" where
  "lr_effect old new =
     (if (lr_page new, lr_sort new, lr_status new, lr_direction new, lr_q new, lr_date new)
         \<noteq> (lr_page old, lr_sort old, lr_status old, lr_direction old, lr_q old, lr_date old)
      then [Send (LR_Load (lr_params new))] else [])"

definition lr_event_step :: "lr_event \<Rightarrow> loans_page \<Rightarrow> loans_page \<times> lr_request effect list" where
  "lr_event_step e s = (case lr_handle e s of (s', effs) \<Rightarrow> (s', effs @ lr_effect s s'))"

definition lr_load_reply :: "borrowing_json list reply \<Rightarrow> loans_page \<Rightarrow> loans_page \<times> lr_request effect list" where
  [handler_defs]: "lr_load_reply r s =
     (case r of
        Resolved (Some xs) \<Rightarrow> (s\<lparr>lr_items := xs\<rparr>, [])
      | Resolved None \<Rightarrow> (s\<lparr>lr_items := []\<rparr>, [Log ''Invalid API response format''])
      | Rejected e \<Rightarrow> (s\<lparr>lr_items := []\<rparr>, [Log ''Failed to load borrowings:'']))"

text \<open>
  The reply to the return: on success \<open>onReturn\<close> awaits \<open>load\<close>, on failure it reports; the dialogue
  closes once \<open>onReturn\<close> is done.
\<close>

definition onReturn_reply ::
    "list_params \<Rightarrow> unit reply \<Rightarrow> loans_page \<Rightarrow> loans_page \<times> lr_request effect list" where
  [handler_defs]: "onReturn_reply ps r s =
     (case r of
        Resolved d \<Rightarrow> (s, [Send (LR_Reload ps)])
      | Rejected e \<Rightarrow>
          (lr_dismiss s, [Log ''Failed to return book:'', Alert ''Failed to return book'']))"

definition lr_reload_reply :: "borrowing_json list reply \<Rightarrow> loans_page \<Rightarrow> loans_page \<times> lr_request effect list" where
  [handler_defs]: "lr_reload_reply r s = (case lr_load_reply r s of (s', effs) \<Rightarrow> (lr_dismiss s', effs))"

section \<open>Rendering\<close>

definition status_badge :: "int \<Rightarrow> borrowing_json \<Rightarrow> 'e node list" where
  [view_defs]: "status_badge t it =
     (case rj_status it of
        Borrowed \<Rightarrow>
          (let d = days_until_due t (rj_due_date it) in
           if d \<le> 3 \<and> 0 \<le> d
           then [Bdg Badge_Warning [Txt ''Due soon ('', Txt (int_digits d), Txt ''d)'']]
           else [Bdg Badge_Info [Txt ''Borrowed'']])
      | Returned \<Rightarrow> [Bdg Badge_Success [Txt ''Returned'']]
      | Overdue \<Rightarrow> [Bdg Badge_Danger [Txt ''Overdue'']])"

definition lr_member_name :: "borrowing_json \<Rightarrow> string" where
  [view_defs]: "lr_member_name it =
     (case rj_user it of None \<Rightarrow> ''-'' | Some u \<Rightarrow> display_name u)"

definition lr_row :: "auth_state \<Rightarrow> browser \<Rightarrow> borrowing_json \<Rightarrow> lr_event node" where
  [view_defs]: "lr_row state br it =
     TR ((if is_librarian state then [TD [Txt (lr_member_name it)]] else [])
         @ [TD [Txt (bj_title (rj_book it)), El ''span'' [Txt ''by '', Txt (bj_author (rj_book it))]],
            TD [Txt (locale_date br (rj_borrowed_at it))],
            TD [Txt (locale_date br (date_only_ms (rj_due_date it)))],
            TD (status_badge (now br) it),
            TD [El ''span''
                  (if rj_status it = Borrowed
                   then [Btn Ghost Md False (LR_Return (rj_id it)) [Txt ''Return'']] else [])]])"

definition sort_header :: "string \<Rightarrow> bool \<Rightarrow> direction \<Rightarrow> 'e \<Rightarrow> 'e node" where
  [view_defs]: "sort_header label active dir e =
     Clickable ''th'' e
       [El ''span''
         ([Txt label] @
          (if active then [El ''span'' [Txt (if dir = Asc then up_arrow else down_arrow)]] else []))]"

definition lr_dialogue :: "loans_page \<Rightarrow> lr_event node list" where
  [view_defs]: "lr_dialogue s =
     Modal (lr_returningId s \<noteq> None) LR_Dismiss (Some ''Confirm Return'')
       [El ''div''
         [El ''p'' [Txt ''Are you sure you want to mark this borrowing as returned?''],
          Input (Some ''Optional comment'') None None [(''placeholder'', ''Condition, notes, etc.'')]
            (Text_Value (lr_returnComment s)) LR_SetComment]]
       [Btn Ghost Md False LR_Dismiss [Txt ''Cancel''],
        Btn Primary Md False LR_Confirm [Txt ''Confirm Return'']]"

definition lr_filters :: "loans_page \<Rightarrow> lr_event node list" where
  [view_defs]: "lr_filters s =
     [El ''div''
       [El ''div''
         ([Field [(''type'', ''text''), (''placeholder'', ''Search member or book...'')]
             (Text_Value (lr_q s)) LR_SetQ,
           Field [(''type'', ''date'')] (Text_Value (lr_date s)) LR_SetDate]
          @ (if lr_q s \<noteq> [] \<or> lr_date s \<noteq> []
             then [Btn Secondary Sm False LR_Clear [Txt ''Clear'']] else [])),
        El ''div''
         [El ''label'' [Txt ''Status''], Select (lr_status s) status_options LR_SetStatus]]]"

definition BorrowingsPage :: "auth_state \<Rightarrow> browser \<Rightarrow> loans_page \<Rightarrow> lr_event node list" where
  [view_defs]: "BorrowingsPage state br s =
     lr_filters s
     @ [Table
         [THead [TR
           ((if is_librarian state then [TH [Txt ''Member'']] else [])
            @ [TH [Txt ''Book''],
               sort_header ''Borrowed'' (lr_sort s = By_Borrowed_At) (lr_direction s) (LR_Sort By_Borrowed_At),
               sort_header ''Due'' (lr_sort s = By_Due_Date) (lr_direction s) (LR_Sort By_Due_Date),
               TH [Txt ''Status''], TH [Txt ''Actions'']])],
          TBody (map (lr_row state br) (lr_items s))]]
     @ lr_dialogue s
     @ pager_controls (lr_page s) (length (lr_items s)) LR_Prev LR_Next"

lemma status_badge_offers [simp]: "offers (status_badge t it) = {}"
  by (simp add: status_badge_def Let_def split: status.split)

lemma lr_row_offers [simp]:
  "node_offers (lr_row state br it) = (if rj_status it = Borrowed then {LR_Return (rj_id it)} else {})"
  by (simp add: lr_row_def)

lemma sort_header_offers [simp]: "node_offers (sort_header l a d e) = {e}"
  by (simp add: sort_header_def)

lemma offers_BorrowingsPage:
  "offers (BorrowingsPage state br s) =
     range LR_SetQ \<union> range LR_SetDate \<union> (if lr_q s \<noteq> [] \<or> lr_date s \<noteq> [] then {LR_Clear} else {})
     \<union> LR_SetStatus ` status_values \<union> range LR_Sort
     \<union> {LR_Return (rj_id it) | it. it \<in> set (lr_items s) \<and> rj_status it = Borrowed}
     \<union> (if lr_returningId s \<noteq> None then {LR_Dismiss, LR_Confirm} \<union> range LR_SetComment else {})
     \<union> offers (pager_controls (lr_page s) (length (lr_items s)) LR_Prev LR_Next)"
proof -
  have "range LR_Sort = {LR_Sort By_Borrowed_At, LR_Sort By_Due_Date}"
    by (auto, metis sort_key.exhaust)
  then show ?thesis
    by (auto simp: BorrowingsPage_def lr_filters_def lr_dialogue_def fst_status_options [symmetric]
        split: if_splits)
qed

interpretation lr_pager: pager lr_page lr_items lr_prev lr_next "BorrowingsPage state br" LR_Prev LR_Next
  by unfold_locales (auto simp: offers_BorrowingsPage lr_prev_def lr_next_def)

interpretation lr_sorting: sortable lr_sort lr_direction lr_page lr_sort_click
  by unfold_locales (auto simp: lr_sort_click_def split: sort_key.split direction.split, metis direction.exhaust)

section \<open>Requests follow the filters\<close>

lemma or_undefined_inj: "or_undefined a = or_undefined b \<longleftrightarrow> a = b"
  by (auto simp: or_undefined_def)

lemma lr_params_eq_iff:
  "lr_params s = lr_params t \<longleftrightarrow>
   (lr_page s, lr_sort s, lr_status s, lr_direction s, lr_q s, lr_date s)
   = (lr_page t, lr_sort t, lr_status t, lr_direction t, lr_q t, lr_date t)"
  by (auto simp: lr_params_def or_undefined_inj)

lemma lr_effect_eq:
  "lr_effect old new = (if lr_params new = lr_params old then [] else [Send (LR_Load (lr_params new))])"
  by (simp only: lr_effect_def lr_params_eq_iff) simp

fun is_load :: "lr_request \<Rightarrow> bool" where
  "is_load (LR_Load ps) = True"
| "is_load _ = False"

lemma lr_handle_no_load:
  "lr_handle e s = (s', effs) \<Longrightarrow> filter is_load (sends effs) = []"
  by (cases e) (auto simp: handler_defs split: option.splits)

lemma lr_handle_page:
  "lr_handle e s = (s', effs) \<Longrightarrow>
   (lr_sort s', lr_status s', lr_direction s', lr_q s', lr_date s')
     \<noteq> (lr_sort s, lr_status s, lr_direction s, lr_q s, lr_date s) \<Longrightarrow> lr_page s' = 1"
  by (cases e) (auto simp: handler_defs split: option.splits sort_key.splits if_splits)

text \<open>The list of borrowings is requested exactly when it would change: an event sends one list
  request, with the new parameters, when it changes a parameter, and none otherwise; and an event
  that changes the filters or the order returns to the first page.\<close>

theorem loans_requested_on_change:
  "let (s', effs) = lr_event_step e s in
     filter is_load (sends effs) = (if lr_params s' = lr_params s then [] else [LR_Load (lr_params s')])
     \<and> ((lp_sort (lr_params s'), lp_status (lr_params s'), lp_direction (lr_params s'),
          lp_q (lr_params s'), lp_date (lr_params s'))
         \<noteq> (lp_sort (lr_params s), lp_status (lr_params s), lp_direction (lr_params s),
            lp_q (lr_params s), lp_date (lr_params s))
        \<longrightarrow> lr_page s' = 1)"
proof -
  obtain s' effs where h: "lr_handle e s = (s', effs)" by fastforce
  have loads: "filter is_load (sends (effs @ lr_effect s s')) =
      (if lr_params s' = lr_params s then [] else [LR_Load (lr_params s')])"
    by (simp add: lr_handle_no_load [OF h] lr_effect_eq)
  have first: "(lp_sort (lr_params s'), lp_status (lr_params s'), lp_direction (lr_params s'),
          lp_q (lr_params s'), lp_date (lr_params s'))
        = (lr_sort s', lr_status s', lr_direction s', or_undefined (lr_q s'), or_undefined (lr_date s'))" for s'
    by (simp add: lr_params_def)
  show ?thesis
    unfolding lr_event_step_def h prod.case Let_def first
    using loads lr_handle_page [OF h] by (simp only: prod.inject or_undefined_inj) simp
qed

text \<open>The sortable headers: every click returns to the first page and sorts by the clicked column,
  a second click on a column turns its direction around and a third restores it, and every column in
  either direction is reached by at most three clicks on its header.\<close>

theorem loans_sorting:
  "lr_sort (lr_sort_click k s) = k \<and> lr_page (lr_sort_click k s) = 1
   \<and> (lr_sort s = k \<longrightarrow> lr_direction (lr_sort_click k s) \<noteq> lr_direction s
        \<and> lr_direction (lr_sort_click k (lr_sort_click k s)) = lr_direction s)
   \<and> (\<exists>n\<in>{1, 2, 3}. lr_sort ((lr_sort_click k ^^ n) s) = k \<and> lr_direction ((lr_sort_click k ^^ n) s) = d)"
  using lr_sorting.click_sort lr_sorting.click_page lr_sorting.click_twice lr_sorting.reach_any
    lr_sorting.click_active [of s k]
  by (auto split: if_splits)

end
