(* ===== verification/Borrow_Button.thy ===== *)
theory Borrow_Button imports Ui_Kit begin

text \<open>
  \<open>frontend/src/components/BorrowButton.tsx\<close>: the button with its confirmation dialogue, as a state
  machine over the events its own rendering offers, with the reply to the borrow request arriving
  at any later time.
\<close>

section \<open>State and events\<close>

record borrow_button =
  bb_loading :: bool
  bb_open :: bool
  bb_errorMessage :: string
  bb_successMessage :: string
  bb_available :: bool

datatype bb_event = BB_Borrow | BB_Dismiss | BB_Close | BB_Cancel | BB_Confirm

definition initial_bb :: borrow_button where
  "initial_bb = \<lparr>bb_loading = False, bb_open = False, bb_errorMessage = [],
     bb_successMessage = [], bb_available = True\<rparr>"

text \<open>\<open>dueDateText\<close>: the local calendar day fourteen days after the component was mounted.\<close>

definition dueDateText :: "browser \<Rightarrow> string" where
  "dueDateText br = fmt_date br (local_day (zone br) (now br) + 14)"

section \<open>Handlers\<close>

text \<open>The handlers up to the first await; \<open>Send\<close> carries the book's id of \<open>POST /borrowings\<close>.\<close>

fun bb_handle :: "int \<Rightarrow> bb_event \<Rightarrow> borrow_button \<Rightarrow> borrow_button \<times> int effect list" where
  "bb_handle bookId BB_Borrow s =
     (s\<lparr>bb_errorMessage := [], bb_successMessage := [], bb_open := True\<rparr>, [])"
| "bb_handle bookId BB_Dismiss s =
     (s\<lparr>bb_open := False, bb_errorMessage := [], bb_successMessage := []\<rparr>, [])"
| "bb_handle bookId BB_Close s = (s\<lparr>bb_open := False, bb_successMessage := []\<rparr>, [])"
| "bb_handle bookId BB_Cancel s = (s\<lparr>bb_open := False, bb_errorMessage := []\<rparr>, [])"
| "bb_handle bookId BB_Confirm s = (s\<lparr>bb_loading := True\<rparr>, [Send bookId])"

text \<open>The message of a failed request.\<close>

definition borrow_failure :: "thrown \<Rightarrow> string" where
  "borrow_failure e =
     (case e of
        Axios_Error body m \<Rightarrow>
          (case Option.bind body eb_details of
             Some (Detail_List ds) \<Rightarrow>
               (if ds \<noteq> [] then js_join [CHR 0x0A] ds
                else js_or (Option.bind body eb_error) ''Failed to borrow'')
           | Some (Detail_Text d) \<Rightarrow>
               (if d \<noteq> [] then d else js_or (Option.bind body eb_error) ''Failed to borrow'')
           | None \<Rightarrow> js_or (Option.bind body eb_error) ''Failed to borrow'')
      | Plain_Error m \<Rightarrow> js_or (Some m) ''Failed to borrow''
      | Other_Thrown \<Rightarrow> ''Failed to borrow'')"

text \<open>What runs when the reply arrives, \<open>finally\<close> included.\<close>

definition bb_reply :: "string \<Rightarrow> unit reply \<Rightarrow> borrow_button \<Rightarrow> borrow_button" where
  [handler_defs]: "bb_reply dueText r s =
     (case r of
        Resolved d \<Rightarrow>
          s\<lparr>bb_errorMessage := [],
            bb_successMessage := ''Borrowed! Please return by '' @ dueText,
            bb_available := False, bb_loading := False\<rparr>
      | Rejected e \<Rightarrow> s\<lparr>bb_errorMessage := borrow_failure e, bb_loading := False\<rparr>)"

section \<open>Rendering\<close>

text \<open>\<open>split\<close> of the error message at its line feeds.\<close>

fun split_lines :: "string \<Rightarrow> string list" where
  "split_lines [] = [[]]"
| "split_lines (c # cs) =
     (if c = CHR 0x0A then [] # split_lines cs
      else (case split_lines cs of [] \<Rightarrow> [[c]] | l # ls \<Rightarrow> (c # l) # ls))"

lemma split_lines_append:
  "CHR 0x0A \<notin> set l \<Longrightarrow> split_lines (l @ CHR 0x0A # cs) = l # split_lines cs"
  by (induction l) auto

lemma split_lines_single: "CHR 0x0A \<notin> set l \<Longrightarrow> split_lines l = [l]"
  by (induction l) auto

lemma split_lines_join:
  "ls \<noteq> [] \<Longrightarrow> \<forall>l\<in>set ls. CHR 0x0A \<notin> set l \<Longrightarrow> split_lines (js_join [CHR 0x0A] ls) = ls"
  by (induction "[CHR 0x0A]" ls rule: js_join.induct) (auto simp: split_lines_single split_lines_append)

definition BorrowButton :: "string \<Rightarrow> borrow_button \<Rightarrow> bb_event node list" where
  [view_defs]: "BorrowButton dueText s =
     (if bb_available s
      then [Btn Ghost Md (bb_loading s) BB_Borrow
              [Txt (if bb_loading s then ellipsis else ''Borrow'')]]
      else [El ''span'' [Txt ''N/A'']])
     @ Modal (bb_open s) BB_Dismiss
         (Some (if bb_successMessage s \<noteq> [] then ''Borrowed'' else ''Confirm borrow''))
         (if bb_successMessage s \<noteq> []
          then [El ''div'' [El ''p'' [Txt (bb_successMessage s)]]]
          else [El ''div''
                  ([El ''p'' [Txt ''Are you sure you want to borrow this book?''],
                    El ''p'' [Txt ''If you confirm now, you should return it by '',
                              El ''span'' [Txt dueText], Txt ''.'']]
                   @ (if bb_errorMessage s \<noteq> []
                      then [El ''div'' (map (\<lambda>line. El ''div'' [Txt line])
                              (split_lines (bb_errorMessage s)))]
                      else []))])
         (if bb_successMessage s \<noteq> []
          then [Btn Secondary Md False BB_Close [Txt ''Close'']]
          else [Btn Ghost Md (bb_loading s) BB_Cancel [Txt ''Cancel''],
                Btn Secondary Md (bb_loading s) BB_Confirm [Txt ''Confirm borrow'']])"

lemma offers_BorrowButton:
  "offers (BorrowButton dueText s) =
     (if bb_available s \<and> \<not> bb_loading s then {BB_Borrow} else {})
     \<union> (if bb_open s
        then {BB_Dismiss}
             \<union> (if bb_successMessage s \<noteq> [] then {BB_Close}
                else if bb_loading s then {} else {BB_Cancel, BB_Confirm})
        else {})"
  by (auto simp: BorrowButton_def)

section \<open>Runs\<close>

text \<open>
  A configuration is the component's state with the requests that are out (\<open>flying\<close>), those that
  succeeded so far (\<open>borrowed\<close>) and all that were sent (\<open>sent\<close>). A user triggers an event the
  rendering offers; a reply comes back for a request that is out.
\<close>

record bb_config =
  comp :: borrow_button
  flying :: nat
  borrowed :: nat
  sent :: nat

definition initial_bb_config :: bb_config where
  "initial_bb_config = \<lparr>comp = initial_bb, flying = 0, borrowed = 0, sent = 0\<rparr>"

inductive bb_step :: "string \<Rightarrow> int \<Rightarrow> bb_config \<Rightarrow> bb_config \<Rightarrow> bool" for dueText bookId where
  user:
    "e \<in> offers (BorrowButton dueText (comp c)) \<Longrightarrow>
     bb_handle bookId e (comp c) = (s, effs) \<Longrightarrow>
     bb_step dueText bookId c
       (c\<lparr>comp := s, flying := flying c + length (sends effs), sent := sent c + length (sends effs)\<rparr>)"
| reply:
    "flying c = Suc n \<Longrightarrow>
     bb_step dueText bookId c
       (c\<lparr>comp := bb_reply dueText r (comp c), flying := n,
          borrowed := borrowed c + (case r of Resolved d \<Rightarrow> 1 | Rejected e \<Rightarrow> 0)\<rparr>)"

inductive bb_reachable :: "string \<Rightarrow> int \<Rightarrow> bb_config \<Rightarrow> bool" for dueText bookId where
  bb_start: "bb_reachable dueText bookId initial_bb_config"
| bb_next: "bb_reachable dueText bookId c \<Longrightarrow> bb_step dueText bookId c c' \<Longrightarrow>
    bb_reachable dueText bookId c'"

text \<open>
  The flags agree with the requests: one is out exactly while loading; once a borrow succeeded the
  button is gone and the dialogue can only show its success.
\<close>

definition bb_inv :: "bb_config \<Rightarrow> bool" where
  "bb_inv c \<longleftrightarrow>
     flying c = (if bb_loading (comp c) then 1 else 0)
     \<and> borrowed c = (if bb_available (comp c) then 0 else 1)
     \<and> (\<not> bb_available (comp c) \<longrightarrow>
          \<not> bb_loading (comp c) \<and> (bb_open (comp c) \<longrightarrow> bb_successMessage (comp c) \<noteq> []))
     \<and> (bb_successMessage (comp c) \<noteq> [] \<longrightarrow> \<not> bb_available (comp c))"

lemma bb_inv_initial: "bb_inv initial_bb_config"
  by (simp add: bb_inv_def initial_bb_config_def initial_bb_def)

lemma bb_user_inv:
  assumes "bb_inv c" "e \<in> offers (BorrowButton dueText (comp c))"
    and "bb_handle bookId e (comp c) = (s, effs)"
  shows "bb_inv (c\<lparr>comp := s, flying := flying c + length (sends effs),
                    sent := sent c + length (sends effs)\<rparr>)"
  using assms
  by (cases e) (auto simp: bb_inv_def offers_BorrowButton split: if_splits)

lemma bb_reply_inv:
  assumes "bb_inv c" "flying c = Suc n"
  shows "bb_inv (c\<lparr>comp := bb_reply dueText r (comp c), flying := n,
           borrowed := borrowed c + (case r of Resolved d \<Rightarrow> 1 | Rejected e \<Rightarrow> 0)\<rparr>)"
  using assms
  by (cases r) (auto simp: bb_inv_def bb_reply_def split: if_splits)

lemma bb_step_inv: "bb_step dueText bookId c c' \<Longrightarrow> bb_inv c \<Longrightarrow> bb_inv c'"
  by (induction rule: bb_step.induct) (rule bb_user_inv; assumption | rule bb_reply_inv; assumption)+

lemma bb_reachable_inv: "bb_reachable dueText bookId c \<Longrightarrow> bb_inv c"
  by (induction rule: bb_reachable.induct) (auto intro: bb_inv_initial bb_step_inv)

text \<open>C10. The borrow button sends one request at a time and borrows once: in every run, at most one
  request is out and at most one succeeded; while one is out the dialogue offers neither to confirm
  nor to cancel; after a success nothing is offered that could send another.\<close>

theorem borrow_once:
  assumes "bb_reachable dueText bookId c"
  shows "flying c \<le> 1 \<and> borrowed c \<le> 1
    \<and> (flying c = 1 \<longrightarrow> {BB_Borrow, BB_Confirm, BB_Cancel} \<inter> offers (BorrowButton dueText (comp c)) = {})
    \<and> (borrowed c = 1 \<longrightarrow> flying c = 0
         \<and> offers (BorrowButton dueText (comp c)) \<subseteq> {BB_Dismiss, BB_Close})"
  using bb_reachable_inv [OF assms]
  by (auto simp: bb_inv_def offers_BorrowButton split: if_splits)

text \<open>A failed request leaves a message in the dialogue unless the server sent exactly one message
  and it is empty: that is the only failure for which nothing is shown.\<close>

theorem borrow_failure_silent_iff:
  "borrow_failure e = [] \<longleftrightarrow>
     (\<exists>body m. e = Axios_Error (Some body) m \<and> eb_details body = Some (Detail_List [[]]))"
proof -
  have join: "ds \<noteq> [] \<Longrightarrow> js_join [CHR 0x0A] ds = [] \<longleftrightarrow> ds = [[]]" for ds
    by (cases ds rule: list.exhaust; cases "tl ds") auto
  have other: "js_or v ''Failed to borrow'' \<noteq> []" for v by (rule js_or_not_empty) simp
  show ?thesis
  proof (cases e)
    case (Axios_Error body m)
    show ?thesis
    proof (cases "Option.bind body eb_details")
      case None
      with Axios_Error other show ?thesis by (auto simp: borrow_failure_def)
    next
      case (Some ds)
      then obtain b where b: "body = Some b" "eb_details b = Some ds" by (cases body) auto
      with Axios_Error other join show ?thesis
        by (cases ds) (auto simp: borrow_failure_def)
    qed
  qed (use other in \<open>auto simp: borrow_failure_def\<close>)
qed

end
