(* ===== verification/Member_Pages.thy ===== *)
theory Member_Pages imports Librarian_Borrowings Borrow_Button begin

text \<open>
  \<open>frontend/src/pages/member/Books.tsx\<close> and \<open>frontend/src/pages/member/Borrowings.tsx\<close>: the catalogue
  with a borrow button for each book that can be borrowed, and the member's own borrowings. Neither
  page catches a failed load: the list then stays as it was.
\<close>

section \<open>Books\<close>

record member_books =
  mk_books :: "book_json list"
  mk_q :: string
  mk_page :: int
  mk_buttons :: "int \<Rightarrow> borrow_button option"

datatype mk_event = MK_SetQ string | MK_Prev | MK_Next | MK_Borrow int bb_event

datatype mk_request = MK_Get_Books string int | MK_Post_Borrowing int

definition initial_member_books :: member_books where
  "initial_member_books = \<lparr>mk_books = [], mk_q = [], mk_page = 1, mk_buttons = Map.empty\<rparr>"

text \<open>\<open>b.can_borrow\<close> as a condition: an absent flag is falsy.\<close>

definition can_borrow :: "book_json \<Rightarrow> bool" where
  "can_borrow b = (bj_can_borrow b = Some True)"

text \<open>
  The borrow buttons of the list: one instance for each book with \<open>can_borrow\<close>, kept while its row
  stays with the flag set, fresh when it first appears.
\<close>

definition mount_buttons ::
    "book_json list \<Rightarrow> (int \<Rightarrow> borrow_button option) \<Rightarrow> int \<Rightarrow> borrow_button option" where
  "mount_buttons bs old = (\<lambda>i.
     case find (\<lambda>b. bj_id b = i) bs of
       None \<Rightarrow> None
     | Some b \<Rightarrow>
         if can_borrow b then Some (case old i of None \<Rightarrow> initial_bb | Some st \<Rightarrow> st) else None)"

definition mk_setBooks :: "book_json list \<Rightarrow> member_books \<Rightarrow> member_books" where
  "mk_setBooks bs s = s\<lparr>mk_books := bs, mk_buttons := mount_buttons bs (mk_buttons s)\<rparr>"

definition mk_prev :: "member_books \<Rightarrow> member_books" where
  [handler_defs]: "mk_prev s = s\<lparr>mk_page := max 1 (mk_page s - 1)\<rparr>"

definition mk_next :: "member_books \<Rightarrow> member_books" where
  [handler_defs]: "mk_next s = s\<lparr>mk_page := mk_page s + 1\<rparr>"

definition mk_borrow_event ::
    "int \<Rightarrow> bb_event \<Rightarrow> member_books \<Rightarrow> member_books \<times> mk_request effect list" where
  [handler_defs]: "mk_borrow_event i e s =
     (case mk_buttons s i of
        None \<Rightarrow> (s, [])
      | Some st \<Rightarrow>
          (case bb_handle i e st of
             (st', effs) \<Rightarrow>
               (s\<lparr>mk_buttons := (mk_buttons s)(i \<mapsto> st')\<rparr>, map (map_effect MK_Post_Borrowing) effs)))"

fun mk_handle :: "mk_event \<Rightarrow> member_books \<Rightarrow> member_books \<times> mk_request effect list" where
  "mk_handle (MK_SetQ v) s = (s\<lparr>mk_q := v, mk_page := 1\<rparr>, [])"
| "mk_handle MK_Prev s = (mk_prev s, [])"
| "mk_handle MK_Next s = (mk_next s, [])"
| "mk_handle (MK_Borrow i e) s = mk_borrow_event i e s"

definition mk_event_step :: "mk_event \<Rightarrow> member_books \<Rightarrow> member_books \<times> mk_request effect list" where
  "mk_event_step e s =
     (case mk_handle e s of
        (s', effs) \<Rightarrow>
          (s', effs @ (if (mk_q s', mk_page s') \<noteq> (mk_q s, mk_page s)
                       then [Send (MK_Get_Books (mk_q s') (mk_page s'))] else [])))"

text \<open>
  The reply to the list request: \<open>setBooks(res.data)\<close> without a check, and no \<open>catch\<close>. A resolved
  reply without data would make the next render fail; that is \<open>None\<close>.
\<close>

definition mk_load_reply :: "book_json list reply \<Rightarrow> member_books \<Rightarrow> member_books option" where
  [handler_defs]: "mk_load_reply r s =
     (case r of
        Resolved (Some bs) \<Rightarrow> Some (mk_setBooks bs s)
      | Resolved None \<Rightarrow> None
      | Rejected e \<Rightarrow> Some s)"

definition mk_borrow_reply :: "string \<Rightarrow> int \<Rightarrow> unit reply \<Rightarrow> member_books \<Rightarrow> member_books" where
  [handler_defs]: "mk_borrow_reply dueText i r s =
     s\<lparr>mk_buttons := (mk_buttons s)(i := map_option (bb_reply dueText r) (mk_buttons s i))\<rparr>"

definition mk_row :: "string \<Rightarrow> member_books \<Rightarrow> book_json \<Rightarrow> mk_event node" where
  [view_defs]: "mk_row dueText s b =
     TR [TD [Txt (bj_title b)], TD [Txt (bj_author b)], TD [Txt (bj_genre b)], TD [Txt (bj_isbn b)],
         TD (if can_borrow b
             then (case mk_buttons s (bj_id b) of
                     None \<Rightarrow> []
                   | Some st \<Rightarrow> map (map_node (MK_Borrow (bj_id b))) (BorrowButton dueText st))
             else [El ''span'' [Txt ''N/A'']])]"

definition MemberBooks_view :: "string \<Rightarrow> member_books \<Rightarrow> mk_event node list" where
  [view_defs]: "MemberBooks_view dueText s =
     [El ''div'' [Input None None None [(''placeholder'', ''Search books'')] (Text_Value (mk_q s)) MK_SetQ],
      Table
        [THead [TR [TH [Txt ''Title''], TH [Txt ''Author''], TH [Txt ''Genre''], TH [Txt ''ISBN''],
                    TH [Txt ''Actions'']]],
         TBody (map (mk_row dueText s) (mk_books s))]]
     @ pager_controls (mk_page s) (length (mk_books s)) MK_Prev MK_Next"

lemma mk_row_offers:
  "node_offers (mk_row dueText s b) =
     (case mk_buttons s (bj_id b) of
        None \<Rightarrow> {}
      | Some st \<Rightarrow> if can_borrow b then MK_Borrow (bj_id b) ` offers (BorrowButton dueText st) else {})"
  by (auto simp: mk_row_def offers_eq_UN split: option.split)

interpretation mk_pager: pager mk_page mk_books mk_prev mk_next "MemberBooks_view dueText" MK_Prev MK_Next
  by unfold_locales
     (auto simp: MemberBooks_view_def mk_row_offers mk_prev_def mk_next_def split: option.splits if_splits)

lemma mk_buttons_can_borrow:
  assumes "distinct (map bj_id bs)" "b \<in> set bs"
  shows "(mount_buttons bs old (bj_id b) \<noteq> None) = can_borrow b"
  using assms by (simp add: mount_buttons_def find_by_key)

section \<open>Borrowings\<close>

record my_loans =
  mr_items :: "borrowing_json list"
  mr_page :: int
  mr_sort :: sort_key
  mr_direction :: direction
  mr_status :: string
  mr_q :: string
  mr_date :: string

datatype mr_event =
    MR_SetQ string | MR_SetDate string | MR_Clear | MR_SetStatus string | MR_Sort sort_key
  | MR_Prev | MR_Next

definition mr_initial_status :: "string option \<Rightarrow> string" where
  "mr_initial_status statusParam =
     (if statusParam = Some ''borrowed'' \<or> statusParam = Some ''returned'' \<or> statusParam = Some ''overdue''
      then the statusParam else ''all'')"

definition initial_my_loans :: "string option \<Rightarrow> my_loans" where
  "initial_my_loans statusParam =
     \<lparr>mr_items = [], mr_page = 1, mr_sort = By_Borrowed_At, mr_direction = Desc,
      mr_status = mr_initial_status statusParam, mr_q = [], mr_date = []\<rparr>"

definition mr_params :: "my_loans \<Rightarrow> list_params" where
  "mr_params s = \<lparr>lp_page = mr_page s, lp_sort = mr_sort s, lp_status = mr_status s,
     lp_direction = mr_direction s, lp_q = or_undefined (mr_q s), lp_date = or_undefined (mr_date s)\<rparr>"

definition mr_sort_click :: "sort_key \<Rightarrow> my_loans \<Rightarrow> my_loans" where
  [handler_defs]: "mr_sort_click k s =
     (case k of
        By_Borrowed_At \<Rightarrow>
          (if mr_sort s = By_Borrowed_At
           then s\<lparr>mr_direction := (if mr_direction s = Desc then Asc else Desc)\<rparr>
           else s\<lparr>mr_sort := By_Borrowed_At, mr_direction := Desc\<rparr>)
      | By_Due_Date \<Rightarrow>
          (if mr_sort s = By_Due_Date
           then s\<lparr>mr_direction := (if mr_direction s = Asc then Desc else Asc)\<rparr>
           else s\<lparr>mr_sort := By_Due_Date, mr_direction := Asc\<rparr>))\<lparr>mr_page := 1\<rparr>"

definition mr_prev :: "my_loans \<Rightarrow> my_loans" where
  [handler_defs]: "mr_prev s = s\<lparr>mr_page := max 1 (mr_page s - 1)\<rparr>"

definition mr_next :: "my_loans \<Rightarrow> my_loans" where
  [handler_defs]: "mr_next s = s\<lparr>mr_page := mr_page s + 1\<rparr>"

fun mr_handle :: "mr_event \<Rightarrow> my_loans \<Rightarrow> my_loans" where
  "mr_handle (MR_SetQ v) s = s\<lparr>mr_q := v, mr_page := 1\<rparr>"
| "mr_handle (MR_SetDate v) s = s\<lparr>mr_date := v, mr_page := 1\<rparr>"
| "mr_handle MR_Clear s = s\<lparr>mr_q := [], mr_date := [], mr_page := 1\<rparr>"
| "mr_handle (MR_SetStatus v) s = s\<lparr>mr_status := v, mr_page := 1\<rparr>"
| "mr_handle (MR_Sort k) s = mr_sort_click k s"
| "mr_handle MR_Prev s = mr_prev s"
| "mr_handle MR_Next s = mr_next s"

definition mr_effect :: "my_loans \<Rightarrow> my_loans \<Rightarrow> list_params effect list" where
  "mr_effect old new =
     (if (mr_page new, mr_sort new, mr_status new, mr_direction new, mr_q new, mr_date new)
         \<noteq> (mr_page old, mr_sort old, mr_status old, mr_direction old, mr_q old, mr_date old)
      then [Send (mr_params new)] else [])"

definition mr_load_reply :: "borrowing_json list reply \<Rightarrow> my_loans \<Rightarrow> my_loans option" where
  [handler_defs]: "mr_load_reply r s =
     (case r of
        Resolved (Some xs) \<Rightarrow> Some (s\<lparr>mr_items := xs\<rparr>)
      | Resolved None \<Rightarrow> None
      | Rejected e \<Rightarrow> Some s)"

definition mr_row :: "browser \<Rightarrow> borrowing_json \<Rightarrow> mr_event node" where
  [view_defs]: "mr_row br it =
     TR [TD [Txt (bj_title (rj_book it)), El ''span'' [Txt ''by '', Txt (bj_author (rj_book it))]],
         TD [Txt (locale_date br (rj_borrowed_at it))],
         TD [Txt (locale_date br (date_only_ms (rj_due_date it)))],
         TD (status_badge (now br) it)]"

definition mr_filters :: "my_loans \<Rightarrow> mr_event node list" where
  [view_defs]: "mr_filters s =
     [El ''div''
       [El ''div''
         ([Field [(''placeholder'', ''Search book...'')] (Text_Value (mr_q s)) MR_SetQ,
           Field [(''type'', ''date'')] (Text_Value (mr_date s)) MR_SetDate]
          @ (if mr_q s \<noteq> [] \<or> mr_date s \<noteq> []
             then [Btn Secondary Sm False MR_Clear [Txt ''Clear'']] else [])),
        El ''div''
         [El ''label'' [Txt ''Status''], Select (mr_status s) status_options MR_SetStatus]]]"

definition MemberBorrowingsPage :: "browser \<Rightarrow> my_loans \<Rightarrow> mr_event node list" where
  [view_defs]: "MemberBorrowingsPage br s =
     mr_filters s
     @ [Table
         [THead [TR
           [TH [Txt ''Book''],
            sort_header ''Borrowed'' (mr_sort s = By_Borrowed_At) (mr_direction s) (MR_Sort By_Borrowed_At),
            sort_header ''Due'' (mr_sort s = By_Due_Date) (mr_direction s) (MR_Sort By_Due_Date),
            TH [Txt ''Status'']]],
          TBody (map (mr_row br) (mr_items s))]]
     @ pager_controls (mr_page s) (length (mr_items s)) MR_Prev MR_Next"

lemma mr_row_offers [simp]: "node_offers (mr_row br it) = {}"
  by (simp add: mr_row_def)

interpretation mr_pager: pager mr_page mr_items mr_prev mr_next "MemberBorrowingsPage br" MR_Prev MR_Next
  by unfold_locales (auto simp: MemberBorrowingsPage_def mr_filters_def mr_prev_def mr_next_def)

interpretation mr_sorting: sortable mr_sort mr_direction mr_page mr_sort_click
  by unfold_locales (auto simp: mr_sort_click_def split: sort_key.split direction.split, metis direction.exhaust)

end
