(* ===== verification/Dashboards.thy ===== *)
theory Dashboards imports Member_Pages begin

text \<open>
  \<open>frontend/src/pages/librarian/Dashboard.tsx\<close> and \<open>frontend/src/pages/member/Dashboard.tsx\<close>: the
  figures of each role, the debounced quick search both have, the librarian's manual overdue check,
  and the member's due badges.
\<close>

section \<open>Debounced search\<close>

text \<open>
  The contract of the quick search: a change of the text clears the pending timer and starts one for
  the new text, or clears the results when it is empty; when the timer fires one request is sent.
\<close>

locale debounced =
  fixes query :: "'s \<Rightarrow> string"
    and timer :: "'s \<Rightarrow> string option"
    and type_in :: "string \<Rightarrow> 's \<Rightarrow> 's"
    and fire :: "'s \<Rightarrow> 's \<times> 'r effect list"
    and request :: "string \<Rightarrow> 'r"
  assumes query_type: "query (type_in v s) = v"
    and timer_type:
      "timer (type_in v s) =
         (if v = query s then timer s else if v = [] then None else Some v)"
    and query_fire: "query (fst (fire s)) = query s"
    and timer_fire: "timer (fst (fire s)) = None"
    and sends_fire:
      "sends (snd (fire s)) = (case timer s of None \<Rightarrow> [] | Some t \<Rightarrow> [request t])"
begin

definition timer_ok :: "'s \<Rightarrow> bool" where
  "timer_ok s \<longleftrightarrow> (\<forall>t. timer s = Some t \<longrightarrow> t = query s \<and> t \<noteq> [])"

lemma timer_ok_type: "timer_ok s \<Longrightarrow> timer_ok (type_in v s)"
  by (auto simp: timer_ok_def timer_type query_type)

lemma timer_ok_fire: "timer_ok s \<Longrightarrow> timer_ok (fst (fire s))"
  by (auto simp: timer_ok_def timer_fire)

lemma timer_ok_burst: "timer_ok s \<Longrightarrow> timer_ok (fold type_in vs s)"
  by (induction vs arbitrary: s) (auto intro: timer_ok_type)

text \<open>A request is only ever sent for the text that is in the field.\<close>

lemma fire_current:
  "timer_ok s \<Longrightarrow> r \<in> set (sends (snd (fire s))) \<Longrightarrow> r = request (query s) \<and> query s \<noteq> []"
  by (cases "timer s") (auto simp: sends_fire timer_ok_def)

text \<open>A burst of keystrokes within the delay sends one request, for the last text.\<close>

lemma burst_one_request:
  assumes "v \<noteq> []" "v \<noteq> query (fold type_in vs s)"
  shows "sends (snd (fire (fold type_in (vs @ [v]) s))) = [request v]"
  using assms by (simp add: sends_fire timer_type)

lemma fire_once: "sends (snd (fire (fst (fire s)))) = []"
  by (simp add: sends_fire timer_fire)

end

section \<open>The librarian's dashboard\<close>

text \<open>
  The top genres are an object from genre to count; its entries are listed in the order the server
  wrote them (JavaScript lists keys that look like array indices first, which no genre does here).
\<close>

record librarian_data =
  ld_total_books :: int
  ld_currently_borrowed :: int
  ld_due_today :: int
  ld_overdue_books_count :: int
  ld_top_genres :: "(string \<times> int) list"
  ld_recent_borrowings :: "borrowing_json list"

record overdue_json =
  oj_success :: bool
  oj_message :: "string option"
  oj_error :: "string option"

record librarian_dashboard =
  ls_data :: "librarian_data option"
  ls_q :: string
  ls_quickResults :: "book_json list"
  ls_timer :: "string option"

datatype ls_event = LS_SetQ string | LS_Go string | LS_MarkOverdue

datatype ls_request = LS_Get_Data | LS_Search string | LS_Post_Mark_Overdue | LS_Reload_Data

definition initial_librarian_dashboard :: librarian_dashboard where
  "initial_librarian_dashboard = \<lparr>ls_data = None, ls_q = [], ls_quickResults = [], ls_timer = None\<rparr>"

text \<open>The effect on the user's role.\<close>

definition ls_role_effect ::
    "auth_state \<Rightarrow> librarian_dashboard \<Rightarrow> librarian_dashboard \<times> ls_request effect list" where
  [handler_defs]: "ls_role_effect state s =
     (if is_librarian state then (s, [Send LS_Get_Data]) else (s\<lparr>ls_data := None\<rparr>, []))"

text \<open>Setting \<open>q\<close>, with the effect on \<open>[q]\<close>: its cleanup clears the timer of the previous text.\<close>

definition ls_setQ :: "string \<Rightarrow> librarian_dashboard \<Rightarrow> librarian_dashboard" where
  [handler_defs]: "ls_setQ v s =
     (if v = ls_q s then s
      else if v = [] then s\<lparr>ls_q := v, ls_timer := None, ls_quickResults := []\<rparr>
      else s\<lparr>ls_q := v, ls_timer := Some v\<rparr>)"

definition ls_fire :: "librarian_dashboard \<Rightarrow> librarian_dashboard \<times> ls_request effect list" where
  [handler_defs]: "ls_fire s =
     (case ls_timer s of
        None \<Rightarrow> (s, [])
      | Some t \<Rightarrow> (s\<lparr>ls_timer := None\<rparr>, [Send (LS_Search t)]))"

definition ls_search_reply :: "book_json list reply \<Rightarrow> librarian_dashboard \<Rightarrow> librarian_dashboard option" where
  [handler_defs]: "ls_search_reply r s =
     (case r of
        Resolved (Some bs) \<Rightarrow> Some (s\<lparr>ls_quickResults := bs\<rparr>)
      | Resolved None \<Rightarrow> None
      | Rejected e \<Rightarrow> Some s)"

definition handleMarkOverdue ::
    "bool \<Rightarrow> librarian_dashboard \<Rightarrow> librarian_dashboard \<times> ls_request effect list" where
  [handler_defs]: "handleMarkOverdue confirmed s =
     (if \<not> confirmed then (s, []) else (s, [Send LS_Post_Mark_Overdue]))"

text \<open>A missing message or error prints as \<open>undefined\<close>; reading a field of missing data throws.\<close>

definition js_show :: "string option \<Rightarrow> string" where
  "js_show v = (case v of None \<Rightarrow> ''undefined'' | Some t \<Rightarrow> t)"

definition mark_overdue_reply ::
    "overdue_json reply \<Rightarrow> librarian_dashboard \<Rightarrow> librarian_dashboard \<times> ls_request effect list" where
  [handler_defs]: "mark_overdue_reply r s =
     (case r of
        Resolved (Some j) \<Rightarrow>
          (if oj_success j then (s, [Alert (js_show (oj_message j)), Send LS_Reload_Data])
           else (s, [Alert (''Error: '' @ js_show (oj_error j))]))
      | Resolved None \<Rightarrow> (s, [Alert ''Error occurred while marking overdue books'', Log ''error''])
      | Rejected e \<Rightarrow> (s, [Alert ''Error occurred while marking overdue books'', Log ''error'']))"

text \<open>The replies to the two requests for the figures: only the reload is inside a \<open>try\<close>.\<close>

definition ls_data_reply :: "librarian_data reply \<Rightarrow> librarian_dashboard \<Rightarrow> librarian_dashboard" where
  [handler_defs]: "ls_data_reply r s =
     (case r of Resolved d \<Rightarrow> s\<lparr>ls_data := d\<rparr> | Rejected e \<Rightarrow> s)"

definition ls_reload_reply ::
    "librarian_data reply \<Rightarrow> librarian_dashboard \<Rightarrow> librarian_dashboard \<times> ls_request effect list" where
  [handler_defs]: "ls_reload_reply r s =
     (case r of
        Resolved d \<Rightarrow> (s\<lparr>ls_data := d\<rparr>, [])
      | Rejected e \<Rightarrow> (s, [Alert ''Error occurred while marking overdue books'', Log ''error'']))"

fun ls_handle :: "bool \<Rightarrow> ls_event \<Rightarrow> librarian_dashboard \<Rightarrow> librarian_dashboard \<times> ls_request effect list" where
  "ls_handle confirmed (LS_SetQ v) s = (ls_setQ v s, [])"
| "ls_handle confirmed (LS_Go path) s = (s, [Go path])"
| "ls_handle confirmed LS_MarkOverdue s = handleMarkOverdue confirmed s"

interpretation ls_search: debounced ls_q ls_timer ls_setQ ls_fire LS_Search
  by unfold_locales (auto simp: ls_setQ_def ls_fire_def split: option.split)

text \<open>\<open>value ?? '-'\<close>; a stat card is clickable when it is given a handler.\<close>

definition Stat :: "string \<Rightarrow> string option \<Rightarrow> 'e option \<Rightarrow> 'e node" where
  [view_defs]: "Stat label val onClick =
     (let inner = [El ''div'' [Txt label], El ''div'' [Txt (case val of None \<Rightarrow> ''-'' | Some v \<Rightarrow> v)]]
      in case onClick of None \<Rightarrow> El ''div'' inner | Some e \<Rightarrow> Clickable ''div'' e inner)"

definition ls_figures :: "librarian_dashboard \<Rightarrow> ls_event node list" where
  [view_defs]: "ls_figures s =
     [Stat ''Total books'' (map_option (\<lambda>d. int_digits (ld_total_books d)) (ls_data s)) None]
     @ (case ls_data s of
          None \<Rightarrow> []
        | Some d \<Rightarrow>
            (if 0 < ld_currently_borrowed d
             then [Stat ''Currently borrowed'' (Some (int_digits (ld_currently_borrowed d)))
                     (Some (LS_Go ''/borrowings?status=borrowed''))] else [])
            @ (if 0 < ld_due_today d
               then [Clickable ''div'' (LS_Go ''/borrowings?status=borrowed'')
                       [El ''div'' [Txt ''Due soon (3d)''], El ''div'' [Txt (int_digits (ld_due_today d))]]]
               else [])
            @ (if 0 < ld_overdue_books_count d
               then [Clickable ''div'' (LS_Go ''/borrowings?status=overdue'')
                       [El ''div'' [Txt ''Overdue books''],
                        El ''div'' [Txt (int_digits (ld_overdue_books_count d))]]]
               else []))"

definition LibrarianDashboard_view :: "auth_state \<Rightarrow> browser \<Rightarrow> librarian_dashboard \<Rightarrow> ls_event node list" where
  [view_defs]: "LibrarianDashboard_view state br s =
     [El ''h1'' [Txt ''Dashboard'']]
     @ (if is_librarian state
        then [El ''div'' (ls_figures s),
              Card [CardHeader [El ''div'' [Txt ''Quick search'']],
                    CardContent
                      ([Input None None None [(''placeholder'', ''Search books by title, author, or genre'')]
                          (Text_Value (ls_q s)) LS_SetQ]
                       @ (if ls_q s \<noteq> []
                          then [El ''ul'' (map (\<lambda>b. El ''li''
                                  [El ''span'' [Txt (bj_title b), El ''span'' [Txt ''by '', Txt (bj_author b)]],
                                   Link ''/'' [Txt ''View'']]) (ls_quickResults s))]
                          else []))],
              Card [CardHeader [El ''div'' [Txt ''Top genres'']],
                    CardContent
                      [El ''ul''
                        (case ls_data s of
                           None \<Rightarrow> []
                         | Some d \<Rightarrow> map (\<lambda>(genre, count). El ''li''
                             [El ''span'' [Txt genre], El ''span'' [Txt (int_digits count)]])
                             (ld_top_genres d))]],
              Card [CardHeader [El ''div'' [Txt ''Recent borrowings'']],
                    CardContent
                      [El ''ul''
                        (case ls_data s of
                           None \<Rightarrow> []
                         | Some d \<Rightarrow> map (\<lambda>r. El ''li''
                             [El ''div'' [Txt (fmt_datetime br (rj_created_at r))],
                              El ''div'' [El ''span'' [Txt (case rj_user r of None \<Rightarrow> [] | Some u \<Rightarrow> display_name u)],
                                          Txt '' borrowed '', El ''span'' [Txt (bj_title (rj_book r))]]])
                             (ld_recent_borrowings d))]],
              El ''p''
                [Clickable ''a'' LS_MarkOverdue [Txt ''Manually trigger the overdue''],
                 Txt '' check to mark borrowed books past their due date as overdue.'']]
        else [])"

section \<open>The member's dashboard\<close>

text \<open>A \<open>BorrowingItem\<close>, most of whose fields may be absent.\<close>

record dash_item =
  di_id :: int
  di_due_date :: date
  di_borrowed_at :: "int option"
  di_created_at :: "int option"
  di_status :: "string option"
  di_title :: "string option"
  di_author :: "string option"

record top_book =
  tb_id :: int
  tb_title :: string
  tb_author :: string
  tb_genre :: "string option"
  tb_borrowings_count :: int
  tb_can_borrow :: "bool option"

record member_data =
  md_current_borrowings :: "dash_item list"
  md_history :: "dash_item list"
  md_top_books :: "top_book list"
  md_overdue_count :: int
  md_due_soon_count :: int

record member_dashboard =
  ms_data :: "member_data option"
  ms_q :: string
  ms_quickResults :: "book_json list"
  ms_timer :: "string option"
  ms_found_buttons :: "int \<Rightarrow> borrow_button option"
  ms_top_buttons :: "int \<Rightarrow> borrow_button option"

datatype ms_event =
    MS_SetQ string | MS_Go string
  | MS_Found int bb_event  \<comment> \<open>the borrow button of a search result\<close>
  | MS_Top int bb_event  \<comment> \<open>the borrow button of a top book\<close>

datatype ms_request = MS_Get_Data | MS_Search string | MS_Post_Borrowing bool int

definition initial_member_dashboard :: member_dashboard where
  "initial_member_dashboard = \<lparr>ms_data = None, ms_q = [], ms_quickResults = [], ms_timer = None,
     ms_found_buttons = Map.empty, ms_top_buttons = Map.empty\<rparr>"

text \<open>The results are rendered, and so their buttons mounted, only while the text is not empty.\<close>

definition ms_remount :: "member_dashboard \<Rightarrow> member_dashboard" where
  "ms_remount s = s\<lparr>ms_found_buttons :=
     (if ms_q s = [] then Map.empty else mount_buttons (ms_quickResults s) (ms_found_buttons s))\<rparr>"

definition ms_setQ :: "string \<Rightarrow> member_dashboard \<Rightarrow> member_dashboard" where
  [handler_defs]: "ms_setQ v s =
     (if v = ms_q s then s
      else if v = [] then ms_remount (s\<lparr>ms_q := v, ms_timer := None, ms_quickResults := []\<rparr>)
      else ms_remount (s\<lparr>ms_q := v, ms_timer := Some v\<rparr>))"

definition ms_fire :: "member_dashboard \<Rightarrow> member_dashboard \<times> ms_request effect list" where
  [handler_defs]: "ms_fire s =
     (case ms_timer s of
        None \<Rightarrow> (s, [])
      | Some t \<Rightarrow> (s\<lparr>ms_timer := None\<rparr>, [Send (MS_Search t)]))"

definition ms_search_reply :: "book_json list reply \<Rightarrow> member_dashboard \<Rightarrow> member_dashboard option" where
  [handler_defs]: "ms_search_reply r s =
     (case r of
        Resolved (Some bs) \<Rightarrow> Some (ms_remount (s\<lparr>ms_quickResults := bs\<rparr>))
      | Resolved None \<Rightarrow> None
      | Rejected e \<Rightarrow> Some s)"

definition mount_top_buttons ::
    "top_book list \<Rightarrow> (int \<Rightarrow> borrow_button option) \<Rightarrow> int \<Rightarrow> borrow_button option" where
  "mount_top_buttons tbs old = (\<lambda>i.
     case find (\<lambda>b. tb_id b = i) tbs of
       None \<Rightarrow> None
     | Some b \<Rightarrow>
         if tb_can_borrow b = Some True
         then Some (case old i of None \<Rightarrow> initial_bb | Some st \<Rightarrow> st) else None)"

definition ms_data_reply :: "member_data reply \<Rightarrow> member_dashboard \<Rightarrow> member_dashboard" where
  [handler_defs]: "ms_data_reply r s =
     (case r of
        Resolved d \<Rightarrow> s\<lparr>ms_data := d,
          ms_top_buttons := (case d of None \<Rightarrow> Map.empty
                             | Some md \<Rightarrow> mount_top_buttons (md_top_books md) (ms_top_buttons s))\<rparr>
      | Rejected e \<Rightarrow> s)"

fun ms_handle :: "ms_event \<Rightarrow> member_dashboard \<Rightarrow> member_dashboard \<times> ms_request effect list" where
  "ms_handle (MS_SetQ v) s = (ms_setQ v s, [])"
| "ms_handle (MS_Go path) s = (s, [Go path])"
| "ms_handle (MS_Found i e) s =
     (case ms_found_buttons s i of
        None \<Rightarrow> (s, [])
      | Some st \<Rightarrow>
          (case bb_handle i e st of (st', effs) \<Rightarrow>
             (s\<lparr>ms_found_buttons := (ms_found_buttons s)(i \<mapsto> st')\<rparr>,
              map (map_effect (MS_Post_Borrowing True)) effs)))"
| "ms_handle (MS_Top i e) s =
     (case ms_top_buttons s i of
        None \<Rightarrow> (s, [])
      | Some st \<Rightarrow>
          (case bb_handle i e st of (st', effs) \<Rightarrow>
             (s\<lparr>ms_top_buttons := (ms_top_buttons s)(i \<mapsto> st')\<rparr>,
              map (map_effect (MS_Post_Borrowing False)) effs)))"

interpretation ms_search: debounced ms_q ms_timer ms_setQ ms_fire MS_Search
  by unfold_locales (auto simp: ms_setQ_def ms_fire_def ms_remount_def split: option.split)

subsection \<open>Due badges\<close>

text \<open>
  \<open>diffDays\<close> of \<open>dueBadge\<close>: the difference between the local midnights of the due date, which was
  parsed as midnight UTC, and of now, in days, rounded up.
\<close>

definition badge_diff_days :: "zone \<Rightarrow> int \<Rightarrow> date \<Rightarrow> int" where
  "badge_diff_days z t due =
     ceil_div (midnight z (local_day z (date_only_ms due)) - midnight z (local_day z t)) day_ms"

definition dueBadge :: "browser \<Rightarrow> date \<Rightarrow> badge_variant \<times> string list" where
  [view_defs]: "dueBadge br due =
     (let diffDays = badge_diff_days (zone br) (now br) due;
          shown = locale_date br (date_only_ms due) in
      if diffDays < 0 then (Badge_Danger, [''Overdue since '', shown])
      else if diffDays = 0 then (Badge_Danger, [''Due today''])
      else if diffDays \<le> 3
      then (Badge_Warning, [''Due in '', int_digits diffDays, '' day'', if diffDays = 1 then [] else ''s''])
      else (Badge_Success, [''Due '', shown]))"

text \<open>The highlight of a current borrowing's row.\<close>

datatype highlight = Row_Overdue | Row_Due_Soon | Row_Plain

definition row_highlight :: "int \<Rightarrow> date \<Rightarrow> highlight" where
  [view_defs]: "row_highlight t due =
     (let diffDays = days_until_due t due in
      if diffDays < 0 then Row_Overdue
      else if 0 \<le> diffDays \<and> diffDays \<le> 3 then Row_Due_Soon else Row_Plain)"

lemma badge_diff_fixed:
  "badge_diff_days (fixed_zone off) t due = (date_only_ms due + off) div day_ms - (t + off) div day_ms"
proof -
  have "midnight (fixed_zone off) a - midnight (fixed_zone off) b = (a - b) * day_ms" for a b
    by (simp add: algebra_simps)
  moreover have "0 < day_ms" by (simp add: day_ms_def)
  ultimately show ?thesis unfolding badge_diff_days_def by (simp only: ceil_div_mult fixed_zone_simps)
qed

lemma local_due_east:
  assumes "0 \<le> off" "off < day_ms"
  shows "(date_only_ms due + off) div day_ms = day_no due"
  using assms by (simp add: date_only_ms_def div_pos_pos_trivial)


fun highlight_class :: "highlight \<Rightarrow> string" where
  "highlight_class Row_Overdue = ''bg-red-50 border-l-4 border-l-red-500''"
| "highlight_class Row_Due_Soon = ''bg-amber-50 border-l-4 border-l-amber-500''"
| "highlight_class Row_Plain = []"

text \<open>U+2014, which separates the parts of an entry, in UTF-8.\<close>

definition em_dash :: string where
  "em_dash = [CHR 0xE2, CHR 0x80, CHR 0x94]"

text \<open>One entry of the list of current borrowings.\<close>

definition ms_current_row :: "browser \<Rightarrow> dash_item \<Rightarrow> ms_event node" where
  [view_defs]: "ms_current_row br r =
     Styled ''li'' (''flex items-center justify-between p-3 '' @ highlight_class (row_highlight (now br) (di_due_date r)))
       [El ''div''
          [El ''div'' [Txt (js_or (di_title r) [])],
           El ''div''
             ((if truthy (di_author r) then [El ''span'' [Txt ''by '', Txt (the (di_author r))]] else [])
              @ (case di_borrowed_at r of
                   None \<Rightarrow> []
                 | Some t \<Rightarrow> [El ''span''
                     [Txt (if truthy (di_author r) then '' '' @ bullet @ '' '' else []),
                      Txt ''Borrowed '', Txt (locale_date br t)]]))],
        El ''div'' [case dueBadge br (di_due_date r) of (v, ws) \<Rightarrow> Bdg v (map Txt ws)]]"

text \<open>The member's own \<open>Stat\<close>, which is never clickable.\<close>

definition Member_Stat :: "string \<Rightarrow> string option \<Rightarrow> 'e node" where
  [view_defs]: "Member_Stat label val =
     El ''div'' [El ''div'' [Txt label], El ''div'' [Txt (case val of None \<Rightarrow> ''-'' | Some v \<Rightarrow> v)]]"

definition ms_figures :: "member_dashboard \<Rightarrow> ms_event node list" where
  [view_defs]: "ms_figures s =
     (case ms_data s of
        None \<Rightarrow> []
      | Some d \<Rightarrow>
          (if 0 < length (md_current_borrowings d)
           then [Member_Stat ''Total borrowed'' (Some (int_digits (int (length (md_current_borrowings d)))))]
           else [])
          @ (if 0 < md_overdue_count d
             then [Clickable ''div'' (MS_Go ''/borrowings?status=overdue'')
                     [El ''div'' [Txt ''OVERDUE''], El ''div'' [Txt (int_digits (md_overdue_count d))]]]
             else [])
          @ (if 0 < md_due_soon_count d
             then [El ''div''
                     [El ''div'' [Txt ''Due soon (3d)''], El ''div'' [Txt (int_digits (md_due_soon_count d))]]]
             else []))"

definition ms_button ::
    "string \<Rightarrow> (int \<Rightarrow> bb_event \<Rightarrow> ms_event) \<Rightarrow> bool option \<Rightarrow> int \<Rightarrow> borrow_button option \<Rightarrow> ms_event node list" where
  [view_defs]: "ms_button dueText ev flag i st =
     (if flag = Some True
      then (case st of None \<Rightarrow> [] | Some b \<Rightarrow> map (map_node (ev i)) (BorrowButton dueText b))
      else [El ''span'' [Txt ''N/A'']])"

definition MemberDashboard_view :: "browser \<Rightarrow> member_dashboard \<Rightarrow> ms_event node list" where
  [view_defs]: "MemberDashboard_view br s =
     [El ''h1'' [Txt ''Dashboard''],
      El ''div'' (ms_figures s),
      Card [CardHeader [El ''div'' [Txt ''Search books'']],
            CardContent
              ([Input None None None [(''placeholder'', ''Search books by title, author, or genre'')]
                  (Text_Value (ms_q s)) MS_SetQ]
               @ (if ms_q s \<noteq> []
                  then [El ''ul'' (map (\<lambda>b. El ''li''
                          ([El ''span'' [Txt (bj_title b), El ''span'' [Txt ''by '', Txt (bj_author b)]]]
                           @ ms_button (dueDateText br) MS_Found (bj_can_borrow b) (bj_id b)
                               (ms_found_buttons s (bj_id b)))) (ms_quickResults s))]
                  else []))],
      Card [CardHeader [El ''div'' [Txt ''Top books'']],
            CardContent
              [El ''ul''
                (case ms_data s of
                   None \<Rightarrow> []
                 | Some d \<Rightarrow> map (\<lambda>b. El ''li''
                     [El ''div'' [El ''div'' [Txt (tb_title b)],
                                  El ''div'' ([Txt ''by '', Txt (tb_author b)]
                                    @ (if truthy (tb_genre b) then [Txt ('' '' @ bullet @ '' '' @ the (tb_genre b))] else []))],
                      El ''div''
                        ([El ''span'' [Txt (int_digits (tb_borrowings_count b)), Txt '' borrows'']]
                         @ ms_button (dueDateText br) MS_Top (tb_can_borrow b) (tb_id b)
                             (ms_top_buttons s (tb_id b)))]) (md_top_books d))]],
      Card [CardHeader [El ''div'' [Txt ''Current borrowings'']],
            CardContent
              [El ''ul''
                (case map_option md_current_borrowings (ms_data s) of
                   Some (r # rs) \<Rightarrow> map (ms_current_row br) (r # rs)
                 | _ \<Rightarrow> [El ''li'' [Txt ''No current borrowings'']])]],
      Card [CardHeader [El ''div'' [Txt ''Recent history'']],
            CardContent
              [El ''ul''
                (case ms_data s of
                   None \<Rightarrow> []
                 | Some d \<Rightarrow> map (\<lambda>r. El ''li''
                     [El ''div'' [Txt (case di_created_at r of None \<Rightarrow> ''-'' | Some t \<Rightarrow> fmt_datetime br t)],
                      El ''div'' [El ''span'' [Txt (js_or (di_title r) [])], Txt ('' '' @ em_dash @ '' ''),
                                  Txt (js_or (di_status r) [])]])
                     (md_history d))]]]"

section \<open>What holds of the dashboards\<close>

text \<open>In a browser at or east of UTC (by less than a day) the badge of a borrowing compares the
  due date with the browser's calendar date: overdue exactly after it, due today exactly on it, a
  warning for one to three days before.\<close>

theorem due_badge_east:
  assumes "0 \<le> off" "off < day_ms" "zone br = fixed_zone off"
  shows "dueBadge br due =
    (let today = Date ((now br + off) div day_ms); n = day_no due - day_no today;
         shown = fmt_date br (day_no due) in
     if due < today then (Badge_Danger, [''Overdue since '', shown])
     else if due = today then (Badge_Danger, [''Due today''])
     else if due \<le> date_add today 3
     then (Badge_Warning, [''Due in '', int_digits n, '' day'', if n = 1 then [] else ''s''])
     else (Badge_Success, [''Due '', shown]))"
  using assms
  by (cases due)
     (simp add: dueBadge_def badge_diff_fixed local_due_east locale_date_def date_add_def Let_def)


text \<open>The highlight compares with the UTC date, the zone the server works in.\<close>

lemma row_highlight_utc:
  "row_highlight t due =
     (if due < utc_date t then Row_Overdue
      else if due \<le> date_add (utc_date t) 3 then Row_Due_Soon else Row_Plain)"
  by (cases due; cases "utc_date t")
     (auto simp: row_highlight_def days_until_due_eq Let_def date_add_def less_eq_date_def less_date_def)

text \<open>The quick search is debounced: a burst of changes within the delay that ends in a new,
  non-empty text sends one request when the timer fires, for the last text; the timer does not fire
  twice; and clearing the text cancels the search and empties the results.\<close>

theorem quick_search_debounced:
  assumes "v \<noteq> []" "v \<noteq> ls_q (fold ls_setQ vs s)"
  shows "let burst = fold ls_setQ (vs @ [v]) s; (s', effs) = ls_fire burst in
      sends effs = [LS_Search v] \<and> snd (ls_fire s') = []
      \<and> snd (ls_fire (ls_setQ [] burst)) = [] \<and> ls_quickResults (ls_setQ [] burst) = []"
  using ls_search.burst_one_request [OF assms] assms
  by (auto simp: Let_def ls_fire_def ls_setQ_def split: option.splits)

end
