(* ===== verification/Library_System.thy ===== *)
theory Library_System imports Server_Api Dashboards begin

text \<open>
  Client and server together: what the pages show of the endpoints' replies, what a click does to
  the tables, and whether the two sides agree on who may borrow, what is due, and what went wrong.
\<close>

section \<open>Browsing the catalogue\<close>

definition ok_data :: "'a list response \<Rightarrow> 'a list" where
  "ok_data r = (case r of Ok_200 xs \<Rightarrow> xs | _ \<Rightarrow> [])"

lemma books_index_data:
  "1 \<le> p \<Longrightarrow> ok_data (books_index h d u q (Some p)) =
     page_slice (map (book_json_for d u) (scan h (book_search h q (db_books d)))) p"
  by (simp add: ok_data_def books_index_def page_number_def page_slice_map)

lemma reply_books_index:
  "reply_of (books_index h d u q p) = Resolved (Some (ok_data (books_index h d u q p)))"
  by (simp add: ok_data_def books_index_def)

text \<open>The catalogue pages ask for the page they show, with the text of their search field.\<close>

definition mk_fetch :: "host \<Rightarrow> db \<Rightarrow> user_row \<Rightarrow> member_books \<Rightarrow> member_books" where
  "mk_fetch h d u s =
     (case mk_load_reply (reply_of (books_index h d u (Some (mk_q s)) (Some (mk_page s)))) s of
        Some s' \<Rightarrow> s' | None \<Rightarrow> s)"

definition lb_fetch :: "host \<Rightarrow> db \<Rightarrow> user_row \<Rightarrow> books_page \<Rightarrow> books_page" where
  "lb_fetch h d u s =
     fst (lb_load_reply (reply_of (books_index h d u (Some (lb_q s)) (Some (lb_page s)))) s)"

lemma mk_fetch_eq:
  "mk_fetch h d u s = mk_setBooks (ok_data (books_index h d u (Some (mk_q s)) (Some (mk_page s)))) s"
  by (simp add: mk_fetch_def mk_load_reply_def reply_books_index)

lemma lb_fetch_eq:
  "lb_fetch h d u s = setBooks (ok_data (books_index h d u (Some (lb_q s)) (Some (lb_page s)))) s"
  by (simp add: lb_fetch_def lb_load_reply_def reply_books_index)

interpretation books_source: page_source
    "\<lambda>p. ok_data (books_index h d u q (Some p))"
    "map (book_json_for d u) (scan h (book_search h q (db_books d)))"
  by unfold_locales (rule books_index_data)

interpretation mk_browsing: browsing mk_page mk_books mk_prev mk_next "MemberBooks_view dueText"
    MK_Prev MK_Next "\<lambda>p. ok_data (books_index h d u (Some q) (Some p))"
    "map (book_json_for d u) (scan h (book_search h (Some q) (db_books d)))"
    "mk_fetch h d u" "\<lambda>s. mk_q s = q"
  by unfold_locales (auto simp: mk_fetch_eq mk_setBooks_def mk_next_def)

interpretation lb_browsing: browsing lb_page lb_books lb_prev Librarian_Books.lb_next
    "LibrarianBooks_view state"
    LB_Prev LB_Next "\<lambda>p. ok_data (books_index h d u (Some q) (Some p))"
    "map (book_json_for d u) (scan h (book_search h (Some q) (db_books d)))"
    "lb_fetch h d u" "\<lambda>s. lb_q s = q"
  by unfold_locales (auto simp: lb_fetch_eq setBooks_def Librarian_Books.lb_next_def)

text \<open>What a member sees who follows \<open>Next\<close> through the catalogue, at most \<open>n\<close> pages of it.\<close>

definition mk_browse :: "host \<Rightarrow> db \<Rightarrow> user_row \<Rightarrow> string \<Rightarrow> nat \<Rightarrow> member_books \<Rightarrow> book_json list" where
  "mk_browse h d u dueText n s =
     browsing.browse mk_books mk_next (MemberBooks_view dueText) MK_Next (mk_fetch h d u) n s"

lemma book_search_sub:
  "set (book_search h q bs) \<subseteq> set bs" "length (book_search h q bs) \<le> length bs"
  "distinct (map f bs) \<Longrightarrow> distinct (map f (book_search h q bs))"
  "distinct bs \<Longrightarrow> distinct (book_search h q bs)"
  by (auto simp: book_search_def Let_def distinct_map_filter split: option.split)

lemma scan_search:
  assumes "scan_ok h" "db_inv d"
  shows "distinct (scan h (book_search h q (db_books d)))"
    and "set (scan h (book_search h q (db_books d))) = set (book_search h q (db_books d))"
    and "length (scan h (book_search h q (db_books d))) = length (book_search h q (db_books d))"
proof -
  have "distinct (book_search h q (db_books d))"
    using assms(2) by (simp add: book_search_sub db_inv_def distinct_map)
  with assms(1) show "distinct (scan h (book_search h q (db_books d)))"
    and "set (scan h (book_search h q (db_books d))) = set (book_search h q (db_books d))"
    and "length (scan h (book_search h q (db_books d))) = length (book_search h q (db_books d))"
    unfolding scan_ok_def by (rule lists_rowsD)+
qed

lemma book_json_inj: "db_inv d \<Longrightarrow> inj_on (book_json_for d u) (set (db_books d))"
  by (auto simp: inj_on_def book_json_for_def db_inv_def distinct_map)

text \<open>C14. A member who follows \<open>Next\<close> from the first page sees every book the search matches exactly
  once, and the browsing ends, if the database keeps the order of the unordered query from one
  request to the next.\<close>

theorem catalogue_browsed_once:
  assumes "scan_ok h" "db_inv d"
    and "mk_q s = q" "mk_page s = 1" "mk_books s = ok_data (books_index h d u (Some q) (Some 1))"
    and "length (db_books d) < 25 * n"
  shows "distinct (mk_browse h d u dueText n s)
    \<and> set (mk_browse h d u dueText n s) = book_json_for d u ` set (book_search h (Some q) (db_books d))"
proof -
  let ?rows = "scan h (book_search h (Some q) (db_books d))"
  note rows = scan_search [OF assms(1,2), of "Some q"]
  have "length ?rows < 25 * n"
    using assms(6) book_search_sub(2) [of h "Some q" "db_books d"] rows(3) by simp
  with assms have "mk_browse h d u dueText n s = map (book_json_for d u) ?rows"
    unfolding mk_browse_def by (intro mk_browsing.browse_complete) auto
  moreover have "inj_on (book_json_for d u) (set ?rows)"
    using book_json_inj [OF assms(2)] rows(2) book_search_sub(1) by (metis inj_on_subset)
  ultimately show ?thesis using rows by (simp add: distinct_map)
qed

lemma last_missed:
  assumes "distinct xs" "length xs = 26"
  shows "xs ! 25 \<notin> set (page_slice xs 1)" "xs ! 25 \<notin> set (page_slice (rev xs) 2)"
  using assms
  by (auto simp: page_slice_def per_page_def in_set_conv_nth rev_nth nth_eq_iff_index_eq)

text \<open>C35. The order is not fixed by the query, which has no \<open>ORDER BY\<close>: with 26 books and two orders the
  database may use, one for the first page's request and one for the second's, there is a book that
  is on neither page.\<close>

theorem unordered_pages_miss_a_book:
  assumes "db_inv d" "length (db_books d) = 26"
  shows "\<exists>f g. scan_ok (h\<lparr>scan := f\<rparr>) \<and> scan_ok (h\<lparr>scan := g\<rparr>)
    \<and> (\<exists>b\<in>set (db_books d). br_id b \<notin>
         bj_id ` set (ok_data (books_index (h\<lparr>scan := f\<rparr>) d u None (Some 1))
                      @ ok_data (books_index (h\<lparr>scan := g\<rparr>) d u None (Some 2))))"
proof -
  have "distinct (map br_id (db_books d))" "length (map br_id (db_books d)) = 26"
    using assms by (simp_all add: db_inv_def)
  then have "map br_id (db_books d) ! 25 \<notin> set (page_slice (map br_id (db_books d)) 1)"
    and "map br_id (db_books d) ! 25 \<notin> set (page_slice (rev (map br_id (db_books d))) 2)"
    by (rule last_missed)+
  then have missed: "br_id (db_books d ! 25) \<notin>
      br_id ` (set (page_slice (db_books d) 1) \<union> set (page_slice (rev (db_books d)) 2))"
    using assms(2) by (auto simp: page_slice_map rev_map)
  have "scan_ok (h\<lparr>scan := id\<rparr>)" "scan_ok (h\<lparr>scan := rev\<rparr>)" by (auto simp: scan_ok_def lists_rows_def)
  with missed assms(2) show ?thesis
    by (intro exI [of _ id] exI [of _ rev] conjI bexI [of _ "db_books d ! 25"])
       (auto simp: books_index_data page_slice_map book_search_def book_json_for_def image_image)
qed

section \<open>Borrowing from the catalogue\<close>

lemma id_book_json: "bj_id \<circ> book_json_for d u = br_id"
  by (rule ext) (simp add: book_json_for_def)

lemma loaded_buttons:
  assumes "db_inv d" "scan_ok h" "b \<in> set (db_books d)"
    and "book_json_for d u b \<in> set (ok_data (books_index h d u q p))"
  shows "mk_buttons (mk_setBooks (ok_data (books_index h d u q p)) initial_member_books) (br_id b)
    = (if with_can_borrow_for d u b then Some initial_bb else None)"
proof -
  let ?js = "ok_data (books_index h d u q p)"
  have "distinct (map br_id (scan h (book_search h q (db_books d))))"
  proof -
    have "inj_on br_id (set (db_books d))" using assms(1) by (simp add: db_inv_def distinct_map)
    with scan_search [OF assms(2,1), of q] book_search_sub(1) [of h q "db_books d"] show ?thesis
      by (auto simp: distinct_map intro: inj_on_subset)
  qed
  then have "distinct (map br_id (page_slice (scan h (book_search h q (db_books d))) (page_number p)))"
    by (simp add: page_slice_def flip: take_map drop_map)
  then have "distinct (map bj_id ?js)"
    by (simp add: ok_data_def books_index_def id_book_json)
  then have "find (\<lambda>c. bj_id c = bj_id (book_json_for d u b)) ?js = Some (book_json_for d u b)"
    using assms(4) by (rule find_by_key)
  then show ?thesis
    by (simp add: mk_setBooks_def initial_member_books_def mount_buttons_def book_json_for_def can_borrow_def)
qed

text \<open>C1. The catalogue keeps its word: on a page of books served to a member, the row of a book has a
  borrow button exactly when borrowing it would succeed at that moment; and then confirming leads to
  the success message, with the book no longer offered, and to a new active borrowing of the member.\<close>

theorem offered_iff_granted:
  assumes "db_inv d" "scan_ok h" "b \<in> set (db_books d)" "ur_role u = Member"
    and "book_json_for d u b \<in> set (ok_data (books_index h d u q p))"
  shows "let s = mk_setBooks (ok_data (books_index h d u q p)) initial_member_books;
             (resp, d') = borrowings_create t u (br_id b) d;
             bb = bb_reply dueText (reply_of resp) initial_bb in
      (mk_buttons s (br_id b) \<noteq> None \<longleftrightarrow> resp = Created ())
      \<and> (resp = Created () \<longrightarrow>
           bb_successMessage bb = ''Borrowed! Please return by '' @ dueText \<and> \<not> bb_available bb
           \<and> user_active d' (ur_id u) (br_id b) \<and> \<not> with_can_borrow_for d' u b)"
proof -
  note buttons = loaded_buttons [OF assms(1,2,3,5)]
  show ?thesis
    by (cases rule: create_borrowing_cases [of d u b t])
       (simp_all add: Let_def buttons borrowings_create_def find_book_in [OF assms(1,3)]
         with_can_borrow_for_iff assms(4) record_invalid_def bb_reply_def borrowing_errors_Nil_iff)
qed

text \<open>The messages of the two validations contain no line feed.\<close>

lemma borrowing_errors_lines: "\<forall>m\<in>set (borrowing_errors d u b). CHR 0x0A \<notin> set m"
  by (auto simp: borrowing_errors_def prevent_duplicate_active_borrowing_def copies_available_to_borrow_def)

text \<open>C25. When the book was taken in the meantime the server's reasons reach the member: if borrowing
  is refused, the dialogue stays open and shows each message of the server, one to a line.\<close>

theorem refusal_is_shown:
  assumes "find_book d i = Some b" "borrowing_errors d u b \<noteq> []" "bb_open s" "bb_successMessage s = []"
  shows "let s' = bb_reply dueText (reply_of (fst (borrowings_create t u i d))) s in
    bb_open s' \<and> bb_available s' = bb_available s \<and> \<not> bb_loading s'
    \<and> split_lines (bb_errorMessage s') = borrowing_errors d u b
    \<and> (\<forall>m\<in>set (borrowing_errors d u b). m \<in> set (concat (map texts (BorrowButton dueText s'))))"
proof -
  let ?e = "borrowing_errors d u b"
  let ?s' = "bb_reply dueText (reply_of (fst (borrowings_create t u i d))) s"
  have s': "?s' = s\<lparr>bb_errorMessage := js_join [CHR 0x0A] ?e, bb_loading := False\<rparr>"
    using assms(1,2)
    by (simp add: borrowings_create_def create_borrowing_def record_invalid_def bb_reply_def borrow_failure_def)
  have lines: "split_lines (js_join [CHR 0x0A] ?e) = ?e"
    using assms(2) borrowing_errors_lines by (rule split_lines_join)
  have "js_join [CHR 0x0A] ?e \<noteq> []"
    using assms(2) by (auto simp: borrowing_errors_def prevent_duplicate_active_borrowing_def
        copies_available_to_borrow_def split: if_splits)
  with assms(3,4) lines show ?thesis
    by (auto simp: Let_def s' BorrowButton_def Modal_def)
qed

section \<open>Due dates\<close>


fun badge_of :: "'e node \<Rightarrow> badge_variant list" where
  "badge_of (Bdg v ks) = [v]"
| "badge_of _ = []"

definition due_soon_badge :: "int \<Rightarrow> borrowing_json \<Rightarrow> bool" where
  "due_soon_badge t it \<longleftrightarrow> concat (map badge_of (status_badge t it :: nat node list)) = [Badge_Warning]"

lemma due_soon_badge_iff:
  "due_soon_badge t it \<longleftrightarrow> rj_status it = Borrowed \<and> utc_date t \<le> rj_due_date it
     \<and> rj_due_date it \<le> date_add (utc_date t) 3"
  unfolding due_soon_badge_def status_badge_def days_until_due_window [symmetric] Let_def
  by (cases "rj_status it") simp_all

lemma loan_json_exists:
  assumes "db_inv d" "l \<in> set (db_loans d)"
  shows "loan_json d l \<noteq> None"
proof -
  have "ln_book_id l \<in> br_id ` set (db_books d)" using assms by (simp add: db_inv_def)
  then have "find_book d (ln_book_id l) \<noteq> None" by (auto simp: find_book_def find_None_iff)
  then show ?thesis by (auto simp: loan_json_def)
qed

lemma loan_json_fields:
  "loan_json d l = Some it \<Longrightarrow>
   rj_id it = ln_id l \<and> rj_status it = ln_status l \<and> rj_due_date it = ln_due_date l"
  by (auto simp: loan_json_def)

text \<open>C30. The two computations of "due soon" agree: at any instant, the number the librarian's
  dashboard shows, which the server counts from today to three days ahead, is the number of
  borrowings that the list of borrowings would mark with the due-soon badge, which the client
  computes from the clock of the browser.\<close>

theorem due_soon_agrees:
  assumes "db_inv d"
  shows "librarian_due_today t d =
    int (length (filter (due_soon_badge t) (List.map_filter (loan_json d) (db_loans d))))"
proof -
  have "length (filter (due_within t) ls) = length (filter (due_soon_badge t) (List.map_filter (loan_json d) ls))"
    if "set ls \<subseteq> set (db_loans d)" for ls
    using that
  proof (induction ls)
    case (Cons l ls)
    then obtain it where "loan_json d l = Some it" using loan_json_exists [OF assms, of l] by auto
    with Cons loan_json_fields [OF this] show ?case
      by (auto simp: map_filter_simps due_soon_badge_iff due_within_def)
  qed (simp add: map_filter_simps)
  then show ?thesis by (simp add: librarian_due_today_def count_loans_def)
qed

section \<open>Returning\<close>

lemma selected_sub: "set (selected_loans h d u ps) \<subseteq> set (db_loans d)"
proof -
  have "set (order_loans k dir ls) = set ls" for k dir ls
    by (cases dir) (simp_all add: order_loans_def Let_def)
  moreover have "set (date_filter h v ls) \<subseteq> set ls" for v ls
    by (auto simp: date_filter_def split: option.splits)
  moreover have "set (text_search h d q ls) \<subseteq> set ls" for q ls
    by (auto simp: text_search_def Let_def)
  moreover have "set (status_filter v ls) \<subseteq> set ls" for v ls
    by (auto simp: status_filter_def)
  moreover have "set (visible_loans u ls) \<subseteq> set ls" for ls
    by (auto simp: visible_loans_def)
  ultimately show ?thesis unfolding selected_loans_def by blast
qed

lemma index_rows:
  assumes "it \<in> set (ok_data (borrowings_index h d u ps))"
  shows "\<exists>l\<in>set (db_loans d). rj_id it = ln_id l \<and> rj_status it = ln_status l \<and> rj_due_date it = ln_due_date l"
proof -
  have sub: "set (selected_loans h d u ps) \<subseteq> set (db_loans d)" by (rule selected_sub)
  let ?ls = "page_slice (selected_loans h d u ps) (page_number (Some (lp_page ps)))"
  have "it \<in> set (List.map_filter (loan_json d) ?ls)"
    using assms by (simp add: ok_data_def borrowings_index_def)
  then obtain l where l: "l \<in> set ?ls" "loan_json d l = Some it"
    by (fastforce simp: List.map_filter_def)
  have "l \<in> set (db_loans d)" using l(1) sub set_page_slice [of "selected_loans h d u ps"] by (meson subsetD)
  with loan_json_fields [OF l(2)] show ?thesis by (intro bexI [of _ l])
qed

lemma reply_borrowings_index:
  "reply_of (borrowings_index h d u ps) = Resolved (Some (ok_data (borrowings_index h d u ps)))"
  by (simp add: ok_data_def borrowings_index_def)

lemma return_offered_iff:
  "LR_Return i \<in> offers (BorrowingsPage state br s) \<longleftrightarrow>
   (\<exists>it\<in>set (lr_items s). rj_id it = i \<and> rj_status it = Borrowed)"
  by (auto simp: offers_BorrowingsPage)

text \<open>C5. A return goes through to the end: when a librarian confirms the return of a borrowing, the
  server records it, the page reloads with the filters of the confirmed render, the dialogue closes,
  and the reloaded list no longer offers to return that borrowing.\<close>

theorem return_completes:
  assumes "db_inv d" "ur_role u = Librarian" "find_loan d i = Some l" "lr_returningId s = Some i"
  shows "let c = or_undefined (lr_returnComment s); ps = lr_params s;
             (resp, d') = return_book h t u i c d;
             s' = fst (lr_reload_reply (reply_of (borrowings_index h d' u ps)) s) in
      lr_confirm s = (s, [Send (LR_Post_Return i c ps)])
      \<and> onReturn_reply ps (reply_of resp) s = (s, [Send (LR_Reload ps)])
      \<and> returned_loan (blank h) t c l \<in> set (db_loans d')
      \<and> lr_returningId s' = None \<and> LR_Return i \<notin> offers (BorrowingsPage state br s')"
proof -
  let ?c = "or_undefined (lr_returnComment s)" and ?ps = "lr_params s"
  let ?d' = "return_loan (blank h) t ?c l d"
  have l: "l \<in> set (db_loans d)" "ln_id l = i" using find_loan_Some [OF assms(3)] by auto
  have "\<forall>k\<in>set (db_loans ?d'). ln_id k = i \<longrightarrow> ln_status k = Returned"
    using l by (auto simp: return_loan_def replace_by_def returned_loan_def)
  then have "\<forall>it\<in>set (ok_data (borrowings_index h ?d' u ?ps)). rj_id it = i \<longrightarrow> rj_status it = Returned"
    using index_rows by metis
  moreover have "returned_loan (blank h) t ?c l \<in> set (db_loans ?d')"
    using l by (auto simp: return_loan_def replace_by_def image_iff intro!: bexI [of _ l])
  ultimately show ?thesis
    using assms(2,3,4)
    by (auto simp: Let_def return_book_def lr_confirm_def onReturn_reply_def lr_reload_reply_def
        lr_load_reply_def reply_borrowings_index lr_dismiss_def return_offered_iff)
qed

text \<open>C27. A borrowing that was marked overdue cannot be returned from the interface: whatever filters a
  librarian chooses, no list the server sends makes the page offer its return, although the endpoint
  would accept it.\<close>

theorem overdue_return_not_offered:
  assumes "db_inv d" "l \<in> set (db_loans d)" "past_due t l" "ur_role u = Librarian"
  shows "let d1 = snd (snd (mark_overdue_books t d));
             s' = fst (lr_load_reply (reply_of (borrowings_index h d1 u ps)) s) in
      LR_Return (ln_id l) \<notin> offers (BorrowingsPage state br s')
      \<and> fst (return_book h t' u (ln_id l) c d1) = Ok_200 ()"
proof -
  let ?d1 = "snd (snd (mark_overdue_books t d))"
  have rows: "db_loans ?d1 = map (mark_row t) (db_loans d)" by (simp add: mark_overdue_db)
  have "\<forall>k\<in>set (db_loans ?d1). ln_id k = ln_id l \<longrightarrow> ln_status k = Overdue"
    using loan_id_inj [OF assms(1) _ assms(2)] assms(3) by (auto simp: rows mark_row_def)
  then have "\<forall>it\<in>set (ok_data (borrowings_index h ?d1 u ps)). rj_id it = ln_id l \<longrightarrow> rj_status it = Overdue"
    using index_rows by metis
  moreover have "find_loan ?d1 (ln_id l) \<noteq> None"
    using assms(2) by (auto simp: find_loan_def find_None_iff rows)
  ultimately show ?thesis
    using assms(4)
    by (auto simp: Let_def return_book_def lr_load_reply_def reply_borrowings_index return_offered_iff)
qed

section \<open>Creating a book\<close>

lemma map_of_tabulate: "map_of (map (\<lambda>k. (k, f k)) ks) k = (if k \<in> set ks then Some (f k) else None)"
  by (induction ks) auto

lemma map_of_group_errors:
  "map_of (group_errors es) k =
     (if k \<in> fst ` set es then Some (Message_List (map snd (filter (\<lambda>e. fst e = k) es))) else None)"
  by (simp add: group_errors_def map_of_tabulate)

lemma keys_group_errors: "map fst (group_errors es) = remdups (map fst es)"
  unfolding group_errors_def map_map by (rule map_idI) simp

lemma first_of_group:
  "k \<in> fst ` set es \<Longrightarrow>
   first_message (Message_List (map snd (filter (\<lambda>e. fst e = k) es))) = map_option snd (find (\<lambda>e. fst e = k) es)"
  by (induction es) auto

lemma field_error_group:
  "field_error (map_server_errors (group_errors es)) k = map_option snd (find (\<lambda>e. fst e = k) es)"
proof -
  have "distinct (map fst (group_errors es))" by (simp add: keys_group_errors)
  then have "field_error (map_server_errors (group_errors es)) k = Option.bind (map_of (group_errors es) k) first_message"
    by (rule field_error_map_server_errors)
  also have "\<dots> = map_option snd (find (\<lambda>e. fst e = k) es)"
  proof (cases "k \<in> fst ` set es")
    case True
    then show ?thesis by (simp add: map_of_group_errors first_of_group del: first_message.simps)
  next
    case False
    then have "find (\<lambda>e. fst e = k) es = None" by (force simp: find_None_iff)
    with False show ?thesis by (simp add: map_of_group_errors)
  qed
  finally show ?thesis .
qed

text \<open>C39. The server's validation errors reach the form: when a librarian's new book is refused, for
  instance because its ISBN is taken, nothing is stored, the dialogue stays as it is, and each field
  shows the first message the server has for its attribute, and no other.\<close>

theorem book_errors_reach_fields:
  assumes "ur_role u = Librarian" "book_errors h d None (new_attributes (lb_newBook s)) \<noteq> []"
  shows "let (resp, d') = books_create h u (lb_newBook s) d; (s', effs) = lb_create_reply (reply_of resp) s in
      d' = d \<and> effs = [] \<and> lb_books s' = lb_books s \<and> lb_creating s' = lb_creating s
      \<and> lb_newBook s' = lb_newBook s
      \<and> (\<forall>k. field_error (lb_createErrors s') k =
               map_option snd (find (\<lambda>e. fst e = k) (book_errors h d None (new_attributes (lb_newBook s)))))"
  using assms
  by (simp add: books_create_def Let_def lb_create_reply_def body_errors_def errors_body_def field_error_group)


section \<open>The manual overdue check\<close>

text \<open>The manual overdue check of the librarian's dashboard: declined it does nothing; confirmed,
  the server marks the borrowings that are past due, the librarian is told their number, and the
  figures are loaded again, the overdue count having grown by exactly that number.\<close>

theorem manual_overdue_check:
  assumes "ur_role u = Librarian"
  shows "handleMarkOverdue False s = (s, [])
    \<and> handleMarkOverdue True s = (s, [Send LS_Post_Mark_Overdue])
    \<and> (let (resp, d') = mark_overdue_endpoint t u d; n = length (filter (past_due t) (db_loans d)) in
         resp = Ok_200 (''Successfully marked '' @ nat_digits n @ '' books as overdue'', n)
         \<and> mark_overdue_reply (Resolved (Some \<lparr>oj_success = True,
              oj_message = Some (''Successfully marked '' @ nat_digits n @ '' books as overdue''), oj_error = None\<rparr>)) s
            = (s, [Alert (''Successfully marked '' @ nat_digits n @ '' books as overdue''), Send LS_Reload_Data])
         \<and> librarian_overdue_books_count d' = librarian_overdue_books_count d + int n
         \<and> librarian_currently_borrowed d' = librarian_currently_borrowed d - int n)"
proof -
  have "length (filter ((\<lambda>l. ln_status l = Overdue) \<circ> mark_row t) ls) =
      length (filter (\<lambda>l. ln_status l = Overdue) ls) + length (filter (past_due t) ls)"
    and "length (filter ((\<lambda>l. ln_status l = Borrowed) \<circ> mark_row t) ls) + length (filter (past_due t) ls) =
      length (filter (\<lambda>l. ln_status l = Borrowed) ls)" for ls
    by (induction ls) (auto simp: mark_row_def past_due_def)
  note counts = this [of "db_loans d"]
  obtain n notified d' where m: "mark_overdue_books t d = (n, notified, d')"
    by (cases "mark_overdue_books t d")
  then have "n = length (filter (past_due t) (db_loans d))"
    "d' = d\<lparr>db_loans := map (mark_row t) (db_loans d)\<rparr>"
    using mark_overdue_count [of t d] mark_overdue_db [of t d] by (simp_all add: overdue_borrowings_def)
  with m assms counts show ?thesis
    by (simp add: handleMarkOverdue_def mark_overdue_endpoint_def mark_overdue_reply_def js_show_def
        librarian_overdue_books_count_def librarian_currently_borrowed_def count_loans_def
        filter_map Let_def)
qed

section \<open>Editing a book\<close>

text \<open>C40. A saved edit round-trips: if a librarian saves a row whose form holds a title, author, genre and
  ISBN that are not blank, the ISBN no other book's, and a number of copies that fits its column, then
  the stored book has exactly these values and its old id, every other book and all borrowings are as
  they were; the list shows the new values in the place of the old ones and leaves every other row
  alone, nothing is reported, the row's dialogue is closed without errors; and the next edit of the
  row starts from the values that were saved.\<close>

theorem book_edit_is_saved:
  assumes "ur_role u = Librarian" "find_book d i \<noteq> None" "lb_rows s i = Some st"
    and "ed_form st = \<lparr>bf_title = Some ti, bf_author = Some au, bf_genre = Some ge, bf_isbn = Some is,
           bf_total_copies = Some (Num (of_int n))\<rparr>"
    and "\<forall>v\<in>{ti, au, ge, is}. \<not> blank h v" "\<forall>b\<in>set (db_books d). br_isbn b = is \<longrightarrow> br_id b = i"
    and "0 \<le> n" "n < 2 ^ 31"
  shows "let (resp, d') = books_update h u i (ed_form st) d; (s', effs) = lb_put_reply i (reply_of resp) s in
      \<exists>j. find_book d' i = Some \<lparr>br_id = i, br_title = ti, br_author = au, br_genre = ge, br_isbn = is,
             br_total_copies = n\<rparr>
      \<and> (\<forall>k. k \<noteq> i \<longrightarrow> find_book d' k = find_book d k) \<and> db_loans d' = db_loans d
      \<and> bj_id j = i \<and> bj_title j = ti \<and> bj_author j = au \<and> bj_genre j = ge \<and> bj_isbn j = is
      \<and> bj_total_copies j = n
      \<and> lb_books s' = map (\<lambda>x. if bj_id x = i then j else x) (lb_books s)
      \<and> effs = []
      \<and> (\<forall>st'. lb_rows s' i = Some st' \<longrightarrow> \<not> ed_editing st' \<and> ed_errors st' = [] \<and> \<not> ed_loading st')
      \<and> (\<forall>st'. ed_form (fst (ed_handle confirmed j ED_Edit st')) = ed_form st)"
proof -
  let ?b = "\<lparr>br_id = i, br_title = ti, br_author = au, br_genre = ge, br_isbn = is, br_total_copies = n\<rparr>"
  obtain b0 where b0: "find_book d i = Some b0" using assms(2) by blast
  have attrs: "updated_attributes b0 (ed_form st) = ed_form st" by (simp add: updated_attributes_def assms(4))
  have form: "form_book i (ed_form st) = ?b" by (simp add: form_book_def assms(4))
  have "\<not> isbn_taken d (Some i) (Some is)" using assms(6) by (auto simp: isbn_taken_def list_ex_iff)
  then have "book_errors h d (Some i) (ed_form st) = []" "\<not> copies_overflow ?b"
    using assms(5,7,8)
    by (simp_all add: book_errors_def presence_error_def presence_def copies_error_def copies_overflow_def assms(4))
  then have resp: "books_update h u i (ed_form st) d = (Ok_200 (book_attributes ?b), update_book_row ?b d)"
    using assms(1) by (simp add: books_update_def Let_def b0 attrs form)
  have "i \<in> br_id ` set (db_books d)" using find_book_Some [OF b0] by auto
  then have found: "find_book (update_book_row ?b d) i = Some ?b"
    by (simp add: find_book_def update_book_row_def find_replace_by)
  have others: "find_book (update_book_row ?b d) k = find_book d k" if "k \<noteq> i" for k
    using find_replace_by_other [of k i br_id ?b "db_books d"] that
    by (simp add: find_book_def update_book_row_def)
  have reply: "lb_put_reply i (Resolved (Some (book_attributes ?b))) s =
      (onChange (book_attributes ?b) (map_row i (onSave_reply (Resolved (Some (book_attributes ?b)))) s), [])"
    by (simp add: lb_put_reply_def onSave_out_def)
  have rows: "lb_books (onChange (book_attributes ?b) (map_row i f s)) =
      map (\<lambda>x. if bj_id x = i then book_attributes ?b else x) (lb_books s)" for f
    by (simp add: onChange_def setBooks_def replace_by_def map_row_def book_attributes_def)
  have closed: "\<not> ed_editing st' \<and> ed_errors st' = [] \<and> \<not> ed_loading st'"
    if "lb_rows (fst (lb_put_reply i (Resolved (Some (book_attributes ?b))) s)) i = Some st'" for st'
    using that assms(3)
    by (auto simp: reply onChange_def setBooks_def map_row_def mount_rows_def onSave_reply_def split: option.splits)
  show ?thesis
    unfolding resp Let_def prod.case reply_of.simps
    using found others closed rows [of "onSave_reply (Resolved (Some (book_attributes ?b)))"]
    unfolding reply fst_conv prod.case
    by (intro exI [of _ "book_attributes ?b"]) (simp add: book_attributes_def book_to_form_def assms(4) update_book_row_def)
qed

end
