(* ===== verification/Librarian_Members.thy ===== *)
theory Librarian_Members imports Paging Auth_Context begin

text \<open>
  \<open>frontend/src/pages/librarian/Members.tsx\<close>: the list of members with its search and pages, the
  dialogue that creates one, and \<open>Row\<close>, the edit and delete controls of a row. \<open>onUpdate\<close> belongs to
  the page and catches its own failures; \<open>Row\<close> awaits it.
\<close>

section \<open>Forms\<close>

record member_form =
  mf_email :: "string option"
  mf_first_name :: "string option"
  mf_last_name :: "string option"
  mf_password :: "string option"

definition empty_member_form :: member_form where
  "empty_member_form = \<lparr>mf_email = Some [], mf_first_name = Some [], mf_last_name = Some [],
     mf_password = Some []\<rparr>"

definition validate_new_member :: "member_form \<Rightarrow> field_errors" where
  "validate_new_member f =
     (if missing (mf_email f) then [(''email'', Some ''Email is required'')] else [])
     @ (if missing (mf_password f) then [(''password'', Some ''Temp password is required'')] else [])"

definition validate_edited_member :: "member_form \<Rightarrow> field_errors" where
  "validate_edited_member f =
     (if missing (mf_email f) then [(''email'', Some ''Email is required'')] else [])"

lemma validate_member_Nil_iff:
  "validate_new_member f = [] \<longleftrightarrow> \<not> missing (mf_email f) \<and> \<not> missing (mf_password f)"
  "validate_edited_member f = [] \<longleftrightarrow> \<not> missing (mf_email f)"
  by (simp_all add: validate_new_member_def validate_edited_member_def)

section \<open>State\<close>

text \<open>The form of a row is a \<open>Partial<Member>\<close>: it has no password.\<close>

record member_row =
  rw_editing :: bool
  rw_form :: member_form
  rw_loading :: bool
  rw_errors :: field_errors

definition member_to_form :: "user_json \<Rightarrow> member_form" where
  "member_to_form m = \<lparr>mf_email = Some (uj_email m), mf_first_name = uj_first_name m,
     mf_last_name = uj_last_name m, mf_password = None\<rparr>"

definition initial_row :: "user_json \<Rightarrow> member_row" where
  "initial_row m = \<lparr>rw_editing = False, rw_form = member_to_form m, rw_loading = False, rw_errors = []\<rparr>"

record members_page =
  lm_q :: string
  lm_page :: int
  lm_members :: "user_json list"
  lm_creating :: bool
  lm_form :: member_form
  lm_createErrors :: field_errors
  lm_rows :: "int \<Rightarrow> member_row option"

datatype rw_event =
    RW_Edit | RW_Close | RW_SetEmail string | RW_SetFirst string | RW_SetLast string
  | RW_Save | RW_Delete

datatype lm_event =
    LM_SetQ string | LM_ToggleCreating | LM_CloseCreate
  | LM_SetEmail string | LM_SetFirst string | LM_SetLast string | LM_SetPassword string
  | LM_Create | LM_Prev | LM_Next
  | LM_Row int rw_event

datatype lm_request =
    Get_Members string int
  | Post_Member member_form
  | Put_Member int member_form
  | Delete_Member int

definition initial_members_page :: members_page where
  "initial_members_page = \<lparr>lm_q = [], lm_page = 1, lm_members = [], lm_creating = False,
     lm_form = empty_member_form, lm_createErrors = [], lm_rows = Map.empty\<rparr>"

definition mount_member_rows ::
    "user_json list \<Rightarrow> (int \<Rightarrow> member_row option) \<Rightarrow> int \<Rightarrow> member_row option" where
  "mount_member_rows ms rows = (\<lambda>i.
     case find (\<lambda>m. uj_id m = i) ms of
       None \<Rightarrow> None
     | Some m \<Rightarrow> Some (case rows i of None \<Rightarrow> initial_row m | Some st \<Rightarrow> st))"

definition setMembers :: "user_json list \<Rightarrow> members_page \<Rightarrow> members_page" where
  "setMembers ms s = s\<lparr>lm_members := ms, lm_rows := mount_member_rows ms (lm_rows s)\<rparr>"

definition map_member_row :: "int \<Rightarrow> (member_row \<Rightarrow> member_row) \<Rightarrow> members_page \<Rightarrow> members_page" where
  "map_member_row i f s = s\<lparr>lm_rows := (lm_rows s)(i := map_option f (lm_rows s i))\<rparr>"

section \<open>Handlers of the page\<close>

definition lm_load_reply :: "user_json list reply \<Rightarrow> members_page \<Rightarrow> members_page \<times> lm_request effect list" where
  [handler_defs]: "lm_load_reply r s =
     (case r of
        Resolved (Some ms) \<Rightarrow> (setMembers ms s, [])
      | Resolved None \<Rightarrow> (setMembers [] s, [Log ''Invalid API response format''])
      | Rejected e \<Rightarrow> (setMembers [] s, [Log ''Failed to load members:'']))"

definition onCreate :: "members_page \<Rightarrow> members_page \<times> lm_request effect list" where
  [handler_defs]: "onCreate s =
     (let errs = validate_new_member (lm_form s); s1 = s\<lparr>lm_createErrors := errs\<rparr> in
      if length errs > 0 then (s1, []) else (s1, [Send (Post_Member (lm_form s))]))"

definition onCreate_reply :: "user_json reply \<Rightarrow> members_page \<Rightarrow> members_page \<times> lm_request effect list" where
  [handler_defs]: "onCreate_reply r s =
     (case r of
        Resolved (Some m) \<Rightarrow>
          ((setMembers (m # lm_members s) s)
             \<lparr>lm_creating := False, lm_form := empty_member_form, lm_createErrors := []\<rparr>, [])
      | Resolved None \<Rightarrow>
          (s, [Log ''Invalid API response format'', Alert ''Failed to create member: Invalid response''])
      | Rejected e \<Rightarrow>
          (case body_errors e of
             Some es \<Rightarrow> (s\<lparr>lm_createErrors := map_server_errors es\<rparr>, [])
           | None \<Rightarrow> (s, [Alert ''Failed to create''])))"

text \<open>
  \<open>onUpdate\<close> after its await. It never throws: the caller always sees it complete.
\<close>

definition onUpdate_reply ::
    "int \<Rightarrow> user_json reply \<Rightarrow> members_page \<Rightarrow> members_page \<times> lm_request effect list" where
  [handler_defs]: "onUpdate_reply i r s =
     (case r of
        Resolved (Some m) \<Rightarrow> (setMembers (replace_by uj_id i m (lm_members s)) s, [])
      | Resolved None \<Rightarrow>
          (s, [Log ''Invalid API response format'', Alert ''Failed to update member: Invalid response''])
      | Rejected e \<Rightarrow>
          (s, [Log ''Failed to update member:'', Alert ''Failed to update member'']))"

definition onDelete_member :: "bool \<Rightarrow> int \<Rightarrow> members_page \<Rightarrow> members_page \<times> lm_request effect list" where
  [handler_defs]: "onDelete_member confirmed i s =
     (if \<not> confirmed then (s, []) else (s, [Send (Delete_Member i)]))"

definition onDelete_reply ::
    "int \<Rightarrow> unit reply \<Rightarrow> members_page \<Rightarrow> members_page \<times> lm_request effect list" where
  [handler_defs]: "onDelete_reply i r s =
     (case r of
        Resolved d \<Rightarrow> (setMembers (remove_by uj_id i (lm_members s)) s, [])
      | Rejected e \<Rightarrow>
          (s, [Log ''Failed to delete member:'', Alert ''Failed to delete member'']))"

definition lm_prev :: "members_page \<Rightarrow> members_page" where
  [handler_defs]: "lm_prev s = s\<lparr>lm_page := max 1 (lm_page s - 1)\<rparr>"

definition lm_next :: "members_page \<Rightarrow> members_page" where
  [handler_defs]: "lm_next s = s\<lparr>lm_page := lm_page s + 1\<rparr>"

section \<open>Handlers of a row\<close>

text \<open>The attributes of the update are the email and the names, whatever else the form holds.\<close>

definition row_save :: "user_json \<Rightarrow> member_row \<Rightarrow> member_row \<times> lm_request effect list" where
  [handler_defs]: "row_save m s =
     (let errs = validate_edited_member (rw_form s); s1 = s\<lparr>rw_errors := errs\<rparr> in
      if length errs > 0 then (s1, [])
      else (s1\<lparr>rw_loading := True\<rparr>,
            [Send (Put_Member (uj_id m) ((rw_form s)\<lparr>mf_password := None\<rparr>))]))"

text \<open>
  What follows the awaited \<open>onUpdate\<close>. The awaited call ended either normally or by throwing
  (\<open>Some e\<close>).
\<close>

definition row_saved :: "thrown option \<Rightarrow> member_row \<Rightarrow> member_row \<times> lm_request effect list" where
  [handler_defs]: "row_saved ex s =
     (case ex of
        None \<Rightarrow> (s\<lparr>rw_editing := False, rw_errors := [], rw_loading := False\<rparr>, [])
      | Some e \<Rightarrow>
          (case body_errors e of
             Some es \<Rightarrow> (s\<lparr>rw_errors := map_server_errors es, rw_loading := False\<rparr>, [])
           | None \<Rightarrow> (s\<lparr>rw_loading := False\<rparr>, [Alert ''Failed to save''])))"

fun rw_handle :: "user_json \<Rightarrow> rw_event \<Rightarrow> member_row \<Rightarrow> member_row \<times> lm_request effect list" where
  "rw_handle m RW_Edit s = (s\<lparr>rw_form := member_to_form m, rw_editing := True\<rparr>, [])"
| "rw_handle m RW_Close s = (s\<lparr>rw_editing := False\<rparr>, [])"
| "rw_handle m (RW_SetEmail v) s = (s\<lparr>rw_form := (rw_form s)\<lparr>mf_email := Some v\<rparr>\<rparr>, [])"
| "rw_handle m (RW_SetFirst v) s = (s\<lparr>rw_form := (rw_form s)\<lparr>mf_first_name := Some v\<rparr>\<rparr>, [])"
| "rw_handle m (RW_SetLast v) s = (s\<lparr>rw_form := (rw_form s)\<lparr>mf_last_name := Some v\<rparr>\<rparr>, [])"
| "rw_handle m RW_Save s = row_save m s"
| "rw_handle m RW_Delete s = (s, [])"

text \<open>Deleting is the page's handler; every other event of a row is the row's.\<close>

definition lm_row_event ::
    "bool \<Rightarrow> int \<Rightarrow> rw_event \<Rightarrow> members_page \<Rightarrow> members_page \<times> lm_request effect list" where
  [handler_defs]: "lm_row_event confirmed i e s =
     (case (find (\<lambda>m. uj_id m = i) (lm_members s), lm_rows s i) of
        (Some m, Some st) \<Rightarrow>
          (if e = RW_Delete then onDelete_member confirmed (uj_id m) s
           else (case rw_handle m e st of
                   (st', effs) \<Rightarrow> (s\<lparr>lm_rows := (lm_rows s)(i \<mapsto> st')\<rparr>, effs)))
      | _ \<Rightarrow> (s, []))"

text \<open>The reply to an update: \<open>onUpdate\<close> finishes, and then \<open>save\<close>, which saw no exception.\<close>

definition lm_update_reply ::
    "int \<Rightarrow> user_json reply \<Rightarrow> members_page \<Rightarrow> members_page \<times> lm_request effect list" where
  [handler_defs]: "lm_update_reply i r s =
     (case onUpdate_reply i r s of
        (s1, effs) \<Rightarrow> (map_member_row i (\<lambda>st. fst (row_saved None st)) s1, effs))"

fun lm_handle :: "bool \<Rightarrow> lm_event \<Rightarrow> members_page \<Rightarrow> members_page \<times> lm_request effect list" where
  "lm_handle confirmed (LM_SetQ v) s = (s\<lparr>lm_q := v, lm_page := 1\<rparr>, [])"
| "lm_handle confirmed LM_ToggleCreating s = (s\<lparr>lm_creating := \<not> lm_creating s\<rparr>, [])"
| "lm_handle confirmed LM_CloseCreate s = (s\<lparr>lm_creating := False\<rparr>, [])"
| "lm_handle confirmed (LM_SetEmail v) s = (s\<lparr>lm_form := (lm_form s)\<lparr>mf_email := Some v\<rparr>\<rparr>, [])"
| "lm_handle confirmed (LM_SetFirst v) s = (s\<lparr>lm_form := (lm_form s)\<lparr>mf_first_name := Some v\<rparr>\<rparr>, [])"
| "lm_handle confirmed (LM_SetLast v) s = (s\<lparr>lm_form := (lm_form s)\<lparr>mf_last_name := Some v\<rparr>\<rparr>, [])"
| "lm_handle confirmed (LM_SetPassword v) s = (s\<lparr>lm_form := (lm_form s)\<lparr>mf_password := Some v\<rparr>\<rparr>, [])"
| "lm_handle confirmed LM_Create s = onCreate s"
| "lm_handle confirmed LM_Prev s = (lm_prev s, [])"
| "lm_handle confirmed LM_Next s = (lm_next s, [])"
| "lm_handle confirmed (LM_Row i e) s = lm_row_event confirmed i e s"

definition lm_event_step :: "bool \<Rightarrow> lm_event \<Rightarrow> members_page \<Rightarrow> members_page \<times> lm_request effect list" where
  "lm_event_step confirmed e s =
     (case lm_handle confirmed e s of
        (s', effs) \<Rightarrow>
          (s', effs @ (if (lm_q s', lm_page s') \<noteq> (lm_q s, lm_page s)
                       then [Send (Get_Members (lm_q s') (lm_page s'))] else [])))"

section \<open>Rendering\<close>

definition Row_view :: "user_json \<Rightarrow> member_row \<Rightarrow> rw_event node" where
  [view_defs]: "Row_view m s =
     TR [TD [Txt (uj_email m)], TD [Txt (js_or (uj_first_name m) [])],
         TD [Txt (js_or (uj_last_name m) [])],
         TD ([El ''div'' [Btn Ghost Md False RW_Edit [Txt ''Edit''],
                          Btn Danger Md (rw_loading s) RW_Delete [Txt ''Delete'']]]
             @ Modal (rw_editing s) RW_Close (Some ''Edit Member'')
                 [El ''div''
                   [Input (Some ''Email'') (field_error (rw_errors s) ''email'') None []
                      (Text_Value (js_or (mf_email (rw_form s)) [])) RW_SetEmail,
                    Input (Some ''First name'') None None []
                      (Text_Value (js_or (mf_first_name (rw_form s)) [])) RW_SetFirst,
                    Input (Some ''Last name'') None None []
                      (Text_Value (js_or (mf_last_name (rw_form s)) [])) RW_SetLast]]
                 [Btn Ghost Md False RW_Close [Txt ''Cancel''],
                  Btn Secondary Md (rw_loading s) RW_Save [Txt ''Save'']])]"

definition lm_create_modal :: "members_page \<Rightarrow> lm_event node list" where
  [view_defs]: "lm_create_modal s =
     Modal (lm_creating s) LM_CloseCreate (Some ''New Member'')
       [El ''div''
         [Input (Some ''Email'') (field_error (lm_createErrors s) ''email'') None []
            (Text_Value (js_or (mf_email (lm_form s)) [])) LM_SetEmail,
          Input (Some ''First name'') None None []
            (Text_Value (js_or (mf_first_name (lm_form s)) [])) LM_SetFirst,
          Input (Some ''Last name'') None None []
            (Text_Value (js_or (mf_last_name (lm_form s)) [])) LM_SetLast,
          Input (Some ''Temp password'') (field_error (lm_createErrors s) ''password'') None
            [(''type'', ''password'')] (Text_Value (js_or (mf_password (lm_form s)) [])) LM_SetPassword]]
       [Btn Ghost Md False LM_CloseCreate [Txt ''Cancel''],
        Btn Secondary Md False LM_Create [Txt ''Create'']]"

definition MembersPage_view :: "members_page \<Rightarrow> lm_event node list" where
  [view_defs]: "MembersPage_view s =
     [El ''div''
       [El ''div'' [Input None None None [(''placeholder'', ''Search members'')] (Text_Value (lm_q s)) LM_SetQ],
        Btn (if lm_creating s then Ghost else Primary) Md False LM_ToggleCreating
          [Txt (if lm_creating s then ''Cancel'' else ''New Member'')]]]
     @ lm_create_modal s
     @ [Table
         [THead [TR [TH [Txt ''Email''], TH [Txt ''First name''], TH [Txt ''Last name''], TH [Txt ''Actions'']]],
          TBody (concat (map (\<lambda>m. case lm_rows s (uj_id m) of
                                     None \<Rightarrow> []
                                   | Some st \<Rightarrow> [map_node (LM_Row (uj_id m)) (Row_view m st)])
                  (lm_members s)))]]
     @ pager_controls (lm_page s) (length (lm_members s)) LM_Prev LM_Next"

interpretation lm_pager: pager lm_page lm_members lm_prev lm_next MembersPage_view LM_Prev LM_Next
  by unfold_locales
     (auto simp: handler_defs MembersPage_view_def lm_create_modal_def split: option.splits if_splits)

section \<open>What holds of the page\<close>

definition member_rows_ok :: "user_json list \<Rightarrow> (int \<Rightarrow> member_row option) \<Rightarrow> bool" where
  "member_rows_ok ms rows \<longleftrightarrow> dom rows = uj_id ` set ms"

lemma member_rows_ok_mount [simp]: "member_rows_ok ms (mount_member_rows ms rows)"
  by (auto simp: member_rows_ok_def mount_member_rows_def dom_def find_None_iff split: option.splits)

lemma lm_update_reply_state:
  "lm_rows (fst (lm_update_reply i r s)) i = Some st \<Longrightarrow>
   \<not> rw_editing st \<and> rw_errors st = [] \<and> \<not> rw_loading st"
  by (auto simp: handler_defs map_member_row_def split: reply.splits option.splits)

text \<open>Whatever the server answers to the update of a member, a validation error included, the
  row's dialogue closes without an error on its fields: \<open>save\<close> never sees the failure, which
  \<open>onUpdate\<close> caught, and its own handling of server errors cannot run. The list is unchanged and the
  only sign of the failure is an alert.\<close>

theorem member_update_failure_closes_dialogue:
  assumes "lm_rows s i = Some st"
  shows "\<exists>st'. lm_rows (fst (lm_update_reply i (Rejected e) s)) i = Some st'
    \<and> \<not> rw_editing st' \<and> rw_errors st' = [] \<and> \<not> rw_loading st'
    \<and> lm_members (fst (lm_update_reply i (Rejected e) s)) = lm_members s
    \<and> alerts (snd (lm_update_reply i (Rejected e) s)) = [''Failed to update member'']"
  using assms by (simp add: handler_defs map_member_row_def)

text \<open>A successful update replaces exactly the members with its id by the server's record, a
  successful deletion removes exactly those, a creation puts the new member first and resets the
  dialogue: the ids of the others and their order are kept.\<close>

theorem members_list_updates:
  "lm_members (fst (lm_update_reply i (Resolved (Some m)) s)) =
     map (\<lambda>x. if uj_id x = i then m else x) (lm_members s)
   \<and> lm_members (fst (onDelete_reply i (Resolved d) s)) = filter (\<lambda>x. uj_id x \<noteq> i) (lm_members s)
   \<and> lm_members (fst (onCreate_reply (Resolved (Some m)) s)) = m # lm_members s
   \<and> \<not> lm_creating (fst (onCreate_reply (Resolved (Some m)) s))
   \<and> lm_form (fst (onCreate_reply (Resolved (Some m)) s)) = empty_member_form"
  by (simp add: handler_defs map_member_row_def setMembers_def replace_by_def remove_by_def)

end
