(* ===== verification/App_Shell.thy ===== *)
theory App_Shell imports Auth_Context Ui_Kit begin

text \<open>
  \<open>frontend/src/main.tsx\<close>, \<open>App.tsx\<close>, \<open>components/RoleRoute.tsx\<close>, \<open>pages/Login.tsx\<close>: the route table, the
  shell with its guard and navigation, the choice of a page by role, and the login form. The
  router itself is a library: what matches a path is the parameter \<open>route_of\<close>, of which the
  statements that need it assume that a static path of the table matches its own route.
\<close>

section \<open>Routes\<close>

datatype route =
    Index_Route | Dashboard_Route | Books_Route | Borrowings_Route | Members_Route
  | Account_Route | Login_Route

datatype page =
    LibrarianDashboard | LibrarianBooks | LibrarianBorrowings | LibrarianMembers
  | MemberDashboard | MemberBooks | MemberBorrowings | Account_Page | Login_Page

fun route_path :: "route \<Rightarrow> string" where
  "route_path Index_Route = ''/''"
| "route_path Dashboard_Route = ''/dashboard''"
| "route_path Books_Route = ''/books''"
| "route_path Borrowings_Route = ''/borrowings''"
| "route_path Members_Route = ''/members''"
| "route_path Account_Route = ''/account''"
| "route_path Login_Route = ''/login''"

definition RoleRoute :: "auth_state \<Rightarrow> page \<Rightarrow> page \<Rightarrow> page option" where
  [view_defs]: "RoleRoute state librarian member =
     (case au_user state of
        None \<Rightarrow> None
      | Some u \<Rightarrow> Some (if uj_role u = Librarian then librarian else member))"

text \<open>The element of a route, as a page, or nothing where \<open>RoleRoute\<close> renders nothing.\<close>

fun route_element :: "auth_state \<Rightarrow> route \<Rightarrow> page option" where
  "route_element st Index_Route = RoleRoute st LibrarianDashboard MemberDashboard"
| "route_element st Dashboard_Route = RoleRoute st LibrarianDashboard MemberDashboard"
| "route_element st Books_Route = RoleRoute st LibrarianBooks MemberBooks"
| "route_element st Borrowings_Route = RoleRoute st LibrarianBorrowings MemberBorrowings"
| "route_element st Members_Route = Some LibrarianMembers"
| "route_element st Account_Route = Some Account_Page"
| "route_element st Login_Route = Some Login_Page"

section \<open>The shell\<close>

text \<open>
  A screen is the loading text, a redirect, or the shell: its header when a user is signed in (the
  navigation links with their target, label and active mark, and the email on the account link)
  and the outlet.
\<close>

record nav_link =
  nav_to :: string
  nav_label :: string
  nav_active :: bool

record app_header =
  hd_links :: "nav_link list"
  hd_account_title :: string

datatype screen = Loading_Screen | Redirect string | Shell "app_header option" "page option"

definition NavLink :: "string \<Rightarrow> string \<Rightarrow> string \<Rightarrow> bool \<Rightarrow> nav_link" where
  [view_defs]: "NavLink pathname to label isRootDashboard =
     \<lparr>nav_to = to, nav_label = label,
      nav_active = (if isRootDashboard then pathname = ''/'' \<or> pathname = ''/dashboard''
                    else pathname = to)\<rparr>"

definition App :: "auth_state \<Rightarrow> string \<Rightarrow> page option \<Rightarrow> screen" where
  [view_defs]: "App state pathname outlet =
     (if au_loading state then Loading_Screen
      else if au_user state = None \<and> pathname \<noteq> ''/login'' then Redirect ''/login''
      else Shell
        (case au_user state of
           None \<Rightarrow> None
         | Some u \<Rightarrow> Some
             \<lparr>hd_links =
                [NavLink pathname ''/'' ''Dashboard'' True,
                 NavLink pathname ''/books'' ''Books'' False,
                 NavLink pathname ''/borrowings'' ''Borrowings'' False]
                @ (if uj_role u = Librarian then [NavLink pathname ''/members'' ''Members'' False] else []),
              hd_account_title = uj_email u\<rparr>)
        outlet)"

text \<open>
  The librarian's members page has a guard of its own: for a signed-in user who is not a librarian
  it renders a redirect to the root instead (\<open>pages/librarian/Members.tsx\<close>, lines 26 to 28).
\<close>

definition members_guard :: "auth_state \<Rightarrow> string option" where
  [view_defs]: "members_guard state =
     (case au_user state of
        Some u \<Rightarrow> if uj_role u \<noteq> Librarian then Some ''/'' else None
      | None \<Rightarrow> None)"

text \<open>What a browser at a path shows: the shell around the matched route's element, with the guard.\<close>

definition visit :: "(string \<Rightarrow> route option) \<Rightarrow> auth_state \<Rightarrow> string \<Rightarrow> screen" where
  [view_defs]: "visit route_of state pathname =
     (let element = Option.bind (route_of pathname) (route_element state);
          screen = App state pathname element
      in case screen of
           Shell header (Some LibrarianMembers) \<Rightarrow>
             (case members_guard state of Some to \<Rightarrow> Redirect to | None \<Rightarrow> screen)
         | _ \<Rightarrow> screen)"

definition librarian_pages :: "page set" where
  "librarian_pages = {LibrarianDashboard, LibrarianBooks, LibrarianBorrowings, LibrarianMembers}"

definition member_pages :: "page set" where
  "member_pages = {MemberDashboard, MemberBooks, MemberBorrowings}"

lemmas page_sets [simp] = librarian_pages_def member_pages_def

lemma route_element_role:
  "route_element st r = Some pg \<Longrightarrow> pg \<noteq> LibrarianMembers \<Longrightarrow>
   (pg \<in> librarian_pages \<longrightarrow> (\<exists>u. au_user st = Some u \<and> uj_role u = Librarian))
   \<and> (pg \<in> member_pages \<longrightarrow> (\<exists>u. au_user st = Some u \<and> uj_role u = Member))"
  by (cases r)
     (auto simp: RoleRoute_def split: option.splits if_splits dest: role.exhaust,
      (metis role.exhaust)+)

lemma App_Shell_cases:
  "App st pn out = Shell h pg \<Longrightarrow>
   \<not> au_loading st \<and> pg = out \<and> (au_user st = None \<longrightarrow> pn = ''/login'')"
  by (auto simp: App_def split: if_splits)

lemma visit_Shell:
  assumes "visit route_of st pn = Shell h (Some pg)"
  shows "App st pn (Option.bind (route_of pn) (route_element st)) = Shell h (Some pg)"
    and "pg = LibrarianMembers \<Longrightarrow> members_guard st = None"
  using assms
  by (auto simp: visit_def Let_def split: screen.splits option.splits page.splits)

section \<open>The login form\<close>

record login_form =
  lf_email :: string
  lf_password :: string

datatype login_event = Login_SetEmail string | Login_SetPassword string | Login_Submit

definition initial_login :: login_form where
  "initial_login = \<lparr>lf_email = [], lf_password = []\<rparr>"

text \<open>Typing sets the field; submitting calls \<open>login\<close> with the two values.\<close>

fun login_handle :: "login_form \<Rightarrow> login_event \<Rightarrow> login_form \<times> (string \<times> string) effect list" where
  "login_handle f (Login_SetEmail v) = (f\<lparr>lf_email := v\<rparr>, [])"
| "login_handle f (Login_SetPassword v) = (f\<lparr>lf_password := v\<rparr>, [])"
| "login_handle f Login_Submit = (f, [Send (lf_email f, lf_password f)])"

definition login_navigates :: "bool \<Rightarrow> string option" where
  "login_navigates ok = (if ok then Some ''/'' else None)"

definition Login :: "auth_state \<Rightarrow> login_form \<Rightarrow> login_event node list" where
  [view_defs]: "Login state f =
     [El ''h1'' [Txt ''Welcome back''],
      El ''p'' [Txt ''Sign in to your account''],
      El ''form''
        ([El ''label'' [Txt ''Email''],
          Field [(''id'', ''email''), (''type'', ''email''), (''autoComplete'', ''email''), (''required'', []),
                 (''placeholder'', ''you@example.com'')] (Text_Value (lf_email f)) Login_SetEmail,
          El ''label'' [Txt ''Password''],
          Field [(''id'', ''password''), (''type'', ''password''), (''autoComplete'', ''current-password''),
                 (''required'', []), (''placeholder'', concat (replicate 8 bullet))]
            (Text_Value (lf_password f)) Login_SetPassword]
         @ (if truthy (au_error state) then [El ''div'' [Txt (the (au_error state))]] else [])
         @ [Plain_Btn (au_loading state) Login_Submit
              [Txt (if au_loading state then ''Signing in...'' else ''Sign in'')]])]"

section \<open>Who sees what\<close>

text \<open>C15. A page of the librarian is only ever rendered to a signed-in librarian, a page of the member
  only to a signed-in member, and without a signed-in user nothing is rendered outside \<open>/login\<close>,
  whatever the path, provided the router gives \<open>/login\<close> its own route.\<close>

theorem pages_by_role:
  assumes "route_of ''/login'' = Some Login_Route"
    and "visit route_of st pn = Shell h (Some pg)"
  shows "\<not> au_loading st
    \<and> (pg \<in> librarian_pages \<longrightarrow> (\<exists>u. au_user st = Some u \<and> uj_role u = Librarian))
    \<and> (pg \<in> member_pages \<longrightarrow> (\<exists>u. au_user st = Some u \<and> uj_role u = Member))
    \<and> (au_user st = None \<longrightarrow> pn = ''/login'' \<and> pg = Login_Page)"
proof -
  note shell = visit_Shell [OF assms(2)]
  obtain r where r: "route_of pn = Some r" "route_element st r = Some pg"
    using App_Shell_cases [OF shell(1)] by (cases "route_of pn") auto
  have none: "au_user st = None \<longrightarrow> pn = ''/login'' \<and> pg = Login_Page"
    using App_Shell_cases [OF shell(1)] r assms(1) by auto
  have "\<not> au_loading st" using App_Shell_cases [OF shell(1)] by simp
  show ?thesis
  proof (cases "pg = LibrarianMembers")
    case True
    with shell(2) none show ?thesis
      using \<open>\<not> au_loading st\<close> by (auto simp: members_guard_def split: option.splits if_splits)
  next
    case False
    with route_element_role [OF r(2)] none \<open>\<not> au_loading st\<close> show ?thesis by blast
  qed
qed

text \<open>
  While the session loads nothing but the loading text is rendered, so the login form's own loading
  label is never seen, and the form is a new one, with empty fields, after a failed attempt.
\<close>

lemma loading_hides_all: "au_loading st \<Longrightarrow> visit route_of st pn = Loading_Screen"
  by (simp add: visit_def App_def)

section \<open>Signing in\<close>

text \<open>The outcome of a sign-in: when the request resolves the session holds the user it returned,
  without an error text of its own, and the form navigates to the root; when it fails the form stays
  and shows a message, which is never empty, and the session keeps the user it had.\<close>

theorem login_outcome:
  "(case login_finish r (login_start st) of (st', ok) \<Rightarrow>
     \<not> au_loading st'
     \<and> (case r of
          Resolved data \<Rightarrow> ok \<and> login_navigates ok = Some ''/'' \<and> au_user st' = payload_user data \<and> au_error st' = None
        | Rejected e \<Rightarrow> \<not> ok \<and> login_navigates ok = None \<and> au_user st' = au_user st
            \<and> (\<exists>m. m \<noteq> [] \<and> au_error st' = Some m \<and> m \<in> set (concat (map texts (Login st' f))))))"
proof (cases r)
  case (Resolved data)
  then show ?thesis by (simp add: handler_defs login_navigates_def)
next
  case (Rejected e)
  let ?m = "js_or (js_or_opt (body_error e) (thrown_message e)) ''Login failed''"
  have "?m \<noteq> []" by (rule js_or_not_empty) simp
  with Rejected show ?thesis by (simp add: handler_defs login_navigates_def Login_def)
qed

end
