(* ===== verification/Account.thy ===== *)
theory Account imports App_Shell begin

text \<open>
  \<open>frontend/src/pages/Account.tsx\<close>: the profile form, the password form and the sign-out button; and
  the page inside the application, whose shell unmounts it while the session is loading
  (\<open>frontend/src/App.tsx\<close>).
\<close>

section \<open>State\<close>

record profile =
  pr_first_name :: string
  pr_last_name :: string
  pr_email :: string

record account_page =
  ac_loading :: bool
  ac_profile :: profile
  ac_saving :: bool
  ac_message :: "string option"
  ac_error :: "string option"
  ac_currentPassword :: string
  ac_newPassword :: string
  ac_newPasswordConfirmation :: string
  ac_changingPwd :: bool

datatype ac_event =
    AC_SetFirst string | AC_SetLast string | AC_SetEmail string | AC_SaveProfile
  | AC_SetCurrent string | AC_SetNew string | AC_SetConfirmation string | AC_ChangePassword
  | AC_Logout

text \<open>
  What is awaited: the page's own requests, and the operations of the session it calls. Each form
  first awaits a CSRF token and then sends the values of the render it was submitted in.
\<close>

datatype ac_request =
    AC_Get
  | AC_Csrf_Profile profile | AC_Put profile | AC_Refresh
  | AC_Csrf_Password string string string | AC_Patch string string string
  | AC_Csrf_Logout | AC_Sign_Out

definition initial_account :: account_page where
  "initial_account = \<lparr>ac_loading = True,
     ac_profile = \<lparr>pr_first_name = [], pr_last_name = [], pr_email = []\<rparr>,
     ac_saving = False, ac_message = None, ac_error = None, ac_currentPassword = [],
     ac_newPassword = [], ac_newPasswordConfirmation = [], ac_changingPwd = False\<rparr>"

section \<open>Handlers\<close>

text \<open>\<open>u?.first_name || ''\<close> and so on; the \<open>finally\<close> runs on both outcomes.\<close>

definition ac_load_reply :: "user_json option reply \<Rightarrow> account_page \<Rightarrow> account_page" where
  [handler_defs]: "ac_load_reply r s =
     (case r of
        Resolved data \<Rightarrow>
          (let u = payload_user data in
           s\<lparr>ac_profile :=
               \<lparr>pr_first_name = js_or (Option.bind u uj_first_name) [],
                pr_last_name = js_or (Option.bind u uj_last_name) [],
                pr_email = js_or (map_option uj_email u) []\<rparr>,
             ac_loading := False\<rparr>)
      | Rejected e \<Rightarrow> s\<lparr>ac_loading := False\<rparr>)"

definition saveProfile :: "account_page \<Rightarrow> account_page \<times> ac_request effect list" where
  [handler_defs]: "saveProfile s =
     (s\<lparr>ac_saving := True, ac_error := None, ac_message := None\<rparr>, [Send (AC_Csrf_Profile (ac_profile s))])"

definition ac_failure :: "string \<Rightarrow> thrown \<Rightarrow> string" where
  "ac_failure fallback e =
     js_or (js_or_opt (body_details_join ''; '' e) (body_error e)) fallback"

text \<open>The rest of \<open>saveProfile\<close>: after the token, after the \<open>PUT\<close>, after \<open>refresh\<close>, which never throws.\<close>

definition saveProfile_failed :: "thrown \<Rightarrow> account_page \<Rightarrow> account_page" where
  [handler_defs]: "saveProfile_failed e s =
     s\<lparr>ac_error := Some (ac_failure ''Failed to update profile'' e), ac_saving := False\<rparr>"

definition saveProfile_done :: "account_page \<Rightarrow> account_page" where
  [handler_defs]: "saveProfile_done s = s\<lparr>ac_message := Some ''Profile updated'', ac_saving := False\<rparr>"

definition changePassword :: "account_page \<Rightarrow> account_page \<times> ac_request effect list" where
  [handler_defs]: "changePassword s =
     (s\<lparr>ac_changingPwd := True, ac_error := None, ac_message := None\<rparr>,
      [Send (AC_Csrf_Password (ac_currentPassword s) (ac_newPassword s) (ac_newPasswordConfirmation s))])"

definition changePassword_reply :: "unit reply \<Rightarrow> account_page \<Rightarrow> account_page" where
  [handler_defs]: "changePassword_reply r s =
     (case r of
        Resolved d \<Rightarrow>
          s\<lparr>ac_message := Some ''Password changed'', ac_currentPassword := [], ac_newPassword := [],
            ac_newPasswordConfirmation := [], ac_changingPwd := False\<rparr>
      | Rejected e \<Rightarrow>
          s\<lparr>ac_error := Some (ac_failure ''Failed to change password'' e), ac_changingPwd := False\<rparr>)"

fun ac_handle :: "ac_event \<Rightarrow> account_page \<Rightarrow> account_page \<times> ac_request effect list" where
  "ac_handle (AC_SetFirst v) s = (s\<lparr>ac_profile := (ac_profile s)\<lparr>pr_first_name := v\<rparr>\<rparr>, [])"
| "ac_handle (AC_SetLast v) s = (s\<lparr>ac_profile := (ac_profile s)\<lparr>pr_last_name := v\<rparr>\<rparr>, [])"
| "ac_handle (AC_SetEmail v) s = (s\<lparr>ac_profile := (ac_profile s)\<lparr>pr_email := v\<rparr>\<rparr>, [])"
| "ac_handle AC_SaveProfile s = saveProfile s"
| "ac_handle (AC_SetCurrent v) s = (s\<lparr>ac_currentPassword := v\<rparr>, [])"
| "ac_handle (AC_SetNew v) s = (s\<lparr>ac_newPassword := v\<rparr>, [])"
| "ac_handle (AC_SetConfirmation v) s = (s\<lparr>ac_newPasswordConfirmation := v\<rparr>, [])"
| "ac_handle AC_ChangePassword s = changePassword s"
| "ac_handle AC_Logout s = (s, [Send AC_Csrf_Logout])"

section \<open>Rendering\<close>

definition ac_notice :: "string option \<Rightarrow> 'e node list" where
  [view_defs]: "ac_notice v = (if truthy v then [El ''div'' [Txt (the v)]] else [])"

definition Account :: "account_page \<Rightarrow> ac_event node list" where
  [view_defs]: "Account s =
     (if ac_loading s then [El ''div'' [Txt (''Loading'' @ ellipsis)]]
      else
        [El ''h1'' [Txt ''Account settings'']]
        @ ac_notice (ac_message s) @ ac_notice (ac_error s)
        @ [Card [CardHeader [El ''div'' [Txt ''Profile'']],
             CardContent [El ''form''
               [El ''label'' [Txt ''First name''],
                Input None None None [] (Text_Value (pr_first_name (ac_profile s))) AC_SetFirst,
                El ''label'' [Txt ''Last name''],
                Input None None None [] (Text_Value (pr_last_name (ac_profile s))) AC_SetLast,
                El ''label'' [Txt ''Email''],
                Input None None None [(''type'', ''email'')] (Text_Value (pr_email (ac_profile s))) AC_SetEmail,
                Btn Primary Md (ac_saving s) AC_SaveProfile
                  [Txt (if ac_saving s then ''Saving'' @ ellipsis else ''Save changes'')]]]],
           Card [CardHeader [El ''div'' [Txt ''Password'']],
             CardContent [El ''form''
               [El ''label'' [Txt ''Current password''],
                Input None None None [(''type'', ''password'')] (Text_Value (ac_currentPassword s)) AC_SetCurrent,
                El ''label'' [Txt ''New password''],
                Input None None None [(''type'', ''password'')] (Text_Value (ac_newPassword s)) AC_SetNew,
                El ''label'' [Txt ''Confirm new password''],
                Input None None None [(''type'', ''password'')]
                  (Text_Value (ac_newPasswordConfirmation s)) AC_SetConfirmation,
                Btn Primary Md (ac_changingPwd s) AC_ChangePassword
                  [Txt (if ac_changingPwd s then ''Changing'' @ ellipsis else ''Change password'')]]]],
           Card [CardHeader [El ''div'' [Txt ''Sign out'']],
             CardContent
               [El ''div'' [Txt ''Sign out of your account on this device.''],
                Btn Danger Md False AC_Logout [Txt ''Logout'']]]])"

lemma ac_notice_offers [simp]: "offers (ac_notice v) = {}"
  by (simp add: ac_notice_def)

lemma Account_offers:
  "AC_SaveProfile \<in> offers (Account s) \<longleftrightarrow> \<not> ac_loading s \<and> \<not> ac_saving s"
  "AC_ChangePassword \<in> offers (Account s) \<longleftrightarrow> \<not> ac_loading s \<and> \<not> ac_changingPwd s"
  by (auto simp: Account_def)

section \<open>The page in the application\<close>

text \<open>
  The browser is at \<open>/account\<close>. \<open>aa_page\<close> is the mounted instance of the page, if the shell renders
  it, and \<open>aa_gen\<close> numbers the instances; a request carries the number of the instance that made it,
  because a state update by an instance that is gone has no effect. A session operation's first
  dispatch is rendered before its reply arrives.
\<close>

record account_app =
  aa_auth :: auth_state
  aa_client :: api_client
  aa_page :: "account_page option"
  aa_gen :: nat
  aa_flying :: "(nat \<times> ac_request) list"

definition account_visible :: "auth_state \<Rightarrow> bool" where
  "account_visible st =
     (case App st ''/account'' (route_element st Account_Route) of
        Shell h (Some pg) \<Rightarrow> pg = Account_Page
      | _ \<Rightarrow> False)"

lemma account_visible_iff: "account_visible st \<longleftrightarrow> \<not> au_loading st \<and> au_user st \<noteq> None"
  by (auto simp: account_visible_def App_def split: option.split)

text \<open>Rendering after a change: the page is unmounted when the shell hides it, mounted when it appears.\<close>

definition render_account :: "account_app \<Rightarrow> account_app" where
  "render_account a =
     (if \<not> account_visible (aa_auth a) then a\<lparr>aa_page := None\<rparr>
      else case aa_page a of
        Some s \<Rightarrow> a
      | None \<Rightarrow> a\<lparr>aa_page := Some initial_account, aa_gen := Suc (aa_gen a),
                  aa_flying := aa_flying a @ [(Suc (aa_gen a), AC_Get)]\<rparr>)"

text \<open>A state update of instance \<open>g\<close>.\<close>

definition on_instance :: "nat \<Rightarrow> (account_page \<Rightarrow> account_page) \<Rightarrow> account_app \<Rightarrow> account_app" where
  "on_instance g f a = (if g = aa_gen a then a\<lparr>aa_page := map_option f (aa_page a)\<rparr> else a)"

text \<open>Awaiting starts the session operation, if the request is one.\<close>

definition await :: "nat \<Rightarrow> ac_request \<Rightarrow> account_app \<Rightarrow> account_app" where
  "await g r a = a\<lparr>aa_flying := aa_flying a @ [(g, r)],
     aa_auth := (case r of
        AC_Refresh \<Rightarrow> refresh_start (aa_auth a)
      | AC_Csrf_Logout \<Rightarrow> logout_start (aa_auth a)
      | _ \<Rightarrow> aa_auth a)\<rparr>"

definition settle :: "nat \<Rightarrow> ac_request \<Rightarrow> account_app \<Rightarrow> account_app" where
  "settle g r a = a\<lparr>aa_flying := remove1 (g, r) (aa_flying a)\<rparr>"

definition got_token :: "string option reply \<Rightarrow> account_app \<Rightarrow> account_app" where
  "got_token c a = a\<lparr>aa_client := ensureCsrfToken c (aa_client a)\<rparr>"

definition set_auth :: "(auth_state \<Rightarrow> auth_state) \<Rightarrow> account_app \<Rightarrow> account_app" where
  "set_auth f a = a\<lparr>aa_auth := f (aa_auth a)\<rparr>"

definition open_account :: "string option \<Rightarrow> auth_state \<Rightarrow> account_app" where
  "open_account env st =
     render_account \<lparr>aa_auth = st, aa_client = api env, aa_page = None, aa_gen = 0, aa_flying = []\<rparr>"

lemmas account_app_defs =
  render_account_def on_instance_def await_def settle_def got_token_def set_auth_def

inductive account_step :: "account_app \<Rightarrow> account_app \<Rightarrow> bool" where
  ac_user:
    "aa_page a = Some s \<Longrightarrow> e \<in> offers (Account s) \<Longrightarrow> ac_handle e s = (s', effs) \<Longrightarrow>
     account_step a (render_account (fold (await (aa_gen a)) (sends effs) (a\<lparr>aa_page := Some s'\<rparr>)))"
| ac_loaded:
    "(g, AC_Get) \<in> set (aa_flying a) \<Longrightarrow>
     account_step a (on_instance g (ac_load_reply r) (settle g AC_Get a))"
| ac_profile_token:
    "(g, AC_Csrf_Profile p) \<in> set (aa_flying a) \<Longrightarrow>
     account_step a (await g (AC_Put p) (got_token c (settle g (AC_Csrf_Profile p) a)))"
| ac_profile_saved:
    "(g, AC_Put p) \<in> set (aa_flying a) \<Longrightarrow>
     account_step a (render_account (await g AC_Refresh (settle g (AC_Put p) a)))"
| ac_profile_failed:
    "(g, AC_Put p) \<in> set (aa_flying a) \<Longrightarrow>
     account_step a (on_instance g (saveProfile_failed e) (settle g (AC_Put p) a))"
| ac_refreshed:
    "(g, AC_Refresh) \<in> set (aa_flying a) \<Longrightarrow>
     account_step a (render_account (on_instance g saveProfile_done
       (set_auth (refresh_finish r) (settle g AC_Refresh a))))"
| ac_password_token:
    "(g, AC_Csrf_Password x y z) \<in> set (aa_flying a) \<Longrightarrow>
     account_step a (await g (AC_Patch x y z) (got_token c (settle g (AC_Csrf_Password x y z) a)))"
| ac_password_reply:
    "(g, AC_Patch x y z) \<in> set (aa_flying a) \<Longrightarrow>
     account_step a (on_instance g (changePassword_reply u) (settle g (AC_Patch x y z) a))"
| ac_logout_token:
    "(g, AC_Csrf_Logout) \<in> set (aa_flying a) \<Longrightarrow>
     account_step a (await g AC_Sign_Out (got_token c (settle g AC_Csrf_Logout a)))"
| ac_logout_reply:
    "(g, AC_Sign_Out) \<in> set (aa_flying a) \<Longrightarrow>
     account_step a (render_account (set_auth (\<lambda>st. fst (logout_finish u st)) (settle g AC_Sign_Out a)))"

inductive account_reachable :: "string option \<Rightarrow> auth_state \<Rightarrow> account_app \<Rightarrow> bool" for env st where
  ac_open: "account_reachable env st (open_account env st)"
| ac_next: "account_reachable env st a \<Longrightarrow> account_step a b \<Longrightarrow> account_reachable env st b"

section \<open>The lost success message\<close>

text \<open>
  Requests belong to instances mounted so far; an instance that waits for \<open>refresh\<close> is gone; the
  page is mounted only when the shell shows it; and no mounted page carries the message.
\<close>

definition account_pre :: "account_app \<Rightarrow> bool" where
  "account_pre a \<longleftrightarrow>
     (\<forall>(g, r) \<in> set (aa_flying a). g \<le> aa_gen a)
     \<and> (\<forall>g. (g, AC_Refresh) \<in> set (aa_flying a) \<longrightarrow> aa_page a = None \<or> g < aa_gen a)
     \<and> (\<forall>s. aa_page a = Some s \<longrightarrow> ac_message s \<noteq> Some ''Profile updated'')"

definition account_inv :: "account_app \<Rightarrow> bool" where
  "account_inv a \<longleftrightarrow> account_pre a \<and> (aa_page a \<noteq> None \<longrightarrow> account_visible (aa_auth a))"

lemma account_inv_pre: "account_inv a \<Longrightarrow> account_pre a"
  by (simp add: account_inv_def)

lemma account_pre_set_auth [simp]: "account_pre (set_auth f a) = account_pre a"
  by (simp add: account_pre_def set_auth_def)

lemma render_account_inv: "account_pre a \<Longrightarrow> account_inv (render_account a)"
  by (auto simp: account_inv_def account_pre_def render_account_def initial_account_def
      less_Suc_eq_le split: option.split)

lemma settle_pre: "account_pre a \<Longrightarrow> account_pre (settle g r a)"
  by (auto simp: account_pre_def settle_def dest: notin_set_remove1)

lemma settle_inv: "account_inv a \<Longrightarrow> account_inv (settle g r a)"
  by (simp add: account_inv_def settle_pre) (simp add: settle_def)

lemma got_token_inv [simp]: "account_inv (got_token c a) = account_inv a"
  by (simp add: account_inv_def account_pre_def got_token_def)

lemma settle_frame [simp]:
  "aa_gen (settle g r a) = aa_gen a" "aa_auth (settle g r a) = aa_auth a"
  "aa_page (settle g r a) = aa_page a"
  by (simp_all add: settle_def)

lemma got_token_frame [simp]:
  "aa_gen (got_token c a) = aa_gen a" "aa_auth (got_token c a) = aa_auth a"
  "aa_page (got_token c a) = aa_page a"
  by (simp_all add: got_token_def)

lemma await_inv:
  assumes "account_inv a" "g \<le> aa_gen a" "r \<noteq> AC_Refresh" "r \<noteq> AC_Csrf_Logout"
  shows "account_inv (await g r a)"
  using assms by (cases r) (auto simp: account_inv_def account_pre_def await_def)

text \<open>Starting a session operation hides the page.\<close>

lemma await_session_inv:
  assumes "account_inv a" "g \<le> aa_gen a" "r = AC_Refresh \<or> r = AC_Csrf_Logout"
  shows "account_inv (render_account (await g r a))"
proof -
  have "\<not> account_visible (aa_auth (await g r a))"
    using assms(3) by (auto simp: await_def account_visible_iff)
  with assms show ?thesis
    by (auto simp: render_account_def account_inv_def account_pre_def await_def)
qed

lemma on_instance_inv:
  assumes "account_inv a" "\<And>s. ac_message s \<noteq> Some ''Profile updated'' \<Longrightarrow> ac_message (f s) \<noteq> Some ''Profile updated''"
  shows "account_inv (on_instance g f a)"
  using assms by (auto simp: account_inv_def account_pre_def on_instance_def)

text \<open>The reply to \<open>refresh\<close> reaches an instance that is gone.\<close>

lemma refreshed_no_instance:
  assumes "account_inv a" "(g, AC_Refresh) \<in> set (aa_flying a)"
  shows "on_instance g f a = a"
  using assms by (auto simp: account_inv_def account_pre_def on_instance_def)

lemma flying_gen: "account_inv a \<Longrightarrow> (g, r) \<in> set (aa_flying a) \<Longrightarrow> g \<le> aa_gen a"
  by (auto simp: account_inv_def account_pre_def)

lemma ac_handle_message:
  "ac_handle e s = (s', effs) \<Longrightarrow> ac_message s \<noteq> Some ''Profile updated'' \<Longrightarrow>
   ac_message s' \<noteq> Some ''Profile updated''"
  by (cases e) (auto simp: handler_defs)

lemma ac_handle_sends:
  "ac_handle e s = (s', effs) \<Longrightarrow>
   sends effs = [] \<or> (\<exists>r. sends effs = [r] \<and> r \<noteq> AC_Refresh)"
  by (cases e) (auto simp: handler_defs)

lemma account_step_inv: "account_step a b \<Longrightarrow> account_inv a \<Longrightarrow> account_inv b"
proof (induction rule: account_step.induct)
  case (ac_user a s e s' effs)
  let ?a = "a\<lparr>aa_page := Some s'\<rparr>"
  have inv: "account_inv ?a"
    using ac_user ac_handle_message [OF ac_user(3)] by (auto simp: account_inv_def account_pre_def)
  have shown: "account_visible (aa_auth a)" using ac_user by (auto simp: account_inv_def)
  from ac_handle_sends [OF ac_user(3)] show ?case
  proof
    assume "sends effs = []"
    with inv shown show ?thesis by (simp add: render_account_def)
  next
    assume "\<exists>r. sends effs = [r] \<and> r \<noteq> AC_Refresh"
    then obtain r where r: "sends effs = [r]" "r \<noteq> AC_Refresh" by blast
    show ?thesis
    proof (cases "r = AC_Csrf_Logout")
      case True
      with r inv await_session_inv [of ?a "aa_gen a" r] show ?thesis by simp
    next
      case False
      with r inv await_inv [of ?a "aa_gen a" r] have "account_inv (await (aa_gen a) r ?a)" by simp
      with r show ?thesis by (simp add: render_account_inv account_inv_pre)
    qed
  qed
next
  case (ac_loaded g a r)
  then show ?case
    by (intro on_instance_inv settle_inv)
       (auto simp: ac_load_reply_def Let_def split: reply.split)
next
  case (ac_refreshed g a r)
  let ?b = "settle g AC_Refresh a"
  have "account_pre ?b" using ac_refreshed by (simp add: settle_pre account_inv_pre)
  moreover have "on_instance g saveProfile_done (set_auth f ?b) = set_auth f ?b" for f
    using ac_refreshed by (auto simp: account_inv_def account_pre_def on_instance_def set_auth_def)
  ultimately show ?case by (simp add: render_account_inv)
next
  case (ac_logout_reply g a u)
  then show ?case by (simp add: render_account_inv settle_pre account_inv_pre)
qed (auto simp: settle_inv flying_gen saveProfile_failed_def changePassword_reply_def
      intro!: await_inv await_session_inv on_instance_inv split: reply.splits)

lemma account_open_inv: "account_inv (open_account env st)"
  by (auto simp: open_account_def account_pre_def intro!: render_account_inv)

lemma account_reachable_inv: "account_reachable env st a \<Longrightarrow> account_inv a"
  by (induction rule: account_reachable.induct) (auto intro: account_open_inv account_step_inv)

text \<open>The success handler never runs on a mounted page: saving has unmounted it.\<close>

lemma save_unmounts: "aa_page (render_account (await g AC_Refresh a)) = None"
  by (simp add: render_account_def await_def account_visible_iff)

text \<open>C26. The message of a successful profile update is never shown. However the operations of the
  page overlap, no mounted page ever carries it: \<open>refresh\<close> puts the session into its loading state,
  for which the shell unmounts the page, and the message goes to an instance that is gone.\<close>

theorem profile_updated_never_shown:
  assumes "account_reachable env st a" "aa_page a = Some s"
  shows "ac_message s \<noteq> Some ''Profile updated'' \<and> Txt ''Profile updated'' \<notin> set (ac_notice (ac_message s))"
proof -
  have "ac_message s \<noteq> Some ''Profile updated''"
    using account_reachable_inv [OF assms(1)] assms(2) by (auto simp: account_inv_def account_pre_def)
  then show ?thesis by (auto simp: ac_notice_def)
qed

text \<open>A run in which a profile is saved, to its end: the page that is then mounted is a fresh one.\<close>

definition saved_run :: "string option \<Rightarrow> auth_state \<Rightarrow> user_json \<Rightarrow> account_app" where
  "saved_run env st u =
     (let a0 = open_account env st;
          a1 = on_instance 1 (ac_load_reply (Resolved (Some (Some u)))) (settle 1 AC_Get a0);
          s1 = the (aa_page a1);
          a2 = render_account (fold (await (aa_gen a1)) (sends (snd (saveProfile s1)))
                 (a1\<lparr>aa_page := Some (fst (saveProfile s1))\<rparr>));
          a3 = await 1 (AC_Put (ac_profile s1)) (got_token (Rejected Other_Thrown)
                 (settle 1 (AC_Csrf_Profile (ac_profile s1)) a2));
          a4 = render_account (await 1 AC_Refresh (settle 1 (AC_Put (ac_profile s1)) a3))
      in render_account (on_instance 1 saveProfile_done
           (set_auth (refresh_finish (Resolved (Some (Some u)))) (settle 1 AC_Refresh a4))))"

section \<open>One submission at a time\<close>

fun profile_request :: "ac_request \<Rightarrow> bool" where
  "profile_request (AC_Csrf_Profile p) = True"
| "profile_request (AC_Put p) = True"
| "profile_request AC_Refresh = True"
| "profile_request _ = False"

fun password_request :: "ac_request \<Rightarrow> bool" where
  "password_request (AC_Csrf_Password x y z) = True"
| "password_request (AC_Patch x y z) = True"
| "password_request _ = False"

text \<open>The requests of the given kind that are out, of one instance and of all, unmounted ones included.\<close>

definition requests_of :: "(ac_request \<Rightarrow> bool) \<Rightarrow> nat \<Rightarrow> account_app \<Rightarrow> nat" where
  "requests_of k g a = length (filter (\<lambda>(h, r). h = g \<and> k r) (aa_flying a))"

definition requests_out :: "(ac_request \<Rightarrow> bool) \<Rightarrow> account_app \<Rightarrow> nat" where
  "requests_out k a = length (filter (\<lambda>(h, r). k r) (aa_flying a))"

text \<open>
  The invariant. A profile request that is out belongs to the mounted page, or no page is mounted: its
  end is what remounts the page. A password request may outlive its page.
\<close>

definition single_flight :: "account_app \<Rightarrow> bool" where
  "single_flight a \<longleftrightarrow>
     requests_out profile_request a \<le> 1
     \<and> (\<forall>g. requests_of password_request g a \<le> 1)
     \<and> (\<forall>s. aa_page a = Some s \<longrightarrow>
          requests_out profile_request a = of_bool (ac_saving s)
          \<and> requests_of profile_request (aa_gen a) a = of_bool (ac_saving s)
          \<and> requests_of password_request (aa_gen a) a = of_bool (ac_changingPwd s))"




lemma requests_frame [simp]:
  "requests_of k h (got_token c a) = requests_of k h a"
  "requests_of k h (set_auth f a) = requests_of k h a"
  "requests_of k h (on_instance g u a) = requests_of k h a"
  "requests_of k h (a\<lparr>aa_page := pg\<rparr>) = requests_of k h a"
  "requests_out k (got_token c a) = requests_out k a"
  "requests_out k (set_auth f a) = requests_out k a"
  "requests_out k (on_instance g u a) = requests_out k a"
  "requests_out k (a\<lparr>aa_page := pg\<rparr>) = requests_out k a"
  by (simp_all add: requests_of_def requests_out_def got_token_def set_auth_def on_instance_def)






lemma on_instance_frame [simp]:
  "aa_gen (on_instance g f a) = aa_gen a"
  "aa_page (on_instance g f a) = (if g = aa_gen a then map_option f (aa_page a) else aa_page a)"
  by (simp_all add: on_instance_def)

lemma await_frame [simp]: "aa_page (await g r a) = aa_page a" "aa_gen (await g r a) = aa_gen a"
  by (simp_all add: await_def)

lemma set_auth_frame [simp]:
  "aa_page (set_auth f a) = aa_page a" "aa_gen (set_auth f a) = aa_gen a" "aa_auth (set_auth f a) = f (aa_auth a)"
  by (simp_all add: set_auth_def)

lemma reply_flags [simp]:
  "ac_saving (ac_load_reply r s) = ac_saving s" "ac_changingPwd (ac_load_reply r s) = ac_changingPwd s"
  "\<not> ac_saving (saveProfile_failed e s)" "ac_changingPwd (saveProfile_failed e s) = ac_changingPwd s"
  "ac_saving (changePassword_reply u s) = ac_saving s" "\<not> ac_changingPwd (changePassword_reply u s)"
  by (simp_all add: handler_defs Let_def split: reply.split)






lemma single_flight_unmount: "single_flight a \<Longrightarrow> single_flight (a\<lparr>aa_page := None\<rparr>)"
  by (simp add: single_flight_def)





section \<open>Two password changes at once\<close>

text \<open>
  A click, and the replies, as functions of the application; the run changes the password, saves the
  profile while the change is out, and changes the password again on the page that the reload of the
  session mounts.
\<close>

definition ac_click :: "ac_event \<Rightarrow> account_app \<Rightarrow> account_app" where
  "ac_click e a =
     (case aa_page a of
        None \<Rightarrow> a
      | Some s \<Rightarrow> (case ac_handle e s of (s', effs) \<Rightarrow>
          render_account (fold (await (aa_gen a)) (sends effs) (a\<lparr>aa_page := Some s'\<rparr>))))"

definition loaded_account :: "user_json \<Rightarrow> account_app \<Rightarrow> account_app" where
  "loaded_account u a = on_instance (aa_gen a) (ac_load_reply (Resolved (Some (Some u)))) (settle (aa_gen a) AC_Get a)"

definition saved_profile :: "user_json \<Rightarrow> profile \<Rightarrow> account_app \<Rightarrow> account_app" where
  "saved_profile u p a =
     (let g = aa_gen a;
          a1 = await g (AC_Put p) (got_token (Rejected Other_Thrown) (settle g (AC_Csrf_Profile p) a));
          a2 = render_account (await g AC_Refresh (settle g (AC_Put p) a1))
      in render_account (on_instance g saveProfile_done
           (set_auth (refresh_finish (Resolved (Some (Some u)))) (settle g AC_Refresh a2))))"

lemma click_reachable:
  assumes "account_reachable env st a" "aa_page a = Some s" "e \<in> offers (Account s)"
  shows "account_reachable env st (ac_click e a)"
  using ac_next [OF assms(1) ac_user [OF assms(2,3)]] assms(2) by (simp add: ac_click_def split: prod.split)

lemma loaded_reachable:
  "account_reachable env st a \<Longrightarrow> (aa_gen a, AC_Get) \<in> set (aa_flying a) \<Longrightarrow>
   account_reachable env st (loaded_account u a)"
  unfolding loaded_account_def by (rule ac_next [OF _ ac_loaded])

lemma saved_reachable:
  assumes "account_reachable env st a" "(aa_gen a, AC_Csrf_Profile p) \<in> set (aa_flying a)"
  shows "account_reachable env st (saved_profile u p a)"
proof -
  let ?g = "aa_gen a"
  let ?a1 = "await ?g (AC_Put p) (got_token (Rejected Other_Thrown) (settle ?g (AC_Csrf_Profile p) a))"
  have r1: "account_reachable env st ?a1" by (rule ac_next [OF assms(1) ac_profile_token [OF assms(2)]])
  have "(?g, AC_Put p) \<in> set (aa_flying ?a1)" by (simp add: await_def)
  note r2 = ac_next [OF r1 ac_profile_saved [OF this]]
  have "(?g, AC_Refresh) \<in> set (aa_flying (render_account (await ?g AC_Refresh (settle ?g (AC_Put p) ?a1))))"
    by (simp add: render_account_def await_def account_visible_iff)
  from ac_next [OF r2 ac_refreshed [OF this]] show ?thesis by (simp add: saved_profile_def Let_def)
qed

definition password_twice_run :: "string option \<Rightarrow> auth_state \<Rightarrow> user_json \<Rightarrow> account_app" where
  "password_twice_run env st u =
     (let a1 = ac_click AC_SaveProfile (ac_click AC_ChangePassword (loaded_account u (open_account env st)));
          p = ac_profile (ac_load_reply (Resolved (Some (Some u))) initial_account)
      in ac_click AC_ChangePassword (loaded_account u (saved_profile u p a1)))"

lemma loaded_account_fields:
  assumes "aa_page a = Some s"
  shows "aa_page (loaded_account u a) = Some (ac_load_reply (Resolved (Some (Some u))) s)"
    "aa_gen (loaded_account u a) = aa_gen a" "aa_auth (loaded_account u a) = aa_auth a"
    "aa_flying (loaded_account u a) = remove1 (aa_gen a, AC_Get) (aa_flying a)"
  using assms by (simp_all add: loaded_account_def on_instance_def settle_def)

lemma ac_click_password:
  assumes "aa_page a = Some s" "account_visible (aa_auth a)"
  shows "aa_page (ac_click AC_ChangePassword a) = Some (fst (changePassword s))"
    "aa_gen (ac_click AC_ChangePassword a) = aa_gen a" "aa_auth (ac_click AC_ChangePassword a) = aa_auth a"
    "aa_flying (ac_click AC_ChangePassword a) = aa_flying a @
       [(aa_gen a, AC_Csrf_Password (ac_currentPassword s) (ac_newPassword s) (ac_newPasswordConfirmation s))]"
  using assms by (simp_all add: ac_click_def changePassword_def await_def render_account_def)

lemma ac_click_profile:
  assumes "aa_page a = Some s" "account_visible (aa_auth a)"
  shows "aa_page (ac_click AC_SaveProfile a) = Some (fst (saveProfile s))"
    "aa_gen (ac_click AC_SaveProfile a) = aa_gen a" "aa_auth (ac_click AC_SaveProfile a) = aa_auth a"
    "aa_flying (ac_click AC_SaveProfile a) = aa_flying a @ [(aa_gen a, AC_Csrf_Profile (ac_profile s))]"
  using assms by (simp_all add: ac_click_def saveProfile_def await_def render_account_def)

lemma saved_profile_fields:
  assumes "aa_flying a = rs @ [(aa_gen a, AC_Csrf_Profile p)]" "list_all (\<lambda>(g, r). \<not> profile_request r) rs"
  shows "aa_page (saved_profile u p a) = Some initial_account" "aa_gen (saved_profile u p a) = Suc (aa_gen a)"
    "account_visible (aa_auth (saved_profile u p a))"
    "aa_flying (saved_profile u p a) = rs @ [(Suc (aa_gen a), AC_Get)]"
proof -
  have gone: "(g, r) \<notin> set rs" if "profile_request r" for g r
    using assms(2) that by (auto simp: list_all_iff)
  show "aa_page (saved_profile u p a) = Some initial_account" "aa_gen (saved_profile u p a) = Suc (aa_gen a)"
    "account_visible (aa_auth (saved_profile u p a))"
    "aa_flying (saved_profile u p a) = rs @ [(Suc (aa_gen a), AC_Get)]"
    using assms(1) gone
    by (simp_all add: saved_profile_def Let_def account_app_defs account_visible_iff refresh_start_def
        refresh_finish_def payload_user_def remove1_append)
qed

text \<open>
  The flag that guards the password form is lost with its page: there is a run in which two password
  changes are out at once, because saving the profile remounted the page while the first was pending.
\<close>

lemma password_change_twice:
  assumes "account_visible st"
  shows "account_reachable env st (password_twice_run env st u)
    \<and> requests_out password_request (password_twice_run env st u) = 2
    \<and> (\<exists>s. aa_page (password_twice_run env st u) = Some s)"
proof -
  let ?a0 = "open_account env st"
  let ?s1 = "ac_load_reply (Resolved (Some (Some u))) initial_account"
  have a0: "aa_page ?a0 = Some initial_account" "aa_gen ?a0 = 1" "aa_flying ?a0 = [(1, AC_Get)]" "aa_auth ?a0 = st"
    using assms by (simp_all add: open_account_def render_account_def)
  have form: "\<not> ac_loading ?s1" "\<not> ac_saving ?s1" "\<not> ac_changingPwd ?s1"
    by (simp_all add: ac_load_reply_def Let_def initial_account_def)
  let ?a1 = "loaded_account u ?a0"
  note a1 = loaded_account_fields [OF a0(1), of u, unfolded a0]
  have r1: "account_reachable env st ?a1" using a0 by (intro loaded_reachable ac_open) simp
  let ?a2 = "ac_click AC_ChangePassword ?a1"
  note a2 = ac_click_password [OF a1(1), unfolded a1, OF assms]
  have r2: "account_reachable env st ?a2" 
    using form by (intro click_reachable [OF r1 a1(1)]) (simp only: Account_offers, blast)
  let ?a3 = "ac_click AC_SaveProfile ?a2"
  note a3 = ac_click_profile [OF a2(1), unfolded a2, OF assms]
  have r3: "account_reachable env st ?a3"
    using form by (intro click_reachable [OF r2 a2(1)])
      (simp add: Account_offers(1) changePassword_def del: reply_flags)
  let ?a4 = "saved_profile u (ac_profile ?s1) ?a3"
  have fl3: "aa_flying ?a3 = [(aa_gen ?a3, AC_Csrf_Password (ac_currentPassword ?s1) (ac_newPassword ?s1)
      (ac_newPasswordConfirmation ?s1))] @ [(aa_gen ?a3, AC_Csrf_Profile (ac_profile ?s1))]"
    using a3 a1 a2 by (simp add: changePassword_def)
  note a4 = saved_profile_fields [OF fl3, of u, simplified]
  have r4: "account_reachable env st ?a4" using r3 fl3 by (intro saved_reachable) simp_all
  let ?a5 = "loaded_account u ?a4"
  note a5 = loaded_account_fields [OF a4(1), of u]
  have r5: "account_reachable env st ?a5" using r4 a4 by (intro loaded_reachable) simp_all
  let ?a6 = "ac_click AC_ChangePassword ?a5"
  note a6 = ac_click_password [OF a5(1), unfolded a5(3), OF a4(3)]
  have r6: "account_reachable env st ?a6" 
    using form by (intro click_reachable [OF r5 a5(1)]) (simp only: Account_offers, blast)
  have run: "password_twice_run env st u = ?a6" by (simp add: password_twice_run_def Let_def)
  have "requests_out password_request ?a6 = 2"
    using a6(4) a5 a4 by (simp add: requests_out_def remove1_append)
  with r6 a6(1) show ?thesis by (simp add: run)
qed

end
