(* ===== verification/Server_Users.thy ===== *)
theory Server_Users imports Server_Api Librarian_Members Account begin

text \<open>
  The members, accounts and sessions controllers. Users are Devise's: how an email is normalised, which
  validations a user has, what a password is stored as and how it is checked, its salt, and what a
  session cookie holds and finds, and the requests that \<open>devise_for\<close> routes to Devise's own controllers
  are the parameter \<open>devise\<close>; \<open>devise_ok\<close>, \<open>sessions_ok\<close> and \<open>routes_ok\<close> state what the code relies
  on of it.
\<close>

section \<open>Devise\<close>

text \<open>What is validated: the normalised email, the password and its confirmation where they are given.\<close>

record credentials =
  cr_email :: string
  cr_password :: "string option"
  cr_confirmation :: "string option"

text \<open>
  The requests of \<open>devise_for :users\<close> with \<open>:registerable\<close> and \<open>:recoverable\<close> that store something:
  \<open>POST\<close>, \<open>PUT\<close> (with the current password) and \<open>DELETE /users\<close>, \<open>POST\<close> and \<open>PUT /users/password\<close> (with
  the token of the mail).
\<close>

datatype devise_request =
    Sign_Up credentials | Edit_Registration string credentials | Cancel_Registration
  | Request_Reset string | Reset_Password string string string

text \<open>
  \<open>store_password n p old\<close> is the column after assigning \<open>p\<close> over \<open>old\<close>, with the random salt \<open>n\<close>;
  \<open>new_session\<close> is what signing in puts into the session cookie, of a type \<open>'s\<close> that only Devise knows,
  and \<open>session_user\<close> is the user it finds for a cookie; \<open>devise_route t n s q\<close> is what its controllers
  make of the tables at the instant \<open>t\<close>, with the salt \<open>n\<close> and the session \<open>s\<close>.
\<close>

record 's devise =
  normal_email :: "string \<Rightarrow> string"
  user_errors :: "db \<Rightarrow> int option \<Rightarrow> credentials \<Rightarrow> (string \<times> string) list"
  store_password :: "nat \<Rightarrow> string option \<Rightarrow> string \<Rightarrow> string"
  valid_password :: "string \<Rightarrow> string \<Rightarrow> bool"
  salt_of :: "string \<Rightarrow> string"
  new_session :: "user_row \<Rightarrow> 's"
  session_user :: "'s \<Rightarrow> db \<Rightarrow> user_row option"
  devise_route :: "int \<Rightarrow> nat \<Rightarrow> 's option \<Rightarrow> devise_request \<Rightarrow> db \<Rightarrow> db"

text \<open>
  The contract of users: normalising twice changes nothing; no password leaves the column alone; an
  email that is accepted and was not the record's own is nobody's; a new record needs a password; an
  accepted password is the one that is recognised afterwards.
\<close>

definition devise_ok :: "'s devise \<Rightarrow> bool" where
  "devise_ok dv \<longleftrightarrow>
     (\<forall>e. normal_email dv (normal_email dv e) = normal_email dv e)
     \<and> (\<forall>n old. store_password dv n None old = old)
     \<and> (\<forall>d self c. user_errors dv d self c = [] \<longrightarrow>
          (\<forall>u\<in>set (db_users d). Some (ur_id u) = self \<longrightarrow> ur_email u \<noteq> cr_email c) \<longrightarrow>
          cr_email c \<notin> ur_email ` set (db_users d))
     \<and> (\<forall>d c. user_errors dv d None c = [] \<longrightarrow> cr_password c \<noteq> None)
     \<and> (\<forall>n d self c p old. user_errors dv d self c = [] \<longrightarrow> cr_password c = Some p \<longrightarrow>
          valid_password dv (store_password dv n (Some p) old) p)"

lemma devise_okD:
  assumes "devise_ok dv"
  shows "normal_email dv (normal_email dv e) = normal_email dv e"
    and "store_password dv n None old = old"
    and "user_errors dv d self c = [] \<Longrightarrow>
         (\<And>u. u \<in> set (db_users d) \<Longrightarrow> Some (ur_id u) = self \<Longrightarrow> ur_email u \<noteq> cr_email c) \<Longrightarrow>
         cr_email c \<notin> ur_email ` set (db_users d)"
    and "user_errors dv d None c = [] \<Longrightarrow> cr_password c \<noteq> None"
    and "user_errors dv d self c = [] \<Longrightarrow> cr_password c = Some p \<Longrightarrow>
         valid_password dv (store_password dv n (Some p) old) p"
  using assms unfolding devise_ok_def by blast+

text \<open>
  The contract of sessions: who signs in is found by the new session; who is found is a stored row; and
  a session goes on finding the row of its user as long as the salt of the stored password stays.
\<close>

definition sessions_ok :: "'s devise \<Rightarrow> bool" where
  "sessions_ok dv \<longleftrightarrow>
     (\<forall>d u. find_user d (ur_id u) = Some u \<longrightarrow> session_user dv (new_session dv u) d = Some u)
     \<and> (\<forall>d s u. session_user dv s d = Some u \<longrightarrow> find_user d (ur_id u) = Some u)
     \<and> (\<forall>d d' s u v. session_user dv s d = Some u \<longrightarrow> find_user d' (ur_id u) = Some v \<longrightarrow>
          session_user dv s d' =
            (if salt_of dv (ur_encrypted_password v) = salt_of dv (ur_encrypted_password u) then Some v else None))"

lemma sessions_okD:
  assumes "sessions_ok dv"
  shows "find_user d (ur_id u) = Some u \<Longrightarrow> session_user dv (new_session dv u) d = Some u"
    and "session_user dv s d = Some u \<Longrightarrow> find_user d (ur_id u) = Some u"
    and "session_user dv s d = Some u \<Longrightarrow> find_user d' (ur_id u) = Some v \<Longrightarrow>
         session_user dv s d' =
           (if salt_of dv (ur_encrypted_password v) = salt_of dv (ur_encrypted_password u) then Some v else None)"
  using assms unfolding sessions_ok_def by blast+

section \<open>Sessions\<close>

text \<open>The session of a browser, if it has one, and the helpers Devise gives the controllers.\<close>

type_synonym 's session = "'s option"

definition sign_in :: "'s devise \<Rightarrow> user_row \<Rightarrow> 's session" where
  [server_defs]: "sign_in dv u = Some (new_session dv u)"

definition current_user :: "'s devise \<Rightarrow> 's session \<Rightarrow> db \<Rightarrow> user_row option" where
  [server_defs]: "current_user dv ss d = Option.bind ss (\<lambda>s. session_user dv s d)"

text \<open>\<open>authenticate_user!\<close>, before every action but those the sessions controller exempts.\<close>

definition unauthorized :: "'a response" where
  [server_defs]: "unauthorized = Failed 401 (error_body ''You need to sign in or sign up before continuing.'')"

definition authenticated ::
    "'s devise \<Rightarrow> 's session \<Rightarrow> db \<Rightarrow> (user_row \<Rightarrow> 'a response \<times> db) \<Rightarrow> 'a response \<times> db" where
  [server_defs]: "authenticated dv ss d action =
     (case current_user dv ss d of None \<Rightarrow> (unauthorized, d) | Some u \<Rightarrow> action u)"

text \<open>The data of these responses is the \<open>user\<close> field, which may be null.\<close>

definition session_create ::
    "'s devise \<Rightarrow> string \<Rightarrow> string \<Rightarrow> db \<Rightarrow> 's session \<Rightarrow> user_json option response \<times> 's session" where
  [server_defs]: "session_create dv email password d ss =
     (case find (\<lambda>u. ur_email u = normal_email dv email) (db_users d) of
        Some u \<Rightarrow>
          (if valid_password dv (ur_encrypted_password u) password
           then (Ok_200 (Some (user_json_of u)), sign_in dv u)
           else (Failed 401 (error_body ''Invalid email or password''), ss))
      | None \<Rightarrow> (Failed 401 (error_body ''Invalid email or password''), ss))"

definition session_destroy :: "'s devise \<Rightarrow> db \<Rightarrow> 's session \<Rightarrow> unit response \<times> 's session" where
  [server_defs]: "session_destroy dv d ss =
     (case current_user dv ss d of None \<Rightarrow> (unauthorized, ss) | Some u \<Rightarrow> (No_Content, None))"

definition session_current :: "'s devise \<Rightarrow> db \<Rightarrow> 's session \<Rightarrow> user_json option response" where
  [server_defs]: "session_current dv d ss = Ok_200 (map_option user_json_of (current_user dv ss d))"

section \<open>Accounts\<close>

definition account_show :: "user_row \<Rightarrow> user_json option response" where
  [server_defs]: "account_show u = Ok_200 (Some (user_json_of u))"

definition account_update ::
    "'s devise \<Rightarrow> host \<Rightarrow> user_row \<Rightarrow> profile \<Rightarrow> db \<Rightarrow> user_json option response \<times> db" where
  [server_defs]: "account_update dv h u p d =
     (let email = normal_email dv (pr_email p);
          errs = user_errors dv d (Some (ur_id u))
                   \<lparr>cr_email = email, cr_password = None, cr_confirmation = None\<rparr> in
      if errs \<noteq> [] then (record_invalid (map (full_message h) errs), d)
      else let v = u\<lparr>ur_email := email, ur_first_name := Some (pr_first_name p),
                     ur_last_name := Some (pr_last_name p)\<rparr>
           in (Ok_200 (Some (user_json_of v)), update_user_row v d))"

text \<open>The session is not signed in again with the new password.\<close>

definition account_password ::
    "'s devise \<Rightarrow> host \<Rightarrow> nat \<Rightarrow> user_row \<Rightarrow> string \<Rightarrow> string \<Rightarrow> string \<Rightarrow> db \<Rightarrow> unit response \<times> db" where
  [server_defs]: "account_password dv h n u current new confirmation d =
     (if \<not> valid_password dv (ur_encrypted_password u) current
      then (Failed 422 (error_body ''Current password is incorrect''), d)
      else let email = normal_email dv (ur_email u);
               errs = user_errors dv d (Some (ur_id u))
                        \<lparr>cr_email = email, cr_password = Some new, cr_confirmation = Some confirmation\<rparr> in
        if errs \<noteq> [] then (record_invalid (map (full_message h) errs), d)
        else let v = u\<lparr>ur_email := email,
                       ur_encrypted_password := store_password dv n (Some new) (ur_encrypted_password u)\<rparr>
             in (Ok_200 (), update_user_row v d))"

section \<open>Members\<close>

text \<open>\<open>User.search_by_name_or_email\<close>; a null name matches no pattern.\<close>

definition search_by_name_or_email :: "host \<Rightarrow> string \<Rightarrow> user_row list \<Rightarrow> user_row list" where
  [server_defs]: "search_by_name_or_email h q us =
     (if blank h q then us
      else let pat = ''%'' @ strip h q @ ''%'';
               hit = (\<lambda>v. case v of None \<Rightarrow> False | Some x \<Rightarrow> ilike h x pat) in
        filter (\<lambda>u. ilike h (ur_email u) pat \<or> hit (ur_first_name u) \<or> hit (ur_last_name u)) us)"

definition member_users :: "db \<Rightarrow> user_row list" where
  [server_defs]: "member_users d = filter (\<lambda>u. ur_role u = Member) (db_users d)"

definition selected_members :: "host \<Rightarrow> db \<Rightarrow> string option \<Rightarrow> user_row list" where
  [server_defs]: "selected_members h d q =
     (let t = strip h (case q of None \<Rightarrow> [] | Some v \<Rightarrow> v);
          us = (if blank h t then member_users d else search_by_name_or_email h t (member_users d)) in
      List.sort_key (\<lambda>u. - ur_created_at u) (scan_users h us))"

definition members_index ::
    "host \<Rightarrow> user_row \<Rightarrow> string option \<Rightarrow> int option \<Rightarrow> db \<Rightarrow> user_json list response" where
  [server_defs]: "members_index h u q p d =
     (if ur_role u \<noteq> Librarian then forbidden
      else Ok_200 (map user_json_of (page_slice (selected_members h d q) (page_number p))))"

text \<open>\<open>User.member.find\<close>: a librarian is not found here.\<close>

definition find_member :: "db \<Rightarrow> int \<Rightarrow> user_row option" where
  [server_defs]: "find_member d i = find (\<lambda>u. ur_role u = Member \<and> ur_id u = i) (db_users d)"

definition member_show :: "user_row \<Rightarrow> int \<Rightarrow> db \<Rightarrow> user_json response" where
  [server_defs]: "member_show u i d =
     (if ur_role u \<noteq> Librarian then forbidden
      else case find_member d i of None \<Rightarrow> not_found | Some m \<Rightarrow> Ok_200 (user_json_of m))"

text \<open>
  \<open>User.new\<close> with the columns' defaults: an empty email, no password and the role 0, which is
  \<open>librarian\<close>; the members controller then sets the role.
\<close>

definition new_user :: "'s devise \<Rightarrow> nat \<Rightarrow> int \<Rightarrow> int \<Rightarrow> member_form \<Rightarrow> user_row" where
  [server_defs]: "new_user dv n t i f =
     \<lparr>ur_id = i, ur_email = normal_email dv (case mf_email f of None \<Rightarrow> [] | Some e \<Rightarrow> e),
      ur_first_name = mf_first_name f, ur_last_name = mf_last_name f, ur_role = Librarian,
      ur_created_at = t, ur_encrypted_password = store_password dv n (mf_password f) []\<rparr>"

text \<open>
  The row of a sign-up: Devise permits the email and the passwords, so the names are null and the role
  is the column's default.
\<close>

definition signed_up :: "'s devise \<Rightarrow> nat \<Rightarrow> int \<Rightarrow> int \<Rightarrow> credentials \<Rightarrow> user_row" where
  [server_defs]: "signed_up dv n t i c =
     new_user dv n t i \<lparr>mf_email = Some (cr_email c), mf_first_name = None, mf_last_name = None,
       mf_password = cr_password c\<rparr>"

definition normal_credentials :: "'s devise \<Rightarrow> credentials \<Rightarrow> credentials" where
  [server_defs]: "normal_credentials dv c = c\<lparr>cr_email := normal_email dv (cr_email c)\<rparr>"

text \<open>
  The contract of the routes: signing up, for who is not signed in, stores the new row if it is valid;
  who is signed in can change the own email and password, if the change is valid, and can cancel the
  account; asking for a reset stores no column that is modelled; and a reset, for who is not signed
  in, sets the password of a stored user. Which token belongs to whom, and until when, is Devise's.
\<close>

definition routes_ok :: "'s devise \<Rightarrow> bool" where
  "routes_ok dv \<longleftrightarrow> (\<forall>t n ss d.
     (\<forall>c. devise_route dv t n ss (Sign_Up c) d =
        (if current_user dv ss d = None \<and> user_errors dv d None (normal_credentials dv c) = []
         then insert_user (signed_up dv n t (db_next d) c) d else d))
     \<and> (\<forall>old c. devise_route dv t n ss (Edit_Registration old c) d = d
          \<or> (\<exists>u e p. current_user dv ss d = Some u \<and> user_errors dv d (Some (ur_id u)) e = []
               \<and> devise_route dv t n ss (Edit_Registration old c) d =
                   update_user_row (u\<lparr>ur_email := cr_email e, ur_encrypted_password := p\<rparr>) d))
     \<and> devise_route dv t n ss Cancel_Registration d =
         (case current_user dv ss d of None \<Rightarrow> d | Some u \<Rightarrow> destroy_user (ur_id u) d)
     \<and> (\<forall>email. devise_route dv t n ss (Request_Reset email) d = d)
     \<and> (\<forall>token new conf. devise_route dv t n ss (Reset_Password token new conf) d = d
          \<or> (current_user dv ss d = None
             \<and> (\<exists>w p. w \<in> set (db_users d) \<and> devise_route dv t n ss (Reset_Password token new conf) d =
                  update_user_row (w\<lparr>ur_encrypted_password := p\<rparr>) d))))"

lemma routes_okD:
  assumes "routes_ok dv"
  shows "devise_route dv t n ss (Sign_Up c) d =
      (if current_user dv ss d = None \<and> user_errors dv d None (normal_credentials dv c) = []
       then insert_user (signed_up dv n t (db_next d) c) d else d)"
    and "devise_route dv t n ss (Edit_Registration old c) d = d
      \<or> (\<exists>u e p. current_user dv ss d = Some u \<and> user_errors dv d (Some (ur_id u)) e = []
           \<and> devise_route dv t n ss (Edit_Registration old c) d =
               update_user_row (u\<lparr>ur_email := cr_email e, ur_encrypted_password := p\<rparr>) d)"
    and "devise_route dv t n ss Cancel_Registration d =
      (case current_user dv ss d of None \<Rightarrow> d | Some u \<Rightarrow> destroy_user (ur_id u) d)"
    and "devise_route dv t n ss (Request_Reset email) d = d"
    and "devise_route dv t n ss (Reset_Password token new conf) d = d
      \<or> (current_user dv ss d = None
         \<and> (\<exists>w p. w \<in> set (db_users d) \<and> devise_route dv t n ss (Reset_Password token new conf) d =
              update_user_row (w\<lparr>ur_encrypted_password := p\<rparr>) d))"
  using assms unfolding routes_ok_def by blast+

definition members_create ::
    "'s devise \<Rightarrow> nat \<Rightarrow> int \<Rightarrow> user_row \<Rightarrow> member_form \<Rightarrow> db \<Rightarrow> user_json response \<times> db" where
  [server_defs]: "members_create dv n t u f d =
     (if ur_role u \<noteq> Librarian then (forbidden, d)
      else let m = (new_user dv n t (db_next d) f)\<lparr>ur_role := Member\<rparr>;
               errs = user_errors dv d None
                 \<lparr>cr_email = ur_email m, cr_password = mf_password f, cr_confirmation = None\<rparr> in
        if errs \<noteq> [] then (Failed 422 (errors_body (group_errors errs)), d)
        else (Created (user_json_of m), insert_user m d))"

text \<open>
  The attributes of an update: the form of a row always has the two names, so a missing one is the
  null that is assigned; a password is changed only if it is given.
\<close>

definition updated_member :: "'s devise \<Rightarrow> nat \<Rightarrow> member_form \<Rightarrow> user_row \<Rightarrow> user_row" where
  [server_defs]: "updated_member dv n f m =
     m\<lparr>ur_email := normal_email dv (case mf_email f of None \<Rightarrow> ur_email m | Some e \<Rightarrow> e),
       ur_first_name := mf_first_name f, ur_last_name := mf_last_name f,
       ur_encrypted_password := store_password dv n (mf_password f) (ur_encrypted_password m)\<rparr>"

definition members_update ::
    "'s devise \<Rightarrow> nat \<Rightarrow> user_row \<Rightarrow> int \<Rightarrow> member_form \<Rightarrow> db \<Rightarrow> user_json response \<times> db" where
  [server_defs]: "members_update dv n u i f d =
     (if ur_role u \<noteq> Librarian then (forbidden, d)
      else case find_member d i of
        None \<Rightarrow> (not_found, d)
      | Some m \<Rightarrow>
          (let v = updated_member dv n f m;
               errs = user_errors dv d (Some i)
                 \<lparr>cr_email = ur_email v, cr_password = mf_password f, cr_confirmation = None\<rparr> in
           if errs \<noteq> [] then (Failed 422 (errors_body (group_errors errs)), d)
           else (Ok_200 (user_json_of v), update_user_row v d)))"

definition members_destroy :: "user_row \<Rightarrow> int \<Rightarrow> db \<Rightarrow> unit response \<times> db" where
  [server_defs]: "members_destroy u i d =
     (if ur_role u \<noteq> Librarian then (forbidden, d)
      else case find_member d i of None \<Rightarrow> (not_found, d) | Some m \<Rightarrow> (No_Content, destroy_user i d))"

section \<open>Facts about the endpoints\<close>

lemma current_user_Some:
  assumes "sessions_ok dv" "current_user dv ss d = Some u"
  shows "find_user d (ur_id u) = Some u" "u \<in> set (db_users d)"
proof -
  show "find_user d (ur_id u) = Some u"
    using assms sessions_okD(2) [OF assms(1)] by (cases ss) (auto simp: current_user_def)
  then show "u \<in> set (db_users d)" by (rule find_user_Some [THEN conjunct1])
qed

lemma current_user_sign_in:
  "sessions_ok dv \<Longrightarrow> find_user d (ur_id u) = Some u \<Longrightarrow> current_user dv (sign_in dv u) d = Some u"
  by (simp add: current_user_def sign_in_def sessions_okD(1))

lemma current_user_later:
  assumes "sessions_ok dv" "current_user dv ss d = Some u" "find_user d' (ur_id u) = Some v"
  shows "current_user dv ss d' =
    (if salt_of dv (ur_encrypted_password v) = salt_of dv (ur_encrypted_password u) then Some v else None)"
proof -
  obtain s where "ss = Some s" "session_user dv s d = Some u"
    using assms(2) by (cases ss) (auto simp: current_user_def)
  with sessions_okD(3) [OF assms(1) _ assms(3)] show ?thesis by (simp add: current_user_def)
qed

lemma find_member_Some:
  "find_member d i = Some m \<Longrightarrow> m \<in> set (db_users d) \<and> ur_id m = i \<and> ur_role m = Member"
  by (auto simp: find_member_def find_Some_iff)

lemma find_user_in: "db_inv d \<Longrightarrow> u \<in> set (db_users d) \<Longrightarrow> find_user d (ur_id u) = Some u"
  by (simp add: db_inv_def find_user_def find_by_key)

lemma db_user_updates [simp]:
  "db_users (insert_user u d) = db_users d @ [u]"
  "db_users (update_user_row u d) = replace_by ur_id (ur_id u) u (db_users d)"
  "db_users (destroy_user i d) = remove_by ur_id i (db_users d)"
  "db_books (insert_user u d) = db_books d" "db_books (update_user_row u d) = db_books d"
  "db_books (destroy_user i d) = db_books d"
  "db_loans (insert_user u d) = db_loans d" "db_loans (update_user_row u d) = db_loans d"
  "db_loans (destroy_user i d) = remove_by ln_user_id i (db_loans d)"
  by (simp_all add: insert_user_def update_user_row_def destroy_user_def)

lemma find_user_update:
  assumes "find_user d (ur_id u) \<noteq> None"
  shows "find_user (update_user_row u d) (ur_id u) = Some u"
proof -
  from assms obtain v where "find_user d (ur_id u) = Some v" by blast
  from find_user_Some [OF this] have "ur_id u \<in> ur_id ` set (db_users d)" by (metis imageI)
  then show ?thesis by (simp add: find_user_def find_replace_by)
qed

lemma find_user_update_other:
  "ur_id u \<noteq> i \<Longrightarrow> find_user (update_user_row u d) i = find_user d i"
  by (simp add: find_user_def find_replace_by_other)

end
