(* ===== verification/Library_Access.thy ===== *)
theory Library_Access imports Server_Users begin

text \<open>
  The server as a whole: every endpoint that changes the tables behind the session filter, with the
  routes that lead to Devise's own controllers, which are not behind it; the
  promises of the schema that any sequence of requests keeps, the histories of operations that the
  requests amount to, and what a member's requests can reach.
\<close>

section \<open>Requests\<close>

datatype call =
    Create_Book book_form | Update_Book int book_form | Destroy_Book int
  | Borrow int | Return_Book int "string option" | Mark_Overdue
  | Create_Member member_form | Update_Member int member_form | Destroy_Member int
  | Update_Account profile | Change_Password string string string

datatype destination = Endpoint call | Devise_Route devise_request

text \<open>The instant of the request, and the salt that is drawn if it stores a password.\<close>

record 's http_request =
  hr_session :: "'s session"
  hr_now :: int
  hr_salt :: nat
  hr_route :: destination

fun perform :: "'s devise \<Rightarrow> host \<Rightarrow> int \<Rightarrow> nat \<Rightarrow> user_row \<Rightarrow> call \<Rightarrow> db \<Rightarrow> db" where
  "perform dv h t n u (Create_Book f) d = snd (books_create h u f d)"
| "perform dv h t n u (Update_Book i f) d = snd (books_update h u i f d)"
| "perform dv h t n u (Destroy_Book i) d = snd (books_destroy u i d)"
| "perform dv h t n u (Borrow i) d = snd (borrowings_create t u i d)"
| "perform dv h t n u (Return_Book i c) d = snd (return_book h t u i c d)"
| "perform dv h t n u Mark_Overdue d = snd (mark_overdue_endpoint t u d)"
| "perform dv h t n u (Create_Member f) d = snd (members_create dv n t u f d)"
| "perform dv h t n u (Update_Member i f) d = snd (members_update dv n u i f d)"
| "perform dv h t n u (Destroy_Member i) d = snd (members_destroy u i d)"
| "perform dv h t n u (Update_Account p) d = snd (account_update dv h u p d)"
| "perform dv h t n u (Change_Password old new confirmation) d =
     snd (account_password dv h n u old new confirmation d)"

text \<open>The filter \<open>authenticate_user!\<close> is before every endpoint, \<open>unless: :devise_controller?\<close>.\<close>

definition serve :: "'s devise \<Rightarrow> host \<Rightarrow> 's http_request \<Rightarrow> db \<Rightarrow> db" where
  "serve dv h r d =
     (case hr_route r of
        Devise_Route q \<Rightarrow> devise_route dv (hr_now r) (hr_salt r) (hr_session r) q d
      | Endpoint c \<Rightarrow>
          (case current_user dv (hr_session r) d of
             None \<Rightarrow> d
           | Some u \<Rightarrow> perform dv h (hr_now r) (hr_salt r) u c d))"

section \<open>Requests are operations of a history\<close>

lemma copies_error_Nil: "copies_error v = [] \<Longrightarrow> \<exists>r. v = Some (Num r) \<and> 0 \<le> r"
  by (auto simp: copies_error_def split: option.splits js_number.splits if_splits)

lemma accepted_copies: "book_errors h d self f = [] \<Longrightarrow> 0 \<le> br_total_copies (form_book i f)"
  by (auto simp: book_errors_def form_book_def dest!: copies_error_Nil)

lemma form_book_id [simp]: "br_id (form_book i f) = i" "(form_book i f)\<lparr>br_id := j\<rparr> = form_book j f"
  by (simp_all add: form_book_def)

lemma new_user_id [simp]: "ur_id (new_user dv n t i f) = i"
  "(new_user dv n t i f)\<lparr>ur_role := r, ur_id := i\<rparr> = (new_user dv n t i f)\<lparr>ur_role := r\<rparr>"
  by (simp_all add: new_user_def)

lemma updated_member_id [simp]: "ur_id (updated_member dv n f m) = ur_id m"
  "ur_role (updated_member dv n f m) = ur_role m"
  by (simp_all add: updated_member_def)

lemma find_user_exists: "m \<in> set (db_users d) \<Longrightarrow> find_user d (ur_id m) \<noteq> None"
  by (auto simp: find_user_def find_None_iff)

lemma perform_is_op:
  assumes "find_user d (ur_id u) = Some u"
  shows "perform dv h t n u c d = d \<or> (\<exists>x. perform dv h t n u c d = run_op (blank h) x d)"
proof (cases c)
  case (Create_Book f)
  let ?b = "form_book (db_next d) (new_attributes f)"
  have "run_op (blank h) (Op_Add_Book ?b) d = insert_book ?b d" if "0 \<le> br_total_copies ?b"
    using that by simp
  then show ?thesis
    using Create_Book accepted_copies [of h d None "new_attributes f" "db_next d"]
    by (auto simp: books_create_def Let_def intro: exI [of _ "Op_Add_Book ?b"])
next
  case (Update_Book i f)
  show ?thesis
  proof (cases "find_book d i")
    case (Some b0)
    let ?b = "form_book i (updated_attributes b0 f)"
    have "run_op (blank h) (Op_Update_Book ?b) d = update_book_row ?b d" if "0 \<le> br_total_copies ?b"
      using that Some by simp
    then show ?thesis
      using Update_Book Some accepted_copies [of h d "Some i" "updated_attributes b0 f" i]
      by (auto simp: books_update_def Let_def intro: exI [of _ "Op_Update_Book ?b"])
  qed (use Update_Book in \<open>simp add: books_update_def\<close>)
next
  case (Destroy_Book i)
  then show ?thesis
    by (auto simp: books_destroy_def split: option.split intro: exI [of _ "Op_Destroy_Book i"])
next
  case (Borrow i)
  show ?thesis
  proof (cases "find_book d i")
    case (Some b)
    with Borrow assms have "perform dv h t n u c d = run_op (blank h) (Op_Borrow t (ur_id u) i) d"
      by (auto simp: borrowings_create_def split: prod.split sum.split)
    then show ?thesis by blast
  qed (use Borrow in \<open>simp add: borrowings_create_def\<close>)
next
  case (Return_Book i cm)
  show ?thesis
  proof (cases "find_loan d i")
    case (Some l)
    then have "run_op (blank h) (Op_Return t cm i) d = return_loan (blank h) t cm l d" by simp
    with Some Return_Book show ?thesis
      by (auto simp: return_book_def intro: exI [of _ "Op_Return t cm i"])
  qed (use Return_Book in \<open>simp add: return_book_def\<close>)
next
  case Mark_Overdue
  then show ?thesis
    by (auto simp: mark_overdue_endpoint_def split: prod.split intro!: exI [of _ "Op_Mark_Overdue t"])
next
  case (Create_Member f)
  let ?m = "(new_user dv n t (db_next d) f)\<lparr>ur_role := Member\<rparr>"
  have "run_op (blank h) (Op_Add_User ?m) d = insert_user ?m d" by (simp add: new_user_def)
  with Create_Member show ?thesis
    by (auto simp: members_create_def Let_def intro: exI [of _ "Op_Add_User ?m"])
next
  case (Update_Member i f)
  show ?thesis
  proof (cases "find_member d i")
    case (Some m)
    let ?v = "updated_member dv n f m"
    have "find_user d (ur_id m) \<noteq> None"
      using find_member_Some [OF Some] find_user_exists by blast
    then have "run_op (blank h) (Op_Update_User ?v) d = update_user_row ?v d" by simp
    with Some Update_Member show ?thesis
      by (auto simp: members_update_def Let_def intro: exI [of _ "Op_Update_User ?v"])
  qed (use Update_Member in \<open>simp add: members_update_def\<close>)
next
  case (Destroy_Member i)
  then show ?thesis
    by (auto simp: members_destroy_def split: option.split intro: exI [of _ "Op_Destroy_User i"])
next
  case (Update_Account p)
  let ?v = "u\<lparr>ur_email := normal_email dv (pr_email p), ur_first_name := Some (pr_first_name p),
      ur_last_name := Some (pr_last_name p)\<rparr>"
  have "run_op (blank h) (Op_Update_User ?v) d = update_user_row ?v d" using assms by simp
  with Update_Account show ?thesis
    by (auto simp: account_update_def Let_def intro: exI [of _ "Op_Update_User ?v"])
next
  case (Change_Password old new conf)
  let ?v = "u\<lparr>ur_email := normal_email dv (ur_email u),
      ur_encrypted_password := store_password dv n (Some new) (ur_encrypted_password u)\<rparr>"
  have "run_op (blank h) (Op_Update_User ?v) d = update_user_row ?v d" using assms by simp
  with Change_Password show ?thesis
    by (auto simp: account_password_def Let_def intro: exI [of _ "Op_Update_User ?v"])
qed

lemma signed_up_fields [simp]:
  "ur_id (signed_up dv n t i c) = i" "(signed_up dv n t i c)\<lparr>ur_id := i\<rparr> = signed_up dv n t i c"
  "ur_role (signed_up dv n t i c) = Librarian" "ur_email (signed_up dv n t i c) = normal_email dv (cr_email c)"
  "ur_encrypted_password (signed_up dv n t i c) = store_password dv n (cr_password c) []"
  by (simp_all add: signed_up_def new_user_def)

lemma route_is_op:
  assumes "sessions_ok dv" "routes_ok dv"
  shows "devise_route dv t n ss q d = d \<or> (\<exists>x. devise_route dv t n ss q d = run_op (blank h) x d)"
proof (cases q)
  case (Sign_Up c)
  then show ?thesis
    using routes_okD(1) [OF assms(2), of t n ss c d]
    by (auto intro: exI [of _ "Op_Add_User (signed_up dv n t (db_next d) c)"])
next
  case (Edit_Registration old c)
  from routes_okD(2) [OF assms(2), of t n ss old c d] show ?thesis
  proof
    assume "\<exists>u e p. current_user dv ss d = Some u \<and> user_errors dv d (Some (ur_id u)) e = []
      \<and> devise_route dv t n ss (Edit_Registration old c) d =
          update_user_row (u\<lparr>ur_email := cr_email e, ur_encrypted_password := p\<rparr>) d"
    then obtain u e p where "current_user dv ss d = Some u" "user_errors dv d (Some (ur_id u)) e = []" and upd: "devise_route dv t n ss (Edit_Registration old c) d =
        update_user_row (u\<lparr>ur_email := cr_email e, ur_encrypted_password := p\<rparr>) d"
      by blast
    from current_user_Some(1) [OF assms(1) this(1)] show ?thesis
      by (intro disjI2 exI [of _ "Op_Update_User (u\<lparr>ur_email := cr_email e, ur_encrypted_password := p\<rparr>)"])
         (simp add: Edit_Registration upd)
  qed (use Edit_Registration in simp)
next
  case Cancel_Registration
  then show ?thesis
    using routes_okD(3) [OF assms(2), of t n ss d]
    by (auto split: option.splits intro: exI [of _ "Op_Destroy_User i" for i])
next
  case (Reset_Password token new conf)
  from routes_okD(5) [OF assms(2), of t n ss token new conf d] show ?thesis
  proof
    assume "current_user dv ss d = None \<and> (\<exists>w p. w \<in> set (db_users d)
      \<and> devise_route dv t n ss (Reset_Password token new conf) d = update_user_row (w\<lparr>ur_encrypted_password := p\<rparr>) d)"
    then obtain w p where "w \<in> set (db_users d)"
      and upd: "devise_route dv t n ss (Reset_Password token new conf) d =
        update_user_row (w\<lparr>ur_encrypted_password := p\<rparr>) d"
      by blast
    from find_user_exists [OF this(1)] show ?thesis
      by (intro disjI2 exI [of _ "Op_Update_User (w\<lparr>ur_encrypted_password := p\<rparr>)"]) (simp add: Reset_Password upd)
  qed (use Reset_Password in simp)
qed (use routes_okD(4) [OF assms(2)] in simp)

lemma serve_is_op:
  assumes "sessions_ok dv" "routes_ok dv"
  shows "serve dv h r d = d \<or> (\<exists>x. serve dv h r d = run_op (blank h) x d)"
proof (cases "hr_route r")
  case (Devise_Route q)
  with route_is_op [OF assms] show ?thesis by (simp add: serve_def)
next
  case (Endpoint c)
  show ?thesis
  proof (cases "current_user dv (hr_session r) d")
    case (Some u)
    with Endpoint perform_is_op current_user_Some(1) [OF assms(1) Some] show ?thesis by (simp add: serve_def)
  qed (use Endpoint in \<open>simp add: serve_def\<close>)
qed

text \<open>C3. The server refines the histories of the library: whatever requests arrive after a history, with
  whatever sessions, at the application's endpoints or at Devise's, the tables are those of a longer history, so that all that holds of histories
  holds of what the requests do.
\<close>

theorem requests_are_histories:
  assumes "sessions_ok dv" "routes_ok dv"
  shows "\<exists>more. fold (serve dv h) rs (run_ops (blank h) ops) = run_ops (blank h) (ops @ more)"
proof (induction rs arbitrary: ops)
  case Nil
  show ?case by (intro exI [of _ "[]"]) simp
next
  case (Cons r rs)
  let ?d = "run_ops (blank h) ops"
  obtain more where more: "serve dv h r ?d = run_ops (blank h) (ops @ more)"
  proof (cases "serve dv h r ?d = ?d")
    case True
    then show thesis by (intro that [of "[]"]) simp
  next
    case False
    then obtain x where "serve dv h r ?d = run_op (blank h) x ?d" using serve_is_op [OF assms] by blast
    then show thesis by (intro that [of "[x]"]) (simp add: run_ops_def)
  qed
  from Cons.IH [of "ops @ more"] show ?case by (auto simp: more)
qed

section \<open>The promises of the schema\<close>

text \<open>
  What \<open>db/schema.rb\<close> and the validations promise of the stored rows: the invariant of the tables, a
  return time exactly on returned borrowings, unique emails and ISBNs, and books whose texts are not
  blank and whose copies fit the column.
\<close>

definition book_ok :: "host \<Rightarrow> book_row \<Rightarrow> bool" where
  "book_ok h b \<longleftrightarrow>
     0 \<le> br_total_copies b \<and> br_total_copies b < 2 ^ 31
     \<and> \<not> blank h (br_title b) \<and> \<not> blank h (br_author b) \<and> \<not> blank h (br_genre b) \<and> \<not> blank h (br_isbn b)"

definition schema_ok :: "host \<Rightarrow> db \<Rightarrow> bool" where
  "schema_ok h d \<longleftrightarrow>
     db_inv d \<and> status_ok d \<and> distinct (map ur_email (db_users d))
     \<and> distinct (map br_isbn (db_books d)) \<and> (\<forall>b\<in>set (db_books d). book_ok h b)"

lemma presence_error_Nil: "presence_error h k v = [] \<Longrightarrow> \<exists>x. v = Some x \<and> \<not> blank h x"
  by (auto simp: presence_error_def presence_def split: option.splits if_splits)

lemma accepted_book:
  assumes "book_errors h d self f = []" "\<not> copies_overflow (form_book i f)"
  shows "book_ok h (form_book i f)"
    and "\<And>b. b \<in> set (db_books d) \<Longrightarrow> Some (br_id b) \<noteq> self \<Longrightarrow> br_isbn b \<noteq> br_isbn (form_book i f)"
proof -
  have fields: "\<exists>x. bf_title f = Some x \<and> \<not> blank h x" "\<exists>x. bf_author f = Some x \<and> \<not> blank h x"
    "\<exists>x. bf_genre f = Some x \<and> \<not> blank h x" "\<exists>x. bf_isbn f = Some x \<and> \<not> blank h x"
    using assms(1) by (auto simp: book_errors_def dest!: presence_error_Nil)
  then show "book_ok h (form_book i f)"
    using accepted_copies [OF assms(1), of i] assms(2)
    by (auto simp: book_ok_def form_book_def copies_overflow_def)
  fix b assume "b \<in> set (db_books d)" "Some (br_id b) \<noteq> self"
  with assms(1) fields show "br_isbn b \<noteq> br_isbn (form_book i f)"
    by (auto simp: book_errors_def isbn_taken_def list_ex_iff form_book_def split: if_splits)
qed

lemma db_book_updates [simp]:
  "db_users (insert_book b d) = db_users d" "db_books (insert_book b d) = db_books d @ [b]"
  "db_loans (insert_book b d) = db_loans d"
  "db_users (update_book_row b d) = db_users d" "db_loans (update_book_row b d) = db_loans d"
  "db_books (update_book_row b d) = replace_by br_id (br_id b) b (db_books d)"
  "db_users (destroy_book i d) = db_users d" "db_books (destroy_book i d) = remove_by br_id i (db_books d)"
  "db_users (return_loan bl t c l d) = db_users d" "db_books (return_loan bl t c l d) = db_books d"
  by (simp_all add: insert_book_def update_book_row_def destroy_book_def return_loan_def)

lemma create_borrowing_frame [simp]:
  "db_users (snd (create_borrowing t u b d)) = db_users d"
  "db_books (snd (create_borrowing t u b d)) = db_books d"
  by (simp_all add: create_borrowing_def Let_def)

lemma borrowings_create_db:
  "snd (borrowings_create t u i d) =
     (case find_book d i of None \<Rightarrow> d | Some b \<Rightarrow> snd (create_borrowing t u b d))"
  by (simp add: borrowings_create_def split: option.split prod.split sum.split)

text \<open>An accepted email keeps the emails of the other users apart from it.\<close>

lemma accepted_email:
  assumes "devise_ok dv" "db_inv d" "m \<in> set (db_users d)" "distinct (map ur_email (db_users d))"
    and "user_errors dv d (Some (ur_id m)) c = []"
  shows "\<And>u. u \<in> set (db_users d) \<Longrightarrow> ur_id u \<noteq> ur_id m \<Longrightarrow> ur_email u \<noteq> cr_email c"
proof -
  have unique: "u = m" if "u \<in> set (db_users d)" "ur_id u = ur_id m" for u
    using assms(2,3) that by (auto simp: db_inv_def distinct_map dest: inj_onD)
  fix u assume u: "u \<in> set (db_users d)" "ur_id u \<noteq> ur_id m"
  show "ur_email u \<noteq> cr_email c"
  proof (cases "ur_email m = cr_email c")
    case True
    with assms(3,4) u show ?thesis by (metis distinct_map inj_onD)
  next
    case False
    with devise_okD(3) [OF assms(1,5)] unique have "cr_email c \<notin> ur_email ` set (db_users d)" by blast
    with u show ?thesis by (metis imageI)
  qed
qed

definition emails_ok :: "db \<Rightarrow> bool" where
  "emails_ok d \<longleftrightarrow> distinct (map ur_email (db_users d))"

definition books_ok :: "host \<Rightarrow> db \<Rightarrow> bool" where
  "books_ok h d \<longleftrightarrow> distinct (map br_isbn (db_books d)) \<and> (\<forall>b\<in>set (db_books d). book_ok h b)"

lemma schema_ok_iff: "schema_ok h d \<longleftrightarrow> db_inv d \<and> status_ok d \<and> emails_ok d \<and> books_ok h d"
  by (auto simp: schema_ok_def emails_ok_def books_ok_def)

lemma emails_ok_update:
  assumes "devise_ok dv" "db_inv d" "emails_ok d" "m \<in> set (db_users d)" "ur_id v = ur_id m"
    and "user_errors dv d (Some (ur_id m)) c = []" "ur_email v = cr_email c"
  shows "emails_ok (update_user_row v d)"
  unfolding emails_ok_def db_user_updates
proof (rule distinct_column_replace_by)
  show "distinct (map ur_id (db_users d))" using assms(2) by (simp add: db_inv_def)
  show "distinct (map ur_email (db_users d))" using assms(3) by (simp add: emails_ok_def)
  show "z \<in> set (db_users d) \<Longrightarrow> ur_id z \<noteq> ur_id v \<Longrightarrow> ur_email z \<noteq> ur_email v" for z
    using accepted_email [OF assms(1,2,4) _ assms(6)] assms(3,5,7) by (simp add: emails_ok_def)
qed

lemma emails_ok_insert:
  assumes "devise_ok dv" "emails_ok d" "user_errors dv d None c = []" "cr_email c = ur_email m"
  shows "emails_ok (insert_user m d)"
  using assms(2,4) devise_okD(3) [OF assms(1,3)] by (auto simp: emails_ok_def)

lemma books_ok_insert:
  assumes "books_ok h d" "book_ok h b" "br_isbn b \<notin> br_isbn ` set (db_books d)"
  shows "books_ok h (insert_book b d)"
  using assms by (simp add: books_ok_def)

lemma mark_overdue_frame:
  "snd (mark_overdue_endpoint t u d) = d
   \<or> snd (mark_overdue_endpoint t u d) = d\<lparr>db_loans := map (mark_row t) (db_loans d)\<rparr>"
  using mark_overdue_db [of t d] by (auto simp: mark_overdue_endpoint_def split: prod.split)

lemma perform_emails_ok:
  assumes "devise_ok dv" "db_inv d" "emails_ok d" "find_user d (ur_id u) = Some u"
  shows "emails_ok (perform dv h t n u c d)"
proof (cases c)
  case (Create_Member f)
  with assms(1,3) show ?thesis by (auto simp: members_create_def Let_def intro!: emails_ok_insert)
next
  case (Update_Member i f)
  show ?thesis
  proof (cases "find_member d i")
    case (Some m)
    with Update_Member assms(3) show ?thesis
      using find_member_Some [OF Some]
      by (auto simp: members_update_def Let_def intro!: emails_ok_update [OF assms(1,2,3), of m])
  qed (use Update_Member assms in \<open>simp add: members_update_def\<close>)
next
  case (Destroy_Member i)
  with assms(3) show ?thesis
    by (auto simp: members_destroy_def emails_ok_def remove_by_def distinct_map_filter split: option.split)
next
  case (Update_Account p)
  with assms(3) find_user_Some [OF assms(4)] show ?thesis
    by (auto simp: account_update_def Let_def intro!: emails_ok_update [OF assms(1,2,3), of u])
next
  case (Change_Password old new conf)
  with assms(3) find_user_Some [OF assms(4)] show ?thesis
    by (auto simp: account_password_def Let_def intro!: emails_ok_update [OF assms(1,2,3), of u])
next
  case Mark_Overdue
  with assms(3) mark_overdue_frame [of t u d] show ?thesis by (auto simp: emails_ok_def)
qed (use assms in \<open>auto simp: emails_ok_def books_create_def books_update_def books_destroy_def Let_def
      borrowings_create_db return_book_def split: option.split\<close>)

lemma perform_books_ok:
  assumes "db_inv d" "books_ok h d"
  shows "books_ok h (perform dv h t n u c d)"
proof (cases c)
  case (Create_Book f)
  have "books_ok h (insert_book (form_book (db_next d) (new_attributes f)) d)"
    if "book_errors h d None (new_attributes f) = []" "\<not> copies_overflow (form_book (db_next d) (new_attributes f))"
    using accepted_book [OF that] assms(2) by (intro books_ok_insert) (auto dest: sym)
  with Create_Book assms(2) show ?thesis by (simp add: books_create_def Let_def)
next
  case (Update_Book i f)
  show ?thesis
  proof (cases "find_book d i")
    case (Some b0)
    have ids: "distinct (map br_id (db_books d))" using assms(1) by (simp add: db_inv_def)
    show ?thesis
      using Update_Book Some assms(2) accepted_book [of h d "Some i" "updated_attributes b0 f" i]
      by (auto simp: books_update_def Let_def books_ok_def intro!: distinct_column_replace_by [OF ids]
          dest!: subsetD [OF set_replace_by])
  qed (use Update_Book assms in \<open>simp add: books_update_def\<close>)
next
  case (Destroy_Book i)
  with assms(2) show ?thesis
    by (auto simp: books_destroy_def books_ok_def remove_by_def distinct_map_filter split: option.split)
next
  case Mark_Overdue
  with assms(2) mark_overdue_frame [of t u d] show ?thesis by (auto simp: books_ok_def)
qed (use assms in \<open>auto simp: books_ok_def members_create_def members_update_def members_destroy_def
      account_update_def account_password_def Let_def
      borrowings_create_db return_book_def split: option.split\<close>)

lemma emails_ok_password:
  assumes "db_inv d" "emails_ok d" "w \<in> set (db_users d)"
  shows "emails_ok (update_user_row (w\<lparr>ur_encrypted_password := p\<rparr>) d)"
  unfolding emails_ok_def db_user_updates
proof (rule distinct_column_replace_by)
  show "distinct (map ur_id (db_users d))" using assms(1) by (simp add: db_inv_def)
  show mails: "distinct (map ur_email (db_users d))" using assms(2) by (simp add: emails_ok_def)
  show "ur_email z \<noteq> ur_email (w\<lparr>ur_encrypted_password := p\<rparr>)"
    if "z \<in> set (db_users d)" "ur_id z \<noteq> ur_id (w\<lparr>ur_encrypted_password := p\<rparr>)" for z
    using mails assms(3) that by (auto simp: distinct_map dest: inj_onD)
qed

lemma route_emails_ok:
  assumes "devise_ok dv" "sessions_ok dv" "routes_ok dv" "db_inv d" "emails_ok d"
  shows "emails_ok (devise_route dv t n ss q d)"
proof (cases q)
  case (Sign_Up c)
  then show ?thesis
    using routes_okD(1) [OF assms(3), of t n ss c d] assms(5)
      emails_ok_insert [OF assms(1,5), of "normal_credentials dv c" "signed_up dv n t (db_next d) c"]
    by (simp add: normal_credentials_def)
next
  case (Edit_Registration old c)
  have "emails_ok (update_user_row (u\<lparr>ur_email := cr_email e, ur_encrypted_password := p\<rparr>) d)"
    if "current_user dv ss d = Some u" "user_errors dv d (Some (ur_id u)) e = []" for u e p
    using emails_ok_update [OF assms(1,4,5) current_user_Some(2) [OF assms(2) that(1)] _ that(2)] by simp
  with Edit_Registration routes_okD(2) [OF assms(3), of t n ss old c d] assms(5) show ?thesis by auto
next
  case Cancel_Registration
  then show ?thesis
    using routes_okD(3) [OF assms(3), of t n ss d] assms(5)
    by (auto simp: emails_ok_def remove_by_def distinct_map_filter split: option.split)
next
  case (Reset_Password token new conf)
  then show ?thesis
    using routes_okD(5) [OF assms(3), of t n ss token new conf d] assms(5) emails_ok_password [OF assms(4,5)]
    by auto
qed (use routes_okD(4) [OF assms(3)] assms(5) in simp)

lemma route_books:
  assumes "routes_ok dv"
  shows "db_books (devise_route dv t n ss q d) = db_books d"
proof (cases q)
  case (Sign_Up c)
  with routes_okD(1) [OF assms, of t n ss c d] show ?thesis by simp
next
  case (Edit_Registration old c)
  with routes_okD(2) [OF assms, of t n ss old c d] show ?thesis by auto
next
  case (Reset_Password token new conf)
  with routes_okD(5) [OF assms, of t n ss token new conf d] show ?thesis by auto
qed (use routes_okD(3,4) [OF assms] in \<open>auto split: option.split\<close>)

lemma route_books_ok: "routes_ok dv \<Longrightarrow> books_ok h (devise_route dv t n ss q d) = books_ok h d"
  by (simp add: books_ok_def route_books)

lemma serve_schema_ok:
  assumes "devise_ok dv" "sessions_ok dv" "routes_ok dv" "schema_ok h d"
  shows "schema_ok h (serve dv h r d)"
proof -
  have "db_inv (serve dv h r d)" "status_ok (serve dv h r d)"
    using serve_is_op [OF assms(2,3), of h r d] assms(4) run_op_inv run_op_status_ok
    by (auto simp: schema_ok_iff)
  moreover have "emails_ok (serve dv h r d)"
    using assms perform_emails_ok [OF assms(1)] current_user_Some(1) [OF assms(2)] route_emails_ok
    by (fastforce simp: serve_def schema_ok_iff split: option.split destination.split)
  moreover have "books_ok h (serve dv h r d)"
    using assms(4) perform_books_ok [where dv = dv] route_books_ok [OF assms(3)]
    by (auto simp: serve_def schema_ok_iff split: option.split destination.split)
  ultimately show ?thesis by (simp add: schema_ok_iff)
qed

text \<open>C4. The stored rows keep the promises of the schema: from tables that satisfy them, any sequence of
  requests with any sessions, Devise's routes among them, leads to tables in which ids, emails and ISBNs are unique, foreign keys
  exist, a borrowing has a return time exactly when it is returned, and every book has texts that
  are not blank and a number of copies that fits its column.
\<close>

theorem schema_preserved:
  assumes "devise_ok dv" "sessions_ok dv" "routes_ok dv" "schema_ok h d"
  shows "schema_ok h (fold (serve dv h) rs d)"
  using assms(4)
proof (induction rs arbitrary: d)
  case (Cons r rs)
  from Cons.IH [OF serve_schema_ok [OF assms(1-3) Cons.prems]] show ?case by simp
qed simp

section \<open>What a member can reach\<close>

definition not_theirs :: "int \<Rightarrow> loan_row list \<Rightarrow> loan_row list" where
  "not_theirs i ls = filter (\<lambda>l. ln_user_id l \<noteq> i) ls"

definition theirs :: "int \<Rightarrow> loan_row list \<Rightarrow> loan_row list" where
  "theirs i ls = filter (\<lambda>l. ln_user_id l = i) ls"

lemma other_rows_replace_by:
  "key y = k \<Longrightarrow> filter (\<lambda>x. key x \<noteq> k) (replace_by key k y xs) = filter (\<lambda>x. key x \<noteq> k) xs"
  by (induction xs) (auto simp: replace_by_def)

definition spares_others :: "user_row \<Rightarrow> db \<Rightarrow> db \<Rightarrow> bool" where
  "spares_others u d d' \<longleftrightarrow>
     db_books d' = db_books d
     \<and> filter (\<lambda>v. ur_id v \<noteq> ur_id u) (db_users d') = filter (\<lambda>v. ur_id v \<noteq> ur_id u) (db_users d)
     \<and> not_theirs (ur_id u) (db_loans d') = not_theirs (ur_id u) (db_loans d)"

definition confined :: "user_row \<Rightarrow> db \<Rightarrow> db \<Rightarrow> bool" where
  "confined u d d' \<longleftrightarrow>
     spares_others u d d'
     \<and> (\<exists>v. find_user d' (ur_id u) = Some v \<and> ur_role v = ur_role u)
     \<and> (\<exists>new. theirs (ur_id u) (db_loans d') = theirs (ur_id u) (db_loans d) @ new \<and> length new \<le> 1)"

lemma confined_refl: "find_user d (ur_id u) = Some u \<Longrightarrow> confined u d d"
  by (simp add: confined_def spares_others_def)

lemma confined_own_row:
  assumes "find_user d (ur_id u) = Some u" "ur_id v = ur_id u" "ur_role v = ur_role u"
  shows "confined u d (update_user_row v d)"
  using assms find_user_update [of d v] other_rows_replace_by [of ur_id v "ur_id u" "db_users d"]
  by (simp add: confined_def spares_others_def)

lemma confined_borrow:
  assumes "find_user d (ur_id u) = Some u"
  shows "confined u d (snd (create_borrowing t u b d))"
  using assms
  by (cases rule: create_borrowing_cases [of d u b t])
     (simp_all add: confined_def spares_others_def find_user_def not_theirs_def theirs_def)

lemma perform_confined:
  assumes "find_user d (ur_id u) = Some u" "ur_role u = Member"
  shows "confined u d (perform dv h t n u c d)"
proof (cases c)
  case (Borrow i)
  with assms confined_borrow [OF assms(1), of t] show ?thesis
    by (simp add: borrowings_create_db confined_refl split: option.split)
next
  case (Return_Book i cm)
  with assms show ?thesis by (simp add: return_book_def confined_refl split: option.split)
next
  case (Update_Account p)
  with assms show ?thesis by (simp add: account_update_def Let_def confined_refl confined_own_row)
next
  case (Change_Password old new conf)
  with assms show ?thesis by (simp add: account_password_def Let_def confined_refl confined_own_row)
qed (use assms in \<open>simp_all add: confined_refl books_create_def books_update_def books_destroy_def
      mark_overdue_endpoint_def members_create_def members_update_def members_destroy_def\<close>)

lemma route_confined:
  assumes "sessions_ok dv" "routes_ok dv" "current_user dv ss d = Some u" "q \<noteq> Cancel_Registration"
  shows "confined u d (devise_route dv t n ss q d)"
proof (cases q)
  case (Sign_Up c)
  with routes_okD(1) [OF assms(2), of t n ss c d] assms(3) confined_refl current_user_Some(1) [OF assms(1,3)]
  show ?thesis by simp
next
  case (Edit_Registration old c)
  then show ?thesis
    using routes_okD(2) [OF assms(2), of t n ss old c d] assms(3) current_user_Some(1) [OF assms(1,3)]
    by (auto simp: confined_refl intro!: confined_own_row)
next
  case (Reset_Password token new conf)
  with routes_okD(5) [OF assms(2), of t n ss token new conf d] assms(3) current_user_Some(1) [OF assms(1,3)]
  show ?thesis by (simp add: confined_refl)
qed (use assms routes_okD(4) [OF assms(2)] current_user_Some(1) [OF assms(1,3)] in \<open>simp_all add: confined_refl\<close>)

lemma cancel_spares_others:
  "spares_others u d (destroy_user (ur_id u) d)" "find_user (destroy_user (ur_id u) d) (ur_id u) = None"
  "theirs (ur_id u) (db_loans (destroy_user (ur_id u) d)) = []"
  by (auto simp: spares_others_def not_theirs_def theirs_def remove_by_def find_user_def find_None_iff filter_empty_conv)

text \<open>C8. What a member's request can reach: it changes no book, no other user and no borrowing of another;
  unless it cancels the own account, the member's borrowings it can only extend by one, and the own
  row keeps its role. A request whose session is not, or no longer, valid changes nothing at the
  application's endpoints; at Devise's it can only sign up a new user, who is then a librarian, or
  reset the password of one user and nothing else.
\<close>

theorem member_requests_confined:
  assumes "sessions_ok dv" "routes_ok dv"
  shows "case current_user dv (hr_session r) d of
     None \<Rightarrow>
       (case hr_route r of
          Devise_Route (Sign_Up c) \<Rightarrow>
            serve dv h r d = d
            \<or> (\<exists>m. serve dv h r d = insert_user m d \<and> ur_id m = db_next d \<and> ur_role m = Librarian)
        | Devise_Route (Reset_Password token new conf) \<Rightarrow>
            serve dv h r d = d
            \<or> (\<exists>w p. w \<in> set (db_users d) \<and> serve dv h r d = update_user_row (w\<lparr>ur_encrypted_password := p\<rparr>) d)
        | _ \<Rightarrow> serve dv h r d = d)
   | Some u \<Rightarrow> ur_role u = Member \<longrightarrow>
       (if hr_route r = Devise_Route Cancel_Registration
        then spares_others u d (serve dv h r d) \<and> find_user (serve dv h r d) (ur_id u) = None
          \<and> theirs (ur_id u) (db_loans (serve dv h r d)) = []
        else confined u d (serve dv h r d))"
proof (cases "current_user dv (hr_session r) d")
  case None
  show ?thesis
  proof (cases "hr_route r")
    case (Endpoint c)
    with None show ?thesis by (simp add: serve_def)
  next
    case (Devise_Route q)
    show ?thesis
    proof (cases q)
      case (Sign_Up c)
      with None Devise_Route routes_okD(1) [OF assms(2)] show ?thesis
        by (auto simp: serve_def intro!: exI [of _ "signed_up dv (hr_salt r) (hr_now r) (db_next d) c"])
    next
      case (Edit_Registration old c)
      with None Devise_Route routes_okD(2) [OF assms(2), of "hr_now r" "hr_salt r" "hr_session r" old c d]
      show ?thesis by (simp add: serve_def)
    next
      case (Reset_Password token new conf)
      with None Devise_Route routes_okD(5) [OF assms(2), of "hr_now r" "hr_salt r" "hr_session r" token new conf d]
      show ?thesis by (simp add: serve_def)
    qed (use None Devise_Route routes_okD(3,4) [OF assms(2)] in \<open>simp_all add: serve_def\<close>)
  qed
next
  case (Some u)
  show ?thesis
  proof (cases "hr_route r")
    case (Endpoint c)
    with Some perform_confined [OF current_user_Some(1) [OF assms(1) Some], where dv = dv] show ?thesis
      by (simp add: serve_def)
  next
    case (Devise_Route q)
    with Some route_confined [OF assms Some, of q] routes_okD(3) [OF assms(2)] cancel_spares_others [of u d]
    show ?thesis by (simp add: serve_def)
  qed
qed

lemma librarians_replace_by:
  "m \<in> set us \<Longrightarrow> ur_role m = Member \<Longrightarrow> ur_role v = Member \<Longrightarrow> distinct (map ur_id us) \<Longrightarrow>
   filter (\<lambda>x. ur_role x = Librarian) (replace_by ur_id (ur_id m) v us) = filter (\<lambda>x. ur_role x = Librarian) us"
proof (induction us)
  case (Cons x us)
  then show ?case by (cases "x = m") (auto simp: replace_by_Cons replace_by_absent image_iff)
qed simp

lemma librarians_remove_by:
  "m \<in> set us \<Longrightarrow> ur_role m = Member \<Longrightarrow> distinct (map ur_id us) \<Longrightarrow>
   filter (\<lambda>x. ur_role x = Librarian) (remove_by ur_id (ur_id m) us) = filter (\<lambda>x. ur_role x = Librarian) us"
proof (induction us)
  case (Cons x us)
  then show ?case by (cases "x = m") (auto simp: remove_by_def image_iff intro!: filter_cong)
qed simp

text \<open>C19. The members controller leaves librarians alone: whoever calls it, with whatever id and attributes,
  it adds, changes and removes no librarian. All five of its actions answer 403 to a caller who is
  signed in but is not a librarian, and 401 to one who is not signed in, and then change nothing.
\<close>

theorem members_endpoints_spare_librarians:
  assumes "db_inv d" "c \<in> {Create_Member f, Update_Member i f, Destroy_Member i}"
  shows "filter (\<lambda>v. ur_role v = Librarian) (db_users (perform dv h t n u c d)) =
      filter (\<lambda>v. ur_role v = Librarian) (db_users d)
    \<and> (ur_role u \<noteq> Librarian \<longrightarrow>
         perform dv h t n u c d = d \<and> members_create dv n t u f d = (forbidden, d)
         \<and> members_update dv n u i f d = (forbidden, d) \<and> members_destroy u i d = (forbidden, d)
         \<and> members_index h u q p d = forbidden \<and> member_show u i d = forbidden)
    \<and> (current_user dv ss d = None \<longrightarrow>
         authenticated dv ss d (\<lambda>v. members_create dv n t v f d) = (unauthorized, d)
         \<and> authenticated dv ss d (\<lambda>v. members_update dv n v i f d) = (unauthorized, d)
         \<and> authenticated dv ss d (\<lambda>v. members_destroy v i d) = (unauthorized, d)
         \<and> authenticated dv ss d (\<lambda>v. (members_index h v q p d, d)) = (unauthorized, d)
         \<and> authenticated dv ss d (\<lambda>v. (member_show v i d, d)) = (unauthorized, d))"
proof (intro conjI)
  have ids: "distinct (map ur_id (db_users d))" using assms(1) by (simp add: db_inv_def)
  show "filter (\<lambda>v. ur_role v = Librarian) (db_users (perform dv h t n u c d)) =
      filter (\<lambda>v. ur_role v = Librarian) (db_users d)"
    using assms(2) ids
    by (auto simp: members_create_def members_update_def members_destroy_def Let_def
        librarians_replace_by librarians_remove_by split: option.split dest!: find_member_Some)
qed (use assms(2) in \<open>auto simp: members_create_def members_update_def members_destroy_def members_index_def
      member_show_def authenticated_def\<close>)

end
