(* ===== verification/Library_Users.thy ===== *)
theory Library_Users imports Library_System Library_Access begin

text \<open>
  Client and server together, for users: signing in and out, the members page with the members
  controller, and the account page with the accounts controller.
\<close>

section \<open>Signing in\<close>

lemma session_current_sign_in:
  "sessions_ok dv \<Longrightarrow> find_user d (ur_id u) = Some u \<Longrightarrow>
   session_current dv d (sign_in dv u) = Ok_200 (Some (user_json_of u))"
  by (simp add: session_current_def current_user_sign_in)

lemma find_by_email:
  "distinct (map ur_email (db_users d)) \<Longrightarrow> u \<in> set (db_users d) \<Longrightarrow>
   find (\<lambda>v. ur_email v = ur_email u) (db_users d) = Some u"
  by (rule find_by_key)

text \<open>C16. Signing in round-trips: with an email that is a user's up to normalisation and that user's
  password, the server opens a session, the client holds the user and goes to the root page, and a
  reload of the application restores the same user from the session; signing out ends the session.
  With another password the session is as it was and the form shows the server's message.
\<close>

theorem sign_in_round_trip:
  assumes "sessions_ok dv" "schema_ok h d" "u \<in> set (db_users d)" "normal_email dv email = ur_email u"
  shows "let (resp, ss') = session_create dv email password d ss;
             (st', ok) = login_finish (reply_of resp) (login_start st) in
      if valid_password dv (ur_encrypted_password u) password
      then ok \<and> login_navigates ok = Some ''/'' \<and> au_user st' = Some (user_json_of u)
        \<and> current_user dv ss' d = Some u
        \<and> mount_finish (reply_of (session_current dv d ss')) initial_auth
            = \<lparr>au_user = Some (user_json_of u), au_loading = False, au_error = None\<rparr>
        \<and> session_destroy dv d ss' = (No_Content, None)
      else \<not> ok \<and> ss' = ss \<and> au_user st' = au_user st \<and> au_error st' = Some ''Invalid email or password''"
proof -
  have ids: "find_user d (ur_id u) = Some u"
    using assms(2,3) by (simp add: schema_ok_def find_user_in)
  have "find (\<lambda>v. ur_email v = normal_email dv email) (db_users d) = Some u"
    using assms by (simp add: schema_ok_def find_by_email)
  then show ?thesis
    by (simp add: session_create_def session_current_sign_in [OF assms(1) ids] session_destroy_def
        current_user_sign_in [OF assms(1) ids] login_finish_def login_start_def mount_finish_def initial_auth_def
        payload_user_def login_navigates_def error_body_def body_error_def js_or_opt_def js_or_def truthy_def)
qed

section \<open>Members\<close>

text \<open>A new row with accepted credentials is found by them, and its session finds the row.\<close>

lemma new_row_signs_in:
  assumes "devise_ok dv" "sessions_ok dv" "schema_ok h d"
    and "user_errors dv d None c = []" "cr_password c = Some pw"
    and "ur_id m = db_next d" "ur_email m = cr_email c" "ur_encrypted_password m = store_password dv n (Some pw) []"
    and "normal_email dv email = cr_email c"
  shows "session_create dv email pw (insert_user m d) ss = (Ok_200 (Some (user_json_of m)), sign_in dv m)"
    and "current_user dv (sign_in dv m) (insert_user m d) = Some m"
proof -
  have "cr_email c \<notin> ur_email ` set (db_users d)" using devise_okD(3) [OF assms(1,4)] by simp
  then have "find (\<lambda>v. ur_email v = cr_email c) (db_users d) = None" by (force simp: find_None_iff)
  then have found: "find (\<lambda>v. ur_email v = cr_email c) (db_users d @ [m]) = Some m"
    by (simp add: find_snoc assms(7))
  have "m\<lparr>ur_id := db_next d\<rparr> = m" using assms(6) by simp
  then have "db_inv (insert_user m d)"
    using assms(3) run_op_inv [of d "blank h" "Op_Add_User m"] by (simp add: schema_ok_def)
  then have "find_user (insert_user m d) (ur_id m) = Some m" by (rule find_user_in) simp
  with assms(2) show "current_user dv (sign_in dv m) (insert_user m d) = Some m"
    by (rule current_user_sign_in)
  show "session_create dv email pw (insert_user m d) ss = (Ok_200 (Some (user_json_of m)), sign_in dv m)"
    using found devise_okD(5) [OF assms(1,4,5)] by (simp add: session_create_def assms(8,9))
qed

text \<open>C11. A member whom a librarian creates can sign in: if the server accepts the form, it stores one new
  user with a new id, who is a member whatever the form says; the page shows them first and closes
  its dialogue; the email of the form, in any spelling that normalises to it, and the temporary
  password open a session of that user; and the members list stays closed to them.
\<close>

theorem created_member_signs_in:
  assumes "devise_ok dv" "sessions_ok dv" "schema_ok h d" "ur_role u = Librarian"
    and "mf_email (lm_form s) = Some email" "normal_email dv email' = normal_email dv email"
    and "user_errors dv d None \<lparr>cr_email = normal_email dv email, cr_password = mf_password (lm_form s),
           cr_confirmation = None\<rparr> = []"
  shows "let (resp, d') = members_create dv n t u (lm_form s) d; (s', effs) = onCreate_reply (reply_of resp) s in
      \<exists>m password. mf_password (lm_form s) = Some password
        \<and> resp = Created (user_json_of m) \<and> db_users d' = db_users d @ [m] \<and> ur_id m = db_next d
        \<and> ur_role m = Member
        \<and> lm_members s' = user_json_of m # lm_members s \<and> \<not> lm_creating s' \<and> effs = []
        \<and> session_create dv email' password d' ss = (Ok_200 (Some (user_json_of m)), sign_in dv m)
        \<and> current_user dv (sign_in dv m) d' = Some m
        \<and> members_index h m q p d' = forbidden"
proof -
  let ?m = "(new_user dv n t (db_next d) (lm_form s))\<lparr>ur_role := Member\<rparr>"
  have email: "ur_email ?m = normal_email dv email" by (simp add: new_user_def assms(5))
  obtain pw where pw: "mf_password (lm_form s) = Some pw"
    using devise_okD(4) [OF assms(1,7)] by auto
  have signs_in: "session_create dv email' pw (insert_user ?m d) ss = (Ok_200 (Some (user_json_of ?m)), sign_in dv ?m)"
    "current_user dv (sign_in dv ?m) (insert_user ?m d) = Some ?m"
    using new_row_signs_in [OF assms(1-3,7), where m = ?m and n = n and pw = pw and email = email'] pw email assms(6)
    by (simp_all add: new_user_def)
  have create: "members_create dv n t u (lm_form s) d = (Created (user_json_of ?m), insert_user ?m d)"
    using assms(4,7) by (simp add: members_create_def email Let_def)
  show ?thesis
    unfolding create Let_def prod.case reply_of.simps onCreate_reply_def reply.case option.case
    using signs_in by (intro exI [of _ ?m] exI [of _ pw]) (simp add: pw setMembers_def members_index_def)
qed

text \<open>
  Whoever signs up is a librarian: a request without a session that carries accepted credentials
  stores a user with the column's default role, who signs in with them, and whom the members
  controller serves.
\<close>

lemma sign_up_makes_librarian:
  assumes "devise_ok dv" "sessions_ok dv" "routes_ok dv" "schema_ok h d"
    and "current_user dv (hr_session r) d = None" "hr_route r = Devise_Route (Sign_Up c)"
    and "user_errors dv d None (normal_credentials dv c) = []" "cr_password c = Some password"
  shows "let d' = serve dv h r d in
      \<exists>m. db_users d' = db_users d @ [m] \<and> ur_role m = Librarian
        \<and> session_create dv (cr_email c) password d' ss = (Ok_200 (Some (user_json_of m)), sign_in dv m)
        \<and> current_user dv (sign_in dv m) d' = Some m
        \<and> members_index h m q p d' \<noteq> forbidden"
proof -
  let ?m = "signed_up dv (hr_salt r) (hr_now r) (db_next d) c"
  have served: "serve dv h r d = insert_user ?m d"
    using assms(5-7) by (simp add: serve_def routes_okD(1) [OF assms(3)])
  have fresh: "cr_password (normal_credentials dv c) = Some password"
    "ur_email ?m = cr_email (normal_credentials dv c)" "normal_email dv (cr_email c) = cr_email (normal_credentials dv c)"
    "ur_encrypted_password ?m = store_password dv (hr_salt r) (Some password) []"
    using assms(8) by (simp_all add: normal_credentials_def)
  note signs_in = new_row_signs_in [OF assms(1,2,4,7) fresh(1) _ fresh(2,4,3)]
  have "members_index h ?m q p d' \<noteq> forbidden" for d'
    by (simp add: members_index_def forbidden_def)
  with signs_in show ?thesis by (auto simp: Let_def served intro!: exI [of _ ?m])
qed

text \<open>The members list, browsed. The page that is open is a librarian's.\<close>

definition lm_fetch :: "host \<Rightarrow> db \<Rightarrow> user_row \<Rightarrow> members_page \<Rightarrow> members_page" where
  "lm_fetch h d u s =
     fst (lm_load_reply (reply_of (members_index h u (Some (lm_q s)) (Some (lm_page s)) d)) s)"

interpretation members_source: page_source
    "\<lambda>p. map user_json_of (page_slice (selected_members h d q) (page_number (Some p)))"
    "map user_json_of (selected_members h d q)"
  by unfold_locales (simp add: page_number_def page_slice_map)

interpretation lm_browsing: browsing lm_page lm_members lm_prev lm_next MembersPage_view LM_Prev LM_Next
    "\<lambda>p. map user_json_of (page_slice (selected_members h d (Some q)) (page_number (Some p)))"
    "map user_json_of (selected_members h d (Some q))"
    "lm_fetch h d u" "\<lambda>s. lm_q s = q \<and> ur_role u = Librarian"
  by unfold_locales
     (auto simp: lm_fetch_def members_index_def lm_load_reply_def setMembers_def lm_next_def)

definition lm_browse :: "host \<Rightarrow> db \<Rightarrow> user_row \<Rightarrow> nat \<Rightarrow> members_page \<Rightarrow> user_json list" where
  "lm_browse h d u n s =
     browsing.browse lm_members lm_next MembersPage_view LM_Next (lm_fetch h d u) n s"

text \<open>What the search of the members means.\<close>

definition member_matches :: "host \<Rightarrow> string \<Rightarrow> user_row \<Rightarrow> bool" where
  "member_matches h q m \<longleftrightarrow>
     ur_role m = Member
     \<and> (blank h (strip h q)
        \<or> (let pat = ''%'' @ strip h (strip h q) @ ''%'' in
             ilike h (ur_email m) pat \<or> (\<exists>v\<in>set_option (ur_first_name m). ilike h v pat)
             \<or> (\<exists>v\<in>set_option (ur_last_name m). ilike h v pat)))"

lemma hit_iff: "(case v of None \<Rightarrow> False | Some x \<Rightarrow> P x) \<longleftrightarrow> (\<exists>x\<in>set_option v. P x)"
  by (cases v) auto

lemma found_members:
  "search_by_name_or_email h (strip h q) (member_users d) = filter (member_matches h q) (db_users d)"
proof (cases "blank h (strip h q)")
  case True
  then show ?thesis by (simp add: search_by_name_or_email_def member_users_def member_matches_def [abs_def])
next
  case False
  then show ?thesis
    by (simp add: search_by_name_or_email_def member_users_def member_matches_def [abs_def] Let_def hit_iff
        conj_commute)
qed

lemma selected_members_rows:
  assumes "lists_rows (scan_users h)" "distinct (db_users d)"
  shows "distinct (selected_members h d (Some q))"
    and "set (selected_members h d (Some q)) = {m \<in> set (db_users d). member_matches h q m}"
    and "length (selected_members h d (Some q)) \<le> length (db_users d)"
    and "sorted (map (\<lambda>m. - ur_created_at m) (selected_members h d (Some q)))"
proof -
  let ?us = "filter (member_matches h q) (db_users d)"
  have "(if blank h (strip h q) then member_users d else search_by_name_or_email h (strip h q) (member_users d)) = ?us"
    using found_members [of h q d] by (metis search_by_name_or_email_def)
  then have sel: "selected_members h d (Some q) = List.sort_key (\<lambda>m. - ur_created_at m) (scan_users h ?us)"
    by (simp add: selected_members_def Let_def)
  have us: "distinct ?us" "set ?us = {m \<in> set (db_users d). member_matches h q m}"
    "length ?us \<le> length (db_users d)"
    using assms(2) by auto
  note rows = lists_rowsD [OF assms(1) us(1)]
  show "distinct (selected_members h d (Some q))"
    and "set (selected_members h d (Some q)) = {m \<in> set (db_users d). member_matches h q m}"
    and "length (selected_members h d (Some q)) \<le> length (db_users d)"
    and "sorted (map (\<lambda>m. - ur_created_at m) (selected_members h d (Some q)))"
    using us rows by (simp_all add: sel)
qed

text \<open>A librarian who follows \<open>Next\<close> through the members sees every member the search matches exactly
  once, the newest first, and no librarian, as long as the database breaks ties between equal
  creation times the same way for each page.
\<close>

theorem members_browsed_once:
  assumes "lists_rows (scan_users h)" "db_inv d" "ur_role u = Librarian"
    and "lm_page s = 1" "lm_members s = lm_members (lm_fetch h d u s)"
    and "length (db_users d) < 25 * n"
  shows "\<exists>ms. lm_browse h d u n s = map user_json_of ms \<and> distinct ms
    \<and> set ms = {m \<in> set (db_users d). member_matches h (lm_q s) m}
    \<and> sorted (map (\<lambda>m. - ur_created_at m) ms) \<and> (\<forall>m\<in>set ms. ur_role m = Member)"
proof -
  have "distinct (db_users d)" using assms(2) by (simp add: db_inv_def distinct_map)
  note rows = selected_members_rows [OF assms(1) this, of "lm_q s"]
  have "lm_members s = map user_json_of (page_slice (selected_members h d (Some (lm_q s))) (page_number (Some 1)))"
    using assms(3,4,5) by (simp add: lm_fetch_def members_index_def lm_load_reply_def setMembers_def)
  moreover have "length (map user_json_of (selected_members h d (Some (lm_q s)))) < 25 * n"
    using rows(3) assms(6) by simp
  ultimately have "lm_browse h d u n s = map user_json_of (selected_members h d (Some (lm_q s)))"
    unfolding lm_browse_def using assms(3,4)
    by (intro lm_browsing.browse_complete) auto
  with rows show ?thesis
    by (intro exI [of _ "selected_members h d (Some (lm_q s))"]) (auto simp: member_matches_def)
qed

text \<open>C34. A refused update of a member is not explained: whatever validation fails, the server stores nothing
  and sends the messages by attribute, and the page drops them: the row's dialogue closes as after
  a success, no field shows a message, the list keeps the old record.
\<close>

theorem member_update_errors_lost:
  assumes "ur_role u = Librarian" "find_member d i = Some m" "lm_rows s i = Some st"
    and "user_errors dv d (Some i)
           \<lparr>cr_email = ur_email (updated_member dv n (rw_form st) m), cr_password = mf_password (rw_form st),
            cr_confirmation = None\<rparr> = errs" "errs \<noteq> []"
  shows "let (resp, d') = members_update dv n u i (rw_form st) d; s' = fst (lm_update_reply i (reply_of resp) s) in
      d' = d \<and> resp = Failed 422 (errors_body (group_errors errs)) \<and> lm_members s' = lm_members s
      \<and> (\<exists>st'. lm_rows s' i = Some st' \<and> \<not> rw_editing st' \<and> (\<forall>k. field_error (rw_errors st') k = None))"
  using assms
  by (simp add: members_update_def Let_def onUpdate_reply_def lm_update_reply_def map_member_row_def
      row_saved_def field_error_def)

section \<open>The account page\<close>

lemma current_user_update:
  assumes "sessions_ok dv" "current_user dv ss d = Some u" "ur_id v = ur_id u"
    and "salt_of dv (ur_encrypted_password v) = salt_of dv (ur_encrypted_password u)"
  shows "current_user dv ss (update_user_row v d) = Some v"
  using current_user_later [OF assms(1,2), of "update_user_row v d" v] current_user_Some(1) [OF assms(1,2)]
    assms(3,4) find_user_update [of d v]
  by simp

text \<open>C22. Saving the profile round-trips: if the server accepts it, the stored row has the names of the form
  and its email normalised, the same session goes on, the refreshed session of the client is the new
  user, and the page that is mounted afterwards loads exactly the saved values. If the server refuses
  it, nothing is stored and the page shows the full messages, joined by semicolons.
\<close>

theorem profile_round_trip:
  assumes "sessions_ok dv" "current_user dv ss d = Some u" "p = ac_profile s"
    and "errs = user_errors dv d (Some (ur_id u))
           \<lparr>cr_email = normal_email dv (pr_email p), cr_password = None, cr_confirmation = None\<rparr>"
    and "\<forall>e\<in>set errs. full_message h e \<noteq> []"
  shows "let (resp, d') = account_update dv h u p d in
      if errs = []
      then \<exists>v. find_user d' (ur_id u) = Some v \<and> current_user dv ss d' = Some v
        \<and> ur_email v = normal_email dv (pr_email p) \<and> ur_role v = ur_role u
        \<and> au_user (refresh_finish (reply_of (session_current dv d' ss)) (refresh_start st)) = Some (user_json_of v)
        \<and> ac_profile (ac_load_reply (reply_of (account_show v)) initial_account)
            = p\<lparr>pr_email := normal_email dv (pr_email p)\<rparr>
      else d' = d
        \<and> (\<exists>e. reply_of resp = Rejected e
             \<and> ac_error (saveProfile_failed e s) = Some (js_join ''; '' (map (full_message h) errs))
             \<and> ac_profile (saveProfile_failed e s) = p)"
proof (cases "errs = []")
  case True
  let ?v = "u\<lparr>ur_email := normal_email dv (pr_email p), ur_first_name := Some (pr_first_name p),
      ur_last_name := Some (pr_last_name p)\<rparr>"
  have now: "current_user dv ss (update_user_row ?v d) = Some ?v"
    using assms(1,2) by (rule current_user_update) simp_all
  have resp: "account_update dv h u p d = (Ok_200 (Some (user_json_of ?v)), update_user_row ?v d)"
    using True assms(4) by (simp add: account_update_def Let_def)
  show ?thesis
    unfolding resp Let_def prod.case using True now current_user_Some [OF assms(1) now]
    by (simp add: session_current_def refresh_finish_def payload_user_def account_show_def
        ac_load_reply_def user_json_of_def js_or_def)
next
  case False
  then have "js_join ''; '' (map (full_message h) errs) \<noteq> []"
    using assms(5) by (cases errs) (auto simp: js_join_not_Nil)
  with False assms(3,4) show ?thesis
    by (simp add: account_update_def Let_def record_invalid_def saveProfile_failed_def ac_failure_def
        body_details_join_def js_or_opt_def js_or_def truthy_def)
qed

text \<open>C23. A changed password ends the session that changed it: the page says "Password changed", but the
  session still holds the old salt, so the next request of any kind is answered 401, and when the
  client next asks for its session it is told that nobody is signed in and goes to the login page.
  This holds whenever the new password is stored with another salt than the old one.
\<close>

theorem password_change_signs_out:
  assumes "sessions_ok dv" "current_user dv ss d = Some u"
    and "account_password dv h n u old new confirmation d = (Ok_200 (), d')"
    and "salt_of dv (store_password dv n (Some new) (ur_encrypted_password u)) \<noteq> salt_of dv (ur_encrypted_password u)"
  shows "ac_message (changePassword_reply (reply_of (Ok_200 ())) s) = Some ''Password changed''
    \<and> current_user dv ss d' = None \<and> authenticated dv ss d' action = (unauthorized, d')
    \<and> (let st' = refresh_finish (reply_of (session_current dv d' ss)) (refresh_start st) in
         App st' ''/account'' (route_element st' Account_Route) = Redirect ''/login'')"
proof -
  let ?v = "u\<lparr>ur_email := normal_email dv (ur_email u),
      ur_encrypted_password := store_password dv n (Some new) (ur_encrypted_password u)\<rparr>"
  have d': "d' = update_user_row ?v d"
    using assms(3) by (auto simp: account_password_def Let_def record_invalid_def split: if_splits)
  have "find_user d' (ur_id u) = Some ?v"
    using current_user_Some [OF assms(1,2)] find_user_update [of d ?v] by (simp add: d')
  with current_user_later [OF assms(1,2)] assms(4) have "current_user dv ss d' = None" by simp
  then show ?thesis
    by (simp add: changePassword_reply_def authenticated_def session_current_def refresh_finish_def
        payload_user_def App_def)
qed

text \<open>A password changes only for who knows it: without the current password the server stores nothing
  and the page shows that it is incorrect, keeping what was typed; an accepted change makes the new
  password the one that signs the user in.
\<close>

theorem password_needs_current:
  assumes "devise_ok dv" "sessions_ok dv" "schema_ok h d" "current_user dv ss d = Some u" "normal_email dv (ur_email u) = ur_email u"
  shows "let (resp, d') = account_password dv h n u old new confirmation d;
             s' = changePassword_reply (reply_of resp) s in
      (resp = Ok_200 () \<longrightarrow> valid_password dv (ur_encrypted_password u) old
         \<and> (\<exists>v. find_user d' (ur_id u) = Some v
              \<and> session_create dv (ur_email u) new d' None = (Ok_200 (Some (user_json_of v)), sign_in dv v)))
      \<and> (resp \<noteq> Ok_200 () \<longrightarrow> d' = d)
      \<and> (\<not> valid_password dv (ur_encrypted_password u) old \<longrightarrow>
           ac_error s' = Some ''Current password is incorrect'' \<and> ac_newPassword s' = ac_newPassword s)"
proof -
  let ?c = "\<lparr>cr_email = ur_email u, cr_password = Some new, cr_confirmation = Some confirmation\<rparr>"
  let ?v = "u\<lparr>ur_encrypted_password := store_password dv n (Some new) (ur_encrypted_password u)\<rparr>"
  let ?d' = "update_user_row ?v d"
  note u = current_user_Some [OF assms(2,4)]
  have inv: "db_inv d" "emails_ok d" using assms(3) by (simp_all add: schema_ok_iff)
  have signed: "session_create dv (ur_email u) new ?d' None = (Ok_200 (Some (user_json_of ?v)), sign_in dv ?v)
      \<and> find_user ?d' (ur_id u) = Some ?v"
    if accepted: "user_errors dv d (Some (ur_id u)) ?c = []"
  proof -
    have "emails_ok ?d'"
      using emails_ok_update [OF assms(1) inv, of u ?v ?c] u accepted by simp
    moreover have found: "find_user ?d' (ur_id u) = Some ?v" using u find_user_update [of d ?v] by simp
    moreover have "?v \<in> set (db_users ?d')" using find_user_Some [OF found] by blast
    ultimately have "find (\<lambda>x. ur_email x = ur_email ?v) (db_users ?d') = Some ?v"
      by (intro find_by_email) (simp_all add: emails_ok_def)
    with assms(5) devise_okD(5) [OF assms(1) accepted] found show ?thesis by (simp add: session_create_def)
  qed
  show ?thesis
    using assms(5) signed
    by (auto simp: account_password_def Let_def record_invalid_def changePassword_reply_def ac_failure_def
        body_details_join_def body_error_def error_body_def)
qed

end
