(* ===== verification/Server_Dashboards.thy ===== *)
theory Server_Dashboards imports Server_Api Dashboards begin

text \<open>
  The endpoints of the two dashboards (\<open>app/controllers/dashboards_controller.rb\<close>) with the scope
  \<open>top_by_borrowings\<close> of \<open>app/models/book.rb\<close>. Where a query has no order, or its order leaves rows equal,
  the host's scan decides.
\<close>

section \<open>Rankings\<close>

text \<open>\<open>ORDER BY ... DESC LIMIT n\<close> over the rows in the order the database has them.\<close>

definition top_rows :: "nat \<Rightarrow> ('a \<Rightarrow> int) \<Rightarrow> 'a list \<Rightarrow> 'a list" where
  "top_rows n f xs = take n (List.sort_key (\<lambda>x. - f x) xs)"

lemma length_top_rows [simp]: "length (top_rows n f xs) = min n (length xs)"
  by (simp add: top_rows_def min.commute)

lemma distinct_top_rows: "distinct xs \<Longrightarrow> distinct (top_rows n f xs)"
  by (simp add: top_rows_def)

lemma set_top_rows: "set (top_rows n f xs) \<subseteq> set xs"
  by (auto simp: top_rows_def dest: in_set_takeD)

lemma sorted_top_rows: "sorted (map (\<lambda>x. - f x) (top_rows n f xs))"
  unfolding top_rows_def take_map [symmetric] by (rule sorted_wrt_take) simp

text \<open>What is left out ranks no higher than anything that is listed.\<close>

lemma top_is_top:
  assumes "x \<in> set (top_rows n f xs)" "y \<in> set xs" "y \<notin> set (top_rows n f xs)"
  shows "f y \<le> f x"
proof -
  let ?s = "List.sort_key (\<lambda>x. - f x) xs"
  have "y \<in> set (drop n ?s)"
    using assms(2,3) set_append [of "take n ?s" "drop n ?s"] by (auto simp: top_rows_def)
  moreover have "sorted (map (\<lambda>x. - f x) (take n ?s @ drop n ?s))" by simp
  ultimately show ?thesis using assms(1) by (simp only: map_append sorted_append top_rows_def) force
qed

section \<open>The member's dashboard\<close>

definition borrowings_count :: "db \<Rightarrow> book_row \<Rightarrow> int" where
  [server_defs]: "borrowings_count d b = int (length (filter (\<lambda>l. ln_book_id l = br_id b) (db_loans d)))"

definition top_by_borrowings :: "host \<Rightarrow> nat \<Rightarrow> db \<Rightarrow> (int \<times> string \<times> string \<times> string \<times> int) list" where
  [server_defs]: "top_by_borrowings h limit d =
     map (\<lambda>b. (br_id b, br_title b, br_author b, br_genre b, borrowings_count d b))
       (top_rows limit (borrowings_count d) (scan h (db_books d)))"

text \<open>A borrowing rendered with its book; the client's type names the fields it uses.\<close>

definition dash_item_of :: "db \<Rightarrow> loan_row \<Rightarrow> dash_item option" where
  [server_defs]: "dash_item_of d l =
     map_option (\<lambda>b.
       \<lparr>di_id = ln_id l, di_due_date = ln_due_date l, di_borrowed_at = Some (ln_borrowed_at l),
        di_created_at = Some (ln_created_at l), di_status = Some (status_name (ln_status l)),
        di_title = Some (br_title b), di_author = Some (br_author b)\<rparr>)
       (find_book d (ln_book_id l))"

definition can_borrow_map :: "db \<Rightarrow> user_row \<Rightarrow> int list \<Rightarrow> (int \<times> bool) list" where
  [server_defs]: "can_borrow_map d u ids =
     map (\<lambda>b. (br_id b, with_can_borrow_for d u b)) (filter (\<lambda>b. br_id b \<in> set ids) (db_books d))"

definition top_book_of :: "(int \<times> bool) list \<Rightarrow> int \<times> string \<times> string \<times> string \<times> int \<Rightarrow> top_book" where
  [server_defs]: "top_book_of flags = (\<lambda>(i, title, author, genre, n).
     \<lparr>tb_id = i, tb_title = title, tb_author = author, tb_genre = Some genre, tb_borrowings_count = n,
      tb_can_borrow = Some (case map_of flags i of None \<Rightarrow> False | Some f \<Rightarrow> f)\<rparr>)"

definition member_dashboard_data :: "host \<Rightarrow> int \<Rightarrow> user_row \<Rightarrow> db \<Rightarrow> member_data" where
  [server_defs]: "member_dashboard_data h t u d =
     (let rows = top_by_borrowings h 5 d; flags = can_borrow_map d u (map fst rows) in
      \<lparr>md_current_borrowings = List.map_filter (dash_item_of d) (scan_loans h (member_current_borrowings u d)),
       md_history = List.map_filter (dash_item_of d)
         (top_rows 20 ln_created_at (scan_loans h (filter (\<lambda>l. ln_user_id l = ur_id u) (db_loans d)))),
       md_top_books = map (top_book_of flags) rows,
       md_overdue_count = member_overdue_count u d, md_due_soon_count = member_due_soon_count t u d\<rparr>)"

definition member_dashboard_endpoint :: "host \<Rightarrow> int \<Rightarrow> user_row \<Rightarrow> db \<Rightarrow> member_data response" where
  [server_defs]: "member_dashboard_endpoint h t u d =
     (if ur_role u \<noteq> Member then forbidden else Ok_200 (member_dashboard_data h t u d))"

section \<open>The librarian's dashboard\<close>

definition genre_count :: "db \<Rightarrow> string \<Rightarrow> int" where
  [server_defs]: "genre_count d g = int (length (filter (\<lambda>b. br_genre b = g) (db_books d)))"

definition top_genres :: "host \<Rightarrow> db \<Rightarrow> (string \<times> int) list" where
  [server_defs]: "top_genres h d =
     map (\<lambda>g. (g, genre_count d g)) (top_rows 5 (genre_count d) (scan_genres h (remdups (map br_genre (db_books d)))))"

text \<open>
  The recent borrowings are rendered with the title of the book and the names of the user; the
  remaining fields of the client's type, which its page does not use, are those of the rows.
\<close>

definition librarian_dashboard_data :: "host \<Rightarrow> int \<Rightarrow> db \<Rightarrow> librarian_data" where
  [server_defs]: "librarian_dashboard_data h t d =
     \<lparr>ld_total_books = int (length (db_books d)),
      ld_currently_borrowed = librarian_currently_borrowed d,
      ld_due_today = librarian_due_today t d,
      ld_overdue_books_count = librarian_overdue_books_count d,
      ld_top_genres = top_genres h d,
      ld_recent_borrowings = List.map_filter (loan_json d) (top_rows 5 ln_created_at (scan_loans h (db_loans d)))\<rparr>"

definition librarian_dashboard_endpoint :: "host \<Rightarrow> int \<Rightarrow> user_row \<Rightarrow> db \<Rightarrow> librarian_data response" where
  [server_defs]: "librarian_dashboard_endpoint h t u d =
     (if ur_role u \<noteq> Librarian then forbidden else Ok_200 (librarian_dashboard_data h t d))"

section \<open>What the dashboards show\<close>

lemma can_borrow_map_of:
  assumes "db_inv d" "b \<in> set (db_books d)" "br_id b \<in> set ids"
  shows "map_of (can_borrow_map d u ids) (br_id b) = Some (with_can_borrow_for d u b)"
proof (rule map_of_is_SomeI)
  show "distinct (map fst (can_borrow_map d u ids))"
    using assms(1) by (simp add: can_borrow_map_def db_inv_def o_def distinct_map_filter)
  show "(br_id b, with_can_borrow_for d u b) \<in> set (can_borrow_map d u ids)"
    using assms(2,3) by (auto simp: can_borrow_map_def)
qed

lemma borrow_granted_iff:
  assumes "db_inv d" "b \<in> set (db_books d)" "ur_role u = Member"
  shows "fst (borrowings_create t u (br_id b) d) = Created () \<longleftrightarrow> with_can_borrow_for d u b"
  by (cases rule: create_borrowing_cases [of d u b t])
     (simp_all add: borrowings_create_def find_book_in [OF assms(1,2)] with_can_borrow_for_iff assms(3)
        record_invalid_def)

text \<open>C21. The top books of the member's dashboard are the five most borrowed of the library, the most
  borrowed first, each with its number of borrowings; no book left out was borrowed more often than
  one that is listed; and a listed book has a borrow button exactly when borrowing it would succeed.
\<close>

theorem top_books_are_top:
  assumes "db_inv d" "scan_ok h" "ur_role u = Member"
  shows "let s = ms_data_reply (reply_of (member_dashboard_endpoint h t u d)) initial_member_dashboard in
    \<exists>data bs. ms_data s = Some data \<and> distinct bs \<and> set bs \<subseteq> set (db_books d)
      \<and> length bs = min 5 (length (db_books d))
      \<and> map (\<lambda>b. (tb_id b, tb_title b, tb_borrowings_count b)) (md_top_books data)
          = map (\<lambda>b. (br_id b, br_title b, borrowings_count d b)) bs
      \<and> sorted (map (\<lambda>b. - borrowings_count d b) bs)
      \<and> (\<forall>b\<in>set bs. \<forall>c\<in>set (db_books d) - set bs. borrowings_count d c \<le> borrowings_count d b)
      \<and> (\<forall>b\<in>set bs. ms_top_buttons s (br_id b) \<noteq> None \<longleftrightarrow> fst (borrowings_create t u (br_id b) d) = Created ())"
proof -
  let ?bs = "top_rows 5 (borrowings_count d) (scan h (db_books d))"
  let ?data = "member_dashboard_data h t u d"
  let ?s = "ms_data_reply (Resolved (Some ?data)) initial_member_dashboard"
  have "distinct (db_books d)" using assms(1) by (simp add: db_inv_def distinct_map)
  note rows = lists_rowsD [OF assms(2) [unfolded scan_ok_def] this]
  have sub: "set ?bs \<subseteq> set (db_books d)" using set_top_rows rows(2) by metis
  have "distinct (map br_id ?bs)"
    using assms(1) rows(1) sub distinct_top_rows by (auto simp: db_inv_def distinct_map intro: inj_on_subset)
  have tops: "md_top_books ?data = map (\<lambda>b. top_book_of (can_borrow_map d u (map br_id ?bs))
      (br_id b, br_title b, br_author b, br_genre b, borrowings_count d b)) ?bs"
    by (simp add: member_dashboard_data_def top_by_borrowings_def Let_def o_def)
  have ids: "map tb_id (md_top_books ?data) = map br_id ?bs"
    by (simp add: tops top_book_of_def o_def)
  have button: "ms_top_buttons ?s (br_id b) \<noteq> None \<longleftrightarrow> fst (borrowings_create t u (br_id b) d) = Created ()"
    if b: "b \<in> set ?bs" for b
  proof -
    let ?tb = "top_book_of (can_borrow_map d u (map br_id ?bs))
      (br_id b, br_title b, br_author b, br_genre b, borrowings_count d b)"
    have "?tb \<in> set (md_top_books ?data)" using b by (auto simp: tops)
    moreover have "distinct (map tb_id (md_top_books ?data))"
      using \<open>distinct (map br_id ?bs)\<close> by (simp only: ids)
    ultimately have "find (\<lambda>x. tb_id x = tb_id ?tb) (md_top_books ?data) = Some ?tb"
      by (intro find_by_key)
    moreover have "map_of (can_borrow_map d u (map br_id ?bs)) (br_id b) = Some (with_can_borrow_for d u b)"
      using b sub by (intro can_borrow_map_of [OF assms(1)]) auto
    ultimately show ?thesis
      using b sub borrow_granted_iff [OF assms(1) _ assms(3), of b t]
      by (auto simp: ms_data_reply_def mount_top_buttons_def top_book_of_def initial_member_dashboard_def)
  qed
  have "reply_of (member_dashboard_endpoint h t u d) = Resolved (Some ?data)"
    using assms(3) by (simp add: member_dashboard_endpoint_def)
  then show ?thesis
    unfolding Let_def
    using sub rows button top_is_top [of _ 5 "borrowings_count d" "scan h (db_books d)"] distinct_top_rows [OF rows(1)]
    by (intro exI [of _ ?data] exI [of _ ?bs])
       (simp add: ms_data_reply_def tops top_book_of_def sorted_top_rows o_def)
qed

section \<open>The figures\<close>

lemma dash_item_exists:
  assumes "db_inv d" "l \<in> set (db_loans d)"
  shows "\<exists>it. dash_item_of d l = Some it \<and> di_due_date it = ln_due_date l"
proof -
  have "ln_book_id l \<in> br_id ` set (db_books d)" using assms by (simp add: db_inv_def)
  then obtain b where "find_book d (ln_book_id l) = Some b"
    by (metis find_book_in [OF assms(1)] imageE)
  then show ?thesis by (simp add: dash_item_of_def)
qed

lemma rendered_count:
  assumes "db_inv d" "set ls \<subseteq> set (db_loans d)"
  shows "length (filter (\<lambda>r. P (di_due_date r)) (List.map_filter (dash_item_of d) ls))
    = length (filter (\<lambda>l. P (ln_due_date l)) ls)"
  using assms(2)
proof (induction ls)
  case (Cons l ls)
  obtain it where "dash_item_of d l = Some it" "di_due_date it = ln_due_date l"
    using dash_item_exists [OF assms(1), of l] Cons.prems by auto
  with Cons show ?case by (simp add: map_filter_simps)
qed (simp add: map_filter_simps)

text \<open>C24. The member's dashboard is consistent with itself: the "Due soon" alert of the server is the number of
  current borrowings the client highlights as due soon at the same instant, and the borrowings it
  highlights as overdue are those of the "OVERDUE" alert and the ones past due that the overdue
  check has not marked yet, provided what was marked earlier is still past due.
\<close>

theorem member_alerts_match_highlights:
  assumes "db_inv d" "lists_rows (scan_loans h)"
    and "\<forall>l\<in>set (db_loans d). ln_status l = Overdue \<longrightarrow> ln_due_date l < utc_date t"
  shows "let data = member_dashboard_data h t u d;
             highlighted = (\<lambda>x. int (length (filter (\<lambda>r. row_highlight t (di_due_date r) = x) (md_current_borrowings data)))) in
      highlighted Row_Due_Soon = md_due_soon_count data
      \<and> highlighted Row_Overdue = md_overdue_count data
          + int (length (filter (\<lambda>l. ln_user_id l = ur_id u \<and> past_due t l) (db_loans d)))"
proof -
  let ?ls = "member_current_borrowings u d"
  have distinct: "distinct ?ls" using assms(1) by (simp add: member_current_borrowings_def db_inv_def distinct_map)
  have "set (scan_loans h ?ls) \<subseteq> set (db_loans d)"
    using lists_rowsD(2) [OF assms(2) distinct] by (auto simp: member_current_borrowings_def)
  note count = rendered_count [OF assms(1) this, of "\<lambda>due. row_highlight t due = x" for x]
  have shown: "length (filter (\<lambda>r. row_highlight t (di_due_date r) = x)
      (md_current_borrowings (member_dashboard_data h t u d))) = length (filter (\<lambda>l. row_highlight t (ln_due_date l) = x) ?ls)" for x
    by (simp add: member_dashboard_data_def Let_def count lists_rows_count [OF assms(2) distinct])
  have split: "length (filter (\<lambda>l. row_highlight t (ln_due_date l) = Row_Due_Soon) (filter (\<lambda>l. ln_user_id l = i \<and> ln_status l \<in> {Borrowed, Overdue}) ls))
        = length (filter (\<lambda>l. ln_user_id l = i \<and> due_within t l) ls)
      \<and> length (filter (\<lambda>l. row_highlight t (ln_due_date l) = Row_Overdue) (filter (\<lambda>l. ln_user_id l = i \<and> ln_status l \<in> {Borrowed, Overdue}) ls))
        = length (filter (\<lambda>l. ln_user_id l = i \<and> ln_status l = Overdue) ls) + length (filter (\<lambda>l. ln_user_id l = i \<and> past_due t l) ls)"
    if "\<forall>l\<in>set ls. ln_status l = Overdue \<longrightarrow> ln_due_date l < utc_date t" for i ls
    using that
  proof (induction ls)
    case (Cons l ls)
    then show ?case
      by (cases "ln_status l") (auto simp: row_highlight_utc due_within_def past_due_def not_less)
  qed simp
  from split [OF assms(3), of "ur_id u"] show ?thesis
    by (simp add: Let_def shown)
       (simp add: member_dashboard_data_def Let_def member_current_borrowings_def member_due_soon_count_def
          member_overdue_count_def count_loans_def)
qed

lemma sum_list_hit:
  "distinct (map k xs) \<Longrightarrow> (\<Sum>x\<leftarrow>xs. of_bool (y = k x)) = (of_bool (y \<in> k ` set xs) :: int)"
  by (induction xs) (auto simp: image_iff)

lemma sum_list_counts:
  assumes "distinct (map k xs)"
  shows "(\<Sum>x\<leftarrow>xs. int (length (filter (\<lambda>l. g l = k x \<and> P l) ls)))
    = int (length (filter (\<lambda>l. g l \<in> k ` set xs \<and> P l) ls))"
proof (induction ls)
  case (Cons l ls)
  have "(\<Sum>x\<leftarrow>xs. int (length (filter (\<lambda>l. g l = k x \<and> P l) (l # ls))))
      = (\<Sum>x\<leftarrow>xs. of_bool (g l = k x) * of_bool (P l) + int (length (filter (\<lambda>l. g l = k x \<and> P l) ls)))"
    by (rule arg_cong [where f = sum_list], rule map_cong) auto
  also have "\<dots> = of_bool (g l \<in> k ` set xs) * of_bool (P l) + (\<Sum>x\<leftarrow>xs. int (length (filter (\<lambda>l. g l = k x \<and> P l) ls)))"
    by (simp add: sum_list_addf sum_list_mult_const sum_list_hit [OF assms])
  finally show ?case by (simp add: Cons.IH)
qed simp

text \<open>The librarian's figures add up: the number of copies borrowed is the sum over the books of the copies
  that are not available; the top genres are at most five, the most frequent first and no other
  genre more frequent; and if there are no more than five genres their counts sum to the total
  number of books.
\<close>

theorem librarian_figures_add_up:
  assumes "db_inv d" "status_ok d" "lists_rows (scan_genres h)" "ur_role u = Librarian"
  shows "let s = ls_data_reply (reply_of (librarian_dashboard_endpoint h t u d)) initial_librarian_dashboard in
    \<exists>data. ls_data s = Some data
      \<and> ld_currently_borrowed data = (\<Sum>b\<leftarrow>db_books d. br_total_copies b - available_copies d b)
      \<and> length (ld_top_genres data) \<le> 5 \<and> sorted (map (\<lambda>(g, n). - n) (ld_top_genres data))
      \<and> (\<forall>b\<in>set (db_books d). br_genre b \<notin> fst ` set (ld_top_genres data) \<longrightarrow>
            (\<forall>(g, n)\<in>set (ld_top_genres data). genre_count d (br_genre b) \<le> n))
      \<and> (card (br_genre ` set (db_books d)) \<le> 5 \<longrightarrow> (\<Sum>(g, n)\<leftarrow>ld_top_genres data. n) = ld_total_books data)"
proof -
  let ?data = "librarian_dashboard_data h t d"
  let ?gs = "remdups (map br_genre (db_books d))"
  note genres = lists_rowsD [OF assms(3), of ?gs]
  let ?top = "top_rows 5 (genre_count d) (scan_genres h ?gs)"
  have data: "ld_top_genres ?data = map (\<lambda>g. (g, genre_count d g)) ?top"
    by (simp add: librarian_dashboard_data_def top_genres_def)
  have "(\<Sum>b\<leftarrow>db_books d. br_total_copies b - available_copies d b) =
      (\<Sum>b\<leftarrow>db_books d. int (length (filter (\<lambda>l. ln_book_id l = br_id b \<and> active l) (db_loans d))))"
    by (simp add: available_copies_def active_borrowings_def)
  also have "\<dots> = int (length (filter (\<lambda>l. ln_book_id l \<in> br_id ` set (db_books d) \<and> active l) (db_loans d)))"
    using assms(1) by (intro sum_list_counts) (simp add: db_inv_def)
  also have "filter (\<lambda>l. ln_book_id l \<in> br_id ` set (db_books d) \<and> active l) (db_loans d) =
      filter (\<lambda>l. ln_status l = Borrowed) (db_loans d)"
    using assms(1,2) by (intro filter_cong) (auto simp: db_inv_def status_ok_def active_def)
  finally have borrowed: "ld_currently_borrowed ?data = (\<Sum>b\<leftarrow>db_books d. br_total_copies b - available_copies d b)"
    by (simp add: librarian_dashboard_data_def librarian_currently_borrowed_def count_loans_def)
  have all: "(\<Sum>g\<leftarrow>?top. genre_count d g) = int (length (db_books d))"
    if few: "card (br_genre ` set (db_books d)) \<le> 5"
  proof -
    have len: "length (scan_genres h ?gs) \<le> 5" using genres(3) few by (simp add: length_remdups_card_conv)
    then have top: "set ?top = br_genre ` set (db_books d)" "distinct ?top"
      using genres(1,2) by (simp_all add: top_rows_def)
    then have "(\<Sum>g\<leftarrow>?top. int (length (filter (\<lambda>b. br_genre b = id g \<and> True) (db_books d))))
        = int (length (filter (\<lambda>b. br_genre b \<in> id ` set ?top \<and> True) (db_books d)))"
      by (intro sum_list_counts) simp
    also have "filter (\<lambda>b. br_genre b \<in> id ` set ?top \<and> True) (db_books d) = db_books d"
      using top by (intro filter_True) auto
    finally show ?thesis by (simp add: genre_count_def [abs_def])
  qed
  have "reply_of (librarian_dashboard_endpoint h t u d) = Resolved (Some ?data)"
    using assms(4) by (simp add: librarian_dashboard_endpoint_def)
  moreover have "ld_total_books ?data = int (length (db_books d))" by (simp add: librarian_dashboard_data_def)
  ultimately show ?thesis
    unfolding Let_def
    using borrowed all genres(2) top_is_top [of _ 5 "genre_count d" "scan_genres h ?gs"] sorted_top_rows [of "genre_count d" 5]
    by (intro exI [of _ ?data]) (auto simp: ls_data_reply_def data o_def image_image)
qed

end
