(* ===== verification/Member_Runs.thy ===== *)
theory Member_Runs imports Member_Pages begin

text \<open>
  The member's catalogue with its requests. React keeps a borrow button's state as long as its row
  stays mounted; when the row goes and comes back the button is a new instance, and what an old
  instance was waiting for no longer reaches it. So the instances of a row are numbered, and a
  borrow request carries the number of the instance that sent it.
\<close>

section \<open>Configurations\<close>

record mk_config =
  mk_st :: member_books
  mk_inst :: "int \<Rightarrow> nat"
  mk_flying :: "(nat \<times> mk_request) list"

definition initial_mk_config :: mk_config where
  "initial_mk_config = \<lparr>mk_st = initial_member_books, mk_inst = (\<lambda>i. 0), mk_flying = [(0, MK_Get_Books [] 1)]\<rparr>"

text \<open>A button that appears at a row is a new instance.\<close>

definition new_instances :: "member_books \<Rightarrow> member_books \<Rightarrow> (int \<Rightarrow> nat) \<Rightarrow> int \<Rightarrow> nat" where
  "new_instances old new inst =
     (\<lambda>i. if mk_buttons old i = None \<and> mk_buttons new i \<noteq> None then Suc (inst i) else inst i)"

definition tag :: "(int \<Rightarrow> nat) \<Rightarrow> mk_request \<Rightarrow> nat \<times> mk_request" where
  "tag inst r = (case r of MK_Post_Borrowing i \<Rightarrow> (inst i, r) | MK_Get_Books q p \<Rightarrow> (0, r))"

definition mk_click :: "mk_event \<Rightarrow> mk_config \<Rightarrow> mk_config" where
  "mk_click e c =
     (case mk_event_step e (mk_st c) of
        (s', effs) \<Rightarrow> c\<lparr>mk_st := s', mk_flying := mk_flying c @ map (tag (mk_inst c)) (sends effs)\<rparr>)"

definition mk_loaded :: "string \<Rightarrow> int \<Rightarrow> member_books \<Rightarrow> mk_config \<Rightarrow> mk_config" where
  "mk_loaded q p s' c =
     c\<lparr>mk_st := s', mk_inst := new_instances (mk_st c) s' (mk_inst c),
       mk_flying := remove1 (0, MK_Get_Books q p) (mk_flying c)\<rparr>"

definition mk_answered :: "string \<Rightarrow> nat \<Rightarrow> int \<Rightarrow> unit reply \<Rightarrow> mk_config \<Rightarrow> mk_config" where
  "mk_answered dueText n i r c =
     c\<lparr>mk_st := (if n = mk_inst c i then mk_borrow_reply dueText i r (mk_st c) else mk_st c),
       mk_flying := remove1 (n, MK_Post_Borrowing i) (mk_flying c)\<rparr>"

text \<open>A reply to a list request without data breaks the next render: no step follows it.\<close>

inductive mk_step :: "string \<Rightarrow> mk_config \<Rightarrow> mk_config \<Rightarrow> bool" for dueText where
  mk_user: "e \<in> offers (MemberBooks_view dueText (mk_st c)) \<Longrightarrow> mk_step dueText c (mk_click e c)"
| mk_list:
    "(0, MK_Get_Books q p) \<in> set (mk_flying c) \<Longrightarrow> mk_load_reply r (mk_st c) = Some s' \<Longrightarrow>
     mk_step dueText c (mk_loaded q p s' c)"
| mk_borrow:
    "(n, MK_Post_Borrowing i) \<in> set (mk_flying c) \<Longrightarrow> mk_step dueText c (mk_answered dueText n i r c)"

inductive mk_reachable :: "string \<Rightarrow> mk_config \<Rightarrow> bool" for dueText where
  mk_init: "mk_reachable dueText initial_mk_config"
| mk_more: "mk_reachable dueText c \<Longrightarrow> mk_step dueText c c' \<Longrightarrow> mk_reachable dueText c'"

section \<open>One request for each button\<close>

definition posts_out :: "mk_config \<Rightarrow> nat \<Rightarrow> int \<Rightarrow> nat" where
  "posts_out c n i = count_list (mk_flying c) (n, MK_Post_Borrowing i)"

text \<open>A button's own flags, as its rendering keeps them.\<close>

definition button_ok :: "borrow_button \<Rightarrow> bool" where
  "button_ok st \<longleftrightarrow>
     (\<not> bb_available st \<longrightarrow> \<not> bb_loading st \<and> (bb_open st \<longrightarrow> bb_successMessage st \<noteq> []))
     \<and> (bb_successMessage st \<noteq> [] \<longrightarrow> \<not> bb_available st)"

definition mk_inv :: "mk_config \<Rightarrow> bool" where
  "mk_inv c \<longleftrightarrow>
     (\<forall>i n. posts_out c n i \<noteq> 0 \<longrightarrow> n \<le> mk_inst c i)
     \<and> (\<forall>i st. mk_buttons (mk_st c) i = Some st \<longrightarrow>
          posts_out c (mk_inst c i) i = of_bool (bb_loading st) \<and> button_ok st)"

lemma offers_member_books:
  "MK_Borrow i e \<in> offers (MemberBooks_view dueText s) \<Longrightarrow>
   \<exists>st. mk_buttons s i = Some st \<and> e \<in> offers (BorrowButton dueText st)"
  by (auto simp: MemberBooks_view_def mk_row_offers split: option.splits if_splits)

lemma button_ok_event:
  assumes "button_ok st" "e \<in> offers (BorrowButton dueText st)" "bb_handle i e st = (st', effs)"
  shows "button_ok st' \<and> sends effs = (if e = BB_Confirm then [i] else [])
    \<and> bb_loading st' = (e = BB_Confirm \<or> bb_loading st) \<and> (e = BB_Confirm \<longrightarrow> \<not> bb_loading st)"
  using assms by (cases e) (auto simp: button_ok_def offers_BorrowButton split: if_splits)

lemma button_ok_reply: "button_ok st \<Longrightarrow> bb_loading st \<Longrightarrow> button_ok (bb_reply dueText r st)"
  by (cases r) (auto simp: button_ok_def bb_reply_def)

lemma bb_reply_loading: "\<not> bb_loading (bb_reply dueText r st)"
  by (simp add: bb_reply_def split: reply.split)

lemma button_ok_initial: "button_ok initial_bb" "\<not> bb_loading initial_bb"
  by (simp_all add: button_ok_def initial_bb_def)

lemma mk_inv_initial: "mk_inv initial_mk_config"
  by (simp add: mk_inv_def initial_mk_config_def posts_out_def initial_member_books_def)

lemma sends_map_effect [simp]: "sends (map (map_effect f) effs) = map f (sends effs)"
  by (induction effs rule: sends.induct) auto

text \<open>An event that is not a button's touches no button and sends no borrow request.\<close>

lemma mk_click_other:
  assumes "\<And>i b. e \<noteq> MK_Borrow i b"
  shows "mk_buttons (mk_st (mk_click e c)) = mk_buttons (mk_st c)" "mk_inst (mk_click e c) = mk_inst c"
    "posts_out (mk_click e c) n i = posts_out c n i"
  using assms
  by (cases e; simp add: mk_click_def mk_event_step_def posts_out_def tag_def mk_prev_def mk_next_def)+

lemma mk_click_borrow:
  assumes "mk_buttons (mk_st c) i = Some st" "bb_handle i b st = (st', effs)"
  shows "mk_st (mk_click (MK_Borrow i b) c) = (mk_st c)\<lparr>mk_buttons := (mk_buttons (mk_st c))(i \<mapsto> st')\<rparr>"
    "mk_inst (mk_click (MK_Borrow i b) c) = mk_inst c"
    "mk_flying (mk_click (MK_Borrow i b) c) =
      mk_flying c @ map (\<lambda>j. (mk_inst c j, MK_Post_Borrowing j)) (sends effs)"
  using assms
  by (simp_all add: mk_click_def mk_event_step_def mk_borrow_event_def tag_def comp_def)

lemma mk_user_inv:
  assumes "mk_inv c" "e \<in> offers (MemberBooks_view dueText (mk_st c))"
  shows "mk_inv (mk_click e c)"
proof (cases "\<exists>i b. e = MK_Borrow i b")
  case False
  then have "\<And>i b. e \<noteq> MK_Borrow i b" by blast
  from mk_click_other [OF this] assms(1) show ?thesis by (simp add: mk_inv_def)
next
  case True
  then obtain i b where e: "e = MK_Borrow i b" by blast
  with offers_member_books assms(2) obtain st
    where st: "mk_buttons (mk_st c) i = Some st" "b \<in> offers (BorrowButton dueText st)" by blast
  obtain st' effs where h: "bb_handle i b st = (st', effs)" by fastforce
  have ok: "button_ok st" using assms(1) st(1) by (simp add: mk_inv_def)
  note ev = button_ok_event [OF ok st(2) h] and click = mk_click_borrow [OF st(1) h, folded e]
  have posts: "posts_out (mk_click e c) n j = posts_out c n j + of_bool (b = BB_Confirm \<and> j = i \<and> n = mk_inst c i)" for n j
    using ev by (auto simp: posts_out_def click)
  show ?thesis
    using assms(1) st(1) ev by (auto simp: mk_inv_def posts click(1,2) split: if_splits)
qed

lemma mk_load_reply_buttons:
  assumes "mk_load_reply r s = Some s'" "mk_buttons s' i = Some st"
  shows "mk_buttons s i = Some st \<or> (mk_buttons s i = None \<and> st = initial_bb)"
  using assms
  by (auto simp: mk_load_reply_def mk_setBooks_def mount_buttons_def split: reply.splits option.splits if_splits)

lemma mk_list_inv:
  assumes "mk_inv c" "mk_load_reply r (mk_st c) = Some s'"
  shows "mk_inv (mk_loaded q p s' c)"
proof -
  have posts: "posts_out (mk_loaded q p s' c) n i = posts_out c n i" for n i
    by (simp add: posts_out_def mk_loaded_def count_list_remove1)
  have inst: "mk_inst (mk_loaded q p s' c) = new_instances (mk_st c) s' (mk_inst c)"
    "mk_st (mk_loaded q p s' c) = s'" by (simp_all add: mk_loaded_def)
  show ?thesis
    unfolding mk_inv_def posts inst
  proof (intro conjI allI impI)
    fix i n assume "posts_out c n i \<noteq> 0"
    with assms(1) show "n \<le> new_instances (mk_st c) s' (mk_inst c) i"
      by (auto simp: mk_inv_def new_instances_def le_SucI)
  next
    fix i st assume st: "mk_buttons s' i = Some st"
    have "posts_out c (Suc (mk_inst c i)) i = 0"
      using assms(1) unfolding mk_inv_def by (metis not_less_eq_eq le_refl)
    with mk_load_reply_buttons [OF assms(2) st] assms(1)
    show "posts_out c (new_instances (mk_st c) s' (mk_inst c) i) i = of_bool (bb_loading st)" "button_ok st"
      by (auto simp: mk_inv_def new_instances_def st button_ok_initial)
  qed
qed

lemma mk_answered_inv:
  assumes "mk_inv c" "(n, MK_Post_Borrowing i) \<in> set (mk_flying c)"
  shows "mk_inv (mk_answered dueText n i r c)"
proof -
  have out: "posts_out c n i \<noteq> 0" using assms(2) by (simp add: posts_out_def count_list_0_iff)
  have posts: "posts_out (mk_answered dueText n i r c) m j = posts_out c m j - of_bool (m = n \<and> j = i)" for m j
    using assms(2) by (auto simp: posts_out_def mk_answered_def count_list_remove1)
  have loading: "bb_loading st \<and> posts_out c n i = 1"
    if "mk_buttons (mk_st c) i = Some st" "n = mk_inst c i" for st
    using assms(1) out that by (auto simp: mk_inv_def)
  have inst: "mk_inst (mk_answered dueText n i r c) = mk_inst c" by (simp add: mk_answered_def)
  have buttons: "mk_buttons (mk_st (mk_answered dueText n i r c)) j =
      (if j = i \<and> n = mk_inst c i then map_option (bb_reply dueText r) (mk_buttons (mk_st c) i)
       else mk_buttons (mk_st c) j)" for j
    by (simp add: mk_answered_def mk_borrow_reply_def)
  show ?thesis
    unfolding mk_inv_def posts inst buttons
    using assms(1) loading button_ok_reply
    by (auto simp: mk_inv_def bb_reply_loading split: if_splits)
qed

lemma mk_step_inv: "mk_step dueText c c' \<Longrightarrow> mk_inv c \<Longrightarrow> mk_inv c'"
  by (induction rule: mk_step.induct) (auto intro: mk_user_inv mk_list_inv mk_answered_inv)

lemma mk_reachable_inv: "mk_reachable dueText c \<Longrightarrow> mk_inv c"
  by (induction rule: mk_reachable.induct) (auto intro: mk_inv_initial mk_step_inv)

text \<open>C13. In every run of the catalogue, with searches, pages and replies in any order, each borrow button
  that is shown has at most one request out: exactly while it is loading, and then it offers neither
  to borrow nor to confirm nor to cancel; once its borrowing succeeded it offers nothing that sends another.
\<close>

theorem catalogue_buttons_single_flight:
  assumes "mk_reachable dueText c" "mk_buttons (mk_st c) i = Some st"
  shows "posts_out c (mk_inst c i) i = of_bool (bb_loading st)
    \<and> (posts_out c (mk_inst c i) i \<noteq> 0 \<longrightarrow>
         (\<forall>e\<in>{BB_Borrow, BB_Confirm, BB_Cancel}. MK_Borrow i e \<notin> offers (MemberBooks_view dueText (mk_st c))))
    \<and> (\<not> bb_available st \<longrightarrow>
         (\<forall>e\<in>{BB_Borrow, BB_Confirm}. MK_Borrow i e \<notin> offers (MemberBooks_view dueText (mk_st c))))"
proof -
  have st: "posts_out c (mk_inst c i) i = of_bool (bb_loading st)" "button_ok st"
    using mk_reachable_inv [OF assms(1)] assms(2) by (auto simp: mk_inv_def)
  have "MK_Borrow i e \<in> offers (MemberBooks_view dueText (mk_st c)) \<Longrightarrow> e \<in> offers (BorrowButton dueText st)" for e
    using offers_member_books [of i e dueText "mk_st c"] assms(2) by auto
  with st show ?thesis by (fastforce simp: offers_BorrowButton button_ok_def split: if_splits)
qed

section \<open>Two requests for one book\<close>

text \<open>
  The run: the book is shown; the member confirms to borrow it; before the reply they search for
  something else, which unmounts the row, and clear the search; the row is back with a new button.
\<close>

definition double_borrow_run :: "string \<Rightarrow> book_json \<Rightarrow> string \<Rightarrow> mk_config" where
  "double_borrow_run dueText b v =
     (let i = bj_id b;
          show_list = (\<lambda>q bs c. mk_loaded q 1 (mk_setBooks bs (mk_st c)) c);
          c1 = show_list [] [b] initial_mk_config;
          c2 = mk_click (MK_Borrow i BB_Confirm) (mk_click (MK_Borrow i BB_Borrow) c1);
          c3 = show_list v [] (mk_click (MK_SetQ v) c2);
          c4 = show_list [] [b] (mk_click (MK_SetQ []) c3)
      in mk_click (MK_Borrow i BB_Confirm) (mk_click (MK_Borrow i BB_Borrow) c4))"

lemma offered_button:
  assumes "mk_books s = [b]" "can_borrow b" "mk_buttons s (bj_id b) = Some st" "e \<in> offers (BorrowButton dueText st)"
  shows "MK_Borrow (bj_id b) e \<in> offers (MemberBooks_view dueText s)"
  using assms by (simp add: MemberBooks_view_def mk_row_offers)

lemma offered_search: "MK_SetQ v \<in> offers (MemberBooks_view dueText s)"
  by (simp add: MemberBooks_view_def)

lemma mk_shown:
  assumes "mk_reachable dueText c" "(0, MK_Get_Books q p) \<in> set (mk_flying c)"
  shows "mk_reachable dueText (mk_loaded q p (mk_setBooks bs (mk_st c)) c)"
  using mk_more [OF assms(1) mk_list [OF assms(2), of "Resolved (Some bs)"]] by (simp add: mk_load_reply_def)

lemma shown_fields:
  "mk_books (mk_st (mk_loaded q p (mk_setBooks bs s) c)) = bs"
  "mk_q (mk_st (mk_loaded q p (mk_setBooks bs s) c)) = mk_q s"
  "mk_buttons (mk_st (mk_loaded q p (mk_setBooks bs s) c)) i = mount_buttons bs (mk_buttons s) i"
  "mk_inst (mk_loaded q p (mk_setBooks bs s) c) i =
     (if mk_buttons (mk_st c) i = None \<and> mount_buttons bs (mk_buttons s) i \<noteq> None then Suc (mk_inst c i)
      else mk_inst c i)"
  "mk_flying (mk_loaded q p s' c) = remove1 (0, MK_Get_Books q p) (mk_flying c)"
  by (simp_all add: mk_loaded_def mk_setBooks_def new_instances_def)

lemma mount_one:
  "mount_buttons [] old i = None"
  "can_borrow b \<Longrightarrow> mount_buttons [b] old (bj_id b) = Some (case old (bj_id b) of None \<Rightarrow> initial_bb | Some st \<Rightarrow> st)"
  by (simp_all add: mount_buttons_def)

lemma confirm_run:
  assumes "mk_reachable dueText c" "mk_books (mk_st c) = [b]" "can_borrow b"
    and "mk_buttons (mk_st c) (bj_id b) = Some initial_bb"
  defines "c' \<equiv> mk_click (MK_Borrow (bj_id b) BB_Confirm) (mk_click (MK_Borrow (bj_id b) BB_Borrow) c)"
  shows "mk_reachable dueText c'" "mk_books (mk_st c') = [b]" "mk_q (mk_st c') = mk_q (mk_st c)"
    "mk_page (mk_st c') = mk_page (mk_st c)" "mk_inst c' = mk_inst c"
    "mk_flying c' = mk_flying c @ [(mk_inst c (bj_id b), MK_Post_Borrowing (bj_id b))]"
proof -
  let ?open = "initial_bb\<lparr>bb_errorMessage := [], bb_successMessage := [], bb_open := True\<rparr>"
  let ?c1 = "mk_click (MK_Borrow (bj_id b) BB_Borrow) c"
  have c1: "mk_st ?c1 = (mk_st c)\<lparr>mk_buttons := (mk_buttons (mk_st c))(bj_id b \<mapsto> ?open)\<rparr>"
    "mk_inst ?c1 = mk_inst c" "mk_flying ?c1 = mk_flying c"
    using mk_click_borrow [OF assms(4), of BB_Borrow] by simp_all
  have r1: "mk_reachable dueText ?c1"
    using assms(1,2,3,4) by (intro mk_more [OF assms(1) mk_user] offered_button)
      (auto simp: offers_BorrowButton initial_bb_def)
  have st: "mk_buttons (mk_st ?c1) (bj_id b) = Some ?open" by (simp add: c1)
  show "mk_reachable dueText c'"
    unfolding c'_def using assms(2,3) st
    by (intro mk_more [OF r1 mk_user] offered_button)
       (auto simp: c1 offers_BorrowButton initial_bb_def)
  show "mk_books (mk_st c') = [b]" "mk_q (mk_st c') = mk_q (mk_st c)"
    "mk_page (mk_st c') = mk_page (mk_st c)" "mk_inst c' = mk_inst c"
    "mk_flying c' = mk_flying c @ [(mk_inst c (bj_id b), MK_Post_Borrowing (bj_id b))]"
    unfolding c'_def using mk_click_borrow [OF st, of BB_Confirm] assms(2) by (simp_all add: c1)
qed

lemma search_run:
  assumes "mk_reachable dueText c" "v \<noteq> mk_q (mk_st c)"
  defines "c' \<equiv> mk_click (MK_SetQ v) c"
  shows "mk_reachable dueText c'" "mk_st c' = (mk_st c)\<lparr>mk_q := v, mk_page := 1\<rparr>" "mk_inst c' = mk_inst c"
    "mk_flying c' = mk_flying c @ [(0, MK_Get_Books v 1)]"
  using mk_more [OF assms(1) mk_user [OF offered_search], of v] assms(2)
  by (simp_all add: c'_def mk_click_def mk_event_step_def tag_def)

text \<open>C29. The guard of a borrow button does not outlive its row: there is a run in which a member has two
  requests out for the same book at once, after a search that unmounted the row while the first was
  pending; on the server two such requests may both be granted.
\<close>

theorem catalogue_double_request:
  assumes "bj_can_borrow b = Some True" "v \<noteq> []"
  shows "mk_reachable dueText (double_borrow_run dueText b v)
    \<and> mk_flying (double_borrow_run dueText b v) =
        [(1, MK_Post_Borrowing (bj_id b)), (2, MK_Post_Borrowing (bj_id b))]"
proof -
  let ?i = "bj_id b"
  have b: "can_borrow b" using assms(1) by (simp add: can_borrow_def)
  let ?c1 = "mk_loaded [] 1 (mk_setBooks [b] (mk_st initial_mk_config)) initial_mk_config"
  have r1: "mk_reachable dueText ?c1" by (intro mk_shown mk_init) (simp add: initial_mk_config_def)
  have c1: "mk_books (mk_st ?c1) = [b]" "mk_buttons (mk_st ?c1) ?i = Some initial_bb" "mk_q (mk_st ?c1) = []"
    "mk_inst ?c1 ?i = 1" "mk_flying ?c1 = []"
    using b by (simp_all add: shown_fields mount_one) (simp_all add: initial_mk_config_def initial_member_books_def)
  let ?c2 = "mk_click (MK_Borrow ?i BB_Confirm) (mk_click (MK_Borrow ?i BB_Borrow) ?c1)"
  note c2 = confirm_run [OF r1 c1(1) b c1(2)]
  let ?s2 = "mk_click (MK_SetQ v) ?c2"
  have "v \<noteq> mk_q (mk_st ?c2)" using assms(2) by (simp add: c2(3) c1(3))
  note s2 = search_run [OF c2(1) this]
  have s2': "mk_inst ?s2 ?i = 1" "mk_flying ?s2 = [(1, MK_Post_Borrowing ?i), (0, MK_Get_Books v 1)]"
    "mk_q (mk_st ?s2) = v"
    by (simp_all add: s2 c2 c1)
  let ?c3 = "mk_loaded v 1 (mk_setBooks [] (mk_st ?s2)) ?s2"
  have r3: "mk_reachable dueText ?c3" by (intro mk_shown s2(1)) (simp add: s2(4))
  have c3: "mk_q (mk_st ?c3) = v" "mk_buttons (mk_st ?c3) ?i = None" "mk_inst ?c3 ?i = 1"
    "mk_flying ?c3 = [(1, MK_Post_Borrowing ?i)]"
    by (simp_all add: shown_fields mount_one s2')
  let ?s3 = "mk_click (MK_SetQ []) ?c3"
  have "[] \<noteq> mk_q (mk_st ?c3)" using assms(2) by (simp add: c3(1))
  note s3 = search_run [OF r3 this]
  have s3': "mk_inst ?s3 ?i = 1" "mk_flying ?s3 = [(1, MK_Post_Borrowing ?i), (0, MK_Get_Books [] 1)]"
    "mk_buttons (mk_st ?s3) ?i = None"
    by (simp_all add: s3 c3)
  let ?c4 = "mk_loaded [] 1 (mk_setBooks [b] (mk_st ?s3)) ?s3"
  have r4: "mk_reachable dueText ?c4" by (intro mk_shown s3(1)) (simp add: s3(4))
  have c4: "mk_books (mk_st ?c4) = [b]" "mk_buttons (mk_st ?c4) ?i = Some initial_bb" "mk_inst ?c4 ?i = 2"
    "mk_flying ?c4 = [(1, MK_Post_Borrowing ?i)]"
    using b by (simp_all add: shown_fields mount_one s3')
  note c5 = confirm_run [OF r4 c4(1) b c4(2)]
  show ?thesis
    unfolding double_borrow_run_def Let_def using c5(1,6) by (simp add: c4)
qed

end
