(* ===== verification/Borrowings_Runs.thy ===== *)
theory Borrowings_Runs imports Library_System begin

text \<open>
  The librarian's borrowings page with its requests: the list requests, the returns and the reloads
  that follow them, with replies in any order. \<open>lr_seen\<close> records the ids the lists ever showed as
  borrowed.
\<close>

section \<open>Configurations\<close>

record lr_config =
  lr_st :: loans_page
  lr_flying :: "lr_request list"
  lr_seen :: "int set"

definition borrowed_ids :: "loans_page \<Rightarrow> int set" where
  "borrowed_ids s = {rj_id it | it. it \<in> set (lr_items s) \<and> rj_status it = Borrowed}"

definition initial_lr_config :: "string option \<Rightarrow> lr_config" where
  "initial_lr_config statusParam =
     \<lparr>lr_st = initial_loans_page statusParam,
      lr_flying = [LR_Load (lr_params (initial_loans_page statusParam))], lr_seen = {}\<rparr>"

definition lr_settle :: "lr_request \<Rightarrow> loans_page \<times> lr_request effect list \<Rightarrow> lr_config \<Rightarrow> lr_config" where
  "lr_settle req out c =
     \<lparr>lr_st = fst out, lr_flying = remove1 req (lr_flying c) @ sends (snd out),
      lr_seen = lr_seen c \<union> borrowed_ids (fst out)\<rparr>"

definition lr_click :: "lr_event \<Rightarrow> lr_config \<Rightarrow> lr_config" where
  "lr_click e c =
     (case lr_event_step e (lr_st c) of
        (s', effs) \<Rightarrow> c\<lparr>lr_st := s', lr_flying := lr_flying c @ sends effs\<rparr>)"

inductive lr_step :: "auth_state \<Rightarrow> browser \<Rightarrow> lr_config \<Rightarrow> lr_config \<Rightarrow> bool" for state br where
  lr_user: "e \<in> offers (BorrowingsPage state br (lr_st c)) \<Longrightarrow> lr_step state br c (lr_click e c)"
| lr_list:
    "LR_Load ps \<in> set (lr_flying c) \<Longrightarrow>
     lr_step state br c (lr_settle (LR_Load ps) (lr_load_reply r (lr_st c)) c)"
| lr_returned:
    "LR_Post_Return i cm ps \<in> set (lr_flying c) \<Longrightarrow>
     lr_step state br c (lr_settle (LR_Post_Return i cm ps) (onReturn_reply ps r0 (lr_st c)) c)"
| lr_reloaded:
    "LR_Reload ps \<in> set (lr_flying c) \<Longrightarrow>
     lr_step state br c (lr_settle (LR_Reload ps) (lr_reload_reply r (lr_st c)) c)"

inductive lr_reachable :: "auth_state \<Rightarrow> browser \<Rightarrow> string option \<Rightarrow> lr_config \<Rightarrow> bool" for state br sp where
  lr_init: "lr_reachable state br sp (initial_lr_config sp)"
| lr_more: "lr_reachable state br sp c \<Longrightarrow> lr_step state br c c' \<Longrightarrow> lr_reachable state br sp c'"

section \<open>Which requests are sent\<close>

fun lr_request_ok :: "int set \<Rightarrow> lr_request \<Rightarrow> bool" where
  "lr_request_ok seen (LR_Load ps) = (1 \<le> lp_page ps \<and> lp_status ps \<in> status_values)"
| "lr_request_ok seen (LR_Reload ps) = (1 \<le> lp_page ps \<and> lp_status ps \<in> status_values)"
| "lr_request_ok seen (LR_Post_Return i cm ps) =
     (i \<in> seen \<and> cm \<noteq> Some [] \<and> 1 \<le> lp_page ps \<and> lp_status ps \<in> status_values)"

definition lr_inv :: "lr_config \<Rightarrow> bool" where
  "lr_inv c \<longleftrightarrow>
     1 \<le> lr_page (lr_st c) \<and> lr_status (lr_st c) \<in> status_values
     \<and> borrowed_ids (lr_st c) \<subseteq> lr_seen c
     \<and> (\<forall>i. lr_returningId (lr_st c) = Some i \<longrightarrow> i \<in> lr_seen c)
     \<and> (\<forall>r\<in>set (lr_flying c). lr_request_ok (lr_seen c) r)"

lemma lr_request_ok_mono: "lr_request_ok S r \<Longrightarrow> S \<subseteq> T \<Longrightarrow> lr_request_ok T r"
  by (cases r) auto

lemma lr_handle_parts:
  assumes "lr_handle e s = (s', effs)"
  shows "lr_items s' = lr_items s"
    and "1 \<le> lr_page s \<Longrightarrow> 1 \<le> lr_page s'"
    and "lr_status s' = lr_status s \<or> e = LR_SetStatus (lr_status s')"
    and "lr_returningId s' = Some i \<Longrightarrow> lr_returningId s = Some i \<or> e = LR_Return i"
    and "sends effs = [] \<or>
         (\<exists>i. lr_returningId s = Some i
            \<and> sends effs = [LR_Post_Return i (or_undefined (lr_returnComment s)) (lr_params s)])"
proof -
  show "lr_items s' = lr_items s"
    using assms by (cases e) (auto simp: handler_defs split: option.splits sort_key.splits if_splits)
  show "1 \<le> lr_page s \<Longrightarrow> 1 \<le> lr_page s'"
    using assms by (cases e) (auto simp: handler_defs split: option.splits sort_key.splits if_splits)
  show "lr_status s' = lr_status s \<or> e = LR_SetStatus (lr_status s')"
    using assms by (cases e) (auto simp: handler_defs split: option.splits sort_key.splits if_splits)
  show "lr_returningId s' = Some i \<Longrightarrow> lr_returningId s = Some i \<or> e = LR_Return i"
    using assms by (cases e) (auto simp: handler_defs split: option.splits sort_key.splits if_splits)
  show "sends effs = [] \<or>
         (\<exists>i. lr_returningId s = Some i
            \<and> sends effs = [LR_Post_Return i (or_undefined (lr_returnComment s)) (lr_params s)])"
    using assms by (cases e) (auto simp: handler_defs split: option.splits)
qed

lemma offered_statuses:
  "LR_SetStatus v \<in> offers (BorrowingsPage state br s) \<Longrightarrow> v \<in> status_values"
  "LR_Return i \<in> offers (BorrowingsPage state br s) \<Longrightarrow> i \<in> borrowed_ids s"
  "lr_returningId s \<noteq> None \<Longrightarrow> {LR_Confirm, LR_Dismiss} \<union> range LR_SetComment \<subseteq> offers (BorrowingsPage state br s)"
  by (auto simp: offers_BorrowingsPage borrowed_ids_def image_iff split: if_splits)

lemma lr_inv_click:
  assumes "lr_inv c" "e \<in> offers (BorrowingsPage state br (lr_st c))"
  shows "lr_inv (lr_click e c)"
proof -
  obtain s' effs where h: "lr_handle e (lr_st c) = (s', effs)" by fastforce
  note parts = lr_handle_parts [OF h]
  have click: "lr_click e c = c\<lparr>lr_st := s', lr_flying := lr_flying c @ sends effs @ sends (lr_effect (lr_st c) s')\<rparr>"
    by (simp add: lr_click_def lr_event_step_def h)
  have page: "1 \<le> lr_page s'" and status: "lr_status s' \<in> status_values"
    using assms parts(2,3) offered_statuses(1) [of "lr_status s'" state br "lr_st c"]
    by (auto simp: lr_inv_def)
  have ids: "borrowed_ids s' \<subseteq> lr_seen c" "\<And>i. lr_returningId s' = Some i \<Longrightarrow> i \<in> lr_seen c"
    using assms parts(1,4) offered_statuses(2) [of _ state br "lr_st c"]
    by (auto simp: lr_inv_def borrowed_ids_def)
  have "\<forall>r\<in>set (sends effs). lr_request_ok (lr_seen c) r"
    using parts(5) assms(1) by (auto simp: lr_inv_def lr_params_def or_undefined_def)
  moreover have "\<forall>r\<in>set (sends (lr_effect (lr_st c) s')). lr_request_ok (lr_seen c) r"
    using page status by (auto simp: lr_effect_eq lr_params_def)
  ultimately show ?thesis
    using assms(1) page status ids by (auto simp: lr_inv_def click)
qed

lemma lr_inv_settle:
  assumes "lr_inv c" "req \<in> set (lr_flying c)"
    and "lr_page (fst out) = lr_page (lr_st c)" "lr_status (fst out) = lr_status (lr_st c)"
    and "lr_returningId (fst out) \<in> {None, lr_returningId (lr_st c)}"
    and "\<forall>r\<in>set (sends (snd out)). lr_request_ok (lr_seen c) r"
  shows "lr_inv (lr_settle req out c)"
proof -
  let ?seen = "lr_seen c \<union> borrowed_ids (fst out)"
  have "lr_request_ok ?seen r" if "r \<in> set (remove1 req (lr_flying c) @ sends (snd out))" for r
    using that assms(1,6) by (auto simp: lr_inv_def intro: lr_request_ok_mono dest: notin_set_remove1)
  with assms show ?thesis by (auto simp: lr_inv_def lr_settle_def)
qed

lemma lr_replies:
  "lr_page (fst (lr_load_reply r s)) = lr_page s" "lr_status (fst (lr_load_reply r s)) = lr_status s"
  "lr_returningId (fst (lr_load_reply r s)) = lr_returningId s" "sends (snd (lr_load_reply r s)) = []"
  "lr_page (fst (lr_reload_reply r s)) = lr_page s" "lr_status (fst (lr_reload_reply r s)) = lr_status s"
  "lr_returningId (fst (lr_reload_reply r s)) = None" "sends (snd (lr_reload_reply r s)) = []"
  by (simp_all add: lr_load_reply_def lr_reload_reply_def lr_dismiss_def split: reply.split option.split prod.split)

lemma onReturn_reply_parts:
  "lr_page (fst (onReturn_reply ps r s)) = lr_page s" "lr_status (fst (onReturn_reply ps r s)) = lr_status s"
  "lr_returningId (fst (onReturn_reply ps r s)) \<in> {None, lr_returningId s}"
  "set (sends (snd (onReturn_reply ps r s))) \<subseteq> {LR_Reload ps}"
  by (simp_all add: onReturn_reply_def lr_dismiss_def split: reply.split)

lemma lr_step_inv: "lr_step state br c c' \<Longrightarrow> lr_inv c \<Longrightarrow> lr_inv c'"
proof (induction rule: lr_step.induct)
  case (lr_user e c)
  then show ?case by (intro lr_inv_click)
next
  case (lr_list ps c r)
  then show ?case by (intro lr_inv_settle) (simp_all add: lr_replies)
next
  case (lr_returned i cm ps c r0)
  then have "lr_request_ok (lr_seen c) (LR_Post_Return i cm ps)"
    unfolding lr_inv_def by blast
  with lr_returned onReturn_reply_parts [of ps r0 "lr_st c"] show ?case
    by (intro lr_inv_settle) auto
next
  case (lr_reloaded ps c r)
  then show ?case by (intro lr_inv_settle) (simp_all add: lr_replies)
qed

lemma lr_reachable_inv: "lr_reachable state br sp c \<Longrightarrow> lr_inv c"
proof (induction rule: lr_reachable.induct)
  case lr_init
  show ?case
    by (auto simp: lr_inv_def initial_lr_config_def initial_loans_page_def borrowed_ids_def lr_params_def
        lr_initial_status_def status_values_def)
qed (rule lr_step_inv)

text \<open>Whatever the librarian does on the borrowings page and in whatever order the replies come: every
  return that is requested is for a borrowing some list showed as borrowed, with a comment that is
  absent rather than empty, and every list is requested with a page of at least 1 and a status the
  filter offers.
\<close>

theorem borrowings_requests_safe:
  assumes "lr_reachable state br sp c"
  shows "1 \<le> lr_page (lr_st c) \<and> (\<forall>r\<in>set (lr_flying c). lr_request_ok (lr_seen c) r)
    \<and> (\<forall>i. lr_returningId (lr_st c) = Some i \<longrightarrow> i \<in> lr_seen c)"
  using lr_reachable_inv [OF assms] by (simp add: lr_inv_def)

section \<open>A return confirmed twice\<close>

text \<open>The dialogue stays open, and its buttons enabled, until the reply: open, comment, confirm, comment, confirm.\<close>

definition confirm_with :: "string \<Rightarrow> lr_config \<Rightarrow> lr_config" where
  "confirm_with cm c = lr_click LR_Confirm (lr_click (LR_SetComment cm) c)"

definition double_return_run :: "string option \<Rightarrow> borrowing_json list \<Rightarrow> int \<Rightarrow> string \<Rightarrow> string \<Rightarrow> lr_config" where
  "double_return_run sp items i cm1 cm2 =
     (let c0 = initial_lr_config sp; req = LR_Load (lr_params (initial_loans_page sp));
          c1 = lr_settle req (lr_load_reply (Resolved (Some items)) (lr_st c0)) c0
      in confirm_with cm2 (confirm_with cm1 (lr_click (LR_Return i) c1)))"

lemma lr_params_dialogue:
  "lr_params (s\<lparr>lr_items := a, lr_returningId := b, lr_returnComment := e\<rparr>) = lr_params s"
  by (simp add: lr_params_def)

lemma click_more:
  "lr_reachable state br sp c \<Longrightarrow> e \<in> offers (BorrowingsPage state br (lr_st c)) \<Longrightarrow>
   lr_reachable state br sp (lr_click e c)"
  by (meson lr_more lr_user)

lemma confirm_with_run:
  assumes "lr_reachable state br sp c" "lr_returningId (lr_st c) = Some i" "cm \<noteq> []"
  shows "lr_reachable state br sp (confirm_with cm c)"
    and "lr_st (confirm_with cm c) = (lr_st c)\<lparr>lr_returnComment := cm\<rparr>"
    and "lr_flying (confirm_with cm c) = lr_flying c @ [LR_Post_Return i (Some cm) (lr_params (lr_st c))]"
proof -
  let ?c1 = "lr_click (LR_SetComment cm) c"
  have c1: "lr_st ?c1 = (lr_st c)\<lparr>lr_returnComment := cm\<rparr>" "lr_flying ?c1 = lr_flying c"
    by (simp_all add: lr_click_def lr_event_step_def lr_effect_eq lr_params_def)
  have r1: "lr_reachable state br sp ?c1"
    using assms(2) offered_statuses(3) [of "lr_st c" state br] by (intro click_more [OF assms(1)]) auto
  show "lr_reachable state br sp (confirm_with cm c)"
    unfolding confirm_with_def using assms(2) offered_statuses(3) [of "lr_st ?c1" state br]
    by (intro click_more [OF r1]) (auto simp: c1)
  show "lr_st (confirm_with cm c) = (lr_st c)\<lparr>lr_returnComment := cm\<rparr>"
    "lr_flying (confirm_with cm c) = lr_flying c @ [LR_Post_Return i (Some cm) (lr_params (lr_st c))]"
    using assms(2,3) c1
    by (simp_all add: confirm_with_def lr_click_def [of LR_Confirm] lr_event_step_def lr_confirm_def lr_effect_eq
        or_undefined_def lr_params_def)
qed

lemma find_loan_return:
  "find_loan d i = Some l \<Longrightarrow> find_loan (return_loan bl t cm l d) i = Some (returned_loan bl t cm l)"
  using find_loan_Some [of d i l]
  by (auto simp: find_loan_def return_loan_def find_replace_by)

lemma returned_loan_comment:
  "\<not> bl c \<Longrightarrow> ln_return_comment (returned_loan bl t (Some c) l) = Some c"
  "ln_returned_at (returned_loan bl t cm l) = Some t"
  by (simp_all add: returned_loan_def presence_def)

lemma server_returns_twice:
  assumes "find_loan d i = Some l" "ur_role u = Librarian" "\<not> blank h cm2"
  shows "let (r1, d1) = return_book h t1 u i (Some cm1) d; (r2, d2) = return_book h t2 u i (Some cm2) d1 in
         r1 = Ok_200 () \<and> r2 = Ok_200 ()
         \<and> (\<exists>k. find_loan d2 i = Some k \<and> ln_returned_at k = Some t2 \<and> ln_return_comment k = Some cm2)"
  using assms
  by (simp add: return_book_def find_loan_return [OF assms(1)] find_loan_return [OF find_loan_return [OF assms(1)]]
      returned_loan_comment)

text \<open>C28. A return can be confirmed twice, and the second confirmation overwrites the first: the dialogue is
  not disabled while the request is out, so two returns of one borrowing with different comments can
  be pending at once; the server accepts both, and keeps the time and the comment of the last.
\<close>

theorem return_twice_overwrites:
  assumes "it \<in> set items" "rj_status it = Borrowed" "rj_id it = i" "cm1 \<noteq> []" "cm2 \<noteq> []"
    and "find_loan d i = Some l" "ur_role u = Librarian" "\<not> blank h cm2"
  shows "lr_reachable state br sp (double_return_run sp items i cm1 cm2)
    \<and> lr_flying (double_return_run sp items i cm1 cm2) =
        [LR_Post_Return i (Some cm1) (lr_params (initial_loans_page sp)),
         LR_Post_Return i (Some cm2) (lr_params (initial_loans_page sp))]
    \<and> (let (r1, d1) = return_book h t1 u i (Some cm1) d; (r2, d2) = return_book h t2 u i (Some cm2) d1 in
         r1 = Ok_200 () \<and> r2 = Ok_200 ()
         \<and> (\<exists>k. find_loan d2 i = Some k \<and> ln_returned_at k = Some t2 \<and> ln_return_comment k = Some cm2))"
proof -
  let ?ps = "lr_params (initial_loans_page sp)" and ?c0 = "initial_lr_config sp"
  let ?c1 = "lr_settle (LR_Load ?ps) (lr_load_reply (Resolved (Some items)) (lr_st ?c0)) ?c0"
  have c1: "lr_st ?c1 = (initial_loans_page sp)\<lparr>lr_items := items\<rparr>" "lr_flying ?c1 = []"
    by (simp_all add: lr_settle_def lr_load_reply_def initial_lr_config_def)
  have r1: "lr_reachable state br sp ?c1"
    by (rule lr_more [OF lr_init lr_list]) (simp add: initial_lr_config_def)
  let ?c2 = "lr_click (LR_Return i) ?c1"
  have "LR_Return i \<in> offers (BorrowingsPage state br (lr_st ?c1))"
    using assms(1,2,3) by (auto simp: return_offered_iff c1)
  note r2 = click_more [OF r1 this]
  have c2: "lr_st ?c2 = (initial_loans_page sp)\<lparr>lr_items := items, lr_returningId := Some i, lr_returnComment := []\<rparr>"
    "lr_flying ?c2 = []"
    using c1 by (simp_all add: lr_click_def lr_event_step_def lr_effect_eq lr_params_def)
  have open2: "lr_returningId (lr_st ?c2) = Some i" by (simp add: c2)
  note c3 = confirm_with_run [OF r2 open2 assms(4)]
  have "lr_returningId (lr_st (confirm_with cm1 ?c2)) = Some i" by (simp add: c3 c2)
  note c4 = confirm_with_run [OF c3(1) this assms(5)]
  have run: "double_return_run sp items i cm1 cm2 = confirm_with cm2 (confirm_with cm1 ?c2)"
    by (simp add: double_return_run_def Let_def)
  have "lr_params (lr_st ?c2) = ?ps" "lr_params (lr_st (confirm_with cm1 ?c2)) = ?ps"
    by (simp_all add: c3(2) c2(1) lr_params_dialogue)
  with c3(3) c2(2) c4(3) have "lr_flying (double_return_run sp items i cm1 cm2) =
      [LR_Post_Return i (Some cm1) ?ps, LR_Post_Return i (Some cm2) ?ps]"
    by (simp add: run)
  moreover have "lr_reachable state br sp (double_return_run sp items i cm1 cm2)" using c4(1) by (simp only: run)
  ultimately show ?thesis using server_returns_twice [OF assms(6,7,8)] by blast
qed

end
