(* ===== verification/Scenarios.thy ===== *)
theory Scenarios imports Library_Users Server_Dashboards Member_Runs Borrowings_Runs begin

text \<open>
  Concrete instances: a small library, a browser and a session, on which the theorems with
  hypotheses are applied with every hypothesis discharged.
\<close>

section \<open>A small library\<close>

definition sample_host :: host where
  "sample_host = \<lparr>ilike = (\<lambda>t p. True), scan = (\<lambda>bs. bs), blank = (\<lambda>t. t = []), strip = (\<lambda>t. t),
     parse_date = (\<lambda>t. None), scan_users = (\<lambda>us. us), scan_loans = (\<lambda>ls. ls), scan_genres = (\<lambda>gs. gs),
     full_message = snd\<rparr>"

definition sample_member :: user_row where
  "sample_member = \<lparr>ur_id = 1, ur_email = ''m@x'', ur_first_name = Some ''Ann'', ur_last_name = None,
     ur_role = Member, ur_created_at = 0, ur_encrypted_password = ''0secret''\<rparr>"

definition sample_librarian :: user_row where
  "sample_librarian = \<lparr>ur_id = 2, ur_email = ''l@x'', ur_first_name = None, ur_last_name = None,
     ur_role = Librarian, ur_created_at = 0, ur_encrypted_password = ''0staff1''\<rparr>"

definition sample_book :: book_row where
  "sample_book = \<lparr>br_id = 3, br_title = ''Emma'', br_author = ''Austen'', br_genre = ''Novel'',
     br_isbn = ''1'', br_total_copies = 1\<rparr>"

definition sample_loan :: loan_row where
  "sample_loan = \<lparr>ln_id = 4, ln_user_id = 1, ln_book_id = 3, ln_borrowed_at = 0, ln_due_date = Date 14,
     ln_returned_at = None, ln_status = Borrowed, ln_return_comment = None, ln_created_at = 0\<rparr>"

text \<open>The book is free in \<open>sample_db\<close> and lent to the member in \<open>lent_db\<close>.\<close>

definition sample_db :: db where
  "sample_db = \<lparr>db_users = [sample_member, sample_librarian], db_books = [sample_book], db_loans = [], db_next = 4\<rparr>"

definition lent_db :: db where
  "lent_db = \<lparr>db_users = [sample_member, sample_librarian], db_books = [sample_book],
     db_loans = [sample_loan], db_next = 5\<rparr>"

lemmas sample_defs = sample_host_def sample_member_def sample_librarian_def sample_book_def
  sample_loan_def sample_db_def lent_db_def

lemma sample_db_inv: "db_inv sample_db" and lent_db_inv: "db_inv lent_db"
  by (simp_all add: db_inv_def sample_defs active_def)

lemma sample_scan: "scan_ok sample_host"
  by (simp add: scan_ok_def lists_rows_def sample_host_def)

lemma sample_errors:
  "borrowing_errors sample_db u sample_book = []"
  "borrowing_errors lent_db sample_member sample_book =
     [''User already has an active borrowing for this book'', ''No available copies for this book'']"
  by (simp_all add: borrowing_errors_def prevent_duplicate_active_borrowing_def user_active_def
      copies_available_to_borrow_def available_copies_def active_borrowings_def sample_defs active_def)

text \<open>Sixteen days after the loan.\<close>

definition late :: int where
  "late = 16 * 86400000"

lemma sample_past_due: "past_due late sample_loan"
  by (simp add: past_due_def sample_loan_def utc_date_def late_def day_ms_def)

section \<open>Tables\<close>

lemma sample_in: "sample_book \<in> set (db_books sample_db)" "sample_book \<in> set (db_books lent_db)"
  "sample_loan \<in> set (db_loans lent_db)" "sample_member \<in> set (db_users sample_db)"
  "active sample_loan"
  by (simp_all add: sample_defs active_def)

theorem create_borrowing_refines_witness:
  "stock_borrow 1 3 (abs_stock sample_db) =
     Some (abs_stock (snd (create_borrowing 0 sample_member sample_book sample_db)))"
  using create_borrowing_refines [where d = sample_db and b = sample_book and t = 0 and u = sample_member,
      OF sample_db_inv sample_in(1)]
  by (simp add: create_borrowing_def sample_errors(1) Let_def)
     (simp add: sample_member_def sample_book_def sample_db_def)

theorem return_and_mark_refine_witness:
  "abs_stock (return_loan (\<lambda>t. t = []) 0 None sample_loan lent_db) = stock_release {(1, 3)} (abs_stock lent_db)"
  using return_and_mark_refine [where d = lent_db and l = sample_loan and blank = "\<lambda>t. t = []" and t = 0 and c = None,
      OF lent_db_inv sample_in(3)]
  by (simp add: sample_in(5)) (simp add: sample_loan_def)

theorem overdue_copy_lent_again_witness:
  "with_can_borrow_for (snd (snd (mark_overdue_books late lent_db))) sample_member sample_book"
proof -
  have "active_borrowings lent_db (br_id sample_book) \<le> br_total_copies sample_book"
    by (simp add: active_borrowings_def sample_defs active_def)
  with overdue_copy_lent_again [where t = late and u = sample_member and b = sample_book,
      OF lent_db_inv sample_in(3,5) sample_past_due sample_in(2)]
  show ?thesis by (simp add: Let_def case_prod_beta) (simp add: sample_defs)
qed

text \<open>The history edits the title of the book while its copy is lent.\<close>

definition sample_ops :: "db_op list" where
  "sample_ops = [Op_Add_User sample_member, Op_Add_Book sample_book, Op_Borrow 0 1 2,
     Op_Update_Book (sample_book\<lparr>br_id := 2, br_title := ''Persuasion''\<rparr>), Op_Mark_Overdue late,
     Op_Borrow late 1 2]"

text \<open>Two copies of the only one are out, one of them overdue.\<close>

theorem copies_out_bound_witness:
  "copies_out (run_ops (\<lambda>t. t = []) sample_ops) 2 \<le> 1 + copies_overdue (run_ops (\<lambda>t. t = []) sample_ops) 2
   \<and> copies_out (run_ops (\<lambda>t. t = []) sample_ops) 2 = 2"
proof -
  let ?b = "sample_book\<lparr>br_id := 2, br_title := ''Persuasion''\<rparr>"
  have "?b \<in> set (db_books (run_ops (\<lambda>t. t = []) sample_ops))" by code_simp
  moreover have "copies_out (run_ops (\<lambda>t. t = []) sample_ops) 2 = 2" by code_simp
  moreover have "never_lowered (\<lambda>t. t = []) 2 sample_ops empty_db" by code_simp
  ultimately show ?thesis
    using copies_out_bound [where ops = sample_ops and blank = "\<lambda>t. t = []" and b = ?b]
    by (simp add: sample_book_def)
qed

theorem concurrent_borrowing_overlends_witness:
  "\<exists>d'. request_step\<^sup>*\<^sup>* \<lparr>rq_db = sample_db, rq_validated = []\<rparr> \<lparr>rq_db = d', rq_validated = []\<rparr>
    \<and> active_borrowings d' 3 = 2 \<and> \<not> distinct (active_pairs (db_loans d'))"
proof -
  have "available_copies sample_db sample_book = 1"
    by (simp add: available_copies_def active_borrowings_def sample_defs)
  from concurrent_borrowing_overlends [OF sample_in(4,4,1) sample_errors(1,1) this]
  show ?thesis by (auto simp: sample_book_def)
qed

section \<open>Client and server\<close>

definition sample_shown :: "book_json list" where
  "sample_shown = ok_data (books_index sample_host sample_db sample_member (Some []) (Some 1))"

lemma sample_shown_eq: "sample_shown = [book_json_for sample_db sample_member sample_book]"
  by (simp add: sample_shown_def ok_data_def books_index_def page_number_def page_slice_def per_page_def
      book_search_def sample_host_def sample_db_def)

theorem catalogue_browsed_once_witness:
  "set (mk_browse sample_host sample_db sample_member [] 1 (mk_setBooks sample_shown initial_member_books))
   = {book_json_for sample_db sample_member sample_book}"
proof -
  let ?s = "mk_setBooks sample_shown initial_member_books"
  have s: "mk_q ?s = []" "mk_page ?s = 1"
    "mk_books ?s = ok_data (books_index sample_host sample_db sample_member (Some []) (Some 1))"
    by (simp_all add: mk_setBooks_def initial_member_books_def sample_shown_def)
  have "length (db_books sample_db) < 25 * 1" by (simp add: sample_db_def)
  from catalogue_browsed_once [OF sample_scan sample_db_inv s this,
      where dueText = "[]"]
  show ?thesis
    by (simp add: book_search_def sample_host_def sample_db_def)
qed

definition shelf :: db where
  "shelf = \<lparr>db_users = [], db_books = map (\<lambda>i. sample_book\<lparr>br_id := i\<rparr>) [0..25], db_loans = [], db_next = 26\<rparr>"

theorem unordered_pages_miss_a_book_witness:
  "\<exists>f g. scan_ok (sample_host\<lparr>scan := f\<rparr>) \<and> scan_ok (sample_host\<lparr>scan := g\<rparr>)
    \<and> (\<exists>b\<in>set (db_books shelf). br_id b \<notin>
         bj_id ` set (ok_data (books_index (sample_host\<lparr>scan := f\<rparr>) shelf sample_member None (Some 1))
                      @ ok_data (books_index (sample_host\<lparr>scan := g\<rparr>) shelf sample_member None (Some 2))))"
proof (rule unordered_pages_miss_a_book)
  have "map br_id (db_books shelf) = [0..25]" unfolding shelf_def by (simp add: map_idI comp_def)
  then show "db_inv shelf" by (simp add: db_inv_def) (simp add: shelf_def)
  show "length (db_books shelf) = 26" by (simp add: shelf_def)
qed

theorem offered_iff_granted_witness:
  "mk_buttons (mk_setBooks sample_shown initial_member_books) 3 \<noteq> None
   \<and> fst (borrowings_create 0 sample_member 3 sample_db) = Created ()"
proof -
  have "book_json_for sample_db sample_member sample_book \<in> set sample_shown"
    by (simp add: sample_shown_eq)
  moreover have "ur_role sample_member = Member" by (simp add: sample_member_def)
  moreover have "br_id sample_book = 3" by (simp add: sample_book_def)
  moreover have "fst (borrowings_create 0 sample_member 3 sample_db) = Created ()" by code_simp
  ultimately show ?thesis
    using offered_iff_granted [where d = sample_db and h = sample_host and b = sample_book
        and u = sample_member and q = "Some []" and p = "Some 1" and t = 0 and dueText = "[]",
        OF sample_db_inv sample_scan sample_in(1)]
    by (simp add: sample_shown_def Let_def case_prod_beta)
qed

theorem refusal_is_shown_witness:
  "split_lines (bb_errorMessage (bb_reply [] (reply_of (fst (borrowings_create 0 sample_member 3 lent_db)))
     (initial_bb\<lparr>bb_open := True, bb_loading := True\<rparr>)))
   = [''User already has an active borrowing for this book'', ''No available copies for this book'']"
proof -
  have "find_book lent_db 3 = Some sample_book" by (simp add: find_book_def sample_defs)
  then show ?thesis
    using refusal_is_shown [where d = lent_db and i = 3 and b = sample_book and u = sample_member
        and s = "initial_bb\<lparr>bb_open := True, bb_loading := True\<rparr>" and dueText = "[]" and t = 0]
    by (simp add: sample_errors(2) Let_def) (simp add: initial_bb_def)
qed

text \<open>A browser five hours west of UTC, at an instant when it is already the next day in UTC.\<close>

definition west :: browser where
  "west = \<lparr>now = 3600000, zone = fixed_zone (- 18000000), fmt_date = int_digits, fmt_datetime = int_digits\<rparr>"

definition east :: browser where
  "east = \<lparr>now = 3600000, zone = fixed_zone 3600000, fmt_date = int_digits, fmt_datetime = int_digits\<rparr>"



theorem due_badge_east_witness:
  "dueBadge east (Date 0) = (Badge_Danger, [''Due today''])
   \<and> dueBadge east (Date (- 1)) = (Badge_Danger, [''Overdue since '', int_digits (- 1)])"
  using due_badge_east [where br = east and off = 3600000 and due = "Date 0"]
    due_badge_east [where br = east and off = 3600000 and due = "Date (- 1)"]
  by (simp add: east_def day_ms_def Let_def)

theorem due_soon_agrees_witness:
  "librarian_due_today (12 * day_ms) lent_db = 1
   \<and> length (filter (due_soon_badge (12 * day_ms)) (List.map_filter (loan_json lent_db) (db_loans lent_db))) = 1"
proof -
  have "librarian_due_today (12 * day_ms) lent_db = 1" by code_simp
  then show ?thesis using due_soon_agrees [OF lent_db_inv, of "12 * day_ms"] by simp
qed


section \<open>Returning, creating, checking\<close>

definition returning :: loans_page where
  "returning = (initial_loans_page None)\<lparr>lr_returningId := Some 4, lr_returnComment := ''ok''\<rparr>"

theorem return_completes_witness:
  "fst (return_book sample_host late sample_librarian 4 (Some ''ok'') lent_db) = Ok_200 ()
   \<and> LR_Return 4 \<notin> offers (BorrowingsPage initial_auth west (fst (lr_reload_reply (reply_of
        (borrowings_index sample_host (snd (return_book sample_host late sample_librarian 4 (Some ''ok'') lent_db))
           sample_librarian (lr_params returning))) returning)))"
proof -
  have "find_loan lent_db 4 = Some sample_loan" by (simp add: find_loan_def lent_db_def sample_loan_def)
  moreover have "or_undefined (lr_returnComment returning) = Some ''ok''"
    by (simp add: returning_def or_undefined_def)
  moreover have "fst (return_book sample_host late sample_librarian 4 (Some ''ok'') lent_db) = Ok_200 ()"
    by code_simp
  ultimately show ?thesis
    using return_completes [where d = lent_db and u = sample_librarian and i = 4 and l = sample_loan
        and s = returning and h = sample_host and t = late and state = initial_auth and br = west]
    by (simp add: lent_db_inv Let_def case_prod_beta) (simp add: sample_librarian_def returning_def)
qed

theorem overdue_return_not_offered_witness:
  "LR_Return 4 \<notin> offers (BorrowingsPage initial_auth west (fst (lr_load_reply (reply_of
      (borrowings_index sample_host (snd (snd (mark_overdue_books late lent_db))) sample_librarian
        (lr_params returning))) returning)))"
proof -
  have "ur_role sample_librarian = Librarian" by (simp add: sample_librarian_def)
  from overdue_return_not_offered [OF lent_db_inv sample_in(3) sample_past_due this,
      where h = sample_host and ps = "lr_params returning" and s = returning and state = initial_auth and br = west]
  show ?thesis by (simp add: Let_def) (simp add: sample_loan_def)
qed

definition filled_form :: book_form where
  "filled_form = \<lparr>bf_title = Some ''Persuasion'', bf_author = Some ''Austen'', bf_genre = Some ''Novel'',
     bf_isbn = Some ''2'', bf_total_copies = Some (Num 2)\<rparr>"

definition creating :: "string \<Rightarrow> books_page" where
  "creating isbn = initial_books_page\<lparr>lb_creating := True, lb_newBook := filled_form\<lparr>bf_isbn := Some isbn\<rparr>\<rparr>"

lemma taken_errors:
  "book_errors sample_host sample_db None (new_attributes (lb_newBook (creating ''1''))) = [(''isbn'', ''has already been taken'')]"
  by (simp add: creating_def filled_form_def new_attributes_def book_errors_def presence_error_def presence_def
      isbn_taken_def copies_error_def sample_defs initial_books_page_def)

theorem book_errors_reach_fields_witness:
  "field_error (lb_createErrors (fst (lb_create_reply (reply_of
      (fst (books_create sample_host sample_librarian (lb_newBook (creating ''1'')) sample_db))) (creating ''1''))))
     ''isbn'' = Some ''has already been taken''"
proof -
  have "ur_role sample_librarian = Librarian" by (simp add: sample_librarian_def)
  from book_errors_reach_fields [OF this, where h = sample_host and d = sample_db and s = "creating ''1''"]
  show ?thesis by (simp add: taken_errors Let_def case_prod_beta)
qed


theorem manual_overdue_check_witness:
  "librarian_overdue_books_count (snd (mark_overdue_endpoint late sample_librarian lent_db)) = 1"
proof -
  have "ur_role sample_librarian = Librarian" by (simp add: sample_librarian_def)
  moreover have "filter (past_due late) (db_loans lent_db) = [sample_loan]"
    using sample_past_due by (simp add: lent_db_def)
  moreover have "librarian_overdue_books_count lent_db = 0" by code_simp
  ultimately show ?thesis
    using manual_overdue_check [where u = sample_librarian and t = late and d = lent_db
        and s = initial_librarian_dashboard]
    by (simp add: Let_def case_prod_beta)
qed

section \<open>The client alone\<close>

definition ann :: user_json where
  "ann = \<lparr>uj_id = 1, uj_email = ''m@x'', uj_first_name = Some ''Ann'', uj_last_name = None, uj_role = Member\<rparr>"

definition signed_in :: auth_state where
  "signed_in = \<lparr>au_user = Some ann, au_loading = False, au_error = None\<rparr>"

definition static_routes :: "string \<Rightarrow> route option" where
  "static_routes p = (if p = ''/login'' then Some Login_Route else if p = ''/books'' then Some Books_Route else None)"

theorem pages_by_role_witness:
  "\<exists>h. visit static_routes signed_in ''/books'' = Shell h (Some MemberBooks)
     \<and> MemberBooks \<in> member_pages \<and> uj_role (the (au_user signed_in)) = Member"
proof -
  have "static_routes ''/login'' = Some Login_Route" by (simp add: static_routes_def)
  moreover obtain h where "visit static_routes signed_in ''/books'' = Shell h (Some MemberBooks)"
    by (simp add: visit_def App_def RoleRoute_def signed_in_def static_routes_def ann_def)
  ultimately show ?thesis using pages_by_role by fastforce
qed

theorem auth_not_stuck_loading_witness:
  "\<exists>p. auth_reachable None p \<and> tasks p = [] \<and> \<not> au_loading (auth p)"
proof -
  let ?p0 = "initial_provider None"
  let ?p1 = "advance Mount1 [Mount2] (?p0\<lparr>client := ensureCsrfToken (Rejected Other_Thrown) (client ?p0)\<rparr>)"
  let ?p2 = "advance Mount2 [] (?p1\<lparr>auth := mount_finish (Rejected Other_Thrown) (auth ?p1)\<rparr>)"
  have "auth_step ?p0 ?p1" by (rule mount_csrf) (simp add: initial_provider_def)
  moreover have "auth_step ?p1 ?p2" by (rule mount_done) simp
  ultimately have "auth_reachable None ?p2"
    using auth_reachable.start auth_reachable.step by blast
  moreover have "tasks ?p2 = []" by (simp add: initial_provider_def)
  ultimately show ?thesis using auth_not_stuck_loading by blast
qed

theorem borrow_once_witness:
  "\<exists>c. bb_reachable [] 3 c \<and> borrowed c = 1 \<and> flying c = 0
     \<and> offers (BorrowButton [] (comp c)) \<subseteq> {BB_Dismiss, BB_Close}"
proof -
  let ?c0 = initial_bb_config
  let ?c1 = "?c0\<lparr>comp := fst (bb_handle 3 BB_Borrow (comp ?c0)), flying := 0, sent := 0\<rparr>"
  let ?c2 = "?c1\<lparr>comp := fst (bb_handle 3 BB_Confirm (comp ?c1)), flying := 1, sent := 1\<rparr>"
  let ?c3 = "?c2\<lparr>comp := bb_reply [] (Resolved None) (comp ?c2), flying := 0, borrowed := 1\<rparr>"
  have "bb_step [] 3 ?c0 ?c1"
    using bb_step.user [of BB_Borrow "[]" ?c0 3] 
    by (simp add: offers_BorrowButton initial_bb_config_def initial_bb_def)
  moreover have "bb_step [] 3 ?c1 ?c2"
    using bb_step.user [of BB_Confirm "[]" ?c1 3]
    by (simp add: offers_BorrowButton initial_bb_config_def initial_bb_def)
  moreover have "bb_step [] 3 ?c2 ?c3"
    using bb_step.reply [of ?c2 0 "[]" 3 "Resolved None"] by (simp add: initial_bb_config_def)
  ultimately have "bb_reachable [] 3 ?c3" by (meson bb_reachable.intros)
  with borrow_once [OF this] show ?thesis by (intro exI [of _ ?c3]) simp
qed

text \<open>A librarian's catalogue that is loaded and whose only book is edited and saved: the request is out.\<close>

definition librarian_in :: auth_state where
  "librarian_in = \<lparr>au_user = Some (user_json_of sample_librarian), au_loading = False, au_error = None\<rparr>"

definition books_loaded :: lb_config where
  "books_loaded = \<lparr>lb_st = fst (lb_load_reply (Resolved (Some [book_attributes sample_book])) initial_books_page),
     lb_flying = []\<rparr>"

definition books_after :: "lb_event \<Rightarrow> lb_config \<Rightarrow> lb_config" where
  "books_after e c = (case lb_event_step True e (lb_st c) of
     (s, effs) \<Rightarrow> \<lparr>lb_st = s, lb_flying = lb_flying c @ sends effs\<rparr>)"

lemma books_loaded_reachable: "lb_reachable librarian_in (\<lambda>q p r. True) books_loaded"
  using lb_next [OF lb_start lb_loaded, of "[]" 1 "\<lambda>q p r. True" "Resolved (Some [book_attributes sample_book])" librarian_in]
  by (simp add: initial_lb_config_def books_loaded_def)

lemma books_after_reachable:
  assumes "lb_reachable st answer c" "e \<in> offers (LibrarianBooks_view st (lb_st c))"
  shows "lb_reachable st answer (books_after e c)"
  using lb_next [OF assms(1) lb_user [OF assms(2)]] by (simp add: books_after_def split: prod.split)

theorem librarian_books_safe_witness:
  "lb_flying (books_after (LB_Row 3 ED_Save) (books_after (LB_Row 3 ED_Edit) books_loaded))
     = [Row_Request 3 (Put_Book 3 (book_to_form (book_attributes sample_book)))]
   \<and> book_form_ok (book_to_form (book_attributes sample_book))"
proof -
  let ?c = "books_after (LB_Row 3 ED_Edit) books_loaded"
  have "LB_Row 3 ED_Edit \<in> offers (LibrarianBooks_view librarian_in (lb_st books_loaded))"
    by (code_simp, blast)
  with books_loaded_reachable have c: "lb_reachable librarian_in (\<lambda>q p r. True) ?c" by (rule books_after_reachable)
  have "LB_Row 3 ED_Save \<in> offers (LibrarianBooks_view librarian_in (lb_st ?c))" by (code_simp, blast)
  with c have run: "lb_reachable librarian_in (\<lambda>q p r. True) (books_after (LB_Row 3 ED_Save) ?c)"
    by (rule books_after_reachable)
  have "lb_flying (books_after (LB_Row 3 ED_Save) ?c)
      = [Row_Request 3 (Put_Book 3 (book_to_form (book_attributes sample_book)))]"
    by code_simp
  with librarian_books_safe [OF run] show ?thesis by simp
qed

theorem member_update_failure_closes_dialogue_witness:
  "alerts (snd (lm_update_reply 1 (Rejected Other_Thrown) (setMembers [ann] initial_members_page)))
   = [''Failed to update member'']"
proof -
  have "lm_rows (setMembers [ann] initial_members_page) 1 = Some (initial_row ann)"
    by (simp add: setMembers_def mount_member_rows_def initial_members_page_def ann_def)
  from member_update_failure_closes_dialogue [OF this, of Other_Thrown] show ?thesis by blast
qed

theorem quick_search_debounced_witness:
  "sends (snd (ls_fire (fold ls_setQ [''a'', ''ab''] initial_librarian_dashboard))) = [LS_Search ''ab'']"
  using quick_search_debounced [where v = "''ab''" and vs = "[''a'']" and s = initial_librarian_dashboard]
  by (simp add: Let_def case_prod_beta ls_setQ_def initial_librarian_dashboard_def)

theorem loans_requested_on_change_witness:
  "let (s', effs) = lr_event_step (LR_SetQ ''a'') (lr_next (initial_loans_page None)) in
     sends effs = [LR_Load (lr_params s')] \<and> lr_page s' = 1"
  using loans_requested_on_change [of "LR_SetQ ''a''" "lr_next (initial_loans_page None)"]
  by (simp add: lr_event_step_def lr_effect_eq lr_next_def initial_loans_page_def lr_params_def or_undefined_def)

theorem loans_sorting_witness:
  "lr_direction (lr_sort_click By_Borrowed_At (initial_loans_page None)) \<noteq> Desc"
  using loans_sorting [of By_Borrowed_At "initial_loans_page None" Asc]
  by (simp add: initial_loans_page_def)

section \<open>The account page\<close>

lemma account_shown: "account_visible signed_in"
  by (simp add: account_visible_iff signed_in_def)


text \<open>A profile is saved to the end: the page that follows is a new one, without a message.\<close>

lemma saved_run_reachable:
  assumes "account_visible st"
  shows "account_reachable env st (saved_run env st u)
    \<and> aa_page (saved_run env st u) = Some initial_account"
proof -
  let ?a0 = "open_account env st"
  have a0: "aa_page ?a0 = Some initial_account" "aa_gen ?a0 = 1" "aa_flying ?a0 = [(1, AC_Get)]" "aa_auth ?a0 = st"
    using assms by (simp_all add: open_account_def render_account_def)
  let ?f = "ac_load_reply (Resolved (Some (Some u)))"
  let ?a1 = "on_instance 1 ?f (settle 1 AC_Get ?a0)"
  let ?s1 = "?f initial_account"
  have a1: "aa_page ?a1 = Some ?s1" "aa_gen ?a1 = 1" "aa_flying ?a1 = []" "aa_auth ?a1 = st"
    using a0 by (simp_all add: on_instance_def settle_def)
  have r1: "account_reachable env st ?a1"
    using ac_next [OF ac_open ac_loaded] a0 by simp
  have form: "\<not> ac_loading ?s1" "\<not> ac_saving ?s1"
    by (simp_all add: ac_load_reply_def Let_def initial_account_def)
  let ?p = "ac_profile ?s1"
  let ?a2 = "render_account (fold (await (aa_gen ?a1)) (sends (snd (saveProfile ?s1)))
      (?a1\<lparr>aa_page := Some (fst (saveProfile ?s1))\<rparr>))"
  have a2: "aa_page ?a2 \<noteq> None" "aa_gen ?a2 = 1" "aa_flying ?a2 = [(1, AC_Csrf_Profile ?p)]" "aa_auth ?a2 = st"
    using a1 assms by (simp_all add: saveProfile_def await_def render_account_def)
  have r2: "account_reachable env st ?a2"
    using ac_next [OF r1 ac_user [OF a1(1), of AC_SaveProfile]] form
    by (simp add: Account_offers saveProfile_def)
  let ?a3 = "await 1 (AC_Put ?p) (got_token (Rejected Other_Thrown) (settle 1 (AC_Csrf_Profile ?p) ?a2))"
  have a3: "aa_gen ?a3 = 1" "aa_flying ?a3 = [(1, AC_Put ?p)]" "aa_auth ?a3 = st"
    using a2 by (simp_all add: await_def got_token_def settle_def)
  have r3: "account_reachable env st ?a3"
    using ac_next [OF r2 ac_profile_token] a2 by simp
  let ?a4 = "render_account (await 1 AC_Refresh (settle 1 (AC_Put ?p) ?a3))"
  have a4: "aa_page ?a4 = None" "aa_gen ?a4 = 1" "aa_flying ?a4 = [(1, AC_Refresh)]" "aa_auth ?a4 = refresh_start st"
    using a3 by (simp_all add: save_unmounts) (simp_all add: render_account_def await_def settle_def account_visible_iff)
  have r4: "account_reachable env st ?a4"
    using ac_next [OF r3 ac_profile_saved] a3 by simp
  let ?a5 = "render_account (on_instance 1 saveProfile_done
      (set_auth (refresh_finish (Resolved (Some (Some u)))) (settle 1 AC_Refresh ?a4)))"
  have r5: "account_reachable env st ?a5"
    using ac_next [OF r4 ac_refreshed] a4 by simp
  have "aa_page ?a5 = Some initial_account"
    using a4 by (simp add: render_account_def on_instance_def set_auth_def account_visible_iff
        refresh_finish_def payload_user_def)
  moreover have "saved_run env st u = ?a5"
    using a1(1) by (simp add: saved_run_def Let_def)
  ultimately show ?thesis using r5 by simp
qed

theorem profile_updated_never_shown_witness:
  "ac_message (the (aa_page (saved_run None signed_in ann))) \<noteq> Some ''Profile updated''"
proof -
  have run: "account_reachable None signed_in (saved_run None signed_in ann)"
    "aa_page (saved_run None signed_in ann) = Some initial_account"
    using saved_run_reachable [OF account_shown, of None ann] by blast+
  from profile_updated_never_shown [OF run] show ?thesis by (simp add: run(2) initial_account_def)
qed

section \<open>An edit\<close>

definition editing :: books_page where
  "editing = initial_books_page\<lparr>lb_books := [book_attributes sample_book],
     lb_rows := [3 \<mapsto> (initial_edit (book_attributes sample_book))\<lparr>ed_form := filled_form, ed_editing := True\<rparr>]\<rparr>"

theorem book_edit_is_saved_witness:
  "find_book (snd (books_update sample_host sample_librarian 3 filled_form sample_db)) 3
   = Some \<lparr>br_id = 3, br_title = ''Persuasion'', br_author = ''Austen'', br_genre = ''Novel'', br_isbn = ''2'', br_total_copies = 2\<rparr>"
proof -
  let ?st = "(initial_edit (book_attributes sample_book))\<lparr>ed_form := filled_form, ed_editing := True\<rparr>"
  have "ur_role sample_librarian = Librarian" by (simp add: sample_librarian_def)
  moreover have "find_book sample_db 3 \<noteq> None" by (simp add: find_book_def sample_defs)
  moreover have "lb_rows editing 3 = Some ?st" by (simp add: editing_def)
  moreover have "ed_form ?st = \<lparr>bf_title = Some ''Persuasion'', bf_author = Some ''Austen'', bf_genre = Some ''Novel'',
      bf_isbn = Some ''2'', bf_total_copies = Some (Num (of_int 2))\<rparr>"
    by (simp add: filled_form_def)
  moreover have "\<forall>v\<in>{''Persuasion'', ''Austen'', ''Novel'', ''2''}. \<not> blank sample_host v" by (simp add: sample_host_def)
  moreover have "\<forall>b\<in>set (db_books sample_db). br_isbn b = ''2'' \<longrightarrow> br_id b = 3" by (simp add: sample_defs)
  ultimately show ?thesis
    using book_edit_is_saved [where u = sample_librarian and d = sample_db and i = 3
        and s = editing and st = ?st and h = sample_host and n = 2]
    by (simp add: Let_def case_prod_beta)
qed

section \<open>Users\<close>

text \<open>A stored password is its salt followed by the password; an email is its own normal form.\<close>

definition sample_user_errors :: "db \<Rightarrow> int option \<Rightarrow> credentials \<Rightarrow> (string \<times> string) list" where
  "sample_user_errors d self c =
     (if self = None \<and> cr_password c = None then [(''password'', ''can't be blank'')]
      else if list_ex (\<lambda>u. ur_email u = cr_email c \<and> Some (ur_id u) \<noteq> self) (db_users d)
      then [(''email'', ''has already been taken'')] else [])"

definition sample_session_user :: "int \<times> string \<Rightarrow> db \<Rightarrow> user_row option" where
  "sample_session_user s d =
     (case find_user d (fst s) of
        None \<Rightarrow> None | Some u \<Rightarrow> if take 1 (ur_encrypted_password u) = snd s then Some u else None)"

definition sample_stored :: "nat \<Rightarrow> string option \<Rightarrow> string \<Rightarrow> string" where
  "sample_stored n p old = (case p of None \<Rightarrow> old | Some w \<Rightarrow> char_of (48 + n) # w)"

text \<open>The token of a reset is the email it was sent to.\<close>

fun sample_route :: "int \<Rightarrow> nat \<Rightarrow> (int \<times> string) option \<Rightarrow> devise_request \<Rightarrow> db \<Rightarrow> db" where
  "sample_route t n ss (Sign_Up c) d =
     (if Option.bind ss (\<lambda>s. sample_session_user s d) = None \<and> sample_user_errors d None c = []
      then insert_user \<lparr>ur_id = db_next d, ur_email = cr_email c, ur_first_name = None, ur_last_name = None,
        ur_role = Librarian, ur_created_at = t, ur_encrypted_password = sample_stored n (cr_password c) []\<rparr> d
      else d)"
| "sample_route t n ss (Edit_Registration old c) d =
     (case Option.bind ss (\<lambda>s. sample_session_user s d) of
        None \<Rightarrow> d
      | Some u \<Rightarrow>
          (if tl (ur_encrypted_password u) = old \<and> sample_user_errors d (Some (ur_id u)) c = []
           then update_user_row (u\<lparr>ur_email := cr_email c,
                  ur_encrypted_password := sample_stored n (cr_password c) (ur_encrypted_password u)\<rparr>) d
           else d))"
| "sample_route t n ss Cancel_Registration d =
     (case Option.bind ss (\<lambda>s. sample_session_user s d) of None \<Rightarrow> d | Some u \<Rightarrow> destroy_user (ur_id u) d)"
| "sample_route t n ss (Request_Reset email) d = d"
| "sample_route t n ss (Reset_Password token new conf) d =
     (if Option.bind ss (\<lambda>s. sample_session_user s d) \<noteq> None \<or> new \<noteq> conf then d
      else case find (\<lambda>u. ur_email u = token) (db_users d) of
        None \<Rightarrow> d
      | Some w \<Rightarrow> update_user_row (w\<lparr>ur_encrypted_password := sample_stored n (Some new) []\<rparr>) d)"

definition sample_devise :: "(int \<times> string) devise" where
  "sample_devise = \<lparr>normal_email = (\<lambda>e. e), user_errors = sample_user_errors, store_password = sample_stored,
     valid_password = (\<lambda>stored p. stored \<noteq> [] \<and> tl stored = p),
     salt_of = take 1,
     new_session = (\<lambda>u. (ur_id u, take 1 (ur_encrypted_password u))),
     session_user = sample_session_user, devise_route = sample_route\<rparr>"

lemmas sample_devise_defs = sample_devise_def sample_user_errors_def sample_stored_def sample_session_user_def

lemma sample_devise_ok: "devise_ok sample_devise"
  unfolding devise_ok_def sample_devise_defs by (auto simp: list_ex_iff split: if_splits)

lemma sample_sessions_ok: "sessions_ok sample_devise"
  unfolding sessions_ok_def sample_devise_defs
  by (auto split: option.splits if_splits dest: find_user_Some)

lemma sample_routes_ok: "routes_ok sample_devise"
proof -
  have current: "current_user sample_devise ss d = Option.bind ss (\<lambda>s. sample_session_user s d)" for ss d
    by (simp add: current_user_def sample_devise_def)
  have errors: "user_errors sample_devise = sample_user_errors" "devise_route sample_devise = sample_route"
    by (simp_all add: sample_devise_def)
  have row: "signed_up sample_devise n t i c =
      \<lparr>ur_id = i, ur_email = cr_email c, ur_first_name = None, ur_last_name = None,
       ur_role = Librarian, ur_created_at = t, ur_encrypted_password = sample_stored n (cr_password c) []\<rparr>" for n t i c
    by (simp add: signed_up_def new_user_def sample_devise_def)
  have normal: "normal_credentials sample_devise c = c" for c
    by (simp add: normal_credentials_def sample_devise_def)
  show ?thesis
    unfolding routes_ok_def current errors row normal sample_route.simps
    by (auto split: option.split simp: find_Some_iff in_set_conv_nth)
qed

lemma sample_schema: "schema_ok sample_host sample_db"
  using sample_db_inv by (simp add: schema_ok_def status_ok_def book_ok_def) (simp add: sample_defs)

lemma sample_session:
  "current_user sample_devise (sign_in sample_devise sample_member) sample_db = Some sample_member"
  by (intro current_user_sign_in sample_sessions_ok find_user_in sample_db_inv sample_in)

definition borrow_request :: "(int \<times> string) http_request" where
  "borrow_request = \<lparr>hr_session = sign_in sample_devise sample_member, hr_now = 0, hr_salt = 1, hr_route = Endpoint (Borrow 3)\<rparr>"

theorem schema_preserved_witness:
  "schema_ok sample_host (fold (serve sample_devise sample_host) [borrow_request, borrow_request] sample_db)
   \<and> length (db_loans (serve sample_devise sample_host borrow_request sample_db)) = 1"
proof -
  have "length (db_loans (serve sample_devise sample_host borrow_request sample_db)) = 1" by code_simp
  with schema_preserved [OF sample_devise_ok sample_sessions_ok sample_routes_ok sample_schema] show ?thesis by blast
qed

theorem requests_are_histories_witness:
  "\<exists>ops. fold (serve sample_devise sample_host) [borrow_request, borrow_request]
       (run_ops (\<lambda>t. t = []) [Op_Add_User sample_member, Op_Add_Book sample_book]) = run_ops (\<lambda>t. t = []) ops"
proof -
  have "blank sample_host = (\<lambda>t. t = [])" by (simp add: sample_host_def)
  with requests_are_histories [OF sample_sessions_ok sample_routes_ok, of sample_host "[borrow_request, borrow_request]"
      "[Op_Add_User sample_member, Op_Add_Book sample_book]"]
  show ?thesis by metis
qed

text \<open>A sign-up without a session, and the cancellation of the member's account.\<close>

definition sign_up_request :: "(int \<times> string) http_request" where
  "sign_up_request = \<lparr>hr_session = None, hr_now = 0, hr_salt = 1,
     hr_route = Devise_Route (Sign_Up \<lparr>cr_email = ''n@x'', cr_password = Some ''welcome'', cr_confirmation = None\<rparr>)\<rparr>"

definition cancel_request :: "(int \<times> string) http_request" where
  "cancel_request = borrow_request\<lparr>hr_route := Devise_Route Cancel_Registration\<rparr>"

theorem member_requests_confined_witness:
  "confined sample_member sample_db (serve sample_devise sample_host borrow_request sample_db)
   \<and> spares_others sample_member sample_db (serve sample_devise sample_host cancel_request sample_db)
   \<and> (\<exists>m. serve sample_devise sample_host sign_up_request sample_db = insert_user m sample_db \<and> ur_role m = Librarian)"
proof -
  note reach = member_requests_confined [OF sample_sessions_ok sample_routes_ok, where d = sample_db and h = sample_host]
  have member: "ur_role sample_member = Member" by (simp add: sample_member_def)
  have "confined sample_member sample_db (serve sample_devise sample_host borrow_request sample_db)"
    using reach [of borrow_request] sample_session member by (simp add: borrow_request_def)
  moreover have "spares_others sample_member sample_db (serve sample_devise sample_host cancel_request sample_db)"
    using reach [of cancel_request] sample_session member by (simp add: cancel_request_def borrow_request_def)
  moreover have "length (db_users (serve sample_devise sample_host sign_up_request sample_db)) = 3" by code_simp
  then have "serve sample_devise sample_host sign_up_request sample_db \<noteq> sample_db" by (auto simp: sample_db_def)
  then have "\<exists>m. serve sample_devise sample_host sign_up_request sample_db = insert_user m sample_db \<and> ur_role m = Librarian"
    using reach [of sign_up_request] by (auto simp: sign_up_request_def current_user_def)
  ultimately show ?thesis by blast
qed

definition new_member :: member_form where
  "new_member = \<lparr>mf_email = Some ''n@x'', mf_first_name = None, mf_last_name = None, mf_password = Some ''welcome''\<rparr>"

theorem members_endpoints_spare_librarians_witness:
  "filter (\<lambda>v. ur_role v = Librarian)
     (db_users (perform sample_devise sample_host 0 1 sample_librarian (Update_Member 1 new_member) sample_db)) = [sample_librarian]
   \<and> members_destroy sample_member 1 sample_db = (forbidden, sample_db)
   \<and> member_show sample_member 1 sample_db = forbidden
   \<and> authenticated sample_devise None sample_db (\<lambda>v. (member_show v 1 sample_db, sample_db)) = (unauthorized, sample_db)"
proof -
  have c: "Update_Member 1 new_member \<in> {Create_Member new_member, Update_Member 1 new_member, Destroy_Member 1}" by simp
  have "filter (\<lambda>v. ur_role v = Librarian) (db_users sample_db) = [sample_librarian]"
    by (simp add: sample_defs)
  moreover have "ur_role sample_member \<noteq> Librarian" by (simp add: sample_member_def)
  moreover have "current_user sample_devise None sample_db = None" by (simp add: current_user_def)
  ultimately show ?thesis
    using members_endpoints_spare_librarians [OF sample_db_inv c, where u = sample_librarian and dv = sample_devise
        and h = sample_host and t = 0 and n = 1 and q = None and p = None]
      members_endpoints_spare_librarians [OF sample_db_inv c, where u = sample_member and dv = sample_devise
        and h = sample_host and t = 0 and n = 1 and q = None and p = None and ss = None]
    by simp
qed

theorem sign_in_round_trip_witness:
  "current_user sample_devise (snd (session_create sample_devise ''m@x'' ''secret'' sample_db None)) sample_db = Some sample_member
   \<and> snd (session_create sample_devise ''m@x'' ''guess'' sample_db None) = None"
proof -
  have e: "normal_email sample_devise ''m@x'' = ur_email sample_member"
    by (simp add: sample_devise_defs sample_member_def)
  have "valid_password sample_devise (ur_encrypted_password sample_member) ''secret''"
    "\<not> valid_password sample_devise (ur_encrypted_password sample_member) ''guess''"
    by (simp_all add: sample_devise_defs sample_member_def)
  then show ?thesis
    using sign_in_round_trip [OF sample_sessions_ok sample_schema sample_in(4) e, of "''secret''" None initial_auth]
      sign_in_round_trip [OF sample_sessions_ok sample_schema sample_in(4) e, of "''guess''" None initial_auth]
    by (simp add: Let_def case_prod_beta)
qed

definition creating_member :: members_page where
  "creating_member = initial_members_page\<lparr>lm_creating := True, lm_form := new_member\<rparr>"

lemma sample_accepts:
  "user_errors sample_devise sample_db None
     \<lparr>cr_email = normal_email sample_devise ''n@x'', cr_password = mf_password (lm_form creating_member), cr_confirmation = None\<rparr> = []"
  by (simp add: sample_devise_defs creating_member_def new_member_def sample_defs)

theorem created_member_signs_in_witness:
  "\<exists>m. session_create sample_devise ''n@x'' ''welcome''
     (snd (members_create sample_devise 1 0 sample_librarian new_member sample_db)) None
       = (Ok_200 (Some (user_json_of m)), sign_in sample_devise m) \<and> ur_role m = Member"
proof -
  have "ur_role sample_librarian = Librarian" by (simp add: sample_librarian_def)
  moreover have "mf_email (lm_form creating_member) = Some ''n@x''" "lm_form creating_member = new_member"
    "mf_password new_member = Some ''welcome''"
    by (simp_all add: creating_member_def new_member_def)
  ultimately show ?thesis
    using created_member_signs_in [OF sample_devise_ok sample_sessions_ok sample_schema, where u = sample_librarian and s = creating_member
        and email = "''n@x''" and email' = "''n@x''" and n = 1 and t = 0 and ss = None
        and q = None and p = None, OF _ _ refl sample_accepts]
    by (auto simp: Let_def case_prod_beta)
qed

text \<open>The librarian gives the member the librarian's email.\<close>

definition taken_row :: member_row where
  "taken_row = (initial_row ann)\<lparr>rw_editing := True, rw_form := (member_to_form ann)\<lparr>mf_email := Some ''l@x''\<rparr>\<rparr>"

definition editing_member :: members_page where
  "editing_member = (setMembers [ann] initial_members_page)\<lparr>lm_rows := [1 \<mapsto> taken_row]\<rparr>"

theorem member_update_errors_lost_witness:
  "snd (members_update sample_devise 1 sample_librarian 1 (rw_form taken_row) sample_db) = sample_db
   \<and> lm_members (fst (lm_update_reply 1 (reply_of
        (fst (members_update sample_devise 1 sample_librarian 1 (rw_form taken_row) sample_db))) editing_member)) = [ann]"
proof -
  have "ur_role sample_librarian = Librarian" by (simp add: sample_librarian_def)
  moreover have "find_member sample_db 1 = Some sample_member" by (simp add: find_member_def sample_defs)
  moreover have "lm_rows editing_member 1 = Some taken_row" by (simp add: editing_member_def)
  moreover have "user_errors sample_devise sample_db (Some 1)
      \<lparr>cr_email = ur_email (updated_member sample_devise 1 (rw_form taken_row) sample_member),
       cr_password = mf_password (rw_form taken_row), cr_confirmation = None\<rparr> = [(''email'', ''has already been taken'')]"
    by (simp add: sample_devise_defs updated_member_def taken_row_def sample_defs)
  moreover have "[(''email'', ''has already been taken'')] \<noteq> []" by simp
  ultimately have "let (resp, d') = members_update sample_devise 1 sample_librarian 1 (rw_form taken_row) sample_db;
        s' = fst (lm_update_reply 1 (reply_of resp) editing_member) in
      d' = sample_db \<and> resp = Failed 422 (errors_body (group_errors [(''email'', ''has already been taken'')]))
      \<and> lm_members s' = lm_members editing_member
      \<and> (\<exists>st'. lm_rows s' 1 = Some st' \<and> \<not> rw_editing st' \<and> (\<forall>k. field_error (rw_errors st') k = None))"
    by (rule member_update_errors_lost)
  moreover have "lm_members editing_member = [ann]" by (simp add: editing_member_def setMembers_def)
  ultimately show ?thesis unfolding Let_def case_prod_beta by metis
qed

definition profile_page :: account_page where
  "profile_page = initial_account\<lparr>ac_loading := False,
     ac_profile := \<lparr>pr_first_name = ''Anna'', pr_last_name = [], pr_email = ''a@x''\<rparr>\<rparr>"

theorem profile_round_trip_witness:
  "\<exists>v. find_user (snd (account_update sample_devise sample_host sample_member (ac_profile profile_page) sample_db)) 1 = Some v
     \<and> ac_profile (ac_load_reply (reply_of (account_show v)) initial_account) = ac_profile profile_page"
proof -
  have ok: "user_errors sample_devise sample_db (Some (ur_id sample_member))
      \<lparr>cr_email = normal_email sample_devise (pr_email (ac_profile profile_page)), cr_password = None, cr_confirmation = None\<rparr> = []"
    by (simp add: sample_devise_defs profile_page_def sample_defs)
  have "(ac_profile profile_page)\<lparr>pr_email := normal_email sample_devise (pr_email (ac_profile profile_page))\<rparr> = ac_profile profile_page"
    by (simp add: sample_devise_defs)
  moreover have "ur_id sample_member = 1" by (simp add: sample_member_def)
  ultimately show ?thesis
    using profile_round_trip [OF sample_sessions_ok sample_session refl refl, where s = profile_page and h = sample_host and st = signed_in]
    unfolding ok by (fastforce simp: Let_def case_prod_beta)
qed

theorem password_change_signs_out_witness:
  "current_user sample_devise (sign_in sample_devise sample_member)
     (snd (account_password sample_devise sample_host 1 sample_member ''secret'' ''better'' ''better'' sample_db)) = None"
proof -
  let ?v = "sample_member\<lparr>ur_encrypted_password := ''1better''\<rparr>"
  have "account_password sample_devise sample_host 1 sample_member ''secret'' ''better'' ''better'' sample_db
      = (Ok_200 (), update_user_row ?v sample_db)"
    by code_simp
  moreover have "salt_of sample_devise (store_password sample_devise 1 (Some ''better'') (ur_encrypted_password sample_member))
      \<noteq> salt_of sample_devise (ur_encrypted_password sample_member)"
    by code_simp
  ultimately show ?thesis
    using password_change_signs_out [OF sample_sessions_ok sample_session, where s = profile_page and st = signed_in
        and action = "\<lambda>u. (Ok_200 (), sample_db)"]
    by simp
qed

section \<open>Dashboards\<close>

theorem top_books_are_top_witness:
  "ms_top_buttons (ms_data_reply (reply_of (member_dashboard_endpoint sample_host 0 sample_member sample_db))
     initial_member_dashboard) 3 \<noteq> None"
proof -
  have "ur_role sample_member = Member" by (simp add: sample_member_def)
  from top_books_are_top [OF sample_db_inv sample_scan this, of 0] obtain bs where bs:
    "distinct bs" "set bs \<subseteq> set (db_books sample_db)" "length bs = min 5 (length (db_books sample_db))"
    "\<forall>b\<in>set bs. ms_top_buttons (ms_data_reply (reply_of (member_dashboard_endpoint sample_host 0 sample_member sample_db))
       initial_member_dashboard) (br_id b) \<noteq> None \<longleftrightarrow> fst (borrowings_create 0 sample_member (br_id b) sample_db) = Created ()"
    unfolding Let_def by blast
  from bs(2,3) have "bs = [sample_book]" by (cases bs; cases "tl bs") (auto simp: sample_db_def)
  moreover have "br_id sample_book = 3" by (simp add: sample_book_def)
  moreover have "fst (borrowings_create 0 sample_member 3 sample_db) = Created ()" by code_simp
  ultimately show ?thesis using bs(4) by simp
qed

lemma sample_lists: "lists_rows (scan_loans sample_host)"
  by (simp add: lists_rows_def sample_host_def)

text \<open>Before the overdue check has run, the late borrowing is highlighted but not in the alert.\<close>

theorem member_alerts_match_highlights_witness:
  "length (filter (\<lambda>r. row_highlight late (di_due_date r) = Row_Overdue)
     (md_current_borrowings (member_dashboard_data sample_host late sample_member lent_db))) = 1"
proof -
  have "\<forall>l\<in>set (db_loans lent_db). ln_status l = Overdue \<longrightarrow> ln_due_date l < utc_date late"
    by (simp add: sample_defs)
  moreover have "filter (\<lambda>l. ln_user_id l = ur_id sample_member \<and> past_due late l) (db_loans lent_db) = [sample_loan]"
    using sample_past_due by (simp add: lent_db_def) (simp add: sample_loan_def sample_member_def)
  moreover have "md_overdue_count (member_dashboard_data sample_host late sample_member lent_db) = 0" by code_simp
  ultimately show ?thesis
    using member_alerts_match_highlights [OF lent_db_inv sample_lists, where t = late and u = sample_member]
    by (simp add: Let_def)
qed

section \<open>Runs\<close>

theorem auth_settles_witness:
  "\<nexists>q. (auth_reply ^^ 3) (initial_provider None) q"
proof -
  have "pending_replies (initial_provider None) = 2" by (simp add: pending_replies_def initial_provider_def)
  then show ?thesis using auth_settles [OF auth_reachable.start [of None], where n = 3] by fastforce
qed

theorem catalogue_buttons_single_flight_witness:
  "\<exists>c st. mk_reachable [] c \<and> mk_buttons (mk_st c) 3 = Some st \<and> posts_out c (mk_inst c 3) 3 = of_bool (bb_loading st)"
proof -
  let ?c = "mk_loaded [] 1 (mk_setBooks sample_shown (mk_st initial_mk_config)) initial_mk_config"
  have r: "mk_reachable [] ?c" by (intro mk_shown mk_init) (simp add: initial_mk_config_def)
  have "can_borrow (book_json_for sample_db sample_member sample_book)" "bj_id (book_json_for sample_db sample_member sample_book) = 3"
    by (simp_all add: can_borrow_def book_json_for_def with_can_borrow_for_iff sample_errors(1)) (simp_all add: sample_defs)
  then have b: "mk_buttons (mk_st ?c) 3 = Some initial_bb"
    using mount_one(2) [of "book_json_for sample_db sample_member sample_book" "mk_buttons (mk_st initial_mk_config)"]
    by (simp add: shown_fields sample_shown_eq) (simp add: initial_mk_config_def initial_member_books_def)
  from catalogue_buttons_single_flight [OF r b] r b show ?thesis by blast
qed

theorem catalogue_double_request_witness:
  "mk_flying (double_borrow_run [] (book_json_for sample_db sample_member sample_book) ''a'') =
     [(1, MK_Post_Borrowing 3), (2, MK_Post_Borrowing 3)]"
proof -
  let ?b = "book_json_for sample_db sample_member sample_book"
  have "bj_can_borrow ?b = Some True" "bj_id ?b = 3"
    by (simp_all add: book_json_for_def with_can_borrow_for_iff sample_errors(1)) (simp_all add: sample_defs)
  with catalogue_double_request [of ?b "''a''" "[]"] show ?thesis by simp
qed

theorem borrowings_requests_safe_witness:
  "\<exists>c. lr_reachable initial_auth west None c \<and> 1 \<le> lr_page (lr_st c)"
  using borrowings_requests_safe [OF lr_init] lr_init by blast

theorem return_twice_overwrites_witness:
  "\<exists>k. find_loan (snd (return_book sample_host 2 sample_librarian 4 (Some ''torn'')
       (snd (return_book sample_host 1 sample_librarian 4 (Some ''ok'') lent_db)))) 4 = Some k
     \<and> ln_returned_at k = Some 2 \<and> ln_return_comment k = Some ''torn''"
proof -
  obtain it where it: "loan_json lent_db sample_loan = Some it"
    using loan_json_exists [OF lent_db_inv sample_in(3)] by blast
  then have "rj_status it = Borrowed" "rj_id it = 4"
    using loan_json_fields [OF it] by (simp_all add: sample_loan_def)
  moreover have "find_loan lent_db 4 = Some sample_loan" by (simp add: find_loan_def lent_db_def sample_loan_def)
  moreover have "ur_role sample_librarian = Librarian" by (simp add: sample_librarian_def)
  moreover have "\<not> blank sample_host ''torn''" by (simp add: sample_host_def)
  ultimately show ?thesis
    using return_twice_overwrites [where it = it and items = "[it]" and i = 4 and ?cm1.0 = "''ok''" and ?cm2.0 = "''torn''"
        and d = lent_db and l = sample_loan and u = sample_librarian and h = sample_host and ?t1.0 = 1 and ?t2.0 = 2
        and state = initial_auth and br = west and sp = None]
    by (simp add: Let_def case_prod_beta)
qed

end
