(* ===== verification/Spec2Isabelle.thy ===== *)
theory Spec2Isabelle imports Scenarios begin

text \<open>
  The library management system: a React client (\<open>frontend/src\<close>) over the JSON endpoints of a Rails
  application (\<open>app\<close>). Members search the catalogue and borrow; librarians keep the catalogue and the
  members and take books back; a service marks borrowings that are past their due date.

  \<^bold>\<open>How the client is modelled.\<close> A React component is a record of its \<open>useState\<close> variables, a datatype
  of the events its rendering can trigger, handlers, and a rendering. A handler (\<open>lb_handle\<close>,
  \<open>bb_handle\<close>, ...) gives the state after the synchronous part and the effects: requests sent, alerts,
  console messages, navigation. An asynchronous handler is cut at each \<open>await\<close>: what follows is a
  function of the reply (\<open>lb_create_reply\<close>, \<open>bb_reply\<close>, \<open>onReturn_reply\<close>), and replies arrive in any
  order. A reply resolves with its data, if any, or rejects with what \<open>catch\<close> receives. What a user
  can do is what the rendering offers (\<open>offers\<close>): a disabled button, a closed dialogue or a control
  that is not rendered offers nothing. Effects that React runs after a render are part of the event's
  step (\<open>lr_event_step\<close>). Step relations (\<open>auth_step\<close>, \<open>bb_step\<close>, \<open>lb_step\<close>, \<open>account_step\<close>, \<open>mk_step\<close>,
  \<open>lr_step\<close>) then run a component with its pending requests, and the invariants are proved over their
  reachable states. In \<open>mk_step\<close> and \<open>account_step\<close> the instances of a component are numbered, since
  a reply reaches only the instance that asked.

  \<^bold>\<open>How the server is modelled.\<close> The three tables are lists of row records (\<open>db\<close>); the rules of the
  models are functions on them; an endpoint is a function of the tables and the signed-in user to a
  response and new tables; \<open>reply_of\<close> is the reply axios makes of a response. Whatever PostgreSQL or
  Ruby decide (\<open>ILIKE\<close>, the order of an unordered query, \<open>blank?\<close>, \<open>strip\<close>, \<open>Date.parse\<close>, the full text
  of a validation message) is a field of the parameter \<open>host\<close>. What Devise decides (how an email is
  normalised, the validations of a user, what a password is stored as and how it is recognised, what
  a session cookie holds and finds, and what its own controllers make of sign-ups, changes and
  cancellations of accounts and password resets) is a field of the parameter \<open>devise\<close>; the hypotheses
  \<open>lists_rows\<close>, \<open>devise_ok\<close>, \<open>sessions_ok\<close> and \<open>routes_ok\<close> state the documented behaviour the code
  relies on, and \<open>Scenarios\<close> has instances of both parameters that satisfy them. \<open>serve\<close> is the server
  as a whole: the session filter before \<open>perform\<close>, which runs the endpoint of a request, and beside it
  the routes of \<open>devise_for\<close> (\<open>config/routes.rb\<close>), which the filter does not guard.

  \<^bold>\<open>The theories.\<close>
  \<^item> \<open>Prelude\<close>: lists rebuilt by state setters, effects, the collections of definitions.
  \<^item> \<open>Js_Text\<close>, \<open>Js_Number\<close>, \<open>Js_Date\<close>: truthiness, \<open>trim\<close>, \<open>Number(...)\<close>, dates, time zones and the clock.
  \<^item> \<open>Api_Client\<close> (\<open>api/client.ts\<close>): requests, error bodies, the CSRF header, the JSON records.
  \<^item> \<open>Ui_Kit\<close> (\<open>components/\<close> Button, Badge, Card, Input, Modal, Table): rendered trees.
  \<^item> \<open>Auth_Context\<close> (\<open>context/AuthContext.tsx\<close>) and \<open>App_Shell\<close> (\<open>main.tsx\<close>, \<open>App.tsx\<close>,
    \<open>components/RoleRoute.tsx\<close>, \<open>pages/Login.tsx\<close>): the session, the guards, who sees which page.
  \<^item> \<open>Borrow_Button\<close> (\<open>components/BorrowButton.tsx\<close>): one request at a time, one success, messages.
  \<^item> \<open>Paging\<close>: the locales of a paged list, of an endpoint that serves slices, and of browsing one
    through the other; \<open>Borrowing_Lists\<close>: list parameters, due-soon days, the locale of sortable headers.
  \<^item> \<open>Librarian_Books\<close>, \<open>Librarian_Borrowings\<close>, \<open>Librarian_Members\<close> (\<open>pages/librarian\<close>), \<open>Member_Pages\<close>
    (\<open>pages/member/Books.tsx\<close>, \<open>Borrowings.tsx\<close>), \<open>Dashboards\<close> (both \<open>Dashboard.tsx\<close>, with the locale of
    debounced search), \<open>Account\<close> (\<open>pages/Account.tsx\<close>, with the page's life inside the shell).
  \<^item> \<open>Library_Db\<close> (\<open>app/models\<close>, \<open>app/services\<close>): rows, availability, borrowing, returning, overdue marks.
  \<^item> \<open>Library_Stock\<close>: histories of operations, the invariant of the tables, the bound on the copies
    that are out; \<open>Library_Refinement\<close>: the abstract stock of capacities and holders that borrowing and
    returning implement, and the interleaving of concurrent requests.
  \<^item> \<open>Server_Api\<close> (\<open>app/controllers\<close>, books and borrowings), \<open>Server_Users\<close> (members, accounts and
    sessions), \<open>Server_Dashboards\<close> (both dashboards, \<open>top_by_borrowings\<close>, with what their pages show).
  \<^item> \<open>Library_Access\<close>: \<open>serve\<close>, its refinement of the histories, the promises of the schema, what a
    member's requests reach.
  \<^item> \<open>Library_System\<close> and \<open>Library_Users\<close>: client and server together, for books and borrowings and for
    users, members and accounts; \<open>Member_Runs\<close> and \<open>Borrowings_Runs\<close>: the member's catalogue and the
    librarian's borrowings page with their requests in flight.
  \<^item> \<open>Scenarios\<close>: concrete instances on which every theorem with hypotheses is applied.

  \<^bold>\<open>What the lemmas show.\<close> Of each page: what its rendering offers, which requests its handlers send,
  and what its lists are after a reply. Of the tables: unique ids, foreign keys, at most one active
  borrowing for a user and a book, and the bound on copies. Of the two sides together: a borrow button
  is offered exactly when borrowing succeeds, refusals and validation errors reach the user, returning
  completes, browsing shows every book once, both sides count the same borrowings as due soon, a
  created member can sign in, and a profile and a session round-trip. Of the server: every sequence of
  requests is a history of operations and keeps the promises of the schema, and a member's requests
  reach only the member's own rows; a request without a session reaches nothing but Devise's sign-up
  and password reset. Of the session: pending operations come to an end and leave the
  loading screen.
  The theorems also state where the program falls short: overdue copies are lent again and cannot be
  returned from the interface, requests race, an unordered query is paged, badges are early west of
  UTC, a success message is lost, a failure closes a dialogue, a changed password signs its user out,
  a return can be confirmed twice, a password change can be sent twice, whoever signs up is a
  librarian, notifications go to nobody.

  \<^bold>\<open>Bounds.\<close> Pages hold 25 records, as in the code. \<open>browse\<close> takes a number of pages to follow; any
  number whose pages exceed the rows is enough (\<open>catalogue_browsed_once\<close>). Strings are bytes of UTF-8.
  Ids and counts are \<open>int\<close>: they stay far below the integers a double represents exactly.

  \<^bold>\<open>What is not modelled.\<close> Layout classes and the attribute \<open>aria-sort\<close>; StrictMode's second mounting in
  development and the fallbacks of lazily loaded pages; the framework's forgery check with the actions
  \<open>csrf\<close> and \<open>preflight\<close>; html formats, and \<open>books#show\<close>, which no page requests and whose outcome the
  framework's \<open>respond_to\<close> decides; the pages and mails of Devise and the columns of its reset tokens;
  the rescue of a database failure in \<open>mark_overdue\<close>; the separate id sequences of the three tables,
  of which \<open>db_next\<close> makes one; seeds, rake tasks, configuration and tests.

  \<^bold>\<open>What could follow.\<close> Run relations for the members page and the dashboards, and one locale for the
  lists whose replies overtake each other; the end of following \<open>Next\<close> without a number of pages; the
  forgery check as a parameter, so that the token of \<open>Api_Client\<close> meets the server.
\<close>

end
